(* ===== verification/Prelude.thy ===== *)
theory Prelude
  imports Main "HOL-Library.Char_ord" "HOL-Library.List_Lexorder" "HOL-Library.Code_Target_Nat"
begin

text \<open>
  Shared vocabulary of the development: results that may be an exception, chains of
  guards that raise the first error that applies, and tables of rows with the three SQL
  operations the stores use (select, update with a row count, insert). Nothing here is
  specific to SafeDBA; every other theory imports it.
\<close>

named_theorems table_simps \<open>selection and update of table rows\<close>
named_theorems guard_simps \<open>chains of guards\<close>

section \<open>Results\<close>

text \<open>
  A call that may raise returns \<open>Inl\<close> of the exception or \<open>Inr\<close> of its value.
\<close>

definition ebind :: "'e + 'a \<Rightarrow> ('a \<Rightarrow> 'e + 'b) \<Rightarrow> 'e + 'b" where
  "ebind m f = (case m of Inl e \<Rightarrow> Inl e | Inr x \<Rightarrow> f x)"

lemma ebind_simps [simp]:
  "ebind (Inl e) f = Inl e"
  "ebind (Inr x) f = f x"
  by (simp_all add: ebind_def)

lemma ebind_Inr_iff: "ebind m f = Inr y \<longleftrightarrow> (\<exists>x. m = Inr x \<and> f x = Inr y)"
  by (cases m) auto

lemma ebind_InrE:
  assumes "ebind m f = Inr y"
  obtains x where "m = Inr x" "f x = Inr y"
  using assms by (auto simp: ebind_Inr_iff)

section \<open>Guards\<close>

text \<open>
  \<open>first_error\<close> reads a list of guards in the order the code tests them: the exception
  of the first guard that is true, or none. A later guard is never reached in the code
  when an earlier one raises.
\<close>

fun first_error :: "(bool \<times> 'e) list \<Rightarrow> 'e option" where
  "first_error [] = None"
| "first_error ((b, e) # gs) = (if b then Some e else first_error gs)"

lemma first_error_None [guard_simps]:
  "first_error gs = None \<longleftrightarrow> (\<forall>(b, e) \<in> set gs. \<not> b)"
  by (induction gs rule: first_error.induct) auto

lemma first_error_Some:
  "first_error gs = Some e \<Longrightarrow> \<exists>(b, e') \<in> set gs. b \<and> e' = e"
  by (induction gs rule: first_error.induct) (auto split: if_splits)

text \<open>\<open>errors_of\<close> collects all of them: the validators append and go on.\<close>

definition errors_of :: "(bool \<times> 'e) list \<Rightarrow> 'e list" where
  "errors_of gs = map snd (filter fst gs)"

lemma errors_of_simps [simp]:
  "errors_of [] = []"
  "errors_of ((b, e) # gs) = (if b then e # errors_of gs else errors_of gs)"
  by (simp_all add: errors_of_def)

lemma errors_of_Nil [guard_simps]:
  "errors_of gs = [] \<longleftrightarrow> (\<forall>(b, e) \<in> set gs. \<not> b)"
  by (auto simp: errors_of_def filter_empty_conv)

lemma errors_of_append [simp]: "errors_of (xs @ ys) = errors_of xs @ errors_of ys"
  by (simp add: errors_of_def)

section \<open>Tables\<close>

text \<open>
  A table is the list of its rows in insertion order. \<open>row_where p\<close> is the first row
  that satisfies \<open>p\<close> (\<open>fetchone\<close>), \<open>update_where p f\<close> rewrites the matching rows and
  \<open>count_where p\<close> is the number of rows an \<open>UPDATE\<close> reports.
\<close>

definition row_where :: "('r \<Rightarrow> bool) \<Rightarrow> 'r list \<Rightarrow> 'r option" where
  "row_where p rows = find p rows"

definition update_where :: "('r \<Rightarrow> bool) \<Rightarrow> ('r \<Rightarrow> 'r) \<Rightarrow> 'r list \<Rightarrow> 'r list" where
  "update_where p f rows = map (\<lambda>r. if p r then f r else r) rows"

definition count_where :: "('r \<Rightarrow> bool) \<Rightarrow> 'r list \<Rightarrow> nat" where
  "count_where p rows = length (filter p rows)"

lemma row_where_simps [simp]:
  "row_where p [] = None"
  "row_where p (r # rows) = (if p r then Some r else row_where p rows)"
  by (simp_all add: row_where_def)

lemma update_where_simps [simp]:
  "update_where p f [] = []"
  "update_where p f (r # rows) = (if p r then f r else r) # update_where p f rows"
  by (simp_all add: update_where_def)

lemma count_where_simps [simp]:
  "count_where p [] = 0"
  "count_where p (r # rows) = (if p r then Suc (count_where p rows) else count_where p rows)"
  by (simp_all add: count_where_def)

lemma row_where_SomeD: "row_where p rows = Some r \<Longrightarrow> r \<in> set rows \<and> p r"
  by (induction rows) (auto split: if_splits)

lemma row_where_None: "row_where p rows = None \<longleftrightarrow> (\<forall>r \<in> set rows. \<not> p r)"
  by (induction rows) auto

lemma count_where_0 [table_simps]: "count_where p rows = 0 \<longleftrightarrow> (\<forall>r \<in> set rows. \<not> p r)"
  by (induction rows) auto

lemma count_where_pos: "0 < count_where p rows \<longleftrightarrow> (\<exists>r \<in> set rows. p r)"
  by (induction rows) auto

lemma length_update_where [table_simps]: "length (update_where p f rows) = length rows"
  by (simp add: update_where_def)

lemma set_update_where:
  "set (update_where p f rows) = (\<lambda>r. if p r then f r else r) ` set rows"
  by (simp add: update_where_def)

lemma map_update_where [table_simps]:
  assumes "\<And>r. g (f r) = g r"
  shows "map g (update_where p f rows) = map g rows"
  by (simp add: update_where_def assms)

lemma row_where_update_key:
  assumes "\<And>r. k (f r) = k r"
  shows "row_where (\<lambda>r. k r = x) (update_where p f rows)
    = map_option (\<lambda>r. if p r then f r else r) (row_where (\<lambda>r. k r = x) rows)"
  by (induction rows) (auto simp: assms)

lemma row_where_append [table_simps]:
  "row_where p (xs @ ys) = (case row_where p xs of None \<Rightarrow> row_where p ys | Some r \<Rightarrow> Some r)"
  by (induction xs) auto

text \<open>With distinct keys, the row with a key is the one that is found.\<close>

lemma row_where_distinct:
  assumes "distinct (map k rows)" and "r \<in> set rows"
  shows "row_where (\<lambda>r'. k r' = k r) rows = Some r"
  using assms by (induction rows) (auto simp: image_iff)

lemma count_where_distinct:
  assumes "distinct (map k rows)"
  shows "count_where (\<lambda>r. k r = x) rows \<le> 1"
  using assms
proof (induction rows)
  case (Cons r rows)
  then show ?case by (cases "k r = x") (auto simp: table_simps image_iff)
qed simp

text \<open>When exactly one row matches, it is the one that is found.\<close>

lemma row_where_unique:
  assumes "count_where p rows = 1" and "r \<in> set rows" and "p r"
  shows "row_where p rows = Some r"
  using assms
proof (induction rows)
  case (Cons x rows)
  show ?case
  proof (cases "p x")
    case True
    with Cons.prems(1) have "\<forall>y \<in> set rows. \<not> p y" by (simp add: count_where_0)
    with Cons.prems True show ?thesis by auto
  next
    case False
    with Cons show ?thesis by auto
  qed
qed simp

lemma row_where_cong:
  "(\<And>r. r \<in> set rows \<Longrightarrow> p r \<longleftrightarrow> q r) \<Longrightarrow> row_where p rows = row_where q rows"
  by (induction rows) auto

text \<open>
  Tables grow: the old rows stay in their places, each related to what it was, and new
  rows come at the end.
\<close>

definition extends_rows :: "('r \<Rightarrow> 'r \<Rightarrow> bool) \<Rightarrow> 'r list \<Rightarrow> 'r list \<Rightarrow> bool" where
  "extends_rows R xs ys \<longleftrightarrow> (\<exists>us zs. list_all2 R xs us \<and> ys = us @ zs)"

lemma extends_rows_append: "(\<And>x. R x x) \<Longrightarrow> extends_rows R xs (xs @ zs)"
  unfolding extends_rows_def by (intro exI [of _ xs] exI [of _ zs]) (simp add: list_all2_same)

lemma extends_rows_refl: "(\<And>x. R x x) \<Longrightarrow> extends_rows R xs xs"
  using extends_rows_append [of R xs "[]"] by simp

lemma extends_rows_same: "list_all2 R xs ys \<Longrightarrow> extends_rows R xs ys"
  by (auto simp: extends_rows_def)

lemma extends_rows_update:
  assumes "\<And>r. r \<in> set rows \<Longrightarrow> p r \<Longrightarrow> R r (f r)" and "\<And>r. R r r"
  shows "extends_rows R rows (update_where p f rows)"
  by (rule extends_rows_same) (simp add: update_where_def list_all2_map2 list_all2_same assms)

lemma extends_rows_find:
  assumes "extends_rows R xs ys" and "\<And>x y. R x y \<Longrightarrow> k y = k x"
    and "row_where (\<lambda>x. k x = a) xs = Some x"
  shows "\<exists>y. row_where (\<lambda>y. k y = a) ys = Some y \<and> R x y"
proof -
  from assms(1) obtain us zs where us: "list_all2 R xs us" and ys: "ys = us @ zs"
    by (auto simp: extends_rows_def)
  from us assms(2,3) have "\<exists>y. row_where (\<lambda>y. k y = a) us = Some y \<and> R x y"
    by (induction) (auto split: if_splits)
  then show ?thesis using ys by (auto simp: row_where_append)
qed

end
