(* ===== verification/PyValue.thy ===== *)
theory PyValue
  imports Prelude Complex_Main
begin

text \<open>
  Python values as the program handles them: the JSON-shaped objects that cross every
  boundary (tool results, lock snapshots, proposals, approval contexts, persisted
  columns), Python's \<open>==\<close> on them, \<open>dict.get\<close>, the \<open>isinstance\<close> tests the code uses,
  and the exceptions it raises. A string is the list of its code points (0 to 255).
  Finite floats are rationals; the code compares them and never computes with them.
\<close>

datatype pyfloat = Finite rat | PosInf | NegInf | NotANumber

datatype pyval =
    PNone
  | PBool bool
  | PInt int
  | PFloat pyfloat
  | PStr string
  | PList "pyval list"
  | PDict "(string \<times> pyval) list"

datatype exn =
    ValueError string
  | TypeError string
  | AttributeError string
  | KeyError string
  | IntegrityError string
  | QuerySafetyError string
  | RuntimePolicyError string string
  | IncidentPlanError string
  | IncidentWorkflowError string
  | IncidentStoreError string
  | IncidentNotFound string
  | ConcurrentIncidentUpdate string
  | IncidentLeaseUnavailable string
  | IncidentApprovalUnavailable string
  | GrantDenied string
  | OtherException string

type_synonym 'a exc = "exn + 'a"

text \<open>\<open>type(exc).__name__\<close>\<close>

fun exn_name :: "exn \<Rightarrow> string" where
  "exn_name (ValueError _) = ''ValueError''"
| "exn_name (TypeError _) = ''TypeError''"
| "exn_name (AttributeError _) = ''AttributeError''"
| "exn_name (KeyError _) = ''KeyError''"
| "exn_name (IntegrityError _) = ''IntegrityError''"
| "exn_name (QuerySafetyError _) = ''QuerySafetyError''"
| "exn_name (RuntimePolicyError _ _) = ''RuntimePolicyError''"
| "exn_name (IncidentPlanError _) = ''IncidentPlanError''"
| "exn_name (IncidentWorkflowError _) = ''IncidentWorkflowError''"
| "exn_name (IncidentStoreError _) = ''IncidentStoreError''"
| "exn_name (IncidentNotFound _) = ''IncidentNotFound''"
| "exn_name (ConcurrentIncidentUpdate _) = ''ConcurrentIncidentUpdate''"
| "exn_name (IncidentLeaseUnavailable _) = ''IncidentLeaseUnavailable''"
| "exn_name (IncidentApprovalUnavailable _) = ''IncidentApprovalUnavailable''"
| "exn_name (GrantDenied _) = ''GrantDenied''"
| "exn_name (OtherException n) = n"

section \<open>Equality\<close>

text \<open>
  \<open>True == 1 == 1.0\<close> in Python: booleans, integers and finite floats compare by value.
  Dictionaries compare by their items whatever their order; \<open>nan\<close> equals nothing.
\<close>

fun num_val :: "pyval \<Rightarrow> rat option" where
  "num_val (PBool b) = Some (if b then 1 else 0)"
| "num_val (PInt i) = Some (of_int i)"
| "num_val (PFloat (Finite r)) = Some r"
| "num_val _ = None"

function (sequential) py_eq :: "pyval \<Rightarrow> pyval \<Rightarrow> bool"
  and py_eqs :: "pyval list \<Rightarrow> pyval list \<Rightarrow> bool"
  and py_sub :: "(string \<times> pyval) list \<Rightarrow> (string \<times> pyval) list \<Rightarrow> bool" where
  "py_eq (PStr s) (PStr t) = (s = t)"
| "py_eq PNone PNone = True"
| "py_eq (PList xs) (PList ys) = py_eqs xs ys"
| "py_eq (PDict xs) (PDict ys) = (length xs = length ys \<and> py_sub xs ys)"
| "py_eq (PFloat PosInf) (PFloat PosInf) = True"
| "py_eq (PFloat NegInf) (PFloat NegInf) = True"
| "py_eq x y = (case (num_val x, num_val y) of (Some a, Some b) \<Rightarrow> a = b | _ \<Rightarrow> False)"
| "py_eqs [] [] = True"
| "py_eqs (x # xs) (y # ys) = (py_eq x y \<and> py_eqs xs ys)"
| "py_eqs _ _ = False"
| "py_sub [] ys = True"
| "py_sub ((k, v) # xs) ys =
     (case map_of ys k of None \<Rightarrow> False | Some w \<Rightarrow> py_eq v w \<and> py_sub xs ys)"
  by pat_completeness auto
termination
  by (relation "measure (\<lambda>x. case x of Inl (a, b) \<Rightarrow> size a
        | Inr (Inl (a, b)) \<Rightarrow> size_list size a
        | Inr (Inr (a, b)) \<Rightarrow> size_list (size_prod (\<lambda>_. 0) size) a)") auto

lemma py_eq_PInt [simp]: "py_eq (PInt i) (PInt j) \<longleftrightarrow> i = j"
  by simp

lemma py_eq_PStr_left: "py_eq (PStr s) v \<longleftrightarrow> v = PStr s"
  by (cases v) auto

lemma py_eq_PStr_right: "py_eq v (PStr s) \<longleftrightarrow> v = PStr s"
proof (cases v)
  case (PFloat f)
  then show ?thesis by (cases f) auto
qed auto

lemma py_eq_PNone: "py_eq v PNone \<longleftrightarrow> v = PNone"
proof (cases v)
  case (PFloat f)
  then show ?thesis by (cases f) auto
qed auto

section \<open>Dictionaries and type tests\<close>

text \<open>
  \<open>d.get(k)\<close>: \<open>None\<close> when the key is absent. Every use of it in the code is on an object
  that was tested to be a dictionary before.
\<close>

definition dget :: "pyval \<Rightarrow> string \<Rightarrow> pyval" where
  "dget d k = (case d of PDict kvs \<Rightarrow>
      (case map_of kvs k of Some v \<Rightarrow> v | None \<Rightarrow> PNone) | _ \<Rightarrow> PNone)"

definition dget_default :: "pyval \<Rightarrow> string \<Rightarrow> pyval \<Rightarrow> pyval" where
  "dget_default d k v0 = (case d of PDict kvs \<Rightarrow>
      (case map_of kvs k of Some v \<Rightarrow> v | None \<Rightarrow> v0) | _ \<Rightarrow> v0)"

text \<open>\<open>d[k] = v\<close>: replaces the value of a key in place, or adds the key at the end.\<close>

fun items_set :: "string \<Rightarrow> pyval \<Rightarrow> (string \<times> pyval) list \<Rightarrow> (string \<times> pyval) list" where
  "items_set k v [] = [(k, v)]"
| "items_set k v ((k', v') # kvs) =
     (if k' = k then (k, v) # kvs else (k', v') # items_set k v kvs)"

definition dset :: "pyval \<Rightarrow> string \<Rightarrow> pyval \<Rightarrow> pyval" where
  "dset d k v = (case d of PDict kvs \<Rightarrow> PDict (items_set k v kvs) | _ \<Rightarrow> d)"

fun is_dict :: "pyval \<Rightarrow> bool" where
  "is_dict (PDict _) = True" | "is_dict _ = False"

fun is_list :: "pyval \<Rightarrow> bool" where
  "is_list (PList _) = True" | "is_list _ = False"

fun is_str :: "pyval \<Rightarrow> bool" where
  "is_str (PStr _) = True" | "is_str _ = False"

fun is_bool :: "pyval \<Rightarrow> bool" where
  "is_bool (PBool _) = True" | "is_bool _ = False"

text \<open>\<open>isinstance(v, int)\<close>: a boolean is an integer in Python.\<close>

fun is_int :: "pyval \<Rightarrow> bool" where
  "is_int (PInt _) = True" | "is_int (PBool _) = True" | "is_int _ = False"

fun is_float :: "pyval \<Rightarrow> bool" where
  "is_float (PFloat _) = True" | "is_float _ = False"

fun py_items :: "pyval \<Rightarrow> pyval list" where
  "py_items (PList xs) = xs" | "py_items _ = []"

fun int_of :: "pyval \<Rightarrow> int" where
  "int_of (PInt i) = i" | "int_of (PBool b) = (if b then 1 else 0)" | "int_of _ = 0"

fun str_of :: "pyval \<Rightarrow> string" where
  "str_of (PStr s) = s" | "str_of _ = []"

text \<open>
  \<open>float(i)\<close> rounds to the nearest double; an integer that rounds to \<open>2 ^ 1024\<close> is an
  \<open>OverflowError\<close>, also in \<open>math.isfinite(i)\<close>.
\<close>

definition FLOAT_LIMIT :: int where
  "FLOAT_LIMIT = 0xFFFFFFFFFFFFFC00000000000000000000000000000000000000000000000000000000000000000000000000000000000000000000000000000000000000000000000000000000000000000000000000000000000000000000000000000000000000000000000000000000000000000000000000000000000000000000000000"

lemma FLOAT_LIMIT_power: "FLOAT_LIMIT = 2 ^ 1024 - 2 ^ 970"
  by (simp add: FLOAT_LIMIT_def)

definition float_overflow :: "pyval \<Rightarrow> bool" where
  "float_overflow v = (case v of PInt i \<Rightarrow> FLOAT_LIMIT \<le> \<bar>i\<bar> | _ \<Rightarrow> False)"

definition overflow_error :: exn where
  "overflow_error = OtherException ''OverflowError''"

lemma map_of_items_set: "map_of (items_set k v kvs) = (map_of kvs)(k \<mapsto> v)"
  by (induction k v kvs rule: items_set.induct) auto

lemma dget_dset [simp]:
  "is_dict d \<Longrightarrow> dget (dset d k v) k' = (if k' = k then v else dget d k')"
  by (cases d) (auto simp: dget_def dset_def map_of_items_set)

lemma dget_PDict [simp]:
  "dget (PDict kvs) k = (case map_of kvs k of Some v \<Rightarrow> v | None \<Rightarrow> PNone)"
  by (simp add: dget_def)

lemma is_dict_dset [simp]: "is_dict (dset d k v) = is_dict d"
  by (cases d) (auto simp: dset_def)

lemma is_dict_iff: "is_dict v \<longleftrightarrow> (\<exists>kvs. v = PDict kvs)"
  by (cases v) auto

lemma is_list_iff: "is_list v \<longleftrightarrow> (\<exists>xs. v = PList xs)"
  by (cases v) auto

lemma is_str_iff: "is_str v \<longleftrightarrow> (\<exists>s. v = PStr s)"
  by (cases v) auto

section \<open>Strings\<close>

text \<open>\<open>str.isspace\<close> on the code points 0 to 255, and \<open>str.strip()\<close>.\<close>

definition is_space :: "char \<Rightarrow> bool" where
  "is_space c \<longleftrightarrow> of_char c \<in> set [9, 10, 11, 12, 13, 28, 29, 30, 31, 32, 133, 160 :: nat]"

definition lstrip :: "string \<Rightarrow> string" where
  "lstrip s = dropWhile is_space s"

definition rstrip :: "string \<Rightarrow> string" where
  "rstrip s = rev (dropWhile is_space (rev s))"

definition strip :: "string \<Rightarrow> string" where
  "strip s = rstrip (lstrip s)"

lemma strip_Nil_iff: "strip s = [] \<longleftrightarrow> (\<forall>c \<in> set s. is_space c)"
  by (auto simp: strip_def lstrip_def rstrip_def dest: set_dropWhileD)
     (metis hd_dropWhile dropWhile_eq_Nil_conv hd_in_set)

lemma rstrip_idem [simp]: "rstrip (rstrip s) = rstrip s"
  by (simp add: rstrip_def)

text \<open>\<open>str.lower\<close> on the same code points.\<close>

definition lower_char :: "char \<Rightarrow> char" where
  "lower_char c = (let n = of_char c :: nat in
     if (65 \<le> n \<and> n \<le> 90) \<or> (192 \<le> n \<and> n \<le> 222 \<and> n \<noteq> 215) then char_of (n + 32) else c)"

definition lower :: "string \<Rightarrow> string" where
  "lower s = map lower_char s"

text \<open>\<open>isinstance(value, str) and bool(value.strip())\<close>\<close>

definition nonblank :: "pyval \<Rightarrow> bool" where
  "nonblank v = (case v of PStr s \<Rightarrow> strip s \<noteq> [] | _ \<Rightarrow> False)"

lemma nonblankE:
  assumes "nonblank v"
  obtains s where "v = PStr s" "strip s \<noteq> []"
  using assms by (auto simp: nonblank_def split: pyval.splits)

section \<open>Iteration, membership and sorting\<close>

text \<open>\<open>for x in v\<close>: a string yields its characters, a dictionary its keys.\<close>

definition py_iter :: "pyval \<Rightarrow> pyval list exc" where
  "py_iter v = (case v of
     PList xs \<Rightarrow> Inr xs
   | PStr s \<Rightarrow> Inr (map (\<lambda>c. PStr [c]) s)
   | PDict kvs \<Rightarrow> Inr (map (\<lambda>(k, _). PStr k) kvs)
   | _ \<Rightarrow> Inl (TypeError ''object is not iterable''))"

fun contains_text :: "string \<Rightarrow> string \<Rightarrow> bool" where
  "contains_text p [] \<longleftrightarrow> p = []"
| "contains_text p (c # s) \<longleftrightarrow> take (length p) (c # s) = p \<or> contains_text p s"

text \<open>\<open>x in v\<close>\<close>

definition py_in :: "pyval \<Rightarrow> pyval \<Rightarrow> bool exc" where
  "py_in x v = (case v of
     PList ys \<Rightarrow> Inr (list_ex (py_eq x) ys)
   | PStr s \<Rightarrow> (case x of PStr t \<Rightarrow> Inr (contains_text t s)
              | _ \<Rightarrow> Inl (TypeError ''in <string> requires string as left operand''))
   | PDict kvs \<Rightarrow> (if is_list x \<or> is_dict x then Inl (TypeError ''unhashable type'')
                 else Inr (list_ex (\<lambda>(k, _). py_eq x (PStr k)) kvs))
   | _ \<Rightarrow> Inl (TypeError ''argument is not iterable''))"

text \<open>\<open>x < y\<close>: numbers and strings have an order; other pairs raise \<open>TypeError\<close>.\<close>

definition py_less :: "pyval \<Rightarrow> pyval \<Rightarrow> bool option" where
  "py_less x y = (case (x, y) of
     (PStr s, PStr t) \<Rightarrow> Some (s < t)
   | _ \<Rightarrow> (case (num_val x, num_val y) of (Some a, Some b) \<Rightarrow> Some (a < b) | _ \<Rightarrow> None))"

text \<open>Tuples of the same length: the first component that differs decides.\<close>

fun key_less :: "pyval list \<Rightarrow> pyval list \<Rightarrow> bool option" where
  "key_less (x # xs) (y # ys) = (if py_eq x y then key_less xs ys else py_less x y)"
| "key_less _ _ = Some False"

fun insert_by :: "('a \<Rightarrow> pyval list) \<Rightarrow> 'a \<Rightarrow> 'a list \<Rightarrow> 'a list" where
  "insert_by f x [] = [x]"
| "insert_by f x (y # ys) =
     (if key_less (f y) (f x) = Some True then y # insert_by f x ys else x # y # ys)"

text \<open>
  \<open>sorted(xs, key=f)\<close>, stable. It raises when two of the keys cannot be compared (CPython
  may skip such a pair in a list of three or more; no key of the program mixes types).
\<close>

definition py_sorted :: "('a \<Rightarrow> pyval list) \<Rightarrow> 'a list \<Rightarrow> 'a list exc" where
  "py_sorted f xs =
     (if 2 \<le> length xs \<and> \<not> list_all (\<lambda>x. list_all (\<lambda>y. key_less (f x) (f y) \<noteq> None) xs) xs
      then Inl (TypeError ''values are not comparable'')
      else Inr (foldr (insert_by f) xs []))"

lemma set_insert_by [simp]: "set (insert_by f x ys) = insert x (set ys)"
  by (induction ys) auto

lemma length_insert_by [simp]: "length (insert_by f x ys) = Suc (length ys)"
  by (induction ys) auto

lemma set_foldr_insert_by [simp]: "set (foldr (insert_by f) xs []) = set xs"
  by (induction xs) auto

lemma length_foldr_insert_by [simp]: "length (foldr (insert_by f) xs []) = length xs"
  by (induction xs) auto

lemma py_sorted_InrD: "py_sorted f xs = Inr ys \<Longrightarrow> set ys = set xs \<and> length ys = length xs"
  by (auto simp: py_sorted_def split: if_splits)

lemma py_sorted_single [simp]: "py_sorted f [x] = Inr [x]" "py_sorted f [] = Inr []"
  by (simp_all add: py_sorted_def)

text \<open>\<open>v or d\<close>\<close>

fun truthy :: "pyval \<Rightarrow> bool" where
  "truthy PNone = False"
| "truthy (PBool b) = b"
| "truthy (PInt i) = (i \<noteq> 0)"
| "truthy (PFloat (Finite r)) = (r \<noteq> 0)"
| "truthy (PFloat _) = True"
| "truthy (PStr s) = (s \<noteq> [])"
| "truthy (PList xs) = (xs \<noteq> [])"
| "truthy (PDict kvs) = (kvs \<noteq> [])"

definition py_or :: "pyval \<Rightarrow> pyval \<Rightarrow> pyval" where
  "py_or v d = (if truthy v then v else d)"

end
