(* ===== verification/Timestamps.thy ===== *)
theory Timestamps
  imports PyValue
begin

text \<open>
  Timestamps. An instant is the number of microseconds since 0001-01-01T00:00:00 UTC
  (Python's \<open>datetime.min\<close>). \<open>iso_utc\<close> is the text the workflow and the stores write
  (\<open>isoformat\<close> of an aware UTC datetime, with no fraction when the microseconds are 0),
  \<open>parse_utc_timestamp\<close> reads it back (the grammar of \<open>datetime.fromisoformat\<close> of
  Python 3.10, the oldest supported version). The incident store compares lease expiry
  times as text, in SQL and in Python; \<open>iso_utc_less_iff\<close> is why that is right.
\<close>

section \<open>The proleptic Gregorian calendar\<close>

definition days_before_year :: "int \<Rightarrow> int" where
  "days_before_year y = 365 * (y - 1) + (y - 1) div 4 - (y - 1) div 100 + (y - 1) div 400"

definition is_leap :: "int \<Rightarrow> bool" where
  "is_leap y \<longleftrightarrow> y mod 4 = 0 \<and> (y mod 100 \<noteq> 0 \<or> y mod 400 = 0)"

definition days_before_month :: "bool \<Rightarrow> int \<Rightarrow> int" where
  "days_before_month leap m =
     (if m \<le> 1 then 0 else if m = 2 then 31 else
      (if leap then 1 else 0) +
      (if m = 3 then 59 else if m = 4 then 90 else if m = 5 then 120 else if m = 6 then 151
       else if m = 7 then 181 else if m = 8 then 212 else if m = 9 then 243
       else if m = 10 then 273 else if m = 11 then 304 else if m = 12 then 334 else 365))"

function year_from :: "int \<Rightarrow> int \<Rightarrow> int" where
  "year_from n y = (if y < n \<and> days_before_year (y + 1) < n then year_from n (y + 1) else y)"
  by pat_completeness auto
termination
  by (relation "measure (\<lambda>(n, y). nat (n - y))") auto

declare year_from.simps [simp del]

definition year_of :: "int \<Rightarrow> int" where
  "year_of n = year_from n ((n - 1) div 366 + 1)"

definition month_of :: "bool \<Rightarrow> int \<Rightarrow> int" where
  "month_of leap doy =
     (if days_before_month leap 12 < doy then 12 else if days_before_month leap 11 < doy then 11
      else if days_before_month leap 10 < doy then 10 else if days_before_month leap 9 < doy then 9
      else if days_before_month leap 8 < doy then 8 else if days_before_month leap 7 < doy then 7
      else if days_before_month leap 6 < doy then 6 else if days_before_month leap 5 < doy then 5
      else if days_before_month leap 4 < doy then 4 else if days_before_month leap 3 < doy then 3
      else if days_before_month leap 2 < doy then 2 else 1)"

definition ord2ymd :: "int \<Rightarrow> int \<times> int \<times> int" where
  "ord2ymd n = (let y = year_of n; doy = n - days_before_year y; m = month_of (is_leap y) doy
                in (y, m, doy - days_before_month (is_leap y) m))"

definition ymd2ord :: "int \<Rightarrow> int \<Rightarrow> int \<Rightarrow> int" where
  "ymd2ord y m d = days_before_year y + days_before_month (is_leap y) m + d"

lemma div_step: "0 < k \<Longrightarrow> (y::int) div k = (y - 1) div k + (if y mod k = 0 then 1 else 0)"
proof -
  assume k: "0 < k"
  show ?thesis
  proof (cases "y mod k = 0")
    case True
    then obtain q where q: "y = k * q" by auto
    have "(k * q - 1) div k = q - 1"
    proof (rule int_div_pos_eq)
      show "k * q - 1 = k * (q - 1) + (k - 1)" by (simp add: algebra_simps)
    qed (use k in auto)
    with q k show ?thesis by simp
  next
    case False
    have "(y - 1) div k = y div k"
    proof (rule int_div_pos_eq)
      show "y - 1 = k * (y div k) + (y mod k - 1)" by (simp add: minus_mod_eq_mult_div [symmetric])
      show "0 \<le> y mod k - 1" using False pos_mod_sign [OF k, of y] by linarith
      show "y mod k - 1 < k" using pos_mod_bound [OF k, of y] by linarith
    qed
    with False show ?thesis by simp
  qed
qed

lemma year_length_arith:
  fixes a b c a' b' c' y :: int
  assumes "a = a' + (if P then 1 else 0)" "b = b' + (if Q then 1 else 0)"
    "c = c' + (if R then 1 else 0)" "R \<Longrightarrow> Q" "Q \<Longrightarrow> P"
  shows "365 * y + a - b + c
       = 365 * (y - 1) + a' - b' + c' + (if P \<and> (\<not> Q \<or> R) then 366 else 365)"
  using assms by (cases P; cases Q; cases R) auto

lemma year_length:
  "days_before_year (y + 1) = days_before_year y + (if is_leap y then 366 else 365)"
proof -
  have "y mod 400 = 0 \<Longrightarrow> y mod 100 = 0" "y mod 100 = 0 \<Longrightarrow> y mod 4 = 0"
    using mod_mod_cancel [of 100 400 y] mod_mod_cancel [of 4 100 y] by auto
  then have "365 * y + y div 4 - y div 100 + y div 400
       = 365 * (y - 1) + (y - 1) div 4 - (y - 1) div 100 + (y - 1) div 400
         + (if y mod 4 = 0 \<and> (\<not> y mod 100 = 0 \<or> y mod 400 = 0) then 366 else 365)"
    by (intro year_length_arith div_step) simp_all
  then show ?thesis by (simp only: days_before_year_def is_leap_def add_diff_cancel_right')
qed

lemma days_before_year_mono: "y \<le> y' \<Longrightarrow> days_before_year y \<le> days_before_year y'"
proof (induction "nat (y' - y)" arbitrary: y')
  case (Suc n)
  then have "days_before_year y \<le> days_before_year (y' - 1)" by simp
  also have "\<dots> \<le> days_before_year y'" using year_length [of "y' - 1"] by simp
  finally show ?case .
qed simp

lemma year_from_bounds:
  assumes "days_before_year y < n" and "1 \<le> y" and "y \<le> n"
  shows "days_before_year (year_from n y) < n \<and> n \<le> days_before_year (year_from n y + 1)
       \<and> 1 \<le> year_from n y"
  using assms
proof (induction n y rule: year_from.induct)
  case (1 n y)
  have small: "y \<le> days_before_year (y + 1)" if "1 \<le> y"
    using that by (simp add: days_before_year_def)
  show ?case
  proof (cases "y < n \<and> days_before_year (y + 1) < n")
    case True
    with 1 show ?thesis by (simp add: year_from.simps [of n y])
  next
    case False
    with 1 small have "n \<le> days_before_year (y + 1)" by linarith
    with False 1 show ?thesis by (simp add: year_from.simps [of n y])
  qed
qed

lemma year_of_bounds:
  assumes "1 \<le> n"
  shows "days_before_year (year_of n) < n \<and> n \<le> days_before_year (year_of n + 1) \<and> 1 \<le> year_of n"
  unfolding year_of_def
proof (rule year_from_bounds)
  let ?q = "(n - 1) div 366"
  have q: "0 \<le> ?q" "?q * 366 \<le> n - 1" using assms by (simp_all add: pos_imp_zdiv_nonneg_iff)
  show "1 \<le> ?q + 1" using q by simp
  show "?q + 1 \<le> n" using q by linarith
  have "?q div 4 \<le> ?q" "?q div 400 \<le> ?q div 100" using q(1) by linarith+
  then show "days_before_year (?q + 1) < n"
    using q by (simp add: days_before_year_def)
qed

lemma month_of_bounds:
  assumes "1 \<le> doy" and "doy \<le> (if leap then 366 else 365)"
  shows "1 \<le> month_of leap doy \<and> month_of leap doy \<le> 12
       \<and> days_before_month leap (month_of leap doy) < doy
       \<and> doy \<le> days_before_month leap (month_of leap doy + 1)"
  using assms by (cases leap) (simp_all add: month_of_def days_before_month_def)

lemma days_before_month_Suc: "days_before_month leap k \<le> days_before_month leap (k + 1)"
  by (auto simp: days_before_month_def)

lemma days_before_month_mono:
  "m < m' \<Longrightarrow> days_before_month leap (m + 1) \<le> days_before_month leap m'"
proof (induction "nat (m' - m - 1)" arbitrary: m')
  case 0
  then have "m' = m + 1" by linarith
  then show ?case by simp
next
  case (Suc n)
  then have "days_before_month leap (m + 1) \<le> days_before_month leap (m' - 1)" by simp
  also have "\<dots> \<le> days_before_month leap m'"
    using days_before_month_Suc [of leap "m' - 1"] by simp
  finally show ?case .
qed

lemma days_before_month_13:
  "m \<le> 12 \<Longrightarrow> days_before_month leap (m + 1) \<le> (if leap then 366 else 365)"
  by (simp add: days_before_month_def)

lemma ord2ymd_valid:
  assumes "1 \<le> n" and "ord2ymd n = (y, m, d)"
  shows "ymd2ord y m d = n" "1 \<le> y" "1 \<le> m" "m \<le> 12" "1 \<le> d"
    "days_before_month (is_leap y) m + d \<le> days_before_month (is_leap y) (m + 1)"
proof -
  have y: "y = year_of n" and m: "m = month_of (is_leap y) (n - days_before_year y)"
    and d: "d = n - days_before_year y - days_before_month (is_leap y) m"
    using assms(2) by (auto simp: ord2ymd_def Let_def)
  have yb: "days_before_year y < n" "n \<le> days_before_year (y + 1)" "1 \<le> y"
    using year_of_bounds [OF assms(1)] y by auto
  have mb: "1 \<le> m" "m \<le> 12" "days_before_month (is_leap y) m < n - days_before_year y"
    "n - days_before_year y \<le> days_before_month (is_leap y) (m + 1)"
    using month_of_bounds [of "n - days_before_year y" "is_leap y"] yb year_length [of y] m
    by auto
  show "ymd2ord y m d = n" "1 \<le> y" "1 \<le> m" "m \<le> 12" "1 \<le> d"
    "days_before_month (is_leap y) m + d \<le> days_before_month (is_leap y) (m + 1)"
    using yb mb d by (auto simp: ymd2ord_def)
qed

definition valid_date :: "int \<Rightarrow> int \<Rightarrow> int \<Rightarrow> bool" where
  "valid_date y m d \<longleftrightarrow> 1 \<le> m \<and> m \<le> 12 \<and> 1 \<le> d
     \<and> days_before_month (is_leap y) m + d \<le> days_before_month (is_leap y) (m + 1)"

lemma ymd2ord_bounds:
  assumes "valid_date y m d"
  shows "days_before_year y < ymd2ord y m d" "ymd2ord y m d \<le> days_before_year (y + 1)"
proof -
  have "0 \<le> days_before_month (is_leap y) m"
    by (simp add: days_before_month_def)
  with assms days_before_month_13 [of m "is_leap y"] year_length [of y]
  show "days_before_year y < ymd2ord y m d" "ymd2ord y m d \<le> days_before_year (y + 1)"
    by (auto simp: valid_date_def ymd2ord_def split: if_splits)
qed

text \<open>Calendar dates are ordered as their ordinals.\<close>

lemma ymd2ord_less:
  assumes v: "valid_date y m d" "valid_date y' m' d'"
    and less: "y < y' \<or> y = y' \<and> (m < m' \<or> m = m' \<and> d < d')"
  shows "ymd2ord y m d < ymd2ord y' m' d'"
proof (cases "y < y'")
  case True
  then show ?thesis
    using ymd2ord_bounds [OF v(1)] ymd2ord_bounds [OF v(2)] days_before_year_mono [of "y + 1" y']
    by simp
next
  case False
  with less have y: "y' = y" and md: "m < m' \<or> m = m' \<and> d < d'" by auto
  show ?thesis
  proof (cases "m < m'")
    case True
    then show ?thesis
      using v y days_before_month_mono [of m m' "is_leap y"] by (auto simp: valid_date_def ymd2ord_def)
  next
    case False
    with md y show ?thesis by (auto simp: ymd2ord_def)
  qed
qed

lemma ymd2ord_inject:
  assumes "valid_date y m d" "valid_date y' m' d'" "ymd2ord y m d = ymd2ord y' m' d'"
  shows "(y, m, d) = (y', m', d')"
  using ymd2ord_less [OF assms(1,2)] ymd2ord_less [OF assms(2,1)] assms(3)
  by (metis less_irrefl linorder_neqE)

section \<open>Fixed-width decimal text\<close>

definition digit_char :: "int \<Rightarrow> char" where
  "digit_char d = char_of (48 + nat d)"

fun pad :: "nat \<Rightarrow> int \<Rightarrow> string" where
  "pad 0 n = []"
| "pad (Suc k) n = pad k (n div 10) @ [digit_char (n mod 10)]"

definition is_digit :: "char \<Rightarrow> bool" where
  "is_digit c \<longleftrightarrow> 48 \<le> (of_char c :: nat) \<and> (of_char c :: nat) \<le> 57"

definition digit_value :: "char \<Rightarrow> int" where
  "digit_value c = int (of_char c) - 48"

lemma digit_char_code: "0 \<le> d \<Longrightarrow> d < 10 \<Longrightarrow> of_char (digit_char d) = 48 + nat d"
  by (simp add: digit_char_def of_char_of)

lemma digit_char_less:
  assumes "0 \<le> a" "a < 10" "0 \<le> b" "b < 10"
  shows "digit_char a < digit_char b \<longleftrightarrow> a < b"
proof -
  have "digit_char a < digit_char b \<longleftrightarrow> (of_char (digit_char a) :: nat) < of_char (digit_char b)"
    by (simp add: less_char_def)
  then show ?thesis using assms by (auto simp: digit_char_code)
qed

lemma digit_char_eq:
  assumes "0 \<le> a" "a < 10" "0 \<le> b" "b < 10"
  shows "digit_char a = digit_char b \<longleftrightarrow> a = b"
  using digit_char_code [OF assms(1,2)] digit_char_code [OF assms(3,4)] assms
  by (metis add_left_cancel eq_nat_nat_iff)

lemma is_digit_digit_char [simp]: "0 \<le> d \<Longrightarrow> d < 10 \<Longrightarrow> is_digit (digit_char d)"
  by (auto simp: is_digit_def digit_char_code)

lemma digit_value_digit_char [simp]: "0 \<le> d \<Longrightarrow> d < 10 \<Longrightarrow> digit_value (digit_char d) = d"
  by (simp add: digit_value_def digit_char_code)

lemma length_pad [simp]: "length (pad k n) = k"
  by (induction k arbitrary: n) auto

lemma pad_digits: "c \<in> set (pad k n) \<Longrightarrow> is_digit c"
  by (induction k arbitrary: n) auto

text \<open>Fixed-width numbers compare as text the way they compare as numbers.\<close>

lemma append_same_less: "(u @ xs < u @ ys) \<longleftrightarrow> (xs :: string) < ys"
  by (induction u) auto

lemma pad_less:
  assumes "0 \<le> a" "a < 10 ^ k" "0 \<le> b" "b < 10 ^ k"
  shows "pad k a @ xs < pad k b @ ys \<longleftrightarrow> a < b \<or> a = b \<and> xs < ys"
  using assms
proof (induction k arbitrary: a b xs ys)
  case (Suc k)
  have r: "0 \<le> a div 10" "a div 10 < 10 ^ k" "0 \<le> b div 10" "b div 10 < 10 ^ k"
    using Suc.prems by auto
  have "pad (Suc k) a @ xs < pad (Suc k) b @ ys \<longleftrightarrow>
      a div 10 < b div 10 \<or> a div 10 = b div 10 \<and>
        (a mod 10 < b mod 10 \<or> a mod 10 = b mod 10 \<and> xs < ys)"
    using Suc.IH [OF r] by (simp add: digit_char_less digit_char_eq)
  moreover have "a = 10 * (a div 10) + a mod 10" "b = 10 * (b div 10) + b mod 10" by simp_all
  moreover have "0 \<le> a mod 10" "a mod 10 < 10" "0 \<le> b mod 10" "b mod 10 < 10" by simp_all
  ultimately show ?case by (smt (verit, ccfv_threshold))
qed simp

section \<open>isoformat\<close>

definition iso_date :: "int \<Rightarrow> string" where
  "iso_date n = (let (y, m, d) = ord2ymd n
     in pad 4 y @ ''-'' @ pad 2 m @ ''-'' @ pad 2 d)"

definition iso_clock :: "int \<Rightarrow> string" where
  "iso_clock s = pad 2 (s div 3600) @ '':'' @ pad 2 (s div 60 mod 60) @ '':'' @ pad 2 (s mod 60)"

definition iso_fraction :: "int \<Rightarrow> string" where
  "iso_fraction us = (if us = 0 then [] else ''.'' @ pad 6 us)"

definition day_of :: "int \<Rightarrow> int" where
  "day_of t = t div 86400000000 + 1"

definition second_of_day :: "int \<Rightarrow> int" where
  "second_of_day t = t div 1000000 mod 86400"

definition iso_utc :: "int \<Rightarrow> string" where
  "iso_utc t = iso_date (day_of t) @ ''T'' @ iso_clock (second_of_day t)
     @ iso_fraction (t mod 1000000) @ ''+00:00''"

text \<open>The instants a \<open>datetime\<close> can hold: years 1 to 9999.\<close>

definition max_instant :: int where
  "max_instant = 3652059 * 86400000000"

definition valid_instant :: "int \<Rightarrow> bool" where
  "valid_instant t \<longleftrightarrow> 0 \<le> t \<and> t < max_instant"

lemma day_of_bounds:
  assumes "valid_instant t"
  shows "1 \<le> day_of t" "day_of t \<le> 3652059"
proof -
  have "t div 86400000000 \<le> (max_instant - 1) div 86400000000"
    using assms by (intro zdiv_mono1) (auto simp: valid_instant_def)
  then show "day_of t \<le> 3652059" by (simp add: day_of_def max_instant_def)
  show "1 \<le> day_of t"
    using assms by (simp add: day_of_def valid_instant_def pos_imp_zdiv_nonneg_iff)
qed

lemma second_of_day_bounds: "0 \<le> second_of_day t" "second_of_day t < 86400"
  by (simp_all add: second_of_day_def)

lemma month_days:
  assumes "1 \<le> m" "m \<le> 12"
  shows "days_before_month leap (m + 1) \<le> days_before_month leap m + 31"
proof -
  have "m \<in> set [1, 2, 3, 4, 5, 6, 7, 8, 9, 10, 11, 12]"
    unfolding list.set insert_iff empty_iff using assms by presburger
  then show ?thesis by (cases leap) (auto simp: days_before_month_def)
qed

lemma iso_date_fields:
  assumes "1 \<le> n" "n \<le> 3652059" and "ord2ymd n = (y, m, d)"
  shows "valid_date y m d" "1 \<le> y" "y < 10 ^ 4" "0 \<le> m" "m < 10 ^ 2" "0 \<le> d" "d < 10 ^ 2"
proof -
  note v = ord2ymd_valid [OF assms(1,3)]
  show date: "valid_date y m d" using v by (simp add: valid_date_def)
  show "1 \<le> y" by (rule v(2))
  show "0 \<le> m" using v(3) by linarith
  show "m < 10 ^ 2" using v(4) by simp
  show "0 \<le> d" using v(5) by linarith
  have "days_before_year 10000 = 3652059" by (simp add: days_before_year_def)
  then have "\<not> 10000 \<le> y"
    using days_before_year_mono [of 10000 y] ymd2ord_bounds(1) [OF date] v(1) assms(2)
    by linarith
  then show "y < 10 ^ 4" by simp
  show "d < 10 ^ 2" using v(6) month_days [OF v(3,4), of "is_leap y"] by simp
qed

lemma iso_date_less:
  assumes n: "1 \<le> n" "n \<le> 3652059" and n': "1 \<le> n'" "n' \<le> 3652059"
  shows "iso_date n @ xs < iso_date n' @ ys \<longleftrightarrow> n < n' \<or> n = n' \<and> xs < ys"
proof -
  obtain y m d where e: "ord2ymd n = (y, m, d)" by (cases "ord2ymd n")
  obtain y' m' d' where e': "ord2ymd n' = (y', m', d')" by (cases "ord2ymd n'")
  note f = iso_date_fields [OF n e] and f' = iso_date_fields [OF n' e']
  have o: "n = ymd2ord y m d" "n' = ymd2ord y' m' d'"
    using ord2ymd_valid(1) [OF n(1) e] ord2ymd_valid(1) [OF n'(1) e'] by simp_all
  have "iso_date n @ xs < iso_date n' @ ys \<longleftrightarrow>
      y < y' \<or> y = y' \<and> (m < m' \<or> m = m' \<and> (d < d' \<or> d = d' \<and> xs < ys))"
    using f f' by (simp add: iso_date_def e e' pad_less del: pad.simps)
  moreover have "n < n' \<longleftrightarrow> y < y' \<or> y = y' \<and> (m < m' \<or> m = m' \<and> d < d')"
    using ymd2ord_less [OF f(1) f'(1)] ymd2ord_less [OF f'(1) f(1)] o
    by (metis less_asym less_irrefl linorder_neqE)
  moreover have "n = n' \<longleftrightarrow> y = y' \<and> m = m' \<and> d = d'"
    using ymd2ord_inject [OF f(1) f'(1)] o by auto
  ultimately show ?thesis by auto
qed

lemma div_mod_less:
  assumes "0 < (k::int)"
  shows "a < b \<longleftrightarrow> a div k < b div k \<or> a div k = b div k \<and> a mod k < b mod k"
proof -
  have m: "x div k \<le> y div k" if "x \<le> y" for x y :: int
    using that assms by (simp add: zdiv_mono1)
  have e: "a < b \<longleftrightarrow> a mod k < b mod k" if "a div k = b div k"
    using that by (metis add_less_cancel_left mult_div_mod_eq)
  show ?thesis
  proof (cases "a div k" "b div k" rule: linorder_cases)
    case less
    then show ?thesis using m [of b a] by (metis leD leI)
  next
    case equal
    then show ?thesis using e by simp
  next
    case greater
    then show ?thesis using m [of a b] by (metis leD less_imp_le less_irrefl)
  qed
qed

lemma div_mod_eq: "(a::int) = b \<longleftrightarrow> a div k = b div k \<and> a mod k = b mod k"
  by (metis mult_div_mod_eq)

lemma iso_clock_less:
  assumes "0 \<le> s" "s < 86400" "0 \<le> s'" "s' < 86400"
  shows "iso_clock s @ xs < iso_clock s' @ ys \<longleftrightarrow> s < s' \<or> s = s' \<and> xs < ys"
proof -
  have hour: "u div 3600 = u div 60 div 60" for u :: int
    by (simp add: div_mult2_eq [symmetric])
  have b: "0 \<le> u div 3600" "u div 3600 < 10 ^ 2" if "0 \<le> u" "u < 86400" for u :: int
    using that zdiv_mono1 [of u 86399 3600] by (auto simp: pos_imp_zdiv_nonneg_iff)
  have "iso_clock s @ xs < iso_clock s' @ ys \<longleftrightarrow>
      s div 3600 < s' div 3600 \<or> s div 3600 = s' div 3600 \<and>
        (s div 60 mod 60 < s' div 60 mod 60 \<or> s div 60 mod 60 = s' div 60 mod 60 \<and>
          (s mod 60 < s' mod 60 \<or> s mod 60 = s' mod 60 \<and> xs < ys))"
    using b [OF assms(1,2)] b [OF assms(3,4)]
    by (simp add: iso_clock_def pad_less pos_mod_bound less_trans [OF pos_mod_bound] del: pad.simps)
  then show ?thesis
    using div_mod_less [of 60 s s'] div_mod_less [of 60 "s div 60" "s' div 60"]
      div_mod_eq [of s s' 60] div_mod_eq [of "s div 60" "s' div 60" 60]
    by (auto simp: hour)
qed

lemma iso_fraction_less:
  assumes "0 \<le> us" "us < 1000000" "0 \<le> us'" "us' < 1000000"
  shows "iso_fraction us @ ''+00:00'' < iso_fraction us' @ ''+00:00'' \<longleftrightarrow> us < us'"
  using assms by (auto simp: iso_fraction_def pad_less simp del: pad.simps)

text \<open>The text order of UTC timestamps is the order of the instants.\<close>

lemma iso_utc_less_iff:
  assumes "valid_instant t" "valid_instant t'"
  shows "iso_utc t < iso_utc t' \<longleftrightarrow> t < t'"
proof -
  have e: "u div 1000000 div 86400 = u div 86400000000" for u :: int
    by (simp add: div_mult2_eq [symmetric])
  have d: "day_of t < day_of t' \<longleftrightarrow> t div 86400000000 < t' div 86400000000"
    "day_of t = day_of t' \<longleftrightarrow> t div 86400000000 = t' div 86400000000"
    by (simp_all only: day_of_def add_less_cancel_right add_right_cancel)
  show ?thesis
    using div_mod_less [of 1000000 t t'] div_mod_less [of 86400 "t div 1000000" "t' div 1000000"]
      div_mod_eq [of "t div 1000000" "t' div 1000000" 86400]
    by (auto simp: iso_utc_def iso_date_less day_of_bounds assms iso_clock_less
        second_of_day_bounds iso_fraction_less d e second_of_day_def)
qed

lemma iso_utc_inject:
  "valid_instant t \<Longrightarrow> valid_instant t' \<Longrightarrow> iso_utc t = iso_utc t' \<longleftrightarrow> t = t'"
  using iso_utc_less_iff by (metis less_irrefl linorder_neqE)

lemma iso_utc_le_iff:
  "valid_instant t \<Longrightarrow> valid_instant t' \<Longrightarrow> iso_utc t \<le> iso_utc t' \<longleftrightarrow> t \<le> t'"
  by (auto simp: iso_utc_less_iff iso_utc_inject order_le_less)

section \<open>fromisoformat\<close>

text \<open>
  \<open>take_digits k s\<close> reads exactly \<open>k\<close> digits; \<open>take_char c s\<close> the separator \<open>c\<close>. The
  grammar is \<open>YYYY-MM-DD\<close>, any separator, \<open>HH[:MM[:SS[.fff[fff]]]]\<close> and the offset
  \<open>+HH:MM[:SS[.ffffff]]\<close>; a text without an offset is a naive datetime.
\<close>

definition digits_value :: "string \<Rightarrow> int" where
  "digits_value s = foldl (\<lambda>n c. 10 * n + digit_value c) 0 s"

definition take_digits :: "nat \<Rightarrow> string \<Rightarrow> (int \<times> string) option" where
  "take_digits k s =
     (if length s < k \<or> \<not> list_all is_digit (take k s) then None
      else Some (digits_value (take k s), drop k s))"

definition take_char :: "char \<Rightarrow> string \<Rightarrow> string option" where
  "take_char c s = (case s of [] \<Rightarrow> None | x # xs \<Rightarrow> if x = c then Some xs else None)"

definition parse_date :: "string \<Rightarrow> (int \<times> string) option" where
  "parse_date s =
     Option.bind (take_digits 4 s) (\<lambda>(y, s1).
     Option.bind (take_char CHR ''-'' s1) (\<lambda>s2.
     Option.bind (take_digits 2 s2) (\<lambda>(m, s3).
     Option.bind (take_char CHR ''-'' s3) (\<lambda>s4.
     Option.bind (take_digits 2 s4) (\<lambda>(d, s5).
       if 1 \<le> y \<and> valid_date y m d then Some (ymd2ord y m d, s5) else None)))))"

definition parse_fraction :: "string \<Rightarrow> int option" where
  "parse_fraction s =
     (case s of [] \<Rightarrow> Some 0
      | c # s1 \<Rightarrow>
        if c \<noteq> CHR ''.'' then None
        else if length s1 = 6 then map_option fst (take_digits 6 s1)
        else if length s1 = 3 then map_option (\<lambda>(n, _). 1000 * n) (take_digits 3 s1)
        else None)"

text \<open>The clock of a time or of an offset, in hours, minutes, seconds and microseconds.\<close>

definition parse_clock :: "string \<Rightarrow> (int \<times> int \<times> int \<times> int) option" where
  "parse_clock s =
     Option.bind (take_digits 2 s) (\<lambda>(h, s1).
       if s1 = [] then Some (h, 0, 0, 0) else
     Option.bind (take_char CHR '':'' s1) (\<lambda>s2.
     Option.bind (take_digits 2 s2) (\<lambda>(mi, s3).
       if s3 = [] then Some (h, mi, 0, 0) else
     Option.bind (take_char CHR '':'' s3) (\<lambda>s4.
     Option.bind (take_digits 2 s4) (\<lambda>(sec, s5).
     Option.bind (parse_fraction s5) (\<lambda>us. Some (h, mi, sec, us)))))))"

definition micros :: "int \<times> int \<times> int \<times> int \<Rightarrow> int" where
  "micros c = (case c of (h, mi, sec, us) \<Rightarrow> ((h * 60 + mi) * 60 + sec) * 1000000 + us)"

definition is_sign :: "char \<Rightarrow> bool" where
  "is_sign c \<longleftrightarrow> c = CHR ''+'' \<or> c = CHR ''-''"

definition parse_offset :: "string \<Rightarrow> int option" where
  "parse_offset s =
     (case s of [] \<Rightarrow> None
      | c # s1 \<Rightarrow>
        if length s1 \<notin> {5, 8, 15} then None else
        Option.bind (parse_clock s1) (\<lambda>k.
          if micros k < 86400000000
          then Some (if c = CHR ''-'' then - micros k else micros k) else None))"

text \<open>
  The UTC instant of an aware ISO text, \<open>None\<close> for a malformed or naive one. (An offset
  that leaves the years 1 to 9999 raises in Python; here it is an invalid instant.)
\<close>

definition from_iso :: "string \<Rightarrow> int option" where
  "from_iso s =
     Option.bind (parse_date s) (\<lambda>(n, s1).
     Option.bind (case s1 of [] \<Rightarrow> None | _ # s2 \<Rightarrow> Some s2) (\<lambda>s2.
     Option.bind (parse_clock (takeWhile (\<lambda>c. \<not> is_sign c) s2)) (\<lambda>(h, mi, sec, us).
       if 24 \<le> h \<or> 60 \<le> mi \<or> 60 \<le> sec then None else
     Option.bind (parse_offset (dropWhile (\<lambda>c. \<not> is_sign c) s2)) (\<lambda>off.
       Some ((n - 1) * 86400000000 + micros (h, mi, sec, us) - off)))))"

definition replace_Z :: "string \<Rightarrow> string" where
  "replace_Z s = concat (map (\<lambda>c. if c = CHR ''Z'' then ''+00:00'' else [c]) s)"

definition parse_utc_timestamp :: "pyval \<Rightarrow> int option" where
  "parse_utc_timestamp v =
     (case v of PStr s \<Rightarrow> if strip s = [] then None else from_iso (replace_Z s) | _ \<Rightarrow> None)"

section \<open>Reading back what was written\<close>

lemma digits_value_pad: "0 \<le> n \<Longrightarrow> n < 10 ^ k \<Longrightarrow> digits_value (pad k n) = n"
proof (induction k arbitrary: n)
  case (Suc k)
  then have "digits_value (pad k (n div 10)) = n div 10" by simp
  then show ?case by (simp add: digits_value_def)
qed (simp add: digits_value_def)

lemma take_digits_pad [simp]:
  "0 \<le> n \<Longrightarrow> n < 10 ^ k \<Longrightarrow> take_digits k (pad k n @ s) = Some (n, s)"
  by (auto simp: take_digits_def digits_value_pad list_all_iff pad_digits)

lemma take_char_same [simp]: "take_char c (c # s) = Some s"
  by (simp add: take_char_def)

lemma digit_not_sign: "is_digit c \<Longrightarrow> \<not> is_sign c"
  by (auto simp: is_digit_def is_sign_def)

lemma digit_not_Z: "is_digit c \<Longrightarrow> c \<noteq> CHR ''Z''"
  by (auto simp: is_digit_def)

lemma digit_not_space: "is_digit c \<Longrightarrow> \<not> is_space c"
  by (auto simp: is_digit_def is_space_def)

lemma iso_clock_chars: "c \<in> set (iso_clock s) \<Longrightarrow> is_digit c \<or> c = CHR '':''"
  by (auto simp: iso_clock_def pad_digits simp del: pad.simps)

lemma iso_fraction_chars: "c \<in> set (iso_fraction u) \<Longrightarrow> is_digit c \<or> c = CHR ''.''"
  by (auto simp: iso_fraction_def pad_digits simp del: pad.simps split: if_splits)

lemma iso_date_chars: "c \<in> set (iso_date n) \<Longrightarrow> is_digit c \<or> c = CHR ''-''"
  by (auto simp: iso_date_def pad_digits simp del: pad.simps split: prod.splits)

lemma replace_Z_id: "(\<And>c. c \<in> set s \<Longrightarrow> c \<noteq> CHR ''Z'') \<Longrightarrow> replace_Z s = s"
  by (induction s) (auto simp: replace_Z_def)

lemma replace_Z_iso: "replace_Z (iso_utc t) = iso_utc t"
  by (rule replace_Z_id)
     (auto simp: iso_utc_def dest: iso_date_chars iso_clock_chars iso_fraction_chars digit_not_Z)

lemma parse_date_iso:
  assumes "1 \<le> n" "n \<le> 3652059"
  shows "parse_date (iso_date n @ s) = Some (n, s)"
proof -
  obtain y m d where e: "ord2ymd n = (y, m, d)" by (cases "ord2ymd n")
  show ?thesis
    using iso_date_fields [OF assms e] ord2ymd_valid(1) [OF assms(1) e]
    by (simp add: parse_date_def iso_date_def e del: pad.simps)
qed

lemma parse_fraction_iso: "0 \<le> u \<Longrightarrow> u < 1000000 \<Longrightarrow> parse_fraction (iso_fraction u) = Some u"
  using take_digits_pad [of u 6 "[]"]
  by (auto simp: parse_fraction_def iso_fraction_def simp del: pad.simps take_digits_pad)

lemma parse_clock_iso:
  assumes "0 \<le> s" "s < 86400" "0 \<le> u" "u < 1000000"
  shows "parse_clock (iso_clock s @ iso_fraction u)
    = Some (s div 3600, s div 60 mod 60, s mod 60, u)"
proof -
  have "0 \<le> s div 3600" "s div 3600 < 10 ^ 2"
    using assms zdiv_mono1 [of s 86399 3600] by (auto simp: pos_imp_zdiv_nonneg_iff)
  moreover have "s div 60 mod 60 < 10 ^ 2" "s mod 60 < 10 ^ 2"
    by (rule less_trans [OF pos_mod_bound]; simp)+
  ultimately show ?thesis
    using assms
    by (simp add: parse_clock_def iso_clock_def parse_fraction_iso del: pad.simps)
qed

lemma parse_offset_utc: "parse_offset ''+00:00'' = Some 0"
  by (simp add: parse_offset_def parse_clock_def take_digits_def take_char_def is_digit_def
      digits_value_def digit_value_def micros_def)

lemma micros_clock: "micros (s div 3600, s div 60 mod 60, s mod 60, u) = s * 1000000 + u"
proof -
  have "s div 3600 = s div 60 div 60" by (simp add: div_mult2_eq [symmetric])
  then have "s div 3600 * 60 + s div 60 mod 60 = s div 60" by (simp only: div_mult_mod_eq)
  then show ?thesis by (simp only: micros_def prod.case div_mult_mod_eq)
qed

lemma sign_split:
  assumes "\<forall>c \<in> set xs. \<not> is_sign c"
  shows "takeWhile (\<lambda>c. \<not> is_sign c) (xs @ ''+00:00'') = xs"
    "dropWhile (\<lambda>c. \<not> is_sign c) (xs @ ''+00:00'') = ''+00:00''"
  using assms by (induction xs) (auto simp: is_sign_def)

lemma from_iso_utc:
  assumes "valid_instant t"
  shows "from_iso (iso_utc t) = Some t"
proof -
  let ?s = "second_of_day t" and ?u = "t mod 1000000"
  have s: "0 \<le> ?s" "?s < 86400" "0 \<le> ?u" "?u < 1000000"
    using second_of_day_bounds by auto
  have body: "\<forall>c \<in> set (iso_clock ?s @ iso_fraction ?u). \<not> is_sign c"
  proof
    fix c assume "c \<in> set (iso_clock ?s @ iso_fraction ?u)"
    then have "is_digit c \<or> c = CHR '':'' \<or> c = CHR ''.''"
      using iso_clock_chars [of c ?s] iso_fraction_chars [of c ?u] by auto
    then show "\<not> is_sign c" using digit_not_sign [of c] by (auto simp: is_sign_def)
  qed
  have split: "takeWhile (\<lambda>c. \<not> is_sign c) (iso_clock ?s @ iso_fraction ?u @ ''+00:00'')
        = iso_clock ?s @ iso_fraction ?u"
    "dropWhile (\<lambda>c. \<not> is_sign c) (iso_clock ?s @ iso_fraction ?u @ ''+00:00'') = ''+00:00''"
    using sign_split [OF body] by simp_all
  have "t = (t div 86400000000 * 86400 + ?s) * 1000000 + ?u"
    using zdiv_zmult2_eq [of 86400 t 1000000] by (simp add: second_of_day_def)
  then have t: "(day_of t - 1) * 86400000000 + (?s * 1000000 + ?u) = t"
    by (simp add: day_of_def algebra_simps)
  have "?s div 3600 < 24" using zdiv_mono1 [of ?s 86399 3600] s by simp
  moreover have "\<not> 60 \<le> ?s div 60 mod 60" "\<not> 60 \<le> ?s mod 60"
    by (simp_all only: not_le pos_mod_bound zero_less_numeral)
  ultimately show ?thesis
    using s t
    by (simp add: from_iso_def iso_utc_def parse_date_iso day_of_bounds assms split
        parse_clock_iso parse_offset_utc micros_clock)
qed

lemma iso_utc_not_blank: "strip (iso_utc t) \<noteq> []"
proof -
  have "CHR ''T'' \<in> set (iso_utc t)" "\<not> is_space CHR ''T''"
    by (simp_all add: iso_utc_def is_space_def)
  then show ?thesis by (auto simp: strip_Nil_iff)
qed

lemma parse_iso_utc [simp]:
  "valid_instant t \<Longrightarrow> parse_utc_timestamp (PStr (iso_utc t)) = Some t"
  by (simp add: parse_utc_timestamp_def iso_utc_not_blank replace_Z_iso from_iso_utc)

end
