(* ===== verification/Serialization.thy ===== *)
theory Serialization
  imports PyValue
begin

text \<open>
  \<open>serialization.py\<close>, \<open>identifiers.py\<close> and the redaction of \<open>audit.py\<close>: canonical JSON
  (sorted keys, no spaces, no \<open>NaN\<close>), the digest of it, the identifier predicates, and
  the sanitiser every persisted or logged value passes through. SHA-256 and the decimal
  text of a float are the two library functions left abstract, fields of \<open>platform\<close>
  beside the settings \<open>AUDIT_INCLUDE_QUERY_TEXT\<close> and \<open>DB_MAX_QUERY_LENGTH\<close>.
\<close>

record platform =
  sha256_hex :: "string \<Rightarrow> string"
  float_repr :: "rat \<Rightarrow> string"
  include_query_text :: bool
  max_query_length :: nat

section \<open>Canonical JSON\<close>

fun nat_text :: "nat \<Rightarrow> string" where
  "nat_text n = (if n < 10 then [char_of (48 + n)] else nat_text (n div 10) @ [char_of (48 + n mod 10)])"

declare nat_text.simps [simp del]

definition int_text :: "int \<Rightarrow> string" where
  "int_text i = (if i < 0 then CHR ''-'' # nat_text (nat (- i)) else nat_text (nat i))"

definition hex_char :: "nat \<Rightarrow> char" where
  "hex_char d = (if d < 10 then char_of (48 + d) else char_of (87 + d))"

text \<open>With \<open>ensure_ascii=False\<close> only the quote, the backslash and control characters are escaped.\<close>

definition json_char :: "char \<Rightarrow> string" where
  "json_char c = (let n = of_char c :: nat in
     if n = 34 then [CHR 0x5C, CHR 0x22]
     else if n = 92 then [CHR 0x5C, CHR 0x5C]
     else if n = 10 then CHR 0x5C # ''n''
     else if n = 13 then CHR 0x5C # ''r''
     else if n = 9 then CHR 0x5C # ''t''
     else if n = 12 then CHR 0x5C # ''f''
     else if n = 8 then CHR 0x5C # ''b''
     else if n < 32 then CHR 0x5C # ''u00'' @ [hex_char (n div 16), hex_char (n mod 16)]
     else [c])"

definition json_string :: "string \<Rightarrow> string" where
  "json_string s = CHR 0x22 # concat (map json_char s) @ [CHR 0x22]"

fun join :: "string \<Rightarrow> string list \<Rightarrow> string" where
  "join sep [] = []"
| "join sep [x] = x"
| "join sep (x # y # xs) = x @ sep @ join sep (y # xs)"

text \<open>\<open>json.dumps\<close> with item separator \<open>sep\<close> and key separator \<open>ksep\<close>.\<close>

fun json_dumps :: "platform \<Rightarrow> string \<Rightarrow> string \<Rightarrow> pyval \<Rightarrow> string" where
  "json_dumps P sep ksep PNone = ''null''"
| "json_dumps P sep ksep (PBool b) = (if b then ''true'' else ''false'')"
| "json_dumps P sep ksep (PInt i) = int_text i"
| "json_dumps P sep ksep (PFloat (Finite r)) = float_repr P r"
| "json_dumps P sep ksep (PFloat PosInf) = ''Infinity''"
| "json_dumps P sep ksep (PFloat NegInf) = ''-Infinity''"
| "json_dumps P sep ksep (PFloat NotANumber) = ''NaN''"
| "json_dumps P sep ksep (PStr s) = json_string s"
| "json_dumps P sep ksep (PList xs) = ''['' @ join sep (map (json_dumps P sep ksep) xs) @ '']''"
| "json_dumps P sep ksep (PDict kvs) = ''{''
     @ join sep (map (\<lambda>(k, v). json_string k @ ksep @ json_dumps P sep ksep v) kvs) @ ''}''"

text \<open>\<open>sort_keys=True\<close> at every level.\<close>

fun sort_keys :: "pyval \<Rightarrow> pyval" where
  "sort_keys (PList xs) = PList (map sort_keys xs)"
| "sort_keys (PDict kvs) = PDict (sort_key fst (map (\<lambda>(k, v). (k, sort_keys v)) kvs))"
| "sort_keys v = v"

fun json_ok :: "pyval \<Rightarrow> bool" where
  "json_ok (PFloat (Finite _)) = True"
| "json_ok (PFloat _) = False"
| "json_ok (PList xs) = list_all json_ok xs"
| "json_ok (PDict kvs) = list_all (\<lambda>(_, v). json_ok v) kvs"
| "json_ok _ = True"

definition canonical_json :: "platform \<Rightarrow> pyval \<Rightarrow> string exc" where
  "canonical_json P v =
     (if json_ok v then Inr (json_dumps P '','' '':'' (sort_keys v))
      else Inl (ValueError ''Out of range float values are not JSON compliant''))"

definition json_digest :: "platform \<Rightarrow> pyval \<Rightarrow> string exc" where
  "json_digest P v = ebind (canonical_json P v) (\<lambda>s. Inr (sha256_hex P s))"

section \<open>Identifiers\<close>

definition is_positive_int :: "pyval \<Rightarrow> bool" where
  "is_positive_int v \<longleftrightarrow> is_int v \<and> \<not> is_bool v \<and> 0 < int_of v"

lemma is_positive_int_iff: "is_positive_int v \<longleftrightarrow> (\<exists>i. v = PInt i \<and> 0 < i)"
  by (cases v) (auto simp: is_positive_int_def)

text \<open>
  \<open>uuid.UUID(s)\<close>: the text with \<open>urn:\<close> and \<open>uuid:\<close> removed, braces stripped at the ends
  and hyphens removed has 32 characters, which \<open>int(hex, 16)\<close> reads.
\<close>

fun remove_text :: "string \<Rightarrow> string \<Rightarrow> string" where
  "remove_text p [] = []"
| "remove_text p (c # s) =
     (if p \<noteq> [] \<and> take (length p) (c # s) = p then remove_text p (drop (length p) (c # s))
      else c # remove_text p s)"

definition is_brace :: "char \<Rightarrow> bool" where
  "is_brace c \<longleftrightarrow> c = CHR ''{'' \<or> c = CHR ''}''"

definition strip_braces :: "string \<Rightarrow> string" where
  "strip_braces s = rev (dropWhile is_brace (rev (dropWhile is_brace s)))"

definition is_hex :: "char \<Rightarrow> bool" where
  "is_hex c = (let n = of_char c :: nat in
     (48 \<le> n \<and> n \<le> 57) \<or> (97 \<le> n \<and> n \<le> 102) \<or> (65 \<le> n \<and> n \<le> 70))"

text \<open>The digits of \<open>int(_, 16)\<close>: single underscores may separate them.\<close>

fun hex_digits :: "string \<Rightarrow> bool" where
  "hex_digits [] = False"
| "hex_digits [c] = is_hex c"
| "hex_digits (c # d # s) =
     (is_hex c \<and> (if d = CHR ''_'' then hex_digits s else hex_digits (d # s)))"

definition reads_as_hex :: "string \<Rightarrow> bool" where
  "reads_as_hex s =
     (let t = strip s;
          u = (case t of c # t' \<Rightarrow> if c = CHR ''+'' \<or> c = CHR ''-'' then t' else t | [] \<Rightarrow> t);
          w = (case u of a # b # u' \<Rightarrow>
                 if a = CHR ''0'' \<and> (b = CHR ''x'' \<or> b = CHR ''X'')
                 then (case u' of c # u'' \<Rightarrow> if c = CHR ''_'' then u'' else u' | [] \<Rightarrow> u')
                 else u | _ \<Rightarrow> u)
      in hex_digits w)"

definition is_valid_uuid :: "pyval \<Rightarrow> bool" where
  "is_valid_uuid v = (case v of
     PStr s \<Rightarrow> (let h = filter (\<lambda>c. c \<noteq> CHR ''-'')
                        (strip_braces (remove_text ''uuid:'' (remove_text ''urn:'' s)))
               in length h = 32 \<and> reads_as_hex h)
   | _ \<Rightarrow> False)"

lemma is_valid_uuid_str: "is_valid_uuid v \<Longrightarrow> is_str v"
  by (cases v) (auto simp: is_valid_uuid_def)

section \<open>Index names\<close>

text \<open>UTF-8: one byte below 128, two bytes up to 255.\<close>

definition utf8_width :: "char \<Rightarrow> nat" where
  "utf8_width c = (if (of_char c :: nat) < 128 then 1 else 2)"

definition utf8_length :: "string \<Rightarrow> nat" where
  "utf8_length s = sum_list (map utf8_width s)"

text \<open>
  The first \<open>n\<close> bytes of the encoding, less the bytes of a character cut in two: what the
  decoding loop of \<open>build_index_name\<close> ends with.
\<close>

fun utf8_prefix :: "nat \<Rightarrow> string \<Rightarrow> string" where
  "utf8_prefix n [] = []"
| "utf8_prefix n (c # s) =
     (if utf8_width c \<le> n then c # utf8_prefix (n - utf8_width c) s else [])"

definition build_index_name :: "platform \<Rightarrow> string \<Rightarrow> string \<Rightarrow> string" where
  "build_index_name P table column =
     (let base = ''idx_'' @ table @ ''_'' @ column in
      if utf8_length base \<le> 63 then base
      else (let suffix = ''_'' @ take 10 (sha256_hex P base)
            in utf8_prefix (63 - utf8_length suffix) base @ suffix))"

lemma utf8_length_simps [simp]:
  "utf8_length [] = 0" "utf8_length (c # s) = utf8_width c + utf8_length s"
  "utf8_length (s @ t) = utf8_length s + utf8_length t"
  by (simp_all add: utf8_length_def)

lemma utf8_length_prefix: "utf8_length (utf8_prefix n s) \<le> n"
  by (induction n s rule: utf8_prefix.induct) auto

lemma utf8_length_le: "utf8_length s \<le> 2 * length s"
  by (induction s) (auto simp: utf8_width_def)

end
