(* ===== verification/Json.thy ===== *)
theory Json
  imports Timestamps Serialization
begin

text \<open>
  \<open>json.loads\<close> as the strict readers of the program call it: \<open>audit.py\<close> on a line of its log
  and \<open>execution_protocol.py\<close> on a message. Duplicate keys, constants that are no numbers and
  floats that overflow are refused by the hooks. The value of a decimal text is a parameter
  \<open>F\<close> (\<open>float\<close>; \<open>None\<close> for one that is not finite); an escape above 255 has no character here
  and is not read. The main fact is the round trip: what \<open>json.dumps\<close> writes is read back.
\<close>

section \<open>Lexical elements\<close>

definition is_ws :: "char \<Rightarrow> bool" where
  "is_ws c \<longleftrightarrow> c = CHR '' '' \<or> c = CHR 0x09 \<or> c = CHR 0x0A \<or> c = CHR 0x0D"

definition skip_ws :: "string \<Rightarrow> string" where
  "skip_ws s = dropWhile is_ws s"

text \<open>\<open>(-?(?:0|[1-9]\d*))(\.\d+)?([eE][-+]?\d+)?\<close>: the length of each part, 0 when absent.\<close>

definition digits_end :: "string \<Rightarrow> nat" where
  "digits_end s = length (takeWhile is_digit s)"

definition integer_end :: "string \<Rightarrow> nat" where
  "integer_end s = (case s of [] \<Rightarrow> 0 | c # t \<Rightarrow> if c = CHR ''0'' then 1 else digits_end s)"

definition fraction_end :: "string \<Rightarrow> nat" where
  "fraction_end s = (case s of [] \<Rightarrow> 0
     | c # t \<Rightarrow> if c = CHR ''.'' \<and> digits_end t \<noteq> 0 then Suc (digits_end t) else 0)"

definition exponent_end :: "string \<Rightarrow> nat" where
  "exponent_end s = (case s of [] \<Rightarrow> 0
     | c # t \<Rightarrow>
        if c = CHR ''e'' \<or> c = CHR ''E''
        then (case t of d # u \<Rightarrow>
                if d = CHR ''-'' \<or> d = CHR ''+''
                then (if digits_end u \<noteq> 0 then Suc (Suc (digits_end u)) else 0)
                else if digits_end t \<noteq> 0 then Suc (digits_end t) else 0
              | [] \<Rightarrow> 0)
        else 0)"

text \<open>The unsigned part of a number: its value, and the text after it.\<close>

definition number_end :: "string \<Rightarrow> nat \<times> nat" where
  "number_end s =
     (let i = integer_end s; f = fraction_end (drop i s); e = exponent_end (drop (i + f) s)
      in (i, if i = 0 then 0 else f + e))"

definition parse_number :: "(string \<Rightarrow> rat option) \<Rightarrow> string \<Rightarrow> (pyval \<times> string) option" where
  "parse_number F s =
     (let negative = take 1 s = ''-''; t = (if negative then drop 1 s else s); (i, more) = number_end t
      in if i = 0 then None
         else if more = 0
         then Some (PInt ((if negative then - 1 else 1) * digits_value (take i t)), drop i t)
         else map_option (\<lambda>r. (PFloat (Finite r), drop (i + more) t))
                (F (take (length s - length t + i + more) s)))"

fun simple_escape :: "char \<Rightarrow> char option" where
  "simple_escape c =
     (if c = CHR 0x22 \<or> c = CHR 0x5C \<or> c = CHR ''/'' then Some c
      else if c = CHR ''b'' then Some CHR 0x08 else if c = CHR ''f'' then Some CHR 0x0C
      else if c = CHR ''n'' then Some CHR 0x0A else if c = CHR ''r'' then Some CHR 0x0D
      else if c = CHR ''t'' then Some CHR 0x09 else None)"

definition hex_value :: "char \<Rightarrow> nat" where
  "hex_value c = (let n = of_char c :: nat in if n \<le> 57 then n - 48 else if n \<le> 70 then n - 55 else n - 87)"

definition unicode_escape :: "string \<Rightarrow> char option" where
  "unicode_escape h =
     (if length h = 4 \<and> list_all is_hex h
      then (let n = foldl (\<lambda>n c. 16 * n + hex_value c) 0 h in if n < 256 then Some (char_of n) else None)
      else None)"

text \<open>The rest of a string after its opening quote. Control characters must be escaped.\<close>

fun parse_string :: "string \<Rightarrow> (string \<times> string) option" where
  "parse_string [] = None"
| "parse_string (c # s) =
     (if c = CHR 0x22 then Some ([], s)
      else if c = CHR 0x5C then
        (case s of [] \<Rightarrow> None
         | d # t \<Rightarrow>
            if d = CHR ''u''
            then (case unicode_escape (take 4 t) of None \<Rightarrow> None
                  | Some x \<Rightarrow> map_option (\<lambda>(u, r). (x # u, r)) (parse_string (drop 4 t)))
            else (case simple_escape d of None \<Rightarrow> None
                  | Some x \<Rightarrow> map_option (\<lambda>(u, r). (x # u, r)) (parse_string t)))
      else if (of_char c :: nat) < 32 then None
      else map_option (\<lambda>(u, r). (c # u, r)) (parse_string s))"

section \<open>Values\<close>

definition literal :: "string \<Rightarrow> pyval \<Rightarrow> string \<Rightarrow> (pyval \<times> string) option" where
  "literal word v s = (if take (length word) s = word then Some (v, drop (length word) s) else None)"

definition parse_scalar :: "(string \<Rightarrow> rat option) \<Rightarrow> string \<Rightarrow> (pyval \<times> string) option" where
  "parse_scalar F s =
     (if take 1 s = ''n'' then literal ''null'' PNone s
      else if take 1 s = ''t'' then literal ''true'' (PBool True) s
      else if take 1 s = ''f'' then literal ''false'' (PBool False) s
      else parse_number F s)"

text \<open>Fuel bounds the nesting of calls; twice the length of the text is enough.\<close>

fun parse_value :: "(string \<Rightarrow> rat option) \<Rightarrow> nat \<Rightarrow> string \<Rightarrow> (pyval \<times> string) option"
  and parse_items :: "(string \<Rightarrow> rat option) \<Rightarrow> nat \<Rightarrow> string \<Rightarrow> (pyval list \<times> string) option"
  and parse_pairs :: "(string \<Rightarrow> rat option) \<Rightarrow> nat \<Rightarrow> string \<Rightarrow> ((string \<times> pyval) list \<times> string) option"
where
  "parse_value F 0 s = None"
| "parse_value F (Suc n) s = (case s of [] \<Rightarrow> None
     | c # t \<Rightarrow>
        if c = CHR 0x22 then map_option (\<lambda>(x, r). (PStr x, r)) (parse_string t)
        else if c = CHR ''['' then
          (if take 1 (skip_ws t) = '']'' then Some (PList [], drop 1 (skip_ws t))
           else map_option (\<lambda>(vs, r). (PList vs, r)) (parse_items F n (skip_ws t)))
        else if c = CHR ''{'' then
          (if take 1 (skip_ws t) = ''}'' then Some (PDict [], drop 1 (skip_ws t))
           else (case parse_pairs F n (skip_ws t) of None \<Rightarrow> None
                 | Some (kvs, r) \<Rightarrow> if distinct (map fst kvs) then Some (PDict kvs, r) else None))
        else parse_scalar F s)"
| "parse_items F 0 s = None"
| "parse_items F (Suc n) s =
     (case parse_value F n s of None \<Rightarrow> None
      | Some (v, r) \<Rightarrow>
         (case skip_ws r of [] \<Rightarrow> None
          | c # t \<Rightarrow>
             if c = CHR '']'' then Some ([v], t)
             else if c = CHR '','' then map_option (\<lambda>(vs, r'). (v # vs, r')) (parse_items F n (skip_ws t))
             else None))"
| "parse_pairs F 0 s = None"
| "parse_pairs F (Suc n) s = (case s of [] \<Rightarrow> None
     | q # t \<Rightarrow>
        if q \<noteq> CHR 0x22 then None else
        (case parse_string t of None \<Rightarrow> None
         | Some (k, r) \<Rightarrow>
            (case skip_ws r of [] \<Rightarrow> None
             | c # u \<Rightarrow>
                if c \<noteq> CHR '':'' then None else
                (case parse_value F n (skip_ws u) of None \<Rightarrow> None
                 | Some (v, r') \<Rightarrow>
                    (case skip_ws r' of [] \<Rightarrow> None
                     | d # w \<Rightarrow>
                        if d = CHR ''}'' then Some ([(k, v)], w)
                        else if d = CHR '','' then
                          map_option (\<lambda>(kvs, r''). ((k, v) # kvs, r'')) (parse_pairs F n (skip_ws w))
                        else None)))))"

definition json_loads :: "(string \<Rightarrow> rat option) \<Rightarrow> string \<Rightarrow> pyval option" where
  "json_loads F s =
     (case parse_value F (2 * length s + 1) (skip_ws s) of None \<Rightarrow> None
      | Some (v, r) \<Rightarrow> if skip_ws r = [] then Some v else None)"

section \<open>Round trip: numbers\<close>

definition stops :: "string \<Rightarrow> bool" where
  "stops rest \<longleftrightarrow> rest = [] \<or> hd rest \<in> {CHR '','', CHR '']'', CHR ''}'', CHR 0x0A}"

lemma stopsE:
  assumes "stops rest"
  obtains "rest = []" | c t where "rest = c # t" "c \<in> {CHR '','', CHR '']'', CHR ''}'', CHR 0x0A}"
  using assms by (cases rest) (auto simp: stops_def)

lemma not_digits [simp]:
  "\<not> is_digit CHR '',''" "\<not> is_digit CHR '']''" "\<not> is_digit CHR ''}''" "\<not> is_digit CHR 0x0A"
  "\<not> is_digit CHR ''-''" "is_digit CHR ''0''"
  by (simp_all add: is_digit_def)

lemma digits_end_append: "stops rest \<Longrightarrow> digits_end (s @ rest) = digits_end s"
  by (induction s) (auto simp: digits_end_def elim!: stopsE)

lemma digits_end_Cons [simp]: "digits_end (c # s) = (if is_digit c then Suc (digits_end s) else 0)" "digits_end [] = 0"
  by (simp_all add: digits_end_def)

lemma digits_end_le: "digits_end s \<le> length s"
  by (simp add: digits_end_def length_takeWhile_le)

lemma fraction_end_append: "stops rest \<Longrightarrow> fraction_end (s @ rest) = fraction_end s"
  by (cases s) (auto simp: fraction_end_def digits_end_append elim!: stopsE)

lemma exponent_end_append: "stops rest \<Longrightarrow> exponent_end (s @ rest) = exponent_end s"
proof (cases s)
  case (Cons c t)
  assume "stops rest"
  then show ?thesis
    using Cons by (cases t) (auto simp: exponent_end_def digits_end_append elim!: stopsE)
qed (auto simp: exponent_end_def elim!: stopsE)

lemma integer_end_append: "stops rest \<Longrightarrow> integer_end (s @ rest) = integer_end s"
  by (cases s) (auto simp: integer_end_def digits_end_append elim!: stopsE)

lemma integer_end_le: "integer_end s \<le> length s"
  using digits_end_le [of s] by (cases s) (auto simp: integer_end_def)

lemma fraction_end_le: "fraction_end s \<le> length s"
  using digits_end_le [of "tl s"] by (cases s) (auto simp: fraction_end_def)

lemma number_end_append: "stops rest \<Longrightarrow> number_end (s @ rest) = number_end s"
proof -
  assume r: "stops rest"
  have f: "fraction_end (drop (integer_end s) s) \<le> length s - integer_end s"
    using fraction_end_le [of "drop (integer_end s) s"] by simp
  have d: "drop (integer_end s + fraction_end (drop (integer_end s) s)) (s @ rest)
     = drop (integer_end s + fraction_end (drop (integer_end s) s)) s @ rest"
    using f integer_end_le [of s] by simp
  show ?thesis
    using r d integer_end_le [of s]
    by (simp add: number_end_def Let_def integer_end_append fraction_end_append exponent_end_append)
qed

lemma nat_text_digits: "list_all is_digit (nat_text n)"
proof (induction n rule: nat_text.induct)
  case (1 n)
  have "is_digit (char_of (48 + m))" if "m < 10" for m :: nat
    using that by (simp add: is_digit_def of_char_of)
  with 1 show ?case by (subst nat_text.simps) simp
qed

lemma nat_text_nonempty: "nat_text n \<noteq> []"
  by (subst nat_text.simps) simp

lemma digits_value_nat_text: "digits_value (nat_text n) = int n"
proof (induction n rule: nat_text.induct)
  case (1 n)
  show ?case
  proof (cases "n < 10")
    case True
    then show ?thesis by (subst nat_text.simps) (simp add: digits_value_def digit_value_def of_char_of)
  next
    case False
    then have "digits_value (nat_text n) = 10 * digits_value (nat_text (n div 10)) + digit_value (char_of (48 + n mod 10))"
      by (subst nat_text.simps) (simp add: digits_value_def)
    also have "\<dots> = 10 * int (n div 10) + int (n mod 10)"
      using 1 False by (simp add: digit_value_def of_char_of)
    also have "\<dots> = int n" by presburger
    finally show ?thesis .
  qed
qed
lemma nat_text_head: "hd (nat_text n) = CHR ''0'' \<Longrightarrow> nat_text n = ''0''"
proof (induction n rule: nat_text.induct)
  case (1 n)
  show ?case
  proof (cases "n < 10")
    case True
    then have "nat_text n = [char_of (48 + n)]" by (simp add: nat_text.simps)
    with 1 show ?thesis by simp
  next
    case False
    then have n: "nat_text n = nat_text (n div 10) @ [char_of (48 + n mod 10)]"
      by (subst nat_text.simps) simp
    with 1 False nat_text_nonempty have z: "nat_text (n div 10) = ''0''" by simp
    have "n div 10 \<noteq> 0" using False by simp
    have "digits_value (nat_text (n div 10)) = int (n div 10)" by (rule digits_value_nat_text)
    with z have "int (n div 10) = 0" by (simp add: digits_value_def digit_value_def)
    with False show ?thesis by simp
  qed
qed

lemma number_end_nat: "number_end (nat_text n) = (length (nat_text n), 0)"
proof -
  obtain c t where ct: "nat_text n = c # t" using nat_text_nonempty by (cases "nat_text n") auto
  have "takeWhile is_digit (c # t) = c # t"
    using nat_text_digits [of n] unfolding ct takeWhile_eq_all_conv list_all_iff by blast
  then have "integer_end (nat_text n) = length (nat_text n)"
    using nat_text_head [of n] ct by (auto simp: integer_end_def digits_end_def)
  then show ?thesis by (simp add: number_end_def Let_def fraction_end_def exponent_end_def)
qed

lemma parse_number_int: "stops rest \<Longrightarrow> parse_number F (int_text i @ rest) = Some (PInt i, rest)"
proof -
  assume r: "stops rest"
  have n: "number_end (nat_text k @ rest) = (length (nat_text k), 0)" for k
    using number_end_append [OF r] number_end_nat by simp
  have l: "length (nat_text k) \<noteq> 0" for k using nat_text_nonempty by simp
  have d: "nat_text k @ rest = c # t \<Longrightarrow> c \<noteq> CHR ''-''" for k c t
    using nat_text_digits [of k] nat_text_nonempty [of k] by (cases "nat_text k") (auto simp: is_digit_def)
  show ?thesis
  proof (cases "i < 0")
    case True
    then show ?thesis using n l by (simp add: int_text_def parse_number_def digits_value_nat_text)
  next
    case False
    have "take 1 (nat_text (nat i) @ rest) \<noteq> ''-''"
      using d [of "nat i"] by (cases "nat_text (nat i) @ rest") auto
    with False show ?thesis using n l by (simp add: int_text_def parse_number_def digits_value_nat_text)
  qed
qed

section \<open>Round trip: strings\<close>

lemma control_escape:
  assumes "(of_char c :: nat) < 32"
  shows "unicode_escape (''00'' @ [hex_char (of_char c div 16), hex_char (of_char c mod 16)]) = Some c"
proof -
  have "list_all (\<lambda>n. unicode_escape (''00'' @ [hex_char (n div 16), hex_char (n mod 16)]) = Some (char_of n)) [0..<32]"
    by code_simp
  then show ?thesis using assms by (simp add: list_all_iff)
qed

lemma parse_char: "parse_string (json_char c @ t) = map_option (\<lambda>(u, r). (c # u, r)) (parse_string t)"
proof -
  have char: "c = d \<longleftrightarrow> (of_char c :: nat) = of_char d" for d by simp
  show ?thesis
  proof (cases "(of_char c :: nat) \<in> {34, 92, 10, 13, 9, 12, 8}")
    case True
    then have "c \<in> {CHR 0x22, CHR 0x5C, CHR 0x0A, CHR 0x0D, CHR 0x09, CHR 0x0C, CHR 0x08}"
      by (auto simp: char)
    then show ?thesis by (auto simp: json_char_def)
  next
    case False
    then have n: "c \<noteq> CHR 0x22" "c \<noteq> CHR 0x5C" by (auto simp: char)
    show ?thesis
    proof (cases "(of_char c :: nat) < 32")
      case True
      with False control_escape [OF True] show ?thesis by (simp add: json_char_def Let_def)
    qed (use False n in \<open>simp add: json_char_def Let_def\<close>)
  qed
qed

lemma parse_json_string:
  "\<exists>t. json_string s @ rest = CHR 0x22 # t \<and> parse_string t = Some (s, rest)"
proof -
  have "parse_string (concat (map json_char s) @ CHR 0x22 # rest) = Some (s, rest)"
    by (induction s) (simp_all add: parse_char)
  then show ?thesis by (simp add: json_string_def)
qed

section \<open>Round trip: values\<close>

text \<open>A value whose text is read back: its keys are distinct and its floats have the text of a float.\<close>

definition float_text :: "(string \<Rightarrow> rat option) \<Rightarrow> string \<Rightarrow> rat \<Rightarrow> bool" where
  "float_text F t r \<longleftrightarrow>
     (let u = (if take 1 t = ''-'' then drop 1 t else t); (i, more) = number_end u
      in i \<noteq> 0 \<and> more \<noteq> 0 \<and> i + more = length u \<and> F t = Some r)
     \<and> list_all (\<lambda>c. 32 \<le> (of_char c :: nat)) t"

fun readable :: "platform \<Rightarrow> (string \<Rightarrow> rat option) \<Rightarrow> pyval \<Rightarrow> bool" where
  "readable P F (PFloat (Finite r)) \<longleftrightarrow> float_text F (float_repr P r) r"
| "readable P F (PFloat _) \<longleftrightarrow> False"
| "readable P F (PList vs) \<longleftrightarrow> list_all (readable P F) vs"
| "readable P F (PDict kvs) \<longleftrightarrow> distinct (map fst kvs) \<and> list_all (\<lambda>(_, v). readable P F v) kvs"
| "readable P F _ \<longleftrightarrow> True"

lemma parse_number_float:
  assumes "float_text F t r" and "stops rest"
  shows "parse_number F (t @ rest) = Some (PFloat (Finite r), rest)"
proof -
  let ?neg = "take 1 t = ''-''"
  let ?u = "if ?neg then drop 1 t else t"
  obtain i more where n: "number_end ?u = (i, more)" by (cases "number_end ?u")
  have v: "i \<noteq> 0" "more \<noteq> 0" "i + more = length ?u" "F t = Some r"
    using assms(1) n by (auto simp: float_text_def Let_def)
  have ne: "t \<noteq> []" using v by (cases t) auto
  then have neg: "take 1 (t @ rest) = ''-'' \<longleftrightarrow> ?neg" by (cases t) auto
  have u: "(if ?neg then drop 1 (t @ rest) else t @ rest) = ?u @ rest" using ne by (cases t) auto
  have e: "number_end (?u @ rest) = (i, more)" using number_end_append [OF assms(2)] n by simp
  have l: "length (t @ rest) - length (?u @ rest) + i + more = length t" using v ne by (cases t) auto
  have d: "drop (i + more) (?u @ rest) = rest" using v by simp
  show ?thesis
    unfolding parse_number_def Let_def neg u e prod.case l d using v by simp
qed


definition separator :: "char \<Rightarrow> string \<Rightarrow> bool" where
  "separator c s \<longleftrightarrow> (\<exists>sp. s = c # sp \<and> list_all is_ws sp)"

lemma skip_ws_simps [simp]: "skip_ws [] = []" "skip_ws (c # s) = (if is_ws c then skip_ws s else c # s)"
  by (simp_all add: skip_ws_def)

lemma skip_ws_append: "list_all is_ws sp \<Longrightarrow> skip_ws (sp @ s) = skip_ws s"
  by (induction sp) auto

lemma not_ws [simp]: "\<not> is_ws CHR '',''" "\<not> is_ws CHR '']''" "\<not> is_ws CHR ''}''" "\<not> is_ws CHR '':''"
  "\<not> is_ws CHR 0x22" "\<not> is_ws CHR ''-''" "\<not> is_ws CHR ''[''" "\<not> is_ws CHR ''{''"
  "\<not> is_ws CHR ''n''" "\<not> is_ws CHR ''t''" "\<not> is_ws CHR ''f''"
  by (simp_all add: is_ws_def)

lemma digit_head:
  assumes "is_digit c"
  shows "\<not> is_ws c" "c \<noteq> CHR '']''" "c \<noteq> CHR ''}''" "c \<noteq> CHR 0x22" "c \<noteq> CHR ''[''" "c \<noteq> CHR ''{''"
    "c \<noteq> CHR ''n''" "c \<noteq> CHR ''t''" "c \<noteq> CHR ''f''"
  using assms by (auto simp: is_digit_def is_ws_def)

text \<open>The first character of a number, and of any value.\<close>

definition number_head :: "string \<Rightarrow> bool" where
  "number_head s \<longleftrightarrow> (\<exists>c t. s = c # t \<and> (is_digit c \<or> c = CHR ''-''))"

lemma int_text_head: "number_head (int_text i)"
proof -
  have "number_head (nat_text n)" for n
    using nat_text_digits [of n] nat_text_nonempty [of n] by (cases "nat_text n") (auto simp: number_head_def)
  then show ?thesis by (auto simp: int_text_def number_head_def)
qed

lemma fst_number_end: "fst (number_end s) = integer_end s"
  by (simp add: number_end_def Let_def)

lemma float_text_head: "float_text F t r \<Longrightarrow> number_head t"
proof -
  assume f: "float_text F t r"
  show ?thesis
  proof (cases "take 1 t = ''-''")
    case True
    then show ?thesis by (cases t) (simp_all add: number_head_def)
  next
    case False
    with f have "integer_end t \<noteq> 0"
      unfolding float_text_def Let_def if_not_P [OF False] by (simp add: case_prod_unfold fst_number_end)
    then show ?thesis by (cases t) (auto simp: number_head_def integer_end_def split: if_splits)
  qed
qed

lemma parse_number_value:
  assumes "number_head s" and "parse_number F (s @ rest) = Some (v, rest)"
  shows "parse_value F (Suc n) (s @ rest) = Some (v, rest)"
proof -
  obtain c t where s: "s = c # t" "is_digit c \<or> c = CHR ''-''" using assms(1) by (auto simp: number_head_def)
  have "c \<noteq> CHR 0x22" "c \<noteq> CHR ''[''" "c \<noteq> CHR ''{''" "c \<noteq> CHR ''n''" "c \<noteq> CHR ''t''" "c \<noteq> CHR ''f''"
    using s(2) digit_head by blast+
  then have "parse_value F (Suc n) (s @ rest) = parse_number F (s @ rest)"
    unfolding s(1) append_Cons parse_value.simps list.case parse_scalar_def by simp
  with assms(2) show ?thesis by (simp only:)
qed

definition value_head :: "string \<Rightarrow> bool" where
  "value_head s \<longleftrightarrow> (\<exists>c t. s = c # t \<and> \<not> is_ws c \<and> c \<noteq> CHR '']'' \<and> c \<noteq> CHR ''}'')"

lemma number_value_head: "number_head s \<Longrightarrow> value_head s"
  using digit_head by (fastforce simp: number_head_def value_head_def)

lemma dumps_head: "readable P F v \<Longrightarrow> value_head (json_dumps P sep ksep v)"
proof (cases v)
  case (PFloat f)
  assume "readable P F v"
  with PFloat obtain r where "f = Finite r" "float_text F (float_repr P r) r" by (cases f) auto
  with PFloat show ?thesis by (simp add: number_value_head float_text_head)
next
  case (PInt i)
  then show ?thesis using number_value_head [OF int_text_head] by simp
qed (auto simp: value_head_def json_string_def)

lemma value_head_skip: "value_head s \<Longrightarrow> skip_ws (s @ rest) = s @ rest"
  by (auto simp: value_head_def)

lemma value_head_close: "value_head s \<Longrightarrow> take 1 (s @ rest) \<noteq> '']'' \<and> take 1 (s @ rest) \<noteq> ''}''"
  by (auto simp: value_head_def)

lemma stops_separator: "separator CHR '','' sep \<Longrightarrow> stops (sep @ rest)"
  by (auto simp: separator_def stops_def)

definition reads :: "(string \<Rightarrow> rat option) \<Rightarrow> string \<Rightarrow> pyval \<Rightarrow> bool" where
  "reads F s v \<longleftrightarrow> value_head s
     \<and> (\<forall>n rest. stops rest \<longrightarrow> 2 * length s + 1 \<le> n \<longrightarrow> parse_value F n (s @ rest) = Some (v, rest))"

lemma parse_items_dumps:
  assumes "separator CHR '','' sep" and "vs \<noteq> []" and "\<And>v. v \<in> set vs \<Longrightarrow> reads F (d v) v"
    and "2 * length (join sep (map d vs)) + 2 \<le> n"
  shows "parse_items F n (join sep (map d vs) @ CHR '']'' # rest) = Some (vs, rest)"
  using assms(2-)
proof (induction vs arbitrary: n)
  case (Cons v vs)
  obtain m where n: "n = Suc m" using Cons.prems(3) by (cases n) auto
  have r: "reads F (d v) v" using Cons.prems(2) by simp
  show ?case
  proof (cases vs)
    case Nil
    have "parse_value F m (d v @ CHR '']'' # rest) = Some (v, CHR '']'' # rest)"
      using r Cons.prems(3) Nil n by (simp add: reads_def stops_def)
    with Nil n show ?thesis by simp
  next
    case (Cons v' vs')
    obtain sp where sep: "sep = CHR '','' # sp" "list_all is_ws sp" using assms(1) by (auto simp: separator_def)
    let ?rest = "join sep (map d vs) @ CHR '']'' # rest"
    have j: "join sep (map d (v # vs)) = d v @ sep @ join sep (map d vs)" using Cons by simp
    have len: "2 * length (join sep (map d vs)) + 2 \<le> m" "2 * length (d v) + 1 \<le> m"
      using Cons.prems(3) n sep unfolding j by simp_all
    have "value_head (d v')" using Cons.prems(2) [of v'] Cons by (simp add: reads_def)
    then have skip: "skip_ws ?rest = ?rest"
      using value_head_skip [of "d v'"] Cons by (cases vs') simp_all
    have "parse_value F m (d v @ sep @ ?rest) = Some (v, sep @ ?rest)"
      using r len(2) stops_separator [OF assms(1)] by (simp add: reads_def)
    moreover have "parse_items F m ?rest = Some (vs, rest)"
      using Cons.IH [OF _ _ len(1)] Cons.prems(2) Cons by simp
    ultimately show ?thesis
      unfolding j n append_assoc using sep skip by (simp add: skip_ws_append)
  qed
qed simp

lemma parse_pairs_dumps:
  assumes "separator CHR '','' sep" and "separator CHR '':'' ksep" and "kvs \<noteq> []"
    and "\<And>k v. (k, v) \<in> set kvs \<Longrightarrow> reads F (d v) v"
    and "2 * length (join sep (map (\<lambda>(k, v). json_string k @ ksep @ d v) kvs)) + 2 \<le> n"
  shows "parse_pairs F n (join sep (map (\<lambda>(k, v). json_string k @ ksep @ d v) kvs) @ CHR ''}'' # rest) = Some (kvs, rest)"
  using assms(3-)
proof (induction kvs arbitrary: n)
  case (Cons p kvs)
  obtain k v where p: "p = (k, v)" by (cases p)
  obtain m where n: "n = Suc m" using Cons.prems(3) by (cases n) auto
  obtain ks where ksep: "ksep = CHR '':'' # ks" "list_all is_ws ks" using assms(2) by (auto simp: separator_def)
  have r: "reads F (d v) v" by (rule Cons.prems(2) [of k]) (simp add: p)
  have v: "skip_ws (ks @ d v @ rest') = d v @ rest'" for rest'
    using r ksep by (simp add: skip_ws_append value_head_skip reads_def)
  let ?d = "\<lambda>(k, v). json_string k @ ksep @ d v"
  show ?case
  proof (cases kvs)
    case Nil
    obtain t where t: "json_string k @ ksep @ d v @ CHR ''}'' # rest = CHR 0x22 # t"
      "parse_string t = Some (k, ksep @ d v @ CHR ''}'' # rest)" using parse_json_string by blast
    have "parse_value F m (d v @ CHR ''}'' # rest) = Some (v, CHR ''}'' # rest)"
      using r Cons.prems(3) Nil n p by (simp add: reads_def stops_def)
    then show ?thesis
      unfolding Nil n p list.map join.simps prod.case append_assoc append_Cons append_Nil parse_pairs.simps
      using t ksep v by simp
  next
    case (Cons q kvs')
    obtain sp where sep: "sep = CHR '','' # sp" "list_all is_ws sp" using assms(1) by (auto simp: separator_def)
    let ?rest = "join sep (map ?d kvs) @ CHR ''}'' # rest"
    have j: "join sep (map ?d (p # kvs)) = json_string k @ ksep @ d v @ sep @ join sep (map ?d kvs)"
      using Cons p by simp
    obtain t where t: "json_string k @ ksep @ d v @ sep @ ?rest = CHR 0x22 # t"
      "parse_string t = Some (k, ksep @ d v @ sep @ ?rest)" using parse_json_string by blast
    have len: "2 * length (join sep (map ?d kvs)) + 2 \<le> m" "2 * length (d v) + 1 \<le> m"
      using Cons.prems(3) n sep unfolding j by simp_all
    have skip: "skip_ws ?rest = ?rest"
      using Cons by (cases kvs') (simp_all add: json_string_def split: prod.split)
    have "parse_value F m (d v @ sep @ ?rest) = Some (v, sep @ ?rest)"
      using r len(2) stops_separator [OF assms(1)] by (simp add: reads_def)
    moreover have "parse_pairs F m ?rest = Some (kvs, rest)"
    proof (rule Cons.IH [OF _ _ len(1)])
      show "reads F (d v) v" if "(k, v) \<in> set kvs" for k v
        by (rule Cons.prems(2) [of k]) (simp add: that)
    qed (simp add: Cons)
    ultimately show ?thesis
      unfolding j n append_assoc parse_pairs.simps t(1) using sep ksep skip t(2) v p by (simp add: skip_ws_append)
  qed
qed simp

lemma parse_list:
  assumes "parse_items F n (s @ CHR '']'' # rest) = Some (vs, rest)" and "value_head s"
  shows "parse_value F (Suc n) (CHR ''['' # s @ CHR '']'' # rest) = Some (PList vs, rest)"
  using assms value_head_skip [OF assms(2)] value_head_close [OF assms(2), of "CHR '']'' # rest"] by simp

lemma parse_dict:
  assumes "parse_pairs F n (CHR 0x22 # s @ CHR ''}'' # rest) = Some (kvs, rest)" and "distinct (map fst kvs)"
  shows "parse_value F (Suc n) (CHR ''{'' # CHR 0x22 # s @ CHR ''}'' # rest) = Some (PDict kvs, rest)"
  using assms by simp

lemma join_head: "xs \<noteq> [] \<Longrightarrow> value_head (hd xs) \<Longrightarrow> value_head (join sep xs)"
  by (cases xs rule: join.cases [of "(sep, xs)" for xs, simplified]) (auto simp: value_head_def)

lemma parse_word:
  assumes "1 \<le> n"
  shows "parse_value F n (CHR ''n'' # CHR ''u'' # CHR ''l'' # CHR ''l'' # rest) = Some (PNone, rest)"
    "parse_value F n (CHR ''t'' # CHR ''r'' # CHR ''u'' # CHR ''e'' # rest) = Some (PBool True, rest)"
    "parse_value F n (CHR ''f'' # CHR ''a'' # CHR ''l'' # CHR ''s'' # CHR ''e'' # rest) = Some (PBool False, rest)"
  using assms by (cases n; simp add: parse_scalar_def literal_def)+

lemma parse_dumps:
  assumes "separator CHR '','' sep" and "separator CHR '':'' ksep" and "readable P F v"
  shows "reads F (json_dumps P sep ksep v) v"
  using assms(3)
proof (induction v)
  case (PFloat f)
  then obtain r where f: "f = Finite r" "float_text F (float_repr P r) r" by (cases f) auto
  have "parse_value F n (float_repr P r @ rest) = Some (PFloat (Finite r), rest)" if "stops rest" "1 \<le> n" for n rest
    using parse_number_value [OF float_text_head parse_number_float] f that by (cases n) auto
  then show ?case using f number_value_head [OF float_text_head] by (simp add: reads_def)
next
  case (PInt i)
  have "parse_value F n (int_text i @ rest) = Some (PInt i, rest)" if "stops rest" "1 \<le> n" for n rest
    using parse_number_value [OF int_text_head parse_number_int] that by (cases n) auto
  then show ?case using number_value_head [OF int_text_head] by (simp add: reads_def)
next
  case (PStr x)
  have "parse_value F (Suc n) (json_string x @ rest) = Some (PStr x, rest)" for n rest
    using parse_json_string [of x rest] by auto
  then have "parse_value F n (json_string x @ rest) = Some (PStr x, rest)" if "1 \<le> n" for n rest
    using that by (cases n) auto
  then show ?case by (simp add: reads_def value_head_def json_string_def)
next
  case (PList vs)
  let ?d = "json_dumps P sep ksep"
  have r: "reads F (?d v) v" if "v \<in> set vs" for v using PList that by (simp add: list_all_iff)
  have "parse_value F n (''['' @ join sep (map ?d vs) @ '']'' @ rest) = Some (PList vs, rest)"
    if fuel: "2 * length (join sep (map ?d vs)) + 5 \<le> n" for n rest
  proof (cases "vs = []")
    case True
    then show ?thesis using fuel by (cases n) simp_all
  next
    case False
    then have "value_head (join sep (map ?d vs))"
      using r [of "hd vs"] by (intro join_head) (simp_all add: reads_def hd_map)
    moreover obtain m where n: "n = Suc m" using fuel by (cases n) auto
    moreover have "parse_items F m (join sep (map ?d vs) @ CHR '']'' # rest) = Some (vs, rest)"
      using fuel n False r by (intro parse_items_dumps [OF assms(1)]) simp_all
    ultimately show ?thesis using parse_list by simp
  qed
  then show ?case by (simp add: reads_def value_head_def)
next
  case (PDict kvs)
  let ?d = "\<lambda>(k, v). json_string k @ ksep @ json_dumps P sep ksep v"
  have r: "reads F (json_dumps P sep ksep v) v" if "(k, v) \<in> set kvs" for k v
    using PDict that by (fastforce simp: list_all_iff)
  have "parse_value F n (''{'' @ join sep (map ?d kvs) @ ''}'' @ rest) = Some (PDict kvs, rest)"
    if fuel: "2 * length (join sep (map ?d kvs)) + 5 \<le> n" for n rest
  proof (cases "kvs = []")
    case True
    then show ?thesis using fuel by (cases n) simp_all
  next
    case False
    then obtain t where t: "join sep (map ?d kvs) = CHR 0x22 # t"
      by (cases kvs; cases "tl kvs") (auto simp: json_string_def)
    obtain m where n: "n = Suc m" using fuel by (cases n) auto
    have "parse_pairs F m (join sep (map ?d kvs) @ CHR ''}'' # rest) = Some (kvs, rest)"
      using fuel n False r by (intro parse_pairs_dumps [OF assms(1,2)]) auto
    then show ?thesis using PDict.prems n t parse_dict [of F m t rest kvs] by simp
  qed
  then show ?case by (simp add: reads_def value_head_def)
next
  case PNone
  show ?case using parse_word [of _ F] by (simp add: reads_def value_head_def)
next
  case (PBool b)
  show ?case using parse_word [of _ F] by (cases b) (simp_all add: reads_def value_head_def)
qed

lemma loads_dumps:
  assumes "separator CHR '','' sep" and "separator CHR '':'' ksep" and "readable P F v"
  shows "json_loads F (json_dumps P sep ksep v) = Some v"
proof -
  let ?s = "json_dumps P sep ksep v"
  have r: "reads F ?s v" using assms by (rule parse_dumps)
  then have "skip_ws ?s = ?s" using value_head_skip [of ?s "[]"] by (simp add: reads_def)
  moreover have "parse_value F (2 * length ?s + 1) (?s @ []) = Some (v, [])"
    using r unfolding reads_def by (blast intro: stops_def [THEN iffD2])
  ultimately show ?thesis by (simp add: json_loads_def del: parse_value.simps)
qed

text \<open>Sorting the keys leaves a readable value readable.\<close>

lemma readable_sort_keys: "readable P F v \<Longrightarrow> readable P F (sort_keys v)"
proof (induction v)
  case (PDict kvs)
  let ?kvs = "map (\<lambda>(k, v). (k, sort_keys v)) kvs"
  have "map fst ?kvs = map fst kvs" by (induction kvs) auto
  then have "distinct (map fst ?kvs)" using PDict.prems by (simp del: map_map)
  then have "distinct (map fst (sort_key fst ?kvs))" by (simp only: distinct_map distinct_sort set_sort)
  moreover have "readable P F (sort_keys v)" if "(k, v) \<in> set kvs" for k v
    using that PDict by (fastforce simp: list_all_iff)
  ultimately show ?case by (auto simp: list_all_iff simp del: map_map)
next
  case (PFloat f)
  then show ?case by (cases f) auto
qed (auto simp: list_all_iff)

lemma readable_json_ok: "readable P F v \<Longrightarrow> json_ok v"
proof (induction v)
  case (PFloat f)
  then show ?case by (cases f) auto
next
  case (PDict kvs)
  then show ?case by (fastforce simp: list_all_iff)
qed (auto simp: list_all_iff)

lemma canonical_separators: "separator CHR '','' '',''" "separator CHR '':'' '':''"
  by (auto simp: separator_def)

lemma canonical_json_read:
  assumes "readable P F v"
  shows "canonical_json P v = Inr (json_dumps P '','' '':'' (sort_keys v))"
    "json_loads F (json_dumps P '','' '':'' (sort_keys v)) = Some (sort_keys v)"
  using assms readable_json_ok loads_dumps [OF canonical_separators readable_sort_keys [OF assms]]
  by (auto simp: canonical_json_def)

text \<open>
  C31: The canonical JSON of a value is read back by the strict JSON reader as that value with
  its keys sorted.
\<close>

theorem json_roundtrip:
  assumes "readable P F v"
  shows "\<exists>text. canonical_json P v = Inr text \<and> json_loads F text = Some (sort_keys v)"
  using canonical_json_read [OF assms] by blast

text \<open>
  C30: Two values have the same canonical JSON exactly when they are equal up to the order of
  dictionary keys, so a digest of the canonical text stands for the value.
\<close>

theorem canonical_text_identifies:
  assumes "readable P F v" and "readable P F v'"
  shows "canonical_json P v = canonical_json P v' \<longleftrightarrow> sort_keys v = sort_keys v'"
  using canonical_json_read [OF assms(1)] canonical_json_read [OF assms(2)]
  by (metis sum.inject(2) option.inject)

end
