(* ===== verification/Redaction.thy ===== *)
theory Redaction
  imports Serialization
begin

text \<open>
  The sanitiser of \<open>audit.py\<close>. Every audit record and every JSON column of the incident
  store passes through \<open>sanitize_audit_value\<close>: values under secret keys are replaced,
  query texts and sampled column values become fingerprints. The lemmas say that nothing
  under a secret key survives, and that sanitising what was read back changes nothing.
\<close>

definition QUERY_KEYS :: "string list" where
  "QUERY_KEYS = [''query'', ''original_query'', ''rewritten_query'', ''blocked_query'', ''blocker_query'']"

definition SECRET_KEY_PARTS :: "string list" where
  "SECRET_KEY_PARTS = [''api_key'', ''authorization'', ''password'', ''secret'', ''token'']"

definition DATA_DISTRIBUTION_KEYS :: "string list" where
  "DATA_DISTRIBUTION_KEYS = [''histogram_bounds'', ''most_common_vals'']"

definition secret_key :: "string \<Rightarrow> bool" where
  "secret_key k \<longleftrightarrow> list_ex (\<lambda>part. contains_text part (lower k)) SECRET_KEY_PARTS"

definition query_key :: "string \<Rightarrow> bool" where
  "query_key k \<longleftrightarrow> List.member QUERY_KEYS (lower k)"

definition distribution_key :: "string \<Rightarrow> bool" where
  "distribution_key k \<longleftrightarrow> List.member DATA_DISTRIBUTION_KEYS (lower k)"

definition REDACTED :: pyval where
  "REDACTED = PStr ''[REDACTED]''"

definition fingerprint_text :: "platform \<Rightarrow> string \<Rightarrow> pyval" where
  "fingerprint_text P s = PDict
     [(''redacted'', PBool True), (''sha256'', PStr (sha256_hex P s)),
      (''characters'', PInt (int (length s)))]"

definition fingerprint_values :: "platform \<Rightarrow> pyval \<Rightarrow> pyval" where
  "fingerprint_values P v = PDict
     [(''redacted'', PBool True),
      (''sha256'', PStr (sha256_hex P (json_dumps P '', '' '': '' (sort_keys v))))]"

text \<open>The three key tests come first, in the code's order; then the value is walked.\<close>

fun sanitize_audit_value :: "platform \<Rightarrow> string option \<Rightarrow> pyval \<Rightarrow> pyval" where
  "sanitize_audit_value P key v =
     (case key of
        Some k \<Rightarrow>
          if k \<noteq> [] \<and> secret_key k then REDACTED
          else if query_key k \<and> is_str v \<and> \<not> include_query_text P
          then fingerprint_text P (str_of v)
          else if distribution_key k \<and> v \<noteq> PNone then fingerprint_values P v
          else (case v of
              PDict kvs \<Rightarrow> PDict (map (\<lambda>(k', v'). (k', sanitize_audit_value P (Some k') v')) kvs)
            | PList xs \<Rightarrow> PList (map (sanitize_audit_value P None) xs)
            | _ \<Rightarrow> v)
      | None \<Rightarrow>
          (case v of
              PDict kvs \<Rightarrow> PDict (map (\<lambda>(k', v'). (k', sanitize_audit_value P (Some k') v')) kvs)
            | PList xs \<Rightarrow> PList (map (sanitize_audit_value P None) xs)
            | _ \<Rightarrow> v))"

declare sanitize_audit_value.simps [simp del]

text \<open>What the walk does when no key test applies.\<close>

definition walk :: "platform \<Rightarrow> pyval \<Rightarrow> pyval" where
  "walk P v = sanitize_audit_value P None v"

lemma walk_simps [simp]:
  "walk P (PDict kvs) = PDict (map (\<lambda>(k, v). (k, sanitize_audit_value P (Some k) v)) kvs)"
  "walk P (PList xs) = PList (map (walk P) xs)"
  "walk P PNone = PNone" "walk P (PBool b) = PBool b" "walk P (PInt i) = PInt i"
  "walk P (PFloat f) = PFloat f" "walk P (PStr s) = PStr s"
  by (simp_all add: walk_def sanitize_audit_value.simps)

lemma sanitize_None: "sanitize_audit_value P None v = walk P v"
  by (simp add: walk_def)

lemma sanitize_Some:
  "sanitize_audit_value P (Some k) v =
     (if k \<noteq> [] \<and> secret_key k then REDACTED
      else if query_key k \<and> is_str v \<and> \<not> include_query_text P then fingerprint_text P (str_of v)
      else if distribution_key k \<and> v \<noteq> PNone then fingerprint_values P v
      else walk P v)"
  by (simp add: walk_def sanitize_audit_value.simps [of P "Some k"]
      sanitize_audit_value.simps [of P None])

lemma not_secret_Nil: "\<not> secret_key []"
  by (simp add: secret_key_def SECRET_KEY_PARTS_def lower_def)

text \<open>No value under a secret key survives, at any depth.\<close>

fun secrets_redacted :: "pyval \<Rightarrow> bool" where
  "secrets_redacted (PDict kvs) =
     list_all (\<lambda>(k, v). (secret_key k \<longrightarrow> v = REDACTED) \<and> secrets_redacted v) kvs"
| "secrets_redacted (PList xs) = list_all secrets_redacted xs"
| "secrets_redacted _ = True"

lemma fingerprints_redacted [simp]:
  "secrets_redacted REDACTED" "secrets_redacted (fingerprint_text P s)"
  "secrets_redacted (fingerprint_values P v)"
  by (simp_all add: REDACTED_def fingerprint_text_def fingerprint_values_def secret_key_def
      SECRET_KEY_PARTS_def lower_def lower_char_def)

lemma walk_redacts: "secrets_redacted (walk P v)"
proof (induction v)
  case (PDict kvs)
  have "(secret_key k \<longrightarrow> sanitize_audit_value P (Some k) v = REDACTED)
      \<and> secrets_redacted (sanitize_audit_value P (Some k) v)" if "(k, v) \<in> set kvs" for k v
  proof -
    from that have "secrets_redacted (walk P v)" using PDict by fastforce
    then show ?thesis using not_secret_Nil by (auto simp: sanitize_Some)
  qed
  then show ?case by (auto simp: list_all_iff)
qed (auto simp: list_all_iff)

text \<open>
  Reading a persisted value back and sanitising it again gives the same value, as long as
  no sampled column values are in it (those are fingerprinted anew each time).
\<close>

fun no_distribution :: "pyval \<Rightarrow> bool" where
  "no_distribution (PDict kvs) =
     list_all (\<lambda>(k, v). (distribution_key k \<longrightarrow> v = PNone) \<and> no_distribution v) kvs"
| "no_distribution (PList xs) = list_all no_distribution xs"
| "no_distribution _ = True"

lemma walk_fingerprint [simp]: "walk P (fingerprint_text Q s) = fingerprint_text Q s"
  by (simp add: fingerprint_text_def sanitize_Some secret_key_def SECRET_KEY_PARTS_def
      query_key_def QUERY_KEYS_def distribution_key_def DATA_DISTRIBUTION_KEYS_def
      lower_def lower_char_def)

lemma fingerprint_shape: "\<not> is_str (fingerprint_text P s)" "fingerprint_text P s \<noteq> PNone"
  by (simp_all add: fingerprint_text_def)

lemma query_not_distribution: "query_key k \<Longrightarrow> \<not> distribution_key k"
  by (auto simp: query_key_def distribution_key_def QUERY_KEYS_def DATA_DISTRIBUTION_KEYS_def)

lemma sanitize_Some_idem:
  assumes "walk P (walk P v) = walk P v" and "distribution_key k \<longrightarrow> v = PNone"
    and "is_str (walk P v) = is_str v"
  shows "sanitize_audit_value P (Some k) (sanitize_audit_value P (Some k) v)
    = sanitize_audit_value P (Some k) v"
  using assms query_not_distribution [of k]
  by (auto simp: sanitize_Some fingerprint_shape)

lemma is_str_walk [simp]: "is_str (walk P v) = is_str v"
  by (cases v) simp_all

lemma walk_idem: "no_distribution v \<Longrightarrow> walk P (walk P v) = walk P v"
proof (induction v)
  case (PDict kvs)
  have "sanitize_audit_value P (Some k) (sanitize_audit_value P (Some k) v)
      = sanitize_audit_value P (Some k) v" if "(k, v) \<in> set kvs" for k v
  proof (rule sanitize_Some_idem)
    have "no_distribution v \<and> (distribution_key k \<longrightarrow> v = PNone)"
      using PDict.prems that by (auto simp: list_all_iff)
    then show "walk P (walk P v) = walk P v" "distribution_key k \<longrightarrow> v = PNone"
      using PDict.IH that by fastforce+
  qed simp
  then show ?case by (auto simp: list_all_iff)
qed (auto simp: list_all_iff)

end
