(* ===== verification/AuditLog.thy ===== *)
theory AuditLog
  imports Json Redaction
begin

text \<open>
  The append-only log of \<open>audit.py\<close>: one JSON object per line, each with an envelope that has its
  sequence number, the hash of its predecessor and its own hash. \<open>verify_audit_log\<close> reads the
  whole log; \<open>write_audit_log\<close> appends to a log it has just verified, under the same lock. The
  file is its text; the lock and the file system are left out, and so are bytes that are no
  UTF-8, which the code reports as the malformed line they are here.
\<close>

section \<open>Lines\<close>

abbreviation NL :: char where "NL \<equiv> CHR 0x0A"

text \<open>The lines of a file, each with its line feed; the last one may lack it.\<close>

fun physical_lines :: "string \<Rightarrow> string list" where
  "physical_lines [] = []"
| "physical_lines (c # s) =
     (if c = NL then [NL] # physical_lines s
      else (case physical_lines s of [] \<Rightarrow> [[c]] | l # ls \<Rightarrow> (c # l) # ls))"

definition ends_line :: "string \<Rightarrow> bool" where
  "ends_line l \<longleftrightarrow> l \<noteq> [] \<and> last l = NL"

text \<open>\<open>physical_line.rstrip(b"\r\n")\<close>\<close>

definition raw_line :: "string \<Rightarrow> string" where
  "raw_line l = rev (dropWhile (\<lambda>c. c = CHR 0x0D \<or> c = NL) (rev l))"

section \<open>Records\<close>

definition AUDIT_CHAIN_VERSION :: int where
  "AUDIT_CHAIN_VERSION = 1"

definition metadata :: "pyval \<Rightarrow> pyval \<Rightarrow> pyval \<Rightarrow> pyval \<Rightarrow> pyval" where
  "metadata version sequence previous anchor = PDict
     [(''schema_version'', version), (''sequence'', sequence), (''previous_hash'', previous), (''anchor'', anchor)]"

definition chain_entry :: "pyval \<Rightarrow> pyval \<Rightarrow> pyval" where
  "chain_entry record meta = PDict [(''metadata'', meta), (''record'', record)]"

definition chain_hash :: "platform \<Rightarrow> pyval \<Rightarrow> pyval \<Rightarrow> string exc" where
  "chain_hash P record meta = json_digest P (chain_entry record meta)"

definition raw_line_hash :: "platform \<Rightarrow> string \<Rightarrow> string" where
  "raw_line_hash P raw = sha256_hex P raw"

definition ENVELOPE_KEYS :: "string list" where
  "ENVELOPE_KEYS = [''schema_version'', ''sequence'', ''previous_hash'', ''anchor'', ''record_hash'']"

fun is_plain_int :: "pyval \<Rightarrow> bool" where
  "is_plain_int (PInt _) = True"
| "is_plain_int _ = False"

definition valid_envelope :: "pyval \<Rightarrow> bool" where
  "valid_envelope e = (case e of
     PDict kvs \<Rightarrow> set (map fst kvs) = set ENVELOPE_KEYS
       \<and> is_plain_int (dget e ''schema_version'') \<and> is_plain_int (dget e ''sequence'')
   | _ \<Rightarrow> False)"

definition has_key :: "string \<Rightarrow> pyval \<Rightarrow> bool" where
  "has_key k v = (case v of PDict kvs \<Rightarrow> List.member (map fst kvs) k | _ \<Rightarrow> False)"

definition without_key :: "string \<Rightarrow> pyval \<Rightarrow> pyval" where
  "without_key k v = (case v of PDict kvs \<Rightarrow> PDict (filter (\<lambda>(k', _). k' \<noteq> k) kvs) | _ \<Rightarrow> v)"

definition envelope_metadata :: "pyval \<Rightarrow> pyval" where
  "envelope_metadata e = metadata (dget e ''schema_version'') (dget e ''sequence'')
     (dget e ''previous_hash'') (dget e ''anchor'')"

section \<open>Verification\<close>

record audit_scan =
  sc_records :: nat
  sc_legacy :: nat
  sc_chained :: nat
  sc_previous :: "string option"
  sc_raw :: "string option"
  sc_started :: bool

definition start_scan :: audit_scan where
  "start_scan = \<lparr>sc_records = 0, sc_legacy = 0, sc_chained = 0, sc_previous = None, sc_raw = None,
     sc_started = False\<rparr>"

definition opt_str :: "string option \<Rightarrow> pyval" where
  "opt_str h = (case h of None \<Rightarrow> PNone | Some s \<Rightarrow> PStr s)"

definition expected_previous :: "platform \<Rightarrow> audit_scan \<Rightarrow> pyval" where
  "expected_previous P a = (if sc_chained a = 0 then opt_str (map_option (raw_line_hash P) (sc_raw a))
     else opt_str (sc_previous a))"

definition expected_anchor :: "audit_scan \<Rightarrow> pyval" where
  "expected_anchor a = (if sc_chained a = 0
     then PStr (if sc_raw a = None then ''genesis'' else ''legacy_tail_sha256'') else PNone)"

definition chain_error :: "platform \<Rightarrow> audit_scan \<Rightarrow> pyval \<Rightarrow> string \<Rightarrow> string option" where
  "chain_error P a envelope expected_hash = first_error
     [(\<not> py_eq (dget envelope ''schema_version'') (PInt AUDIT_CHAIN_VERSION), ''UNSUPPORTED_AUDIT_CHAIN_VERSION''),
      (\<not> py_eq (dget envelope ''sequence'') (PInt (int (sc_chained a) + 1)), ''AUDIT_SEQUENCE_MISMATCH''),
      (\<not> py_eq (dget envelope ''previous_hash'') (expected_previous P a), ''AUDIT_PREVIOUS_HASH_MISMATCH''),
      (\<not> py_eq (dget envelope ''anchor'') (expected_anchor a), ''AUDIT_ANCHOR_MISMATCH''),
      (\<not> py_eq (dget envelope ''record_hash'') (PStr expected_hash), ''AUDIT_RECORD_HASH_MISMATCH'')]"

text \<open>One turn of the loop: the scan goes on, or stops with an error.\<close>

datatype line_result = Next audit_scan | Bad string audit_scan

definition verify_chained :: "platform \<Rightarrow> audit_scan \<Rightarrow> pyval \<Rightarrow> line_result exc" where
  "verify_chained P a decoded =
     (let envelope = dget decoded ''_audit'' in
      ebind (chain_hash P (without_key ''_audit'' decoded) (envelope_metadata envelope)) (\<lambda>expected_hash.
        case chain_error P a envelope expected_hash of
          Some e \<Rightarrow> Inr (Bad e a)
        | None \<Rightarrow> Inr (Next (a\<lparr>sc_started := True, sc_chained := Suc (sc_chained a),
                               sc_previous := Some expected_hash\<rparr>))))"

definition verify_record :: "platform \<Rightarrow> audit_scan \<Rightarrow> string \<Rightarrow> pyval \<Rightarrow> line_result exc" where
  "verify_record P a raw decoded =
     (let b = a\<lparr>sc_records := Suc (sc_records a)\<rparr>; envelope = dget decoded ''_audit'' in
      if \<not> is_dict decoded then Inr (Bad ''AUDIT_RECORD_NOT_OBJECT'' b)
      else if has_key ''_audit'' decoded \<and> \<not> valid_envelope envelope
      then Inr (Bad ''MALFORMED_AUDIT_ENVELOPE'' b)
      else if \<not> is_dict envelope
      then (if sc_started b then Inr (Bad ''UNCHAINED_RECORD_AFTER_CHAIN'' b)
            else Inr (Next (b\<lparr>sc_legacy := Suc (sc_legacy b), sc_raw := Some raw\<rparr>)))
      else verify_chained P b decoded)"

definition verify_line ::
  "platform \<Rightarrow> (string \<Rightarrow> rat option) \<Rightarrow> audit_scan \<Rightarrow> string \<Rightarrow> line_result exc" where
  "verify_line P F a l =
     (if \<not> ends_line l then Inr (Bad ''INCOMPLETE_AUDIT_LINE'' a)
      else if raw_line l = [] then Inr (Bad ''BLANK_AUDIT_LINE'' a)
      else case json_loads F (raw_line l) of
          None \<Rightarrow> Inr (Bad ''MALFORMED_AUDIT_RECORD'' a)
        | Some decoded \<Rightarrow> verify_record P a (raw_line l) decoded)"

text \<open>All lines; an error carries the number of its line.\<close>

fun verify_lines ::
  "platform \<Rightarrow> (string \<Rightarrow> rat option) \<Rightarrow> nat \<Rightarrow> audit_scan \<Rightarrow> string list \<Rightarrow>
   (audit_scan \<times> (string \<times> nat) option) exc" where
  "verify_lines P F n a [] = Inr (a, None)"
| "verify_lines P F n a (l # ls) =
     ebind (verify_line P F a l) (\<lambda>r. case r of
       Bad e b \<Rightarrow> Inr (b, Some (e, n))
     | Next b \<Rightarrow> verify_lines P F (Suc n) b ls)"

record verification =
  log_valid :: bool
  log_records :: nat
  log_legacy :: nat
  log_chained :: nat
  log_head :: "string option"
  log_error :: "(string \<times> nat) option"

definition verification_result :: "audit_scan \<Rightarrow> (string \<times> nat) option \<Rightarrow> verification" where
  "verification_result a e = \<lparr>log_valid = (e = None), log_records = sc_records a, log_legacy = sc_legacy a,
     log_chained = sc_chained a, log_head = sc_previous a, log_error = e\<rparr>"

text \<open>A log that does not exist is empty.\<close>

definition verify_audit_log :: "platform \<Rightarrow> (string \<Rightarrow> rat option) \<Rightarrow> string \<Rightarrow> verification exc" where
  "verify_audit_log P F file =
     ebind (verify_lines P F 1 start_scan (physical_lines file)) (\<lambda>(a, e). Inr (verification_result a e))"

section \<open>Appending\<close>

definition audit_integrity_error :: exn where
  "audit_integrity_error = OtherException ''AuditIntegrityError''"

text \<open>The last line with text in it: what a first chained record is anchored to.\<close>

definition legacy_tail :: "string \<Rightarrow> string option" where
  "legacy_tail file = (case filter (\<lambda>raw. raw \<noteq> []) (map raw_line (physical_lines file)) of
     [] \<Rightarrow> None | raws \<Rightarrow> Some (last raws))"

definition next_link :: "platform \<Rightarrow> string \<Rightarrow> verification \<Rightarrow> (pyval \<times> pyval) exc" where
  "next_link P file v =
     (if log_head v = None \<and> log_legacy v \<noteq> 0
      then (case legacy_tail file of None \<Rightarrow> Inl audit_integrity_error
            | Some raw \<Rightarrow> Inr (PStr (raw_line_hash P raw), PStr ''legacy_tail_sha256''))
      else Inr (opt_str (log_head v), if log_chained v = 0 then PStr ''genesis'' else PNone))"

definition audit_envelope :: "pyval \<Rightarrow> string \<Rightarrow> pyval" where
  "audit_envelope meta h = PDict
     [(''schema_version'', dget meta ''schema_version''), (''sequence'', dget meta ''sequence''),
      (''previous_hash'', dget meta ''previous_hash''), (''anchor'', dget meta ''anchor''),
      (''record_hash'', PStr h)]"

definition audit_line :: "platform \<Rightarrow> pyval \<Rightarrow> pyval \<Rightarrow> string exc" where
  "audit_line P record meta =
     ebind (chain_hash P record meta) (\<lambda>h.
       case record of
         PDict kvs \<Rightarrow> Inr (json_dumps P '', '' '': '' (PDict ((''_audit'', audit_envelope meta h) # kvs)) @ [NL])
       | _ \<Rightarrow> Inl (TypeError ''argument after ** must be a mapping''))"

definition write_audit_log ::
  "platform \<Rightarrow> (string \<Rightarrow> rat option) \<Rightarrow> pyval \<Rightarrow> string \<Rightarrow> string exc" where
  "write_audit_log P F record file =
     (let sanitized = sanitize_audit_value P None record in
      if \<not> is_dict sanitized then Inl (TypeError ''Audit records must be objects.'')
      else
       ebind (verify_audit_log P F file) (\<lambda>v.
         if \<not> log_valid v then Inl audit_integrity_error
         else
          ebind (next_link P file v) (\<lambda>(previous, anchor).
          ebind (audit_line P (without_key ''_audit'' sanitized)
                  (metadata (PInt AUDIT_CHAIN_VERSION) (PInt (int (log_chained v) + 1)) previous anchor)) (\<lambda>l.
            Inr (file @ l)))))"

section \<open>Lines, again\<close>

lemma concat_physical: "concat (physical_lines s) = s"
proof (induction s)
  case (Cons c s)
  then show ?case by (cases "physical_lines s") auto
qed simp

lemma physical_append: "s = [] \<or> last s = NL \<Longrightarrow> physical_lines (s @ t) = physical_lines s @ physical_lines t"
proof (induction s)
  case (Cons c s)
  show ?case
  proof (cases "s = []")
    case True
    with Cons show ?thesis by simp
  next
    case False
    with Cons have IH: "physical_lines (s @ t) = physical_lines s @ physical_lines t" by simp
    have "physical_lines s \<noteq> []" using False concat_physical [of s] by auto
    with IH show ?thesis by (cases "physical_lines s") auto
  qed
qed simp

lemma physical_single: "NL \<notin> set l \<Longrightarrow> physical_lines (l @ [NL]) = [l @ [NL]]"
  by (induction l) auto

lemma lines_end: "list_all ends_line (physical_lines s) \<Longrightarrow> s = [] \<or> last s = NL"
proof (cases "s = []")
  case False
  assume all: "list_all ends_line (physical_lines s)"
  have ne: "physical_lines s \<noteq> []" using False concat_physical [of s] by auto
  then have "last s = last (last (physical_lines s))"
    using all concat_physical [of s] by (metis (no_types, lifting) append_butlast_last_id concat.simps(1,2) concat_append
        append_Nil2 ends_line_def last_appendR last_in_set list_all_iff)
  with all ne show ?thesis by (simp add: list_all_iff ends_line_def)
qed simp

section \<open>Scanning one line more\<close>

lemma verify_ConsE:
  assumes "verify_lines P F n a (l # ls) = Inr (c, None)"
  obtains b where "verify_line P F a l = Inr (Next b)" "verify_lines P F (Suc n) b ls = Inr (c, None)"
proof -
  from assms obtain r where "verify_line P F a l = Inr r"
    "(case r of Bad e b \<Rightarrow> Inr (b, Some (e, n)) | Next b \<Rightarrow> verify_lines P F (Suc n) b ls) = Inr (c, None)"
    by (auto simp: ebind_Inr_iff)
  with that show thesis by (cases r) auto
qed

lemma verify_snoc:
  "verify_lines P F n a ls = Inr (b, None) \<Longrightarrow>
   verify_lines P F n a (ls @ [l]) = ebind (verify_line P F b l) (\<lambda>r. case r of
       Bad e c \<Rightarrow> Inr (c, Some (e, n + length ls)) | Next c \<Rightarrow> Inr (c, None))"
proof (induction ls arbitrary: n a)
  case (Cons x ls)
  from Cons.prems obtain c where "verify_line P F a x = Inr (Next c)" "verify_lines P F (Suc n) c ls = Inr (b, None)"
    by (rule verify_ConsE)
  with Cons.IH [of "Suc n" c] show ?case by (simp cong: line_result.case_cong)
qed simp

lemma verify_snocE:
  assumes "verify_lines P F n a (ls @ [l]) = Inr (c, None)"
  obtains b where "verify_lines P F n a ls = Inr (b, None)" "verify_line P F b l = Inr (Next c)"
  using assms
proof (induction ls arbitrary: n a thesis)
  case Nil
  from Nil.prems(2) [simplified append_Nil] obtain b where "verify_line P F a l = Inr (Next b)"
    "verify_lines P F (Suc n) b [] = Inr (c, None)" by (rule verify_ConsE)
  with Nil.prems(1) [of a] show ?case by simp
next
  case (Cons x ls)
  from Cons.prems(2) [simplified append_Cons] obtain b where b: "verify_line P F a x = Inr (Next b)"
    "verify_lines P F (Suc n) b (ls @ [l]) = Inr (c, None)" by (rule verify_ConsE)
  from Cons.IH [OF _ b(2)] obtain d where "verify_lines P F (Suc n) b ls = Inr (d, None)"
    "verify_line P F d l = Inr (Next c)" by blast
  with b(1) show ?case by (intro Cons.prems(1) [of d]) simp_all
qed

lemma verify_lineE:
  assumes "verify_line P F a l = Inr (Next b)"
  obtains decoded where "ends_line l" "raw_line l \<noteq> []" "json_loads F (raw_line l) = Some decoded"
    "verify_record P a (raw_line l) decoded = Inr (Next b)"
  using assms by (auto simp: verify_line_def split: if_splits option.splits)

lemma verify_recordE:
  assumes "verify_record P a raw decoded = Inr (Next b)"
  obtains (legacy) "\<not> is_dict (dget decoded ''_audit'')" "\<not> sc_started a"
      "b = a\<lparr>sc_records := Suc (sc_records a), sc_legacy := Suc (sc_legacy a), sc_raw := Some raw\<rparr>"
  | (chained) h where "valid_envelope (dget decoded ''_audit'')" "is_dict decoded"
      "chain_hash P (without_key ''_audit'' decoded) (envelope_metadata (dget decoded ''_audit'')) = Inr h"
      "chain_error P a (dget decoded ''_audit'') h = None"
      "b = a\<lparr>sc_records := Suc (sc_records a), sc_started := True, sc_chained := Suc (sc_chained a), sc_previous := Some h\<rparr>"
proof -
  have key: "is_dict (dget decoded ''_audit'') \<Longrightarrow> has_key ''_audit'' decoded"
    by (auto simp: has_key_def dget_def split: pyval.splits option.splits dest!: map_of_SomeD intro!: image_eqI [where x = "(''_audit'', x)" for x])
  show thesis
    using assms key legacy chained
    by (auto simp: verify_record_def verify_chained_def Let_def ebind_Inr_iff chain_error_def expected_previous_def
        expected_anchor_def split: if_splits option.splits)
qed

text \<open>What a scan without error knows of the lines it has read.\<close>

definition scan_of :: "audit_scan \<Rightarrow> string list \<Rightarrow> bool" where
  "scan_of a ls \<longleftrightarrow> list_all (\<lambda>l. ends_line l \<and> raw_line l \<noteq> []) ls
     \<and> sc_records a = length ls \<and> sc_records a = sc_legacy a + sc_chained a
     \<and> (sc_started a \<longleftrightarrow> sc_chained a \<noteq> 0)
     \<and> (sc_previous a = None \<longleftrightarrow> sc_chained a = 0)
     \<and> (sc_raw a = None \<longleftrightarrow> sc_legacy a = 0)
     \<and> (sc_chained a = 0 \<and> ls \<noteq> [] \<longrightarrow> sc_raw a = Some (raw_line (last ls)))"

lemma verify_scan: "verify_lines P F n start_scan ls = Inr (a, None) \<Longrightarrow> scan_of a ls"
proof (induction ls arbitrary: a rule: rev_induct)
  case Nil
  then show ?case by (auto simp: start_scan_def scan_of_def)
next
  case (snoc l ls)
  from snoc.prems obtain b where b: "verify_lines P F n start_scan ls = Inr (b, None)"
    "verify_line P F b l = Inr (Next a)" by (rule verify_snocE)
  from snoc.IH [OF b(1)] have s: "scan_of b ls" .
  from b(2) obtain decoded where "ends_line l" "raw_line l \<noteq> []"
    "verify_record P b (raw_line l) decoded = Inr (Next a)" by (rule verify_lineE)
  from this(3) show ?case
    using s \<open>ends_line l\<close> \<open>raw_line l \<noteq> []\<close> by (cases rule: verify_recordE) (auto simp: scan_of_def)
qed

section \<open>The line that is written\<close>

definition printable :: "string \<Rightarrow> bool" where
  "printable s \<longleftrightarrow> list_all (\<lambda>c. 32 \<le> (of_char c :: nat)) s"

lemma printable_simps [simp]: "printable []" "printable (c # s) \<longleftrightarrow> 32 \<le> (of_char c :: nat) \<and> printable s"
  "printable (s @ t) \<longleftrightarrow> printable s \<and> printable t"
  by (simp_all add: printable_def)

lemma printable_join:
  "printable sep \<Longrightarrow> (\<And>x. x \<in> set xs \<Longrightarrow> printable x) \<Longrightarrow> printable (join sep xs)"
  by (induction sep xs rule: join.induct) auto

lemma printable_json_string: "printable (json_string s)"
proof -
  have "printable (json_char c)" for c
    by (auto simp: json_char_def Let_def hex_char_def of_char_of)
  then have "printable (concat (map json_char s))" by (induction s) simp_all
  then show ?thesis by (simp add: json_string_def)
qed

lemma printable_int: "printable (int_text i)"
proof -
  have "printable (nat_text n)" for n
    using nat_text_digits [of n] by (auto simp: printable_def list_all_iff is_digit_def)
  then show ?thesis by (simp add: int_text_def)
qed

lemma printable_dumps:
  assumes "printable sep" and "printable ksep" and "readable P F v"
  shows "printable (json_dumps P sep ksep v)"
  using assms(3)
proof (induction v)
  case (PFloat f)
  then show ?case by (cases f) (auto simp: float_text_def printable_def Let_def)
next
  case (PList vs)
  then have "printable (join sep (map (json_dumps P sep ksep) vs))"
    using assms(1) by (intro printable_join) (auto simp: list_all_iff)
  then show ?case by simp
next
  case (PDict kvs)
  then have "printable (json_string k @ ksep @ json_dumps P sep ksep v)" if "(k, v) \<in> set kvs" for k v
    using that assms(2) printable_json_string by (fastforce simp: list_all_iff)
  then have "printable (join sep (map (\<lambda>(k, v). json_string k @ ksep @ json_dumps P sep ksep v) kvs))"
    using assms(1) by (intro printable_join) auto
  then show ?case by simp
qed (simp_all add: printable_json_string printable_int)

lemma printable_no_newline: "printable s \<Longrightarrow> NL \<notin> set s"
  by (auto simp: printable_def list_all_iff)

lemma raw_line_text: "s \<noteq> [] \<Longrightarrow> last s \<noteq> CHR 0x0D \<Longrightarrow> last s \<noteq> NL \<Longrightarrow> raw_line (s @ [NL]) = s"
  by (cases s rule: rev_cases) (simp_all add: raw_line_def)

lemma audit_line_read:
  assumes "readable P F (PDict kvs)" and "''_audit'' \<notin> fst ` set kvs"
    and "meta = metadata (PInt version) (PInt k) previous anchor"
    and "readable P F previous" and "readable P F anchor"
  obtains h raw where "chain_hash P (PDict kvs) meta = Inr h"
    "audit_line P (PDict kvs) meta = Inr (raw @ [NL])" "raw \<noteq> []" "NL \<notin> set raw" "raw_line (raw @ [NL]) = raw"
    "json_loads F raw = Some (PDict ((''_audit'', audit_envelope meta h) # kvs))"
proof -
  have "json_ok (PDict kvs)" "json_ok previous" "json_ok anchor" using assms readable_json_ok by blast+
  then obtain h where h: "chain_hash P (PDict kvs) meta = Inr h"
    by (simp add: chain_hash_def json_digest_def canonical_json_def chain_entry_def metadata_def assms(3) ebind_def)
  let ?v = "PDict ((''_audit'', audit_envelope meta h) # kvs)"
  let ?raw = "json_dumps P '', '' '': '' ?v"
  have r: "readable P F ?v"
    using assms by (simp add: audit_envelope_def metadata_def dget_def)
  have sep: "separator CHR '','' '', ''" "separator CHR '':'' '': ''"
    by (auto simp: separator_def is_ws_def)
  have "last ?raw = CHR ''}''" by simp
  then have raw: "raw_line (?raw @ [NL]) = ?raw" by (intro raw_line_text) simp_all
  show thesis
  proof (rule that [OF h, of ?raw])
    show "audit_line P (PDict kvs) meta = Inr (?raw @ [NL])" using h by (simp add: audit_line_def)
    show "NL \<notin> set ?raw" by (rule printable_no_newline, rule printable_dumps [OF _ _ r]) simp_all
    show "json_loads F ?raw = Some ?v" using loads_dumps [OF sep r] .
  qed (use raw in simp_all)
qed

lemma next_link_expected:
  assumes "scan_of a (physical_lines file)"
  shows "next_link P file (verification_result a None) = Inr (expected_previous P a, expected_anchor a)"
proof (cases "sc_previous a = None \<and> sc_legacy a \<noteq> 0")
  case True
  let ?ls = "physical_lines file"
  have ne: "?ls \<noteq> []" using assms True by (auto simp: scan_of_def)
  have "filter (\<lambda>raw. raw \<noteq> []) (map raw_line ?ls) = map raw_line ?ls"
    using assms by (auto simp: scan_of_def list_all_iff filter_id_conv)
  then have "legacy_tail file = Some (last (map raw_line ?ls))"
    using ne by (cases ?ls) (simp_all add: legacy_tail_def del: filter.simps)
  then have "legacy_tail file = Some (raw_line (last ?ls))"
    using ne by (simp add: last_map)
  then show ?thesis
    using assms True ne
    by (simp add: next_link_def verification_result_def expected_previous_def expected_anchor_def scan_of_def opt_str_def)
next
  case False
  then show ?thesis
    using assms
    by (auto simp: next_link_def verification_result_def expected_previous_def expected_anchor_def scan_of_def opt_str_def)
qed

lemma filter_missing_key: "k \<notin> fst ` set kvs \<Longrightarrow> filter (\<lambda>(k', _). k' \<noteq> k) kvs = kvs"
  by (force simp: filter_id_conv)

lemma opt_str_readable: "readable P F (opt_str h)" "py_eq (opt_str h) (opt_str h)"
  by (simp_all add: opt_str_def split: option.split)

lemma expected_readable: "readable P F (expected_previous P a)" "readable P F (expected_anchor a)"
  "py_eq (expected_previous P a) (expected_previous P a)" "py_eq (expected_anchor a) (expected_anchor a)"
  by (simp_all add: expected_previous_def expected_anchor_def opt_str_readable)

lemma written_line_verifies:
  assumes "scan_of a ls" and "meta = metadata (PInt AUDIT_CHAIN_VERSION) (PInt (int (sc_chained a) + 1))
      (expected_previous P a) (expected_anchor a)"
    and "chain_hash P (PDict kvs) meta = Inr h" and "''_audit'' \<notin> fst ` set kvs"
    and "json_loads F raw = Some (PDict ((''_audit'', audit_envelope meta h) # kvs))"
    and "raw_line (raw @ [NL]) = raw" and "raw \<noteq> []"
  shows "verify_line P F a (raw @ [NL]) = Inr (Next (a\<lparr>sc_records := Suc (sc_records a), sc_started := True,
    sc_chained := Suc (sc_chained a), sc_previous := Some h\<rparr>))"
proof -
  let ?d = "PDict ((''_audit'', audit_envelope meta h) # kvs)" and ?b = "a\<lparr>sc_records := Suc (sc_records a)\<rparr>"
  have env: "dget ?d ''_audit'' = audit_envelope meta h" by simp
  have rest: "without_key ''_audit'' ?d = PDict kvs"
    using assms(4) by (simp add: without_key_def filter_missing_key)
  have meta: "envelope_metadata (audit_envelope meta h) = meta"
    by (simp add: assms(2) envelope_metadata_def audit_envelope_def metadata_def)
  have valid: "valid_envelope (audit_envelope meta h)"
    by (auto simp: assms(2) valid_envelope_def audit_envelope_def metadata_def ENVELOPE_KEYS_def)
  have same: "expected_previous P ?b = expected_previous P a" "expected_anchor ?b = expected_anchor a"
    by (simp_all add: expected_previous_def expected_anchor_def)
  have "chain_error P ?b (audit_envelope meta h) h = None"
    unfolding chain_error_def same using expected_readable
    by (simp add: assms(2) audit_envelope_def metadata_def)
  then have "verify_record P a raw ?d = Inr (Next (?b\<lparr>sc_started := True, sc_chained := Suc (sc_chained ?b),
      sc_previous := Some h\<rparr>))"
    unfolding verify_record_def verify_chained_def Let_def env rest meta
    using assms(3) valid by (auto simp: audit_envelope_def)
  then show ?thesis
    using assms(5-7) by (simp add: verify_line_def ends_line_def)
qed

text \<open>
  C29: Appending a record to a valid audit log adds one line, which holds the redacted record,
  and leaves the log valid with one chained record more; legacy records stay where they are.
\<close>

theorem audit_append_valid:
  assumes "verify_audit_log P F file = Inr v" and "log_valid v" and "is_dict content"
    and "readable P F (sanitize_audit_value P None content)"
  shows "\<exists>line decoded v'. write_audit_log P F content file = Inr (file @ line)
    \<and> physical_lines (file @ line) = physical_lines file @ [line]
    \<and> json_loads F (raw_line line) = Some decoded
    \<and> without_key ''_audit'' decoded = without_key ''_audit'' (sanitize_audit_value P None content)
    \<and> verify_audit_log P F (file @ line) = Inr v' \<and> log_valid v'
    \<and> log_records v' = log_records v + 1 \<and> log_chained v' = log_chained v + 1 \<and> log_legacy v' = log_legacy v"
proof -
  let ?ls = "physical_lines file"
  obtain a where a: "verify_lines P F 1 start_scan ?ls = Inr (a, None)" and v: "v = verification_result a None"
    using assms(1,2) by (auto simp: verify_audit_log_def ebind_Inr_iff verification_result_def)
  have scan: "scan_of a ?ls" using a by (rule verify_scan)
  obtain items where items: "sanitize_audit_value P None content = PDict items"
    using assms(3) by (cases content) (auto simp: sanitize_None)
  define kvs where "kvs = filter (\<lambda>(k, _). k \<noteq> ''_audit'') items"
  have kvs: "without_key ''_audit'' (PDict items) = PDict kvs" "''_audit'' \<notin> fst ` set kvs"
    by (auto simp: without_key_def kvs_def)
  have read: "readable P F (PDict kvs)"
    using assms(4) unfolding items kvs_def
    by (auto simp: list_all_iff distinct_map inj_on_def)
  define meta where "meta = metadata (PInt AUDIT_CHAIN_VERSION) (PInt (int (sc_chained a) + 1))
      (expected_previous P a) (expected_anchor a)"
  obtain h raw where h: "chain_hash P (PDict kvs) meta = Inr h" and l: "audit_line P (PDict kvs) meta = Inr (raw @ [NL])"
    and raw: "raw \<noteq> []" "NL \<notin> set raw" "raw_line (raw @ [NL]) = raw"
      "json_loads F raw = Some (PDict ((''_audit'', audit_envelope meta h) # kvs))"
    using read kvs(2) meta_def expected_readable(1,2) by (rule audit_line_read)
  have "write_audit_log P F content file = Inr (file @ raw @ [NL])"
    using assms(1,2) next_link_expected [OF scan] l
    by (simp add: write_audit_log_def items kvs v [symmetric] Let_def)
      (simp add: v verification_result_def meta_def)
  moreover have lines: "physical_lines (file @ raw @ [NL]) = ?ls @ [raw @ [NL]]"
  proof -
    have "list_all ends_line ?ls" using scan by (auto simp: scan_of_def list_all_iff)
    then have "file = [] \<or> last file = NL" by (rule lines_end)
    then show ?thesis using physical_append physical_single [OF raw(2)] by simp
  qed
  moreover have "verify_audit_log P F (file @ raw @ [NL]) = Inr (verification_result
      (a\<lparr>sc_records := Suc (sc_records a), sc_started := True, sc_chained := Suc (sc_chained a),
         sc_previous := Some h\<rparr>) None)"
    using verify_snoc [OF a] written_line_verifies [OF scan meta_def h kvs(2) raw(4,3,1)]
    by (simp add: verify_audit_log_def lines)
  moreover have "without_key ''_audit'' (PDict ((''_audit'', audit_envelope meta h) # kvs)) = PDict kvs"
    using kvs(2) by (simp add: without_key_def filter_missing_key)
  ultimately show ?thesis
    using raw(3,4) kvs(1)
    by (intro exI [of _ "raw @ [NL]"] exI [of _ "PDict ((''_audit'', audit_envelope meta h) # kvs)"]
          exI [of _ "verification_result (a\<lparr>sc_records := Suc (sc_records a), sc_started := True,
            sc_chained := Suc (sc_chained a), sc_previous := Some h\<rparr>) None"])
      (simp add: items v verification_result_def)
qed

section \<open>Tampering\<close>

text \<open>
  The chained records of a file with their metadata, in the form whose text is hashed.
\<close>

definition chained_entry :: "(string \<Rightarrow> rat option) \<Rightarrow> string \<Rightarrow> pyval option" where
  "chained_entry F l = (case json_loads F (raw_line l) of None \<Rightarrow> None
     | Some d \<Rightarrow> if is_dict (dget d ''_audit'')
         then Some (sort_keys (chain_entry (without_key ''_audit'' d) (envelope_metadata (dget d ''_audit''))))
         else None)"

definition chained_entries :: "(string \<Rightarrow> rat option) \<Rightarrow> string list \<Rightarrow> pyval list" where
  "chained_entries F ls = List.map_filter (chained_entry F) ls"

definition entry_field :: "pyval \<Rightarrow> string \<Rightarrow> pyval" where
  "entry_field e k = dget (dget e ''metadata'') k"

definition entry_text :: "platform \<Rightarrow> pyval \<Rightarrow> string" where
  "entry_text P e = json_dumps P '','' '':'' e"

text \<open>The chain, last entry first, that ends in the hash \<open>h\<close>.\<close>

fun linked :: "platform \<Rightarrow> pyval list \<Rightarrow> string option \<Rightarrow> bool" where
  "linked P [] h \<longleftrightarrow> h = None"
| "linked P (e # es) h \<longleftrightarrow> h = Some (sha256_hex P (entry_text P e))
     \<and> entry_field e ''sequence'' = PInt (int (length es) + 1)
     \<and> (\<exists>h'. linked P es h' \<and> (es \<noteq> [] \<longrightarrow> entry_field e ''previous_hash'' = opt_str h'))"

lemma entry_fields:
  "entry_field (sort_keys (chain_entry r (metadata v k p a))) ''sequence'' = sort_keys k"
  "entry_field (sort_keys (chain_entry r (metadata v k p a))) ''previous_hash'' = sort_keys p"
  by (simp_all add: entry_field_def chain_entry_def metadata_def dget_def)

lemma chained_entries_snoc: "chained_entries F (ls @ [l]) =
    chained_entries F ls @ (case chained_entry F l of None \<Rightarrow> [] | Some e \<Rightarrow> [e])"
  by (simp add: chained_entries_def map_filter_def split: option.split)

lemma chain_error_None:
  assumes "chain_error P a envelope h = None" and "valid_envelope envelope"
  shows "dget envelope ''sequence'' = PInt (int (sc_chained a) + 1)"
    "sc_chained a \<noteq> 0 \<Longrightarrow> sc_previous a = Some s \<Longrightarrow> dget envelope ''previous_hash'' = PStr s"
proof -
  have "py_eq (dget envelope ''sequence'') (PInt (int (sc_chained a) + 1))"
    and p: "py_eq (dget envelope ''previous_hash'') (expected_previous P a)"
    using assms(1) unfolding chain_error_def first_error_None by simp_all
  moreover have "is_plain_int (dget envelope ''sequence'')"
    using assms(2) by (auto simp: valid_envelope_def split: pyval.splits)
  ultimately show "dget envelope ''sequence'' = PInt (int (sc_chained a) + 1)"
    by (cases "dget envelope ''sequence''") auto
  show "sc_chained a \<noteq> 0 \<Longrightarrow> sc_previous a = Some s \<Longrightarrow> dget envelope ''previous_hash'' = PStr s"
    using p by (simp add: expected_previous_def opt_str_def py_eq_PStr_right)
qed

lemma verify_linked:
  "verify_lines P F n start_scan ls = Inr (a, None) \<Longrightarrow>
     linked P (rev (chained_entries F ls)) (sc_previous a) \<and> sc_chained a = length (chained_entries F ls)"
proof (induction ls arbitrary: a rule: rev_induct)
  case Nil
  then show ?case by (auto simp: start_scan_def chained_entries_def map_filter_def)
next
  case (snoc l ls)
  from snoc.prems obtain b where b: "verify_lines P F n start_scan ls = Inr (b, None)"
    "verify_line P F b l = Inr (Next a)" by (rule verify_snocE)
  note IH = snoc.IH [OF b(1)]
  have scan: "scan_of b ls" using b(1) by (rule verify_scan)
  from b(2) obtain d where d: "json_loads F (raw_line l) = Some d"
    "verify_record P b (raw_line l) d = Inr (Next a)" by (rule verify_lineE)
  from d(2) show ?case
  proof (cases rule: verify_recordE)
    case legacy
    then have "chained_entry F l = None" using d(1) by (simp add: chained_entry_def)
    with IH legacy show ?thesis by (simp add: chained_entries_snoc)
  next
    case (chained h)
    let ?env = "dget d ''_audit''"
    let ?e = "sort_keys (chain_entry (without_key ''_audit'' d) (envelope_metadata ?env))"
    have "is_dict ?env" using chained(1) by (simp add: valid_envelope_def split: pyval.splits)
    then have e: "chained_entry F l = Some ?e" using d(1) by (simp add: chained_entry_def)
    have h: "h = sha256_hex P (entry_text P ?e)"
      using chained(3) by (auto simp: chain_hash_def json_digest_def canonical_json_def entry_text_def ebind_Inr_iff
          split: if_splits)
    have seq: "entry_field ?e ''sequence'' = PInt (int (sc_chained b) + 1)"
      using chain_error_None(1) [OF chained(4,1)] by (simp add: envelope_metadata_def entry_fields)
    have prev: "entry_field ?e ''previous_hash'' = opt_str (sc_previous b)" if some: "sc_chained b \<noteq> 0"
    proof -
      obtain s where s: "sc_previous b = Some s" using scan some by (auto simp: scan_of_def)
      then show ?thesis
        using chain_error_None(2) [OF chained(4,1) some s] by (simp add: envelope_metadata_def entry_fields opt_str_def)
    qed
    show ?thesis
      using IH h seq prev chained(5) e by (auto simp: chained_entries_snoc)
  qed
qed

lemma linked_unique:
  assumes "\<forall>e\<in>set es. \<forall>e'\<in>set es'. sha256_hex P (entry_text P e) = sha256_hex P (entry_text P e')
      \<longrightarrow> entry_text P e = entry_text P e'"
    and "linked P es h" and "linked P es' h" and "list_all (readable P F) es" and "list_all (readable P F) es'"
  shows "es = es'"
  using assms
proof (induction es arbitrary: es' h)
  case Nil
  then show ?case by (cases es') auto
next
  case (Cons e es)
  then obtain e' es'' where es': "es' = e' # es''" by (cases es') auto
  from Cons.prems es' have "entry_text P e = entry_text P e'" by auto
  moreover have "json_loads F (entry_text P v) = Some v" if "readable P F v" for v
    unfolding entry_text_def using that by (rule loads_dumps [OF canonical_separators])
  ultimately have e: "e = e'" using Cons.prems es' by (metis list.pred_inject(2) option.inject)
  have len: "length es = length es''" using Cons.prems es' e by simp
  show ?case
  proof (cases "es = []")
    case True
    with len e es' show ?thesis by simp
  next
    case False
    then have ne: "es'' \<noteq> []" using len by auto
    from Cons.prems(2) False obtain g where g: "linked P es g" "entry_field e ''previous_hash'' = opt_str g" by auto
    from Cons.prems(3) es' ne obtain g' where g': "linked P es'' g'" "entry_field e' ''previous_hash'' = opt_str g'"
      by auto
    have "g = g'" using g(2) g'(2) e by (auto simp: opt_str_def split: option.splits)
    with Cons.IH [where h = g and es' = es''] g g' Cons.prems es' e show ?thesis by simp
  qed
qed

text \<open>
  C28: Two valid audit logs whose chains end in the same hash hold the same chained records
  with the same metadata in the same order, unless two of their records are a collision of the
  hash.
\<close>

theorem audit_tamper_evident:
  assumes "verify_audit_log P F file = Inr v" and "log_valid v"
    and "verify_audit_log P F file' = Inr v'" and "log_valid v'" and "log_head v = log_head v'"
    and "list_all (readable P F) (chained_entries F (physical_lines file))"
    and "list_all (readable P F) (chained_entries F (physical_lines file'))"
  shows "chained_entries F (physical_lines file) = chained_entries F (physical_lines file')
    \<or> (\<exists>e\<in>set (chained_entries F (physical_lines file)). \<exists>e'\<in>set (chained_entries F (physical_lines file')).
         entry_text P e \<noteq> entry_text P e' \<and> sha256_hex P (entry_text P e) = sha256_hex P (entry_text P e'))"
proof (rule disjCI)
  assume no: "\<not> (\<exists>e\<in>set (chained_entries F (physical_lines file)). \<exists>e'\<in>set (chained_entries F (physical_lines file')).
         entry_text P e \<noteq> entry_text P e' \<and> sha256_hex P (entry_text P e) = sha256_hex P (entry_text P e'))"
  have chain: "linked P (rev (chained_entries F (physical_lines f))) (log_head w)"
    if "verify_audit_log P F f = Inr w" "log_valid w" for f w
    using that verify_linked [of P F 1 "physical_lines f"]
    by (auto simp: verify_audit_log_def ebind_Inr_iff verification_result_def)
  have "rev (chained_entries F (physical_lines file)) = rev (chained_entries F (physical_lines file'))"
    using no chain [OF assms(1,2)] chain [OF assms(3,4)] assms(5-7)
    by (intro linked_unique [where P = P and F = F]) auto
  then show "chained_entries F (physical_lines file) = chained_entries F (physical_lines file')" by simp
qed
end
