(* ===== verification/Approval.thy ===== *)
theory Approval
  imports Serialization Timestamps
begin

text \<open>
  \<open>incident_approval.py\<close>: the canonical form of an approved scope, its digest, and the
  validation of an approval context against a proposal at a given time. An approval is an
  untrusted dictionary here; each message the code appends is a constructor of
  \<open>approval_error\<close>.
\<close>

definition APPROVAL_KIND :: string where
  "APPROVAL_KIND = ''LOCK_INCIDENT_APPROVAL''"

section \<open>Canonical scope\<close>

definition canonical_target :: "pyval \<Rightarrow> pyval exc" where
  "canonical_target v =
     (if is_dict v then Inr (PDict
       [(''database_name'', dget v ''database_name''),
        (''blocker_pid'', dget v ''blocker_pid''),
        (''blocker_backend_start'', dget v ''blocker_backend_start''),
        (''blocker_xact_start'', dget v ''blocker_xact_start'')])
      else Inl (AttributeError ''get''))"

text \<open>The tuple of the four fields; tuples compare with \<open>py_eqs\<close>.\<close>

definition target_key :: "pyval \<Rightarrow> pyval list" where
  "target_key v =
     [dget v ''database_name'', dget v ''blocker_pid'',
      dget v ''blocker_backend_start'', dget v ''blocker_xact_start'']"

definition canonical_waiter :: "pyval \<Rightarrow> pyval" where
  "canonical_waiter w = PDict
     [(''blocked_pid'', dget w ''blocked_pid''),
      (''blocked_backend_start'', dget w ''blocked_backend_start''),
      (''blocked_xact_start'', dget w ''blocked_xact_start'')]"

definition waiter_sort_key :: "pyval \<Rightarrow> pyval list" where
  "waiter_sort_key w =
     [py_or (dget w ''blocked_pid'') (PInt 0),
      py_or (dget w ''blocked_backend_start'') (PStr []),
      py_or (dget w ''blocked_xact_start'') (PStr [])]"

definition canonical_action :: "pyval \<Rightarrow> pyval exc" where
  "canonical_action a =
     (if \<not> is_dict a then Inl (AttributeError ''get'') else
      ebind (py_iter (dget_default a ''allowed_blocked_pids'' (PList []))) (\<lambda>pids.
      ebind (py_iter (dget_default a ''approved_waiters'' (PList []))) (\<lambda>waiters.
      ebind (py_sorted waiter_sort_key (map canonical_waiter (filter is_dict waiters))) (\<lambda>ws.
      ebind (canonical_target (dget_default a ''target'' (PDict []))) (\<lambda>t.
        Inr (PDict
          [(''action_id'',
              if is_str (dget a ''action_id'') then dget a ''action_id'' else PStr []),
           (''ordinal'',
              if is_bool (dget a ''ordinal'') \<or> \<not> is_int (dget a ''ordinal'')
              then PInt 0 else dget a ''ordinal''),
           (''target'', t),
           (''allowed_blocked_pids'',
              PList (map PInt (sort (remdups (map int_of (filter is_positive_int pids)))))),
           (''approved_waiters'', PList ws)]))))))"

fun canonical_each :: "pyval list \<Rightarrow> pyval list exc" where
  "canonical_each [] = Inr []"
| "canonical_each (a # as) =
     ebind (canonical_action a) (\<lambda>c. ebind (canonical_each as) (\<lambda>cs. Inr (c # cs)))"

definition canonical_approved_actions :: "pyval list \<Rightarrow> pyval list exc" where
  "canonical_approved_actions actions =
     ebind (canonical_each actions)
       (py_sorted (\<lambda>c. [dget c ''ordinal'', dget c ''action_id'']))"

definition compute_scope_digest ::
  "platform \<Rightarrow> pyval \<Rightarrow> pyval \<Rightarrow> pyval list \<Rightarrow> pyval \<Rightarrow> pyval \<Rightarrow> string exc" where
  "compute_scope_digest P incident_id plan_revision approved_actions max_actions max_risk =
     ebind (canonical_approved_actions approved_actions) (\<lambda>canonical.
       json_digest P (PDict
         [(''incident_id'', incident_id),
          (''plan_revision'', plan_revision),
          (''approved_actions'', PList canonical),
          (''max_actions'', max_actions),
          (''max_risk'', max_risk)]))"

section \<open>Validation\<close>

datatype approval_error =
    Context_not_object
  | Unsupported_kind
  | Approval_revoked
  | Invalid_incident_id
  | Invalid_approval_id
  | Revision_not_positive
  | Invalid_max_actions
  | No_approved_actions
  | Exceeds_action_limit
  | Invalid_approved_at
  | Not_active_yet
  | Invalid_expires_at
  | Approval_expired
  | Expiry_before_approval
  | Risk_not_authorized
  | Digest_missing
  | Scope_not_canonicalizable
  | Digest_mismatch
  | Outside_scope
  | Current_action_mismatch
  | Invalid_confidence

record validation =
  val_valid :: bool
  val_errors :: "approval_error list"
  val_incident_id :: pyval
  val_approval_id :: pyval
  val_action_id :: pyval

text \<open>The approved action whose target and waiters admit the proposal, the first one.\<close>

fun matching_action :: "pyval \<Rightarrow> pyval list \<Rightarrow> pyval option exc" where
  "matching_action proposal [] = Inr None"
| "matching_action proposal (a # as) =
     (if \<not> is_dict a then matching_action proposal as
      else if \<not> is_dict (dget_default a ''target'' (PDict [])) then Inl (AttributeError ''get'')
      else if \<not> py_eqs (target_key (dget_default a ''target'' (PDict []))) (target_key proposal)
      then matching_action proposal as
      else ebind (py_in (dget proposal ''blocked_pid'')
                    (dget_default a ''allowed_blocked_pids'' (PList [])))
             (\<lambda>found. if found then Inr (Some a) else matching_action proposal as))"

definition is_ascii :: "string \<Rightarrow> bool" where
  "is_ascii s = list_all (\<lambda>c. (of_char c :: nat) < 128) s"

text \<open>
  The digest block: nothing is compared when the identifiers have the wrong types, a scope
  that cannot be serialised is an error, and \<open>hmac.compare_digest\<close> refuses other than
  ASCII text.
\<close>

definition digest_errors :: "platform \<Rightarrow> pyval \<Rightarrow> pyval list \<Rightarrow> approval_error list exc" where
  "digest_errors P context approved =
     (case dget context ''scope_digest'' of
        PStr given \<Rightarrow>
          if is_str (dget context ''incident_id'') \<and> is_int (dget context ''plan_revision'')
             \<and> is_int (dget context ''max_actions'')
          then (case compute_scope_digest P (dget context ''incident_id'')
                       (dget context ''plan_revision'') approved
                       (dget context ''max_actions'') (dget context ''max_risk'') of
                  Inl (TypeError _) \<Rightarrow> Inr [Scope_not_canonicalizable]
                | Inl (ValueError _) \<Rightarrow> Inr [Scope_not_canonicalizable]
                | Inl e \<Rightarrow> Inl e
                | Inr expected \<Rightarrow>
                    if \<not> is_ascii given \<or> \<not> is_ascii expected
                    then Inl (TypeError ''comparing strings with non-ASCII characters'')
                    else Inr (if given = expected then [] else [Digest_mismatch]))
          else Inr []
      | _ \<Rightarrow> Inr [Digest_missing])"

definition finite_number :: "pyval \<Rightarrow> bool" where
  "finite_number v \<longleftrightarrow> \<not> is_bool v \<and> num_val v \<noteq> None"

definition identity_errors :: "pyval \<Rightarrow> approval_error list" where
  "identity_errors context = errors_of
     [(\<not> py_eq (dget context ''kind'') (PStr APPROVAL_KIND), Unsupported_kind),
      (dget context ''revoked_at'' \<noteq> PNone, Approval_revoked),
      (\<not> is_valid_uuid (dget context ''incident_id''), Invalid_incident_id),
      (\<not> is_valid_uuid (dget context ''approval_id''), Invalid_approval_id),
      (\<not> is_positive_int (dget context ''plan_revision''), Revision_not_positive),
      (\<not> is_positive_int (dget context ''max_actions'')
         \<or> 100 < int_of (dget context ''max_actions''), Invalid_max_actions)]"

definition approved_list :: "pyval \<Rightarrow> pyval list" where
  "approved_list context = py_items (dget context ''approved_actions'')"

definition scope_size_errors :: "pyval \<Rightarrow> approval_error list" where
  "scope_size_errors context =
     (if approved_list context = [] then [No_approved_actions]
      else if is_int (dget context ''max_actions'')
              \<and> int_of (dget context ''max_actions'') < int (length (approved_list context))
      then [Exceeds_action_limit] else [])"

definition time_errors :: "pyval \<Rightarrow> int \<Rightarrow> approval_error list" where
  "time_errors context now =
     (let approved_at = parse_utc_timestamp (dget context ''approved_at'');
          expires_at = parse_utc_timestamp (dget context ''expires_at'')
      in (case approved_at of None \<Rightarrow> [Invalid_approved_at]
            | Some t \<Rightarrow> if now < t then [Not_active_yet] else [])
       @ (case expires_at of None \<Rightarrow> [Invalid_expires_at]
            | Some t \<Rightarrow> if t \<le> now then [Approval_expired] else [])
       @ (case (approved_at, expires_at) of
            (Some a, Some e) \<Rightarrow> if e \<le> a then [Expiry_before_approval] else []
          | _ \<Rightarrow> []))"

definition validate_approval_context ::
  "platform \<Rightarrow> pyval \<Rightarrow> pyval \<Rightarrow> int \<Rightarrow> validation exc" where
  "validate_approval_context P proposal context now =
     (if \<not> is_dict context
      then Inr \<lparr>val_valid = False, val_errors = [Context_not_object],
                val_incident_id = PNone, val_approval_id = PNone, val_action_id = PNone\<rparr>
      else
        ebind (digest_errors P context (approved_list context)) (\<lambda>digest_errs.
        ebind (matching_action proposal (approved_list context)) (\<lambda>matched.
        if float_overflow (dget proposal ''confidence'') then Inl overflow_error
        else
         (let errors =
            identity_errors context @ scope_size_errors context @ time_errors context now
            @ errors_of [(\<not> py_eq (dget context ''max_risk'') (PStr ''HIGH''), Risk_not_authorized)]
            @ digest_errs
            @ (case matched of None \<Rightarrow> [Outside_scope]
                 | Some a \<Rightarrow> if py_eq (dget context ''current_action_id'') (dget a ''action_id'')
                           then [] else [Current_action_mismatch])
            @ errors_of [(\<not> finite_number (dget proposal ''confidence''), Invalid_confidence)]
          in Inr \<lparr>val_valid = (errors = []), val_errors = errors,
                  val_incident_id = dget context ''incident_id'',
                  val_approval_id = dget context ''approval_id'',
                  val_action_id = (case matched of None \<Rightarrow> PNone | Some a \<Rightarrow> dget a ''action_id'')\<rparr>))))"

section \<open>What a valid approval guarantees\<close>

lemma matching_action_Some:
  assumes "matching_action proposal as = Inr (Some a)"
  shows "a \<in> set as \<and> is_dict a
    \<and> py_eqs (target_key (dget_default a ''target'' (PDict []))) (target_key proposal)
    \<and> py_in (dget proposal ''blocked_pid'') (dget_default a ''allowed_blocked_pids'' (PList []))
      = Inr True"
  using assms
  by (induction proposal as rule: matching_action.induct) (auto simp: ebind_Inr_iff split: if_splits)

definition approval_in_force :: "platform \<Rightarrow> pyval \<Rightarrow> pyval \<Rightarrow> int \<Rightarrow> bool" where
  "approval_in_force P proposal context now \<longleftrightarrow>
     dget context ''kind'' = PStr APPROVAL_KIND \<and> dget context ''revoked_at'' = PNone
   \<and> is_valid_uuid (dget context ''incident_id'') \<and> is_valid_uuid (dget context ''approval_id'')
   \<and> (\<exists>t e. parse_utc_timestamp (dget context ''approved_at'') = Some t
          \<and> parse_utc_timestamp (dget context ''expires_at'') = Some e \<and> t \<le> now \<and> now < e)
   \<and> dget context ''max_risk'' = PStr ''HIGH''
   \<and> (\<exists>n. dget context ''max_actions'' = PInt n \<and> 0 < n \<and> n \<le> 100
        \<and> int (length (approved_list context)) \<le> n)
   \<and> (\<exists>d. dget context ''scope_digest'' = PStr d
        \<and> compute_scope_digest P (dget context ''incident_id'') (dget context ''plan_revision'')
            (approved_list context) (dget context ''max_actions'') (PStr ''HIGH'') = Inr d)
   \<and> (\<exists>a \<in> set (approved_list context).
        py_eqs (target_key (dget_default a ''target'' (PDict []))) (target_key proposal)
      \<and> py_in (dget proposal ''blocked_pid'') (dget_default a ''allowed_blocked_pids'' (PList []))
        = Inr True
      \<and> py_eq (dget context ''current_action_id'') (dget a ''action_id''))"

lemma time_errors_Nil:
  "time_errors context now = [] \<longleftrightarrow>
     (\<exists>t e. parse_utc_timestamp (dget context ''approved_at'') = Some t
        \<and> parse_utc_timestamp (dget context ''expires_at'') = Some e \<and> t \<le> now \<and> now < e)"
  by (auto simp: time_errors_def Let_def split: option.splits)

lemma identity_errors_Nil:
  "identity_errors context = [] \<longleftrightarrow>
     dget context ''kind'' = PStr APPROVAL_KIND \<and> dget context ''revoked_at'' = PNone
   \<and> is_valid_uuid (dget context ''incident_id'') \<and> is_valid_uuid (dget context ''approval_id'')
   \<and> (\<exists>r. dget context ''plan_revision'' = PInt r \<and> 0 < r)
   \<and> (\<exists>n. dget context ''max_actions'' = PInt n \<and> 0 < n \<and> n \<le> 100)"
  by (auto simp: identity_errors_def py_eq_PStr_right is_positive_int_iff)

lemma digest_errors_Nil:
  assumes "digest_errors P context approved = Inr []"
    and "is_str (dget context ''incident_id'')" "is_int (dget context ''plan_revision'')"
      "is_int (dget context ''max_actions'')"
  shows "\<exists>d. dget context ''scope_digest'' = PStr d
    \<and> compute_scope_digest P (dget context ''incident_id'') (dget context ''plan_revision'')
        approved (dget context ''max_actions'') (dget context ''max_risk'') = Inr d"
  using assms
  by (auto simp: digest_errors_def split: pyval.splits sum.splits exn.splits if_splits)

text \<open>
  A context that validates at time \<open>now\<close> is an unrevoked approval of HIGH risk that was
  given at or before \<open>now\<close> and expires after it, whose digest is the digest of the very
  actions it lists, and one of these actions admits the proposal's target and waiter.
\<close>

lemma valid_approval_in_force:
  assumes "validate_approval_context P proposal context now = Inr v" and "val_valid v"
  shows "approval_in_force P proposal context now"
proof -
  let ?acts = "approved_list context"
  from assms have "is_dict context"
    by (auto simp: validate_approval_context_def split: if_splits)
  with assms obtain ds a where
    ds: "digest_errors P context ?acts = Inr ds" and a: "matching_action proposal ?acts = Inr (Some a)"
    and errs: "identity_errors context = []" "scope_size_errors context = []"
      "time_errors context now = []" "py_eq (dget context ''max_risk'') (PStr ''HIGH'')" "ds = []"
      "py_eq (dget context ''current_action_id'') (dget a ''action_id'')"
    by (auto simp: validate_approval_context_def ebind_Inr_iff Let_def split: option.splits if_splits)
  note ids = errs(1) [unfolded identity_errors_Nil]
  have "is_str (dget context ''incident_id'')" using ids is_valid_uuid_str by blast
  moreover have "is_int (dget context ''plan_revision'')" "is_int (dget context ''max_actions'')"
    using ids by auto
  ultimately obtain d where d: "dget context ''scope_digest'' = PStr d"
    "compute_scope_digest P (dget context ''incident_id'') (dget context ''plan_revision'') ?acts
       (dget context ''max_actions'') (dget context ''max_risk'') = Inr d"
    using digest_errors_Nil [of P "context" ?acts] ds errs(5) by blast
  have "int (length ?acts) \<le> int_of (dget context ''max_actions'')"
    using errs(2) ids by (auto simp: scope_size_errors_def split: if_splits)
  then show ?thesis
    using ids errs(3,4,6) d matching_action_Some [OF a]
    by (auto simp: approval_in_force_def time_errors_Nil py_eq_PStr_right)
qed

text \<open>The bounds of the validity window, as errors.\<close>

lemma expired_approval_invalid:
  assumes "validate_approval_context P proposal context now = Inr v"
    and "parse_utc_timestamp (dget context ''expires_at'') = Some e" and "e \<le> now"
  shows "\<not> val_valid v"
  using valid_approval_in_force [OF assms(1)] assms(2,3) by (auto simp: approval_in_force_def)

lemma revoked_approval_invalid:
  assumes "validate_approval_context P proposal context now = Inr v"
    and "dget context ''revoked_at'' \<noteq> PNone"
  shows "\<not> val_valid v"
  using valid_approval_in_force [OF assms(1)] assms(2) by (auto simp: approval_in_force_def)

end
