(* ===== verification/IncidentData.thy ===== *)
theory IncidentData
  imports Approval Redaction
begin

text \<open>
  The durable data of a lock incident: the states, and the dictionaries that
  \<open>workflow_store.py\<close> loads and \<open>incident_workflow.py\<close> works on, as records. A JSON
  column is a \<open>pyval\<close>; SQL \<open>NULL\<close> and JSON \<open>null\<close> are both \<open>None\<close> after loading.
\<close>

datatype incident_state =
    AWAITING_APPROVAL
  | AWAITING_REAPPROVAL
  | RUNNING
  | COMPLETED
  | COMPLETED_WITH_UNAPPROVED_REMAINDER
  | CANCELLED
  | REVIEW_REQUIRED

datatype action_state =
    PLANNED
  | EXECUTING
  | APPLYING
  | RESULT_RECORDED
  | SUCCEEDED
  | SKIPPED_RESOLVED
  | RECONCILED_RESOLVED
  | STALE_IDENTITY
  | REAPPROVAL_REQUIRED
  | FAILED
  | INCONCLUSIVE
  | IN_DOUBT

record action =
  act_id :: string
  act_ordinal :: int
  act_revision :: int
  act_type :: string
  act_risk :: string
  act_state :: action_state
  act_key :: string
  act_target :: pyval
  act_blocked_pids :: pyval
  act_waiters :: pyval
  act_proposal :: pyval
  act_attempts :: int
  act_operation :: "string option"
  act_result :: pyval
  act_error :: pyval
  act_created :: string
  act_updated :: string

record approval =
  apr_id :: string
  apr_incident :: string
  apr_revision :: int
  apr_digest :: string
  apr_actor :: string
  apr_approved_at :: string
  apr_expires_at :: string
  apr_revoked_at :: "string option"
  apr_max_risk :: string
  apr_max_actions :: int
  apr_actions :: pyval

record incident_row =
  inc_id :: string
  inc_type :: string
  inc_state :: incident_state
  inc_revision :: int
  inc_request :: pyval
  inc_policy :: pyval
  inc_summary :: pyval
  inc_error :: pyval
  inc_reason :: "string option"
  inc_approval_id :: "string option"
  inc_version :: int
  inc_lease_owner :: "string option"
  inc_lease_expires :: "string option"
  inc_created :: string
  inc_updated :: string

record incident = incident_row +
  inc_actions :: "action list"
  inc_approval :: "approval option"

definition TERMINAL_STATES :: "incident_state list" where
  "TERMINAL_STATES = [COMPLETED, COMPLETED_WITH_UNAPPROVED_REMAINDER, CANCELLED, REVIEW_REQUIRED]"

definition ACTIVE_INCIDENT_STATES :: "incident_state list" where
  "ACTIVE_INCIDENT_STATES = [AWAITING_APPROVAL, AWAITING_REAPPROVAL, RUNNING]"

definition FINISHED_ACTION_STATES :: "action_state list" where
  "FINISHED_ACTION_STATES = [SUCCEEDED, SKIPPED_RESOLVED, RECONCILED_RESOLVED]"

definition is_terminal :: "incident_state \<Rightarrow> bool" where
  "is_terminal s \<longleftrightarrow> List.member TERMINAL_STATES s"

definition is_active :: "incident_state \<Rightarrow> bool" where
  "is_active s \<longleftrightarrow> List.member ACTIVE_INCIDENT_STATES s"

definition is_finished :: "action_state \<Rightarrow> bool" where
  "is_finished s \<longleftrightarrow> List.member FINISHED_ACTION_STATES s"

lemma is_active_iff: "is_active s \<longleftrightarrow> \<not> is_terminal s"
  by (cases s) (simp_all add: is_active_def is_terminal_def ACTIVE_INCIDENT_STATES_def TERMINAL_STATES_def)

lemma is_terminal_simps [simp]:
  "is_terminal COMPLETED" "is_terminal COMPLETED_WITH_UNAPPROVED_REMAINDER"
  "is_terminal CANCELLED" "is_terminal REVIEW_REQUIRED"
  "\<not> is_terminal RUNNING" "\<not> is_terminal AWAITING_APPROVAL" "\<not> is_terminal AWAITING_REAPPROVAL"
  by (simp_all add: is_terminal_def TERMINAL_STATES_def)

lemma is_finished_simps [simp]:
  "is_finished SUCCEEDED" "is_finished SKIPPED_RESOLVED" "is_finished RECONCILED_RESOLVED"
  "\<not> is_finished PLANNED" "\<not> is_finished EXECUTING" "\<not> is_finished APPLYING"
  "\<not> is_finished RESULT_RECORDED" "\<not> is_finished STALE_IDENTITY"
  "\<not> is_finished REAPPROVAL_REQUIRED" "\<not> is_finished FAILED" "\<not> is_finished INCONCLUSIVE"
  "\<not> is_finished IN_DOUBT"
  by (simp_all add: is_finished_def FINISHED_ACTION_STATES_def)

section \<open>Durations\<close>

text \<open>
  \<open>timedelta(seconds=v)\<close> in microseconds: an integer is exact, a finite float is rounded
  to the nearest microsecond, ties to even.
\<close>

definition round_half_even :: "rat \<Rightarrow> int" where
  "round_half_even r =
     (let f = \<lfloor>r\<rfloor>; d = r - of_int f in
      if d < 1 / 2 then f else if 1 / 2 < d then f + 1 else if f mod 2 = 0 then f else f + 1)"

definition timedelta_seconds :: "pyval \<Rightarrow> int option" where
  "timedelta_seconds v = map_option (\<lambda>r. round_half_even (r * 1000000)) (num_val v)"

lemma round_half_even_int [simp]: "round_half_even (of_int i) = i"
  by (simp add: round_half_even_def)

section \<open>Dictionaries of the records\<close>

text \<open>The dictionary of an action as the approval code reads it.\<close>

definition action_dict :: "action \<Rightarrow> pyval" where
  "action_dict a = PDict
     [(''action_id'', PStr (act_id a)), (''ordinal'', PInt (act_ordinal a)),
      (''target'', act_target a), (''allowed_blocked_pids'', act_blocked_pids a),
      (''approved_waiters'', act_waiters a)]"

definition approval_dict :: "approval \<Rightarrow> string \<Rightarrow> pyval" where
  "approval_dict p current_action_id = PDict
     [(''kind'', PStr APPROVAL_KIND), (''approval_id'', PStr (apr_id p)),
      (''incident_id'', PStr (apr_incident p)), (''plan_revision'', PInt (apr_revision p)),
      (''scope_digest'', PStr (apr_digest p)), (''actor'', PStr (apr_actor p)),
      (''approved_at'', PStr (apr_approved_at p)), (''expires_at'', PStr (apr_expires_at p)),
      (''revoked_at'', (case apr_revoked_at p of None \<Rightarrow> PNone | Some s \<Rightarrow> PStr s)),
      (''max_risk'', PStr (apr_max_risk p)), (''max_actions'', PInt (apr_max_actions p)),
      (''approved_actions'', apr_actions p), (''current_action_id'', PStr current_action_id)]"

end
