(* ===== verification/ExecutionProtocol.thy ===== *)
theory ExecutionProtocol
  imports IncidentData
begin

text \<open>
  \<open>execution_protocol.py\<close>: what the workflow may send to the isolated executor and the
  scope of an action that both sides digest.
\<close>

definition REQUEST_KEYS :: "string list" where
  "REQUEST_KEYS = [''version'', ''incident_id'', ''action_id'', ''operation_id'', ''worker_id'',
     ''plan_revision'', ''proposal_digest'']"

definition lower_hex :: "string \<Rightarrow> bool" where
  "lower_hex s = list_all (\<lambda>c. List.member ''0123456789abcdef'' c) s"

definition dict_keys :: "pyval \<Rightarrow> string list" where
  "dict_keys v = (case v of PDict kvs \<Rightarrow> map fst kvs | _ \<Rightarrow> [])"

definition validate_request :: "pyval \<Rightarrow> pyval exc" where
  "validate_request v =
     (case first_error
        [(\<not> is_dict v \<or> set (dict_keys v) \<noteq> set REQUEST_KEYS,
            ''Unsupported execution request fields.''),
         (dget v ''version'' \<noteq> PInt 1, ''Unsupported execution protocol.''),
         (\<not> is_str (dget v ''incident_id''), ''Execution identifiers must be UUID strings.''),
         (\<not> is_valid_uuid (dget v ''incident_id''), ''badly formed hexadecimal UUID string''),
         (\<not> is_str (dget v ''action_id''), ''Execution identifiers must be UUID strings.''),
         (\<not> is_valid_uuid (dget v ''action_id''), ''badly formed hexadecimal UUID string''),
         (\<not> is_str (dget v ''operation_id''), ''Execution identifiers must be UUID strings.''),
         (\<not> is_valid_uuid (dget v ''operation_id''), ''badly formed hexadecimal UUID string''),
         (\<not> is_positive_int (dget v ''plan_revision''), ''Invalid plan revision.''),
         (\<not> is_str (dget v ''worker_id'') \<or> length (str_of (dget v ''worker_id'')) < 1
            \<or> 200 < length (str_of (dget v ''worker_id'')), ''Invalid worker identity.''),
         (\<not> is_str (dget v ''proposal_digest'')
            \<or> length (str_of (dget v ''proposal_digest'')) \<noteq> 64
            \<or> \<not> lower_hex (str_of (dget v ''proposal_digest'')), ''Invalid proposal digest.'')]
      of Some m \<Rightarrow> Inl (ValueError m) | None \<Rightarrow> Inr v)"

definition action_scope ::
  "pyval \<Rightarrow> pyval \<Rightarrow> pyval \<Rightarrow> pyval \<Rightarrow> pyval \<Rightarrow> pyval \<Rightarrow> pyval \<Rightarrow> pyval" where
  "action_scope incident_id plan_revision action_id proposal target waiters blocked_pids = PDict
     [(''incident_id'', incident_id), (''plan_revision'', plan_revision),
      (''action_id'', action_id), (''proposal'', proposal), (''target'', target),
      (''approved_waiters'', waiters), (''allowed_blocked_pids'', blocked_pids)]"

definition scope_of :: "incident_row \<Rightarrow> action \<Rightarrow> pyval" where
  "scope_of i a = action_scope (PStr (inc_id i)) (PInt (inc_revision i)) (PStr (act_id a))
     (act_proposal a) (act_target a) (act_waiters a) (act_blocked_pids a)"

lemma validate_request_fields:
  assumes "validate_request v = Inr r"
  shows "r = v" "is_dict v" "set (dict_keys v) = set REQUEST_KEYS"
    "is_valid_uuid (dget v ''incident_id'')" "is_valid_uuid (dget v ''action_id'')"
    "is_valid_uuid (dget v ''operation_id'')"
  using assms by (auto simp: validate_request_def split: option.splits if_splits)

end
