(* ===== verification/IncidentStore.thy ===== *)
theory IncidentStore
  imports ExecutionProtocol
begin

text \<open>
  \<open>workflow_store.py\<close>: the durable incident store. Its database is a record of tables; every
  operation is one SQLite write transaction, so an exception leaves the tables as they were.
  A JSON column holds the value its text denotes: \<open>json_column\<close> is what \<open>_json_load\<close> reads
  back after \<open>_json_dump\<close> (sanitised, keys sorted), and two columns have equal texts
  exactly when these values are equal. Times are the texts the code writes and compares.
\<close>

section \<open>Tables\<close>

record event =
  ev_id :: int
  ev_incident :: string
  ev_action :: "string option"
  ev_time :: string
  ev_type :: string
  ev_from :: "string option"
  ev_to :: "string option"
  ev_payload :: pyval

text \<open>An action row carries the incident it belongs to.\<close>

record db =
  db_incidents :: "incident_row list"
  db_actions :: "(string \<times> action) list"
  db_approvals :: "approval list"
  db_events :: "event list"

definition empty_db :: db where
  "empty_db = \<lparr>db_incidents = [], db_actions = [], db_approvals = [], db_events = []\<rparr>"

text \<open>The path of this store, and how \<open>Path(p).expanduser().resolve()\<close> reads a path.\<close>

record store_config =
  store_path :: string
  resolve_path :: "string \<Rightarrow> string option"

fun incident_state_name :: "incident_state \<Rightarrow> string" where
  "incident_state_name AWAITING_APPROVAL = ''AWAITING_APPROVAL''"
| "incident_state_name AWAITING_REAPPROVAL = ''AWAITING_REAPPROVAL''"
| "incident_state_name RUNNING = ''RUNNING''"
| "incident_state_name COMPLETED = ''COMPLETED''"
| "incident_state_name COMPLETED_WITH_UNAPPROVED_REMAINDER = ''COMPLETED_WITH_UNAPPROVED_REMAINDER''"
| "incident_state_name CANCELLED = ''CANCELLED''"
| "incident_state_name REVIEW_REQUIRED = ''REVIEW_REQUIRED''"

section \<open>Transition tables\<close>

fun INCIDENT_TRANSITIONS :: "incident_state \<Rightarrow> incident_state list" where
  "INCIDENT_TRANSITIONS AWAITING_APPROVAL = [AWAITING_APPROVAL, RUNNING, CANCELLED]"
| "INCIDENT_TRANSITIONS AWAITING_REAPPROVAL = [AWAITING_REAPPROVAL, RUNNING, CANCELLED]"
| "INCIDENT_TRANSITIONS RUNNING =
     [RUNNING, AWAITING_REAPPROVAL, COMPLETED, COMPLETED_WITH_UNAPPROVED_REMAINDER, REVIEW_REQUIRED]"
| "INCIDENT_TRANSITIONS COMPLETED = [COMPLETED]"
| "INCIDENT_TRANSITIONS COMPLETED_WITH_UNAPPROVED_REMAINDER = [COMPLETED_WITH_UNAPPROVED_REMAINDER]"
| "INCIDENT_TRANSITIONS CANCELLED = [CANCELLED]"
| "INCIDENT_TRANSITIONS REVIEW_REQUIRED = [REVIEW_REQUIRED]"

fun ACTION_TRANSITIONS :: "action_state \<Rightarrow> action_state list" where
  "ACTION_TRANSITIONS PLANNED =
     [PLANNED, EXECUTING, SKIPPED_RESOLVED, STALE_IDENTITY, REAPPROVAL_REQUIRED]"
| "ACTION_TRANSITIONS EXECUTING =
     [EXECUTING, PLANNED, APPLYING, IN_DOUBT, RECONCILED_RESOLVED, STALE_IDENTITY]"
| "ACTION_TRANSITIONS APPLYING =
     [APPLYING, RESULT_RECORDED, IN_DOUBT, RECONCILED_RESOLVED, STALE_IDENTITY]"
| "ACTION_TRANSITIONS RESULT_RECORDED = [RESULT_RECORDED, SUCCEEDED, FAILED, INCONCLUSIVE]"
| "ACTION_TRANSITIONS SUCCEEDED = [SUCCEEDED]"
| "ACTION_TRANSITIONS SKIPPED_RESOLVED = [SKIPPED_RESOLVED]"
| "ACTION_TRANSITIONS RECONCILED_RESOLVED = [RECONCILED_RESOLVED]"
| "ACTION_TRANSITIONS STALE_IDENTITY = [STALE_IDENTITY]"
| "ACTION_TRANSITIONS REAPPROVAL_REQUIRED = [REAPPROVAL_REQUIRED]"
| "ACTION_TRANSITIONS FAILED = [FAILED]"
| "ACTION_TRANSITIONS INCONCLUSIVE = [INCONCLUSIVE]"
| "ACTION_TRANSITIONS IN_DOUBT = [IN_DOUBT]"

text \<open>The states an action can be in once its execution has been claimed.\<close>

definition claimed_states :: "action_state set" where
  "claimed_states = {s. s \<noteq> PLANNED \<and> s \<noteq> EXECUTING}"

lemma claimed_states_closed:
  "s \<in> claimed_states \<Longrightarrow> s' \<in> set (ACTION_TRANSITIONS s) \<Longrightarrow> s' \<in> claimed_states"
  by (cases s) (auto simp: claimed_states_def)

lemma terminal_absorbing:
  "is_terminal s \<Longrightarrow> s' \<in> set (INCIDENT_TRANSITIONS s) \<Longrightarrow> s' = s"
  by (cases s) auto

section \<open>Columns\<close>

definition json_column :: "platform \<Rightarrow> pyval \<Rightarrow> pyval exc" where
  "json_column P v =
     (if json_ok (walk P v) then Inr (sort_keys (walk P v))
      else Inl (ValueError ''Out of range float values are not JSON compliant''))"

definition json_optional :: "platform \<Rightarrow> pyval \<Rightarrow> pyval exc" where
  "json_optional P v = (if v = PNone then Inr PNone else json_column P v)"

definition find_incident :: "db \<Rightarrow> string \<Rightarrow> incident_row option" where
  "find_incident d i = row_where (\<lambda>r. inc_id r = i) (db_incidents d)"

definition incident_actions :: "db \<Rightarrow> string \<Rightarrow> action list" where
  "incident_actions d i = map snd (filter (\<lambda>(j, _). j = i) (db_actions d))"

definition find_approval :: "db \<Rightarrow> string \<Rightarrow> approval option" where
  "find_approval d p = row_where (\<lambda>r. apr_id r = p) (db_approvals d)"

definition append_event ::
  "string \<Rightarrow> string option \<Rightarrow> string \<Rightarrow> string \<Rightarrow> string option \<Rightarrow> string option \<Rightarrow> pyval \<Rightarrow> db \<Rightarrow> db" where
  "append_event i a t ty from_state to_state payload d =
     d\<lparr>db_events := db_events d @ [\<lparr>ev_id = int (length (db_events d)) + 1, ev_incident = i,
         ev_action = a, ev_time = t, ev_type = ty, ev_from = from_state, ev_to = to_state,
         ev_payload = payload\<rparr>]\<rparr>"

section \<open>Loading\<close>

definition load_incident :: "db \<Rightarrow> string \<Rightarrow> incident exc" where
  "load_incident d i =
     (case find_incident d i of
        None \<Rightarrow> Inl (IncidentNotFound i)
      | Some r \<Rightarrow>
         (let result = (\<lambda>approval. incident_row.extend r
                \<lparr>inc_actions = sort_key act_ordinal (incident_actions d i), inc_approval = approval\<rparr>)
          in case inc_approval_id r of
              None \<Rightarrow> Inr (result None)
            | Some p \<Rightarrow>
                (case row_where (\<lambda>x. apr_incident x = i \<and> apr_id x = p) (db_approvals d) of
                   None \<Rightarrow> Inl (IncidentStoreError ''Incident references a missing approval.'')
                 | Some x \<Rightarrow> Inr (result (Some x)))))"

text \<open>
  A transaction that commits answers with the incident it reads back; one that raises
  leaves the tables unchanged.
\<close>

definition commit_and_load :: "db \<Rightarrow> string \<Rightarrow> db exc \<Rightarrow> db \<times> incident exc" where
  "commit_and_load d i m = (case m of Inl e \<Rightarrow> (d, Inl e) | Inr d' \<Rightarrow> (d', load_incident d' i))"

text \<open>An \<open>UPDATE incidents\<close> that must change exactly one row.\<close>

definition update_checked ::
  "(incident_row \<Rightarrow> bool) \<Rightarrow> (incident_row \<Rightarrow> incident_row) \<Rightarrow> exn \<Rightarrow> db \<Rightarrow> db exc" where
  "update_checked match f e d =
     (if count_where match (db_incidents d) \<noteq> 1 then Inl e
      else Inr (d\<lparr>db_incidents := update_where match f (db_incidents d)\<rparr>))"

section \<open>Creating an incident\<close>

definition insert_action :: "platform \<Rightarrow> string \<Rightarrow> db \<Rightarrow> action \<Rightarrow> db exc" where
  "insert_action P i d a =
     ebind (json_column P (act_target a)) (\<lambda>target.
     ebind (json_column P (act_blocked_pids a)) (\<lambda>pids.
     ebind (json_column P (act_waiters a)) (\<lambda>waiters.
     ebind (json_column P (act_proposal a)) (\<lambda>proposal.
     ebind (json_optional P (act_result a)) (\<lambda>result.
     ebind (json_optional P (act_error a)) (\<lambda>err.
       if list_ex (\<lambda>(_, b). act_id b = act_id a) (db_actions d)
       then Inl (IntegrityError ''UNIQUE constraint failed: actions.action_id'')
       else if list_ex (\<lambda>(_, b). act_key b = act_key a) (db_actions d)
       then Inl (IntegrityError ''UNIQUE constraint failed: actions.idempotency_key'')
       else if list_ex (\<lambda>(j, b). j = i \<and> act_ordinal b = act_ordinal a) (db_actions d)
       then Inl (IntegrityError ''UNIQUE constraint failed: actions.incident_id, actions.ordinal'')
       else Inr (d\<lparr>db_actions := db_actions d @
         [(i, a\<lparr>act_target := target, act_blocked_pids := pids, act_waiters := waiters,
                act_proposal := proposal, act_result := result, act_error := err\<rparr>)]\<rparr>)))))))"

fun insert_actions :: "platform \<Rightarrow> string \<Rightarrow> db \<Rightarrow> action list \<Rightarrow> db exc" where
  "insert_actions P i d [] = Inr d"
| "insert_actions P i d (a # as) =
     ebind (insert_action P i d a) (\<lambda>d'. insert_actions P i d' as)"

definition insert_incident :: "platform \<Rightarrow> incident \<Rightarrow> db \<Rightarrow> db exc" where
  "insert_incident P inc d =
     ebind (json_column P (inc_request inc)) (\<lambda>request.
     ebind (json_column P (inc_policy inc)) (\<lambda>policy.
       if list_ex (\<lambda>r. inc_id r = inc_id inc) (db_incidents d)
       then Inl (IntegrityError ''UNIQUE constraint failed: incidents.incident_id'')
       else Inr (d\<lparr>db_incidents := db_incidents d @
         [\<lparr>inc_id = inc_id inc, inc_type = inc_type inc, inc_state = inc_state inc,
           inc_revision = inc_revision inc, inc_request = request, inc_policy = policy,
           inc_summary = PNone, inc_error = PNone, inc_reason = None, inc_approval_id = None,
           inc_version = 1, inc_lease_owner = None, inc_lease_expires = None,
           inc_created = inc_created inc, inc_updated = inc_created inc\<rparr>]\<rparr>)))"

definition create_incident :: "platform \<Rightarrow> db \<Rightarrow> incident \<Rightarrow> db \<times> incident exc" where
  "create_incident P d inc = commit_and_load d (inc_id inc)
     (ebind (insert_incident P inc d) (\<lambda>d1.
      ebind (insert_actions P (inc_id inc) d1 (inc_actions inc)) (\<lambda>d2.
      ebind (json_column P (PDict [(''plan_revision'', PInt (inc_revision inc)),
               (''action_count'', PInt (int (length (inc_actions inc))))])) (\<lambda>payload.
        Inr (append_event (inc_id inc) None (inc_created inc) ''INCIDENT_CREATED'' None
               (Some (incident_state_name (inc_state inc))) payload d2)))))"

section \<open>Checkpoints\<close>

text \<open>The lease columns against a time: owned by this worker and not yet expired.\<close>

definition holds_lease :: "incident_row \<Rightarrow> string \<Rightarrow> string \<Rightarrow> bool" where
  "holds_lease r owner now \<longleftrightarrow>
     inc_lease_owner r = Some owner
   \<and> (case inc_lease_expires r of None \<Rightarrow> False | Some e \<Rightarrow> now < e)"

definition action_state_of :: "action list \<Rightarrow> string \<Rightarrow> action_state option" where
  "action_state_of acts a = map_option act_state (row_where (\<lambda>x. act_id x = a) acts)"

text \<open>The checks of \<open>save_incident\<close> before its first write, in their order.\<close>

definition checkpoint_error ::
  "incident_row \<Rightarrow> action list \<Rightarrow> incident \<Rightarrow> string option \<Rightarrow> string \<Rightarrow> exn option" where
  "checkpoint_error r stored inc lease_owner now = first_error
     [(inc_version r \<noteq> inc_version inc,
         ConcurrentIncidentUpdate ''Incident revision changed before checkpoint.''),
      (lease_owner = None \<or> lease_owner = Some [],
         IncidentLeaseUnavailable ''A live execution lease is required for checkpoints.''),
      (\<not> holds_lease r (the lease_owner) now,
         IncidentLeaseUnavailable ''Incident execution lease is absent, expired, or owned by another worker.''),
      (\<not> List.member (INCIDENT_TRANSITIONS (inc_state r)) (inc_state inc),
         IncidentStoreError ''Illegal incident transition''),
      (set (map act_id (inc_actions inc)) \<noteq> set (map act_id stored),
         IncidentStoreError ''Incident action membership cannot change in-place.''),
      (list_ex (\<lambda>a. case action_state_of stored (act_id a) of None \<Rightarrow> False
                  | Some old \<Rightarrow> \<not> List.member (ACTION_TRANSITIONS old) (act_state a)) (inc_actions inc),
         IncidentStoreError ''Illegal action transition'')]"

definition checkpoint_incident ::
  "incident_row \<Rightarrow> incident \<Rightarrow> string \<Rightarrow> pyval \<Rightarrow> pyval \<Rightarrow> pyval \<Rightarrow> pyval \<Rightarrow> incident_row \<Rightarrow> incident_row" where
  "checkpoint_incident r inc updated request policy summary err x =
     x\<lparr>inc_state := inc_state inc, inc_revision := inc_revision inc, inc_request := request,
       inc_policy := policy, inc_summary := summary, inc_error := err, inc_reason := inc_reason inc,
       inc_approval_id := (case inc_approval inc of Some p \<Rightarrow> Some (apr_id p)
                           | None \<Rightarrow> inc_approval_id r),
       inc_version := inc_version inc + 1, inc_updated := updated\<rparr>"

definition update_incident ::
  "platform \<Rightarrow> incident_row \<Rightarrow> incident \<Rightarrow> string \<Rightarrow> db \<Rightarrow> db exc" where
  "update_incident P r inc updated d =
     ebind (json_column P (inc_request inc)) (\<lambda>request.
     ebind (json_column P (inc_policy inc)) (\<lambda>policy.
     ebind (json_optional P (inc_summary inc)) (\<lambda>summary.
     ebind (json_optional P (inc_error inc)) (\<lambda>err.
       update_checked (\<lambda>x. inc_id x = inc_id inc \<and> inc_version x = inc_version inc)
         (checkpoint_incident r inc updated request policy summary err)
         (ConcurrentIncidentUpdate ''Incident checkpoint compare-and-swap failed.'') d))))"

definition action_match :: "string \<Rightarrow> string \<Rightarrow> string \<times> action \<Rightarrow> bool" where
  "action_match i a = (\<lambda>(j, b). act_id b = a \<and> j = i)"

definition checkpoint_action :: "action \<Rightarrow> pyval \<Rightarrow> pyval \<Rightarrow> pyval \<Rightarrow> action \<Rightarrow> action" where
  "checkpoint_action a proposal result err b =
     b\<lparr>act_state := act_state a, act_proposal := proposal, act_attempts := act_attempts a,
       act_operation := act_operation a, act_result := result, act_error := err,
       act_updated := act_updated a\<rparr>"

definition update_action :: "platform \<Rightarrow> string \<Rightarrow> db \<Rightarrow> action \<Rightarrow> db exc" where
  "update_action P i d a =
     ebind (json_column P (act_proposal a)) (\<lambda>proposal.
     ebind (json_optional P (act_result a)) (\<lambda>result.
     ebind (json_optional P (act_error a)) (\<lambda>err.
       if count_where (action_match i (act_id a)) (db_actions d) \<noteq> 1
       then Inl (IncidentStoreError ''Incident action set changed unexpectedly.'')
       else Inr (d\<lparr>db_actions := update_where (action_match i (act_id a))
         (\<lambda>(j, b). (j, checkpoint_action a proposal result err b)) (db_actions d)\<rparr>))))"

fun update_actions :: "platform \<Rightarrow> string \<Rightarrow> db \<Rightarrow> action list \<Rightarrow> db exc" where
  "update_actions P i d [] = Inr d"
| "update_actions P i d (a # as) =
     ebind (update_action P i d a) (\<lambda>d'. update_actions P i d' as)"

text \<open>A persisted approval is written once; afterwards it can only be repeated exactly.\<close>

definition put_approval :: "platform \<Rightarrow> string \<Rightarrow> approval option \<Rightarrow> db \<Rightarrow> db exc" where
  "put_approval P i approval d =
     (case approval of None \<Rightarrow> Inr d | Some p \<Rightarrow>
       ebind (json_column P (apr_actions p)) (\<lambda>actions.
       let row = p\<lparr>apr_incident := i, apr_actions := actions\<rparr> in
       (case find_approval d (apr_id p) of
          None \<Rightarrow> Inr (d\<lparr>db_approvals := db_approvals d @ [row]\<rparr>)
        | Some old \<Rightarrow> if old = row then Inr d
            else Inl (IncidentStoreError ''A persisted approval cannot be modified in-place.''))))"

text \<open>
  \<open>updated_at\<close> falls back to the time of the call when the caller left it empty.
\<close>

definition save_incident ::
  "platform \<Rightarrow> int \<Rightarrow> db \<Rightarrow> incident \<Rightarrow> string \<Rightarrow> pyval \<Rightarrow> string option \<Rightarrow> string option
   \<Rightarrow> db \<times> incident exc" where
  "save_incident P now d inc event_type payload action_id lease_owner =
     commit_and_load d (inc_id inc)
      (case find_incident d (inc_id inc) of
         None \<Rightarrow> Inl (IncidentNotFound (inc_id inc))
       | Some r \<Rightarrow>
          (let updated = (if inc_updated inc = [] then iso_utc now else inc_updated inc) in
           case checkpoint_error r (incident_actions d (inc_id inc)) inc lease_owner (iso_utc now) of
             Some e \<Rightarrow> Inl e
           | None \<Rightarrow>
              ebind (update_incident P r inc updated d) (\<lambda>d1.
              ebind (update_actions P (inc_id inc) d1 (inc_actions inc)) (\<lambda>d2.
              ebind (put_approval P (inc_id inc) (inc_approval inc) d2) (\<lambda>d3.
              ebind (json_column P (py_or payload (PDict []))) (\<lambda>data.
                Inr (append_event (inc_id inc) action_id updated event_type
                       (Some (incident_state_name (inc_state r)))
                       (Some (incident_state_name (inc_state inc))) data d3)))))))"

section \<open>Leases\<close>

text \<open>
  \<open>authoritative_now + timedelta(seconds=...)\<close> as text. A sum outside the years 1 to 9999
  is an OverflowError.
\<close>

definition lease_expiry :: "int \<Rightarrow> pyval \<Rightarrow> string exc" where
  "lease_expiry now seconds =
     (case timedelta_seconds seconds of
        Some d \<Rightarrow> if valid_instant (now + d) then Inr (iso_utc (now + d))
                  else Inl (overflow_error)
      | None \<Rightarrow> Inl (overflow_error))"

definition lease_argument_error :: "string \<Rightarrow> pyval \<Rightarrow> exn option" where
  "lease_argument_error owner seconds = first_error
     [(strip owner = [], ValueError ''Lease owner must be non-empty.''),
      (float_overflow seconds, overflow_error),
      (\<not> finite_number seconds \<or> the (num_val seconds) \<le> 0,
         ValueError ''Lease duration must be positive and finite.'')]"

text \<open>The \<open>WHERE\<close> clauses of the two lease updates; SQL \<open>NULL\<close> compares as false.\<close>

definition lease_free :: "incident_row \<Rightarrow> string \<Rightarrow> string \<Rightarrow> bool" where
  "lease_free r owner now \<longleftrightarrow>
     inc_lease_owner r = None
   \<or> (case inc_lease_expires r of None \<Rightarrow> False | Some e \<Rightarrow> e \<le> now)
   \<or> inc_lease_owner r = Some owner"

definition acquire_lease ::
  "platform \<Rightarrow> int \<Rightarrow> db \<Rightarrow> string \<Rightarrow> string \<Rightarrow> pyval \<Rightarrow> db \<times> incident exc" where
  "acquire_lease P now d i owner seconds = commit_and_load d i
     (case lease_argument_error owner seconds of Some e \<Rightarrow> Inl e | None \<Rightarrow>
      ebind (lease_expiry now seconds) (\<lambda>expires.
      case find_incident d i of
        None \<Rightarrow> Inl (IncidentNotFound i)
      | Some r \<Rightarrow>
         if \<not> is_active (inc_state r)
         then Inl (IncidentLeaseUnavailable ''A terminal incident cannot acquire an execution lease.'')
         else
          ebind (update_checked
            (\<lambda>x. inc_id x = i \<and> is_active (inc_state x) \<and> lease_free x owner (iso_utc now))
            (\<lambda>x. x\<lparr>inc_lease_owner := Some owner, inc_lease_expires := Some expires,
                   inc_version := inc_version x + 1, inc_updated := iso_utc now\<rparr>)
            (IncidentLeaseUnavailable ''Incident is currently owned by another worker.'') d) (\<lambda>d1.
          ebind (json_column P (PDict [(''owner'', PStr owner), (''expires_at'', PStr expires)])) (\<lambda>payload.
            Inr (append_event i None (iso_utc now) ''LEASE_ACQUIRED''
              (Some (incident_state_name (inc_state r))) (Some (incident_state_name (inc_state r)))
              payload d1)))))"

definition renew_lease ::
  "int \<Rightarrow> db \<Rightarrow> string \<Rightarrow> string \<Rightarrow> pyval \<Rightarrow> db \<times> incident exc" where
  "renew_lease now d i owner seconds = commit_and_load d i
     (case lease_argument_error owner seconds of Some e \<Rightarrow> Inl e | None \<Rightarrow>
      ebind (lease_expiry now seconds) (\<lambda>expires.
        update_checked
          (\<lambda>x. inc_id x = i \<and> holds_lease x owner (iso_utc now) \<and> is_active (inc_state x))
          (\<lambda>x. x\<lparr>inc_lease_expires := Some expires, inc_version := inc_version x + 1,
                 inc_updated := iso_utc now\<rparr>)
          (IncidentLeaseUnavailable ''Incident execution lease expired or changed.'') d))"

definition release_lease ::
  "platform \<Rightarrow> int \<Rightarrow> db \<Rightarrow> string \<Rightarrow> string \<Rightarrow> db \<times> incident exc" where
  "release_lease P now d i owner = commit_and_load d i
     (if strip owner = [] then Inl (ValueError ''Lease owner must be non-empty.'') else
      case find_incident d i of
        None \<Rightarrow> Inl (IncidentNotFound i)
      | Some r \<Rightarrow>
          ebind (update_checked (\<lambda>x. inc_id x = i \<and> inc_lease_owner x = Some owner)
            (\<lambda>x. x\<lparr>inc_lease_owner := None, inc_lease_expires := None,
                   inc_version := inc_version x + 1, inc_updated := iso_utc now\<rparr>)
            (IncidentLeaseUnavailable ''Incident execution lease is not owned by this worker.'') d) (\<lambda>d1.
          ebind (json_column P (PDict [(''owner'', PStr owner)])) (\<lambda>payload.
            Inr (append_event i None (iso_utc now) ''LEASE_RELEASED''
              (Some (incident_state_name (inc_state r))) (Some (incident_state_name (inc_state r)))
              payload d1))))"

section \<open>Listing\<close>

text \<open>Newest update first; SQL leaves the order of equal times open.\<close>

definition list_incidents :: "db \<Rightarrow> pyval \<Rightarrow> incident_row list exc" where
  "list_incidents d limit =
     (if \<not> is_positive_int limit \<or> 100 < int_of limit
      then Inl (ValueError ''Incident list limit must be between 1 and 100.'')
      else Inr (take (nat (int_of limit)) (rev (sort_key inc_updated (db_incidents d)))))"

definition list_events :: "db \<Rightarrow> string \<Rightarrow> event list" where
  "list_events d i = filter (\<lambda>e. ev_incident e = i) (db_events d)"

end
