(* ===== verification/QueryGuard.thy ===== *)
theory QueryGuard
  imports PyValue
begin

text \<open>
  \<open>query_guard.py\<close>: the deterministic policy for diagnostic SQL. \<open>mask_non_code\<close> blanks
  literals, comments and dollar-quoted strings and keeps the code, character for
  character; \<open>ensure_read_only_query\<close> accepts one top-level \<open>SELECT\<close> whose masked text
  holds no statement separator, no \<open>INTO\<close>, no row lock and no call of a blocked function.
  The regular expressions are written as matchers; in each of them a repetition is
  followed by a character outside its class, so no match needs backtracking.
\<close>

section \<open>Character classes\<close>

definition is_alnum :: "char \<Rightarrow> bool" where
  "is_alnum c = (let n = of_char c :: nat in
     (48 \<le> n \<and> n \<le> 57) \<or> (65 \<le> n \<and> n \<le> 90) \<or> (97 \<le> n \<and> n \<le> 122)
     \<or> List.member [170, 178, 179, 181, 185, 186, 188, 189, 190] n
     \<or> (192 \<le> n \<and> n \<le> 255 \<and> n \<noteq> 215 \<and> n \<noteq> 247))"

definition is_ident_char :: "char \<Rightarrow> bool" where
  "is_ident_char c \<longleftrightarrow> is_alnum c \<or> c = CHR ''_'' \<or> c = CHR ''$''"

definition is_ascii_letter :: "char \<Rightarrow> bool" where
  "is_ascii_letter c = (let n = of_char c :: nat in (65 \<le> n \<and> n \<le> 90) \<or> (97 \<le> n \<and> n \<le> 122))"

definition is_ascii_digit :: "char \<Rightarrow> bool" where
  "is_ascii_digit c = (let n = of_char c :: nat in 48 \<le> n \<and> n \<le> 57)"

text \<open>\<open>[A-Za-z_]\<close>, \<open>[A-Za-z0-9_]\<close>, \<open>[A-Za-z0-9_$]\<close> and \<open>\w\<close>.\<close>

definition tag_start :: "char \<Rightarrow> bool" where
  "tag_start c \<longleftrightarrow> is_ascii_letter c \<or> c = CHR ''_''"

definition tag_char :: "char \<Rightarrow> bool" where
  "tag_char c \<longleftrightarrow> is_ascii_letter c \<or> is_ascii_digit c \<or> c = CHR ''_''"

definition name_char :: "char \<Rightarrow> bool" where
  "name_char c \<longleftrightarrow> tag_char c \<or> c = CHR ''$''"

definition is_word :: "char \<Rightarrow> bool" where
  "is_word c \<longleftrightarrow> is_alnum c \<or> c = CHR ''_''"

definition QUOTE :: char where "QUOTE = CHR 0x27"
definition DQUOTE :: char where "DQUOTE = CHR 0x22"
definition BACKSLASH :: char where "BACKSLASH = CHR 0x5C"
definition NEWLINE :: char where "NEWLINE = CHR 0x0A"
definition RETURN :: char where "RETURN = CHR 0x0D"

section \<open>Scanners\<close>

text \<open>
  Each scanner starts after the opening delimiter and returns what follows the closing
  one, or \<open>None\<close> when the text ends first.
\<close>

fun scan_string :: "bool \<Rightarrow> string \<Rightarrow> string option" where
  "scan_string esc [] = None"
| "scan_string esc [c] = (if c = QUOTE then Some [] else None)"
| "scan_string esc (c # d # s) =
     (if esc \<and> c = BACKSLASH then scan_string esc s
      else if c = QUOTE then (if d = QUOTE then scan_string esc s else Some (d # s))
      else scan_string esc (d # s))"

fun scan_identifier :: "string \<Rightarrow> (string \<times> string) option" where
  "scan_identifier [] = None"
| "scan_identifier [c] = (if c = DQUOTE then Some ([], []) else None)"
| "scan_identifier (c # d # s) =
     (if c = DQUOTE
      then (if d = DQUOTE then map_option (\<lambda>(w, r). (DQUOTE # w, r)) (scan_identifier s)
            else Some ([], d # s))
      else map_option (\<lambda>(w, r). (c # w, r)) (scan_identifier (d # s)))"

fun scan_comment :: "nat \<Rightarrow> string \<Rightarrow> string option" where
  "scan_comment d [] = (if d = 0 then Some [] else None)"
| "scan_comment d [c] = (if d = 0 then Some [c] else None)"
| "scan_comment d (c # e # s) =
     (if d = 0 then Some (c # e # s)
      else if c = CHR ''/'' \<and> e = CHR ''*'' then scan_comment (d + 1) s
      else if c = CHR ''*'' \<and> e = CHR ''/'' then scan_comment (d - 1) s
      else scan_comment d (e # s))"

text \<open>The text after the first occurrence of \<open>p\<close>.\<close>

fun after_text :: "string \<Rightarrow> string \<Rightarrow> string option" where
  "after_text p s =
     (if take (length p) s = p then Some (drop (length p) s)
      else case s of [] \<Rightarrow> None | c # s' \<Rightarrow> after_text p s')"

declare after_text.simps [simp del]

text \<open>\<open>\$(?:[A-Za-z_][A-Za-z0-9_]*)?\$\<close>, given the text after the first dollar: the tag.\<close>

definition dollar_tag :: "string \<Rightarrow> string option" where
  "dollar_tag s =
     (case s of [] \<Rightarrow> None
      | c # _ \<Rightarrow>
        if c = CHR ''$'' then Some []
        else if tag_start c \<and> take 1 (dropWhile tag_char s) = ''$'' then Some (takeWhile tag_char s)
        else None)"

section \<open>Masking\<close>

definition blank :: "string \<Rightarrow> string" where
  "blank s = map (\<lambda>_. CHR '' '') s"

definition blank_keep_lines :: "string \<Rightarrow> string" where
  "blank_keep_lines s = map (\<lambda>c. if c = RETURN \<or> c = NEWLINE then c else CHR '' '') s"

text \<open>An \<open>E\<close> that is not the end of an identifier makes the next string an escape string.\<close>

definition escape_prefix :: "string \<Rightarrow> bool" where
  "escape_prefix prev =
     (case prev of [] \<Rightarrow> False
      | e # prev' \<Rightarrow> (e = CHR ''E'' \<or> e = CHR ''e'')
          \<and> (case prev' of [] \<Rightarrow> True | c # _ \<Rightarrow> \<not> is_ident_char c))"

definition consumed :: "string \<Rightarrow> string \<Rightarrow> string" where
  "consumed s rest = take (length s - length rest) s"

text \<open>
  One turn of the loop: the output for the token at the head of \<open>s\<close> and the text that is
  left. \<open>prev\<close> is the source already read, last character first.
\<close>

definition mask_token :: "string \<Rightarrow> string \<Rightarrow> (string \<times> string) exc" where
  "mask_token prev s =
     (case s of [] \<Rightarrow> Inr ([], [])
      | c # t \<Rightarrow>
        if c = QUOTE then
          (case scan_string (escape_prefix prev) t of
             None \<Rightarrow> Inl (QuerySafetyError ''Unterminated SQL string literal.'')
           | Some rest \<Rightarrow> Inr (blank (consumed s rest), rest))
        else if c = DQUOTE then
          (case scan_identifier t of
             None \<Rightarrow> Inl (QuerySafetyError ''Unterminated quoted SQL identifier.'')
           | Some (w, rest) \<Rightarrow>
               (let n = length s - length rest;
                    name = take n (map (\<lambda>x. if is_ident_char x then x else CHR ''_'') w)
                in Inr (name @ replicate (n - length name) (CHR '' ''), rest)))
        else if take 2 s = ''--'' then
          (let rest = dropWhile (\<lambda>x. x \<noteq> NEWLINE) s in Inr (blank (consumed s rest), rest))
        else if take 2 s = ''/*'' then
          (case scan_comment 1 (drop 2 s) of
             None \<Rightarrow> Inl (QuerySafetyError ''Unterminated SQL block comment.'')
           | Some rest \<Rightarrow> Inr (blank_keep_lines (consumed s rest), rest))
        else (case (if c = CHR ''$'' then dollar_tag t else None) of
                None \<Rightarrow> Inr ([c], t)
              | Some tag \<Rightarrow>
                  (let delimiter = ''$'' @ tag @ ''$'' in
                   case after_text delimiter (drop (length delimiter) s) of
                     None \<Rightarrow> Inl (QuerySafetyError ''Unterminated dollar-quoted SQL string.'')
                   | Some rest \<Rightarrow> Inr (blank_keep_lines (consumed s rest), rest))))"

lemma scan_string_length: "scan_string esc s = Some r \<Longrightarrow> length r < length s"
  by (induction esc s rule: scan_string.induct) (fastforce split: if_splits)+

lemma scan_identifier_length:
  "scan_identifier s = Some (w, r) \<Longrightarrow> length w + length r < length s"
  by (induction s arbitrary: w r rule: scan_identifier.induct) (fastforce split: if_splits)+

lemma scan_comment_length: "scan_comment d s = Some r \<Longrightarrow> length r \<le> length s"
  by (induction d s rule: scan_comment.induct) (fastforce split: if_splits)+

lemma after_text_length: "after_text p s = Some r \<Longrightarrow> length r \<le> length s"
proof (induction p s rule: after_text.induct)
  case (1 p s)
  then show ?case
    by (auto simp: after_text.simps [of p s] split: if_splits list.splits) fastforce
qed

lemma mask_token_length:
  assumes "mask_token prev s = Inr (out, rest)"
  shows "length out + length rest = length s" and "s \<noteq> [] \<Longrightarrow> length rest < length s"
proof -
  have comment: "length r \<le> length s - 2" if "scan_comment 1 (drop 2 s) = Some r" for r
    using scan_comment_length [OF that] by simp
  have dollar: "length r \<le> length s - 2"
    if "after_text (''$'' @ tag @ ''$'') (drop (length (''$'' @ tag @ ''$'')) s) = Some r" for r tag
    using after_text_length [OF that] by simp
  have line: "length (dropWhile (\<lambda>x. x \<noteq> NEWLINE) s) < length s" if "take 2 s = ''--''"
    using that length_dropWhile_le [of "\<lambda>x. x \<noteq> NEWLINE" "tl s"]
    by (cases s) (auto simp: NEWLINE_def)
  show "length out + length rest = length s"
    using assms scan_string_length scan_identifier_length comment dollar
      length_dropWhile_le [of "\<lambda>x. x \<noteq> NEWLINE" s]
    by (auto simp: mask_token_def blank_def blank_keep_lines_def consumed_def Let_def
        split: list.splits if_splits option.splits) (fastforce+)?
  show "length rest < length s" if "s \<noteq> []"
    using assms that scan_string_length scan_identifier_length comment dollar line
    by (auto simp: mask_token_def Let_def split: list.splits if_splits option.splits) (fastforce+)?
qed

function mask_from :: "string \<Rightarrow> string \<Rightarrow> string exc" where
  "mask_from prev s =
     (if s = [] then Inr []
      else case mask_token prev s of
        Inl e \<Rightarrow> Inl e
      | Inr (out, rest) \<Rightarrow>
          ebind (mask_from (rev (consumed s rest) @ prev) rest) (\<lambda>m. Inr (out @ m)))"
  by pat_completeness auto
termination
  by (relation "measure (\<lambda>(prev, s). length s)") (auto dest: mask_token_length(2))

declare mask_from.simps [simp del]

definition mask_non_code :: "string \<Rightarrow> string exc" where
  "mask_non_code source = mask_from [] source"

text \<open>Masking is total up to its three errors and keeps every position.\<close>

lemma length_mask_from: "mask_from prev s = Inr m \<Longrightarrow> length m = length s"
proof (induction prev s arbitrary: m rule: mask_from.induct)
  case (1 prev s)
  then show ?case
    by (auto simp: mask_from.simps [of prev s] ebind_Inr_iff mask_token_length(1)
        split: if_splits sum.splits)
qed

section \<open>Patterns\<close>

definition ascii_lower :: "char \<Rightarrow> char" where
  "ascii_lower c = (let n = of_char c :: nat in if 65 \<le> n \<and> n \<le> 90 then char_of (n + 32) else c)"

text \<open>A literal, any case: what follows it.\<close>

definition lit :: "string \<Rightarrow> string \<Rightarrow> string option" where
  "lit p s = (if map ascii_lower (take (length p) s) = p then Some (drop (length p) s) else None)"

definition spaces :: "string \<Rightarrow> string" where
  "spaces s = dropWhile is_space s"

definition spaces1 :: "string \<Rightarrow> string option" where
  "spaces1 s = (case s of [] \<Rightarrow> None | c # t \<Rightarrow> if is_space c then Some (spaces t) else None)"

definition word_end :: "string \<Rightarrow> bool" where
  "word_end s = (case s of [] \<Rightarrow> True | c # _ \<Rightarrow> \<not> is_word c)"

definition starts_with_char :: "(char \<Rightarrow> bool) \<Rightarrow> string \<Rightarrow> bool" where
  "starts_with_char p s = (case s of [] \<Rightarrow> False | c # _ \<Rightarrow> p c)"

text \<open>
  \<open>re.search\<close>: \<open>p\<close> holds at some position, given the character before it and the text
  from it.
\<close>

fun search_from :: "(char option \<Rightarrow> string \<Rightarrow> bool) \<Rightarrow> char option \<Rightarrow> string \<Rightarrow> bool" where
  "search_from p prev [] = p prev []"
| "search_from p prev (c # s) = (p prev (c # s) \<or> search_from p (Some c) s)"

definition not_after :: "(char \<Rightarrow> bool) \<Rightarrow> char option \<Rightarrow> bool" where
  "not_after cls prev = (case prev of None \<Rightarrow> True | Some c \<Rightarrow> \<not> cls c)"

definition unicode_escape_at :: "char option \<Rightarrow> string \<Rightarrow> bool" where
  "unicode_escape_at prev s =
     (not_after name_char prev
      \<and> (case lit ''u'' s of None \<Rightarrow> False | Some r \<Rightarrow>
          (case spaces r of [] \<Rightarrow> False
           | a # r' \<Rightarrow> a = CHR ''&'' \<and> starts_with_char (\<lambda>c. c = QUOTE \<or> c = DQUOTE) (spaces r'))))"

definition select_start :: "string \<Rightarrow> bool" where
  "select_start s = (case lit ''select'' (spaces s) of None \<Rightarrow> False | Some r \<Rightarrow> word_end r)"

definition into_at :: "char option \<Rightarrow> string \<Rightarrow> bool" where
  "into_at prev s = (not_after is_word prev
     \<and> (case lit ''into'' s of None \<Rightarrow> False | Some r \<Rightarrow> word_end r))"

definition update_or_share :: "string \<Rightarrow> bool" where
  "update_or_share s = ((case lit ''update'' s of None \<Rightarrow> False | Some r \<Rightarrow> word_end r)
     \<or> (case lit ''share'' s of None \<Rightarrow> False | Some r \<Rightarrow> word_end r))"

definition key_lock :: "string \<Rightarrow> bool" where
  "key_lock s = (case Option.bind (lit ''key'' s) spaces1 of
     None \<Rightarrow> False | Some r \<Rightarrow> update_or_share r)"

definition locking_clause_at :: "char option \<Rightarrow> string \<Rightarrow> bool" where
  "locking_clause_at prev s =
     (not_after is_word prev
      \<and> (case Option.bind (lit ''for'' s) spaces1 of None \<Rightarrow> False
         | Some r \<Rightarrow> update_or_share r \<or> key_lock r
             \<or> (case Option.bind (lit ''no'' r) spaces1 of None \<Rightarrow> False | Some r' \<Rightarrow> key_lock r')))"

definition call_of :: "string \<Rightarrow> string \<Rightarrow> bool" where
  "call_of name s = (case lit name s of None \<Rightarrow> False
     | Some r \<Rightarrow> starts_with_char (\<lambda>c. c = CHR ''('') (spaces r))"

definition blocked_call_at :: "string \<Rightarrow> char option \<Rightarrow> string \<Rightarrow> bool" where
  "blocked_call_at name prev s =
     (not_after name_char prev
      \<and> (call_of name s
         \<or> starts_with_char tag_start s
           \<and> (case spaces (dropWhile name_char s) of [] \<Rightarrow> False
              | c # r \<Rightarrow> c = CHR ''.'' \<and> call_of name (spaces r))))"

definition BLOCKED_FUNCTIONS :: "string list" where
  "BLOCKED_FUNCTIONS =
    [''dblink'', ''dblink_connect'', ''dblink_disconnect'',
     ''dblink_exec'', ''lo_create'', ''lo_export'',
     ''lo_import'', ''lo_unlink'', ''nextval'',
     ''pg_advisory_lock'', ''pg_advisory_lock_shared'', ''pg_advisory_xact_lock'',
     ''pg_advisory_xact_lock_shared'', ''pg_backup_start'', ''pg_backup_stop'',
     ''pg_cancel_backend'', ''pg_create_logical_replication_slot'', ''pg_create_physical_replication_slot'',
     ''pg_create_restore_point'', ''pg_drop_replication_slot'', ''pg_log_backend_memory_contexts'',
     ''pg_notify'', ''pg_promote'', ''pg_read_binary_file'',
     ''pg_read_file'', ''pg_reload_conf'', ''pg_replication_origin_advance'',
     ''pg_replication_origin_create'', ''pg_replication_origin_drop'', ''pg_replication_origin_session_reset'',
     ''pg_replication_origin_session_setup'', ''pg_rotate_logfile'', ''pg_sleep'',
     ''pg_sleep_for'', ''pg_sleep_until'', ''pg_start_backup'',
     ''pg_stat_file'', ''pg_stop_backup'', ''pg_switch_wal'',
     ''pg_terminate_backend'', ''pg_try_advisory_lock'', ''pg_try_advisory_lock_shared'',
     ''pg_try_advisory_xact_lock'', ''pg_try_advisory_xact_lock_shared'', ''pg_wal_replay_pause'',
     ''pg_wal_replay_resume'', ''set_config'', ''setval'']"

section \<open>The policy\<close>

fun split_at_char :: "char \<Rightarrow> string \<Rightarrow> (string \<times> string) option" where
  "split_at_char x [] = None"
| "split_at_char x (c # s) =
     (if c = x then Some ([], s) else map_option (\<lambda>(u, v). (c # u, v)) (split_at_char x s))"

text \<open>The checks on the masked text of a single statement, in the code's order.\<close>

definition statement_error :: "string \<Rightarrow> exn option" where
  "statement_error masked = first_error
     ([(\<not> select_start masked,
          QuerySafetyError ''SafeDBA diagnostic tools allow only SELECT statements.''),
       (search_from into_at None masked,
          QuerySafetyError ''SELECT INTO is not allowed in diagnostic queries.''),
       (search_from locking_clause_at None masked,
          QuerySafetyError ''Row-locking SELECT clauses are not allowed.'')]
      @ map (\<lambda>f. (search_from (blocked_call_at f) None masked,
                 QuerySafetyError (''Function '' @ QUOTE # f @ QUOTE # '' is not allowed in diagnostic SQL.'')))
          BLOCKED_FUNCTIONS)"

definition ensure_read_only_query :: "pyval \<Rightarrow> nat \<Rightarrow> string exc" where
  "ensure_read_only_query query max_length =
     (case query of
        PStr q \<Rightarrow>
          (let normalized = strip q in
           if normalized = [] then Inl (QuerySafetyError ''Diagnostic SQL must not be empty.'')
           else if max_length < length normalized
           then Inl (QuerySafetyError ''Diagnostic SQL exceeds the configured length limit.'')
           else if search_from unicode_escape_at None normalized
           then Inl (QuerySafetyError ''PostgreSQL Unicode-escape strings and identifiers are not allowed in diagnostic SQL.'')
           else ebind (mask_non_code normalized) (\<lambda>masked.
             case split_at_char CHR '';'' masked of
               None \<Rightarrow> (case statement_error masked of Some e \<Rightarrow> Inl e | None \<Rightarrow> Inr normalized)
             | Some (code, tail) \<Rightarrow>
                 if List.member tail CHR '';'' \<or> strip tail \<noteq> []
                 then Inl (QuerySafetyError ''Multiple SQL statements are not allowed.'')
                 else (case statement_error code of Some e \<Rightarrow> Inl e
                       | None \<Rightarrow> Inr (rstrip (take (length code) normalized)))))
      | _ \<Rightarrow> Inl (QuerySafetyError ''Diagnostic SQL must be a string.''))"

definition DEFAULT_MAX_LENGTH :: nat where
  "DEFAULT_MAX_LENGTH = 50000"

section \<open>What an accepted query is\<close>

lemma split_at_char_Some:
  "split_at_char x s = Some (u, v) \<Longrightarrow> s = u @ x # v \<and> x \<notin> set u"
  by (induction s arbitrary: u v) (auto split: if_splits)

lemma split_at_char_None: "split_at_char x s = None \<longleftrightarrow> x \<notin> set s"
  by (induction s) auto

definition single_select :: "string \<Rightarrow> bool" where
  "single_select code \<longleftrightarrow> CHR '';'' \<notin> set code \<and> select_start code
     \<and> \<not> search_from into_at None code \<and> \<not> search_from locking_clause_at None code
     \<and> (\<forall>f \<in> set BLOCKED_FUNCTIONS. \<not> search_from (blocked_call_at f) None code)"

lemma statement_error_None:
  "statement_error code = None \<Longrightarrow> CHR '';'' \<notin> set code \<Longrightarrow> single_select code"
  unfolding statement_error_def first_error_None single_select_def by auto

text \<open>
  Every accepted query has a masked text, the returned statement is a prefix of the query
  text, and the masked text of that prefix is one \<open>SELECT\<close> with nothing the policy
  forbids; what follows it is blank but for one separator.
\<close>

lemma accepted_query:
  assumes "ensure_read_only_query (PStr q) n = Inr r"
  shows "\<exists>code tail. single_select code \<and> (tail = [] \<or> (\<exists>sp. tail = CHR '';'' # sp \<and> strip sp = []))
    \<and> mask_non_code (strip q) = Inr (code @ tail) \<and> rstrip r = rstrip (take (length code) (strip q))
    \<and> length (strip q) \<le> n \<and> \<not> search_from unicode_escape_at None (strip q)"
proof -
  from assms obtain masked where m: "mask_non_code (strip q) = Inr masked"
    and n: "length (strip q) \<le> n" "\<not> search_from unicode_escape_at None (strip q)"
    by (auto simp: ensure_read_only_query_def Let_def ebind_Inr_iff split: if_splits)
  have l: "length masked = length (strip q)"
    using m length_mask_from by (simp add: mask_non_code_def)
  show ?thesis
  proof (cases "split_at_char CHR '';'' masked")
    case None
    with assms m n have "statement_error masked = None" "r = strip q"
      by (auto simp: ensure_read_only_query_def Let_def split: if_splits option.splits)
    with None m n l show ?thesis
      using statement_error_None [of masked]
      by (intro exI [of _ masked] exI [of _ "[]"]) (simp add: split_at_char_None)
  next
    case (Some p)
    obtain code tail where p: "p = (code, tail)" by (cases p)
    note sp = split_at_char_Some [OF Some [unfolded p]]
    have "statement_error code = None" "strip tail = []"
      and r: "r = rstrip (take (length code) (strip q))"
      using assms m n Some p
      by (auto simp: ensure_read_only_query_def Let_def split: if_splits option.splits)
    with sp m n show ?thesis
      using statement_error_None [of code]
      by (intro exI [of _ code] exI [of _ "CHR '';'' # tail"]) (simp add: rstrip_idem)
  qed
qed

end
