(* ===== verification/Safety.thy ===== *)
theory Safety
  imports Main
begin

text \<open>
  \<open>safety.py\<close>: the risk of each operation type, which risks need approval and which are
  never allowed. An operation the table does not name is CRITICAL.
\<close>

definition RISK_LEVELS :: "(string \<times> string) list" where
  "RISK_LEVELS =
    [(''EXPLAIN'', ''LOW''), (''EXPLAIN_ANALYZE'', ''LOW''), (''SELECT'', ''LOW''),
     (''REWRITE_QUERY'', ''LOW''), (''CREATE_INDEX'', ''MEDIUM''), (''ANALYZE'', ''MEDIUM''),
     (''ANALYZE_TABLE'', ''MEDIUM''), (''ALTER_SYSTEM'', ''CRITICAL''), (''UPDATE'', ''HIGH''),
     (''DELETE'', ''HIGH''), (''DROP_INDEX'', ''HIGH''), (''TERMINATE_BACKEND'', ''HIGH''),
     (''DROP_TABLE'', ''CRITICAL'')]"

definition assess_risk :: "string \<Rightarrow> string" where
  "assess_risk operation_type =
     (case map_of RISK_LEVELS operation_type of Some r \<Rightarrow> r | None \<Rightarrow> ''CRITICAL'')"

definition requires_approval :: "string \<Rightarrow> bool" where
  "requires_approval risk \<longleftrightarrow> List.member [''MEDIUM'', ''HIGH'', ''CRITICAL''] risk"

definition is_operation_allowed :: "string \<Rightarrow> bool" where
  "is_operation_allowed risk \<longleftrightarrow> risk \<noteq> ''CRITICAL''"

lemma assess_risk_levels: "assess_risk op \<in> {''LOW'', ''MEDIUM'', ''HIGH'', ''CRITICAL''}"
  by (auto simp: assess_risk_def RISK_LEVELS_def)

lemma allowed_operations_known:
  "is_operation_allowed (assess_risk op) \<Longrightarrow> op \<in> fst ` set RISK_LEVELS"
  by (force simp: assess_risk_def is_operation_allowed_def split: option.splits dest: map_of_SomeD)

end
