(* ===== verification/Actions.thy ===== *)
theory Actions
  imports Serialization QueryGuard Safety
begin

text \<open>
  \<open>actions.py\<close>: proposals and their validation. \<open>validate_proposal_shape\<close> reads the
  proposal only; \<open>validate_action_proposal\<close> also reads the database, whose answers
  (columns of a table, indexes, lock waits) are its arguments. Each message the code
  appends is a constructor of \<open>proposal_error\<close>.
\<close>

datatype proposal_error =
    Not_an_object
  | Unsupported_action_type pyval
  | Blank_reason
  | Confidence_not_numeric
  | Confidence_not_finite
  | Confidence_out_of_range
  | Risk_mismatch
  | Query_missing string
  | Query_unsafe string
  | Missing_table
  | Missing_column
  | Missing_index_name
  | Index_name_mismatch
  | Rewrite_identical
  | Columns_invalid
  | Pid_not_positive string
  | Pids_equal
  | Timestamp_missing string
  | Missing_original_query
  | Missing_rewritten_query
  | Columns_not_list
  | Column_blank
  | Table_unknown string
  | Column_unknown string
  | Column_already_indexed string
  | Columns_unknown "pyval list"
  | Not_blocking
  | Not_waiting_on_lock
  | Blocker_not_idle pyval

record shape =
  shape_valid :: bool
  shape_errors :: "proposal_error list"

definition shape_of :: "proposal_error list \<Rightarrow> shape" where
  "shape_of errors = \<lparr>shape_valid = (errors = []), shape_errors = errors\<rparr>"

section \<open>Building proposals\<close>

definition build_create_index_proposal ::
  "platform \<Rightarrow> string \<Rightarrow> string \<Rightarrow> string \<Rightarrow> string \<Rightarrow> pyval \<Rightarrow> pyval" where
  "build_create_index_proposal P query table column reason confidence = PDict
     [(''type'', PStr ''CREATE_INDEX''), (''query'', PStr query), (''table'', PStr table),
      (''column'', PStr column), (''index_name'', PStr (build_index_name P table column)),
      (''reason'', PStr reason), (''confidence'', confidence),
      (''risk'', PStr (assess_risk ''CREATE_INDEX''))]"

definition build_query_rewrite_proposal :: "string \<Rightarrow> string \<Rightarrow> string \<Rightarrow> pyval \<Rightarrow> pyval" where
  "build_query_rewrite_proposal original rewritten reason confidence = PDict
     [(''type'', PStr ''REWRITE_QUERY''), (''original_query'', PStr original),
      (''rewritten_query'', PStr rewritten), (''reason'', PStr reason),
      (''confidence'', confidence), (''risk'', PStr (assess_risk ''REWRITE_QUERY''))]"

definition build_analyze_table_proposal ::
  "string \<Rightarrow> string \<Rightarrow> string list \<Rightarrow> string \<Rightarrow> pyval \<Rightarrow> pyval" where
  "build_analyze_table_proposal query table columns reason confidence = PDict
     [(''type'', PStr ''ANALYZE_TABLE''), (''query'', PStr query), (''table'', PStr table),
      (''columns'', PList (map PStr columns)), (''reason'', PStr reason),
      (''confidence'', confidence), (''risk'', PStr (assess_risk ''ANALYZE_TABLE''))]"

definition build_terminate_backend_proposal ::
  "int \<Rightarrow> int \<Rightarrow> string \<Rightarrow> string \<Rightarrow> string \<Rightarrow> pyval \<Rightarrow> pyval" where
  "build_terminate_backend_proposal blocked blocker backend_start xact_start reason confidence =
     PDict
     [(''type'', PStr ''TERMINATE_BACKEND''), (''blocked_pid'', PInt blocked),
      (''blocker_pid'', PInt blocker), (''blocker_backend_start'', PStr backend_start),
      (''blocker_xact_start'', PStr xact_start), (''reason'', PStr reason),
      (''confidence'', confidence), (''risk'', PStr (assess_risk ''TERMINATE_BACKEND''))]"

section \<open>Shape\<close>

definition validate_confidence :: "pyval \<Rightarrow> proposal_error list" where
  "validate_confidence proposal =
     (let c = dget proposal ''confidence'' in
      if is_bool c \<or> \<not> (is_int c \<or> is_float c) then [Confidence_not_numeric]
      else case num_val c of
          None \<Rightarrow> [Confidence_not_finite]
        | Some r \<Rightarrow> if 0 \<le> r \<and> r \<le> 1 then [] else [Confidence_out_of_range])"

definition SUPPORTED :: "string list" where
  "SUPPORTED = [''CREATE_INDEX'', ''REWRITE_QUERY'', ''ANALYZE_TABLE'', ''TERMINATE_BACKEND'']"

definition guard_errors :: "platform \<Rightarrow> pyval \<Rightarrow> proposal_error list" where
  "guard_errors P query = (case ensure_read_only_query query (max_query_length P) of
     Inr _ \<Rightarrow> []
   | Inl (QuerySafetyError m) \<Rightarrow> [Query_unsafe m]
   | Inl _ \<Rightarrow> [])"

definition require_read_only :: "platform \<Rightarrow> pyval \<Rightarrow> string \<Rightarrow> proposal_error list" where
  "require_read_only P proposal name =
     (if \<not> nonblank (dget proposal name) then [Query_missing name]
      else guard_errors P (dget proposal name))"

definition create_index_shape :: "platform \<Rightarrow> pyval \<Rightarrow> proposal_error list" where
  "create_index_shape P proposal =
     (let table = dget proposal ''table''; column = dget proposal ''column'';
          index_name = dget proposal ''index_name''
      in require_read_only P proposal ''query''
       @ errors_of [(\<not> nonblank table, Missing_table), (\<not> nonblank column, Missing_column)]
       @ (if \<not> nonblank index_name then [Missing_index_name]
          else if nonblank table \<and> nonblank column
                  \<and> str_of index_name \<noteq> build_index_name P (str_of table) (str_of column)
          then [Index_name_mismatch] else []))"

definition rewrite_shape :: "platform \<Rightarrow> pyval \<Rightarrow> proposal_error list" where
  "rewrite_shape P proposal =
     (let original = dget proposal ''original_query''; rewritten = dget proposal ''rewritten_query''
      in require_read_only P proposal ''original_query''
       @ require_read_only P proposal ''rewritten_query''
       @ errors_of [(is_str original \<and> is_str rewritten
                     \<and> strip (str_of original) = strip (str_of rewritten), Rewrite_identical)])"

definition analyze_shape :: "platform \<Rightarrow> pyval \<Rightarrow> proposal_error list" where
  "analyze_shape P proposal =
     (let columns = dget proposal ''columns''
      in require_read_only P proposal ''query''
       @ errors_of [(\<not> nonblank (dget proposal ''table''), Missing_table),
           (\<not> is_list columns \<or> py_items columns = []
              \<or> list_ex (\<lambda>c. \<not> nonblank c) (py_items columns), Columns_invalid)])"

definition terminate_shape :: "pyval \<Rightarrow> proposal_error list" where
  "terminate_shape proposal =
     (let blocked = dget proposal ''blocked_pid''; blocker = dget proposal ''blocker_pid''
      in errors_of
          [(\<not> is_positive_int blocked, Pid_not_positive ''blocked_pid''),
           (\<not> is_positive_int blocker, Pid_not_positive ''blocker_pid''),
           (is_int blocked \<and> \<not> is_bool blocked \<and> is_int blocker \<and> \<not> is_bool blocker
              \<and> int_of blocked = int_of blocker, Pids_equal),
           (\<not> nonblank (dget proposal ''blocker_backend_start''),
              Timestamp_missing ''blocker_backend_start''),
           (\<not> nonblank (dget proposal ''blocker_xact_start''),
              Timestamp_missing ''blocker_xact_start'')])"

text \<open>
  A list or an object as action type cannot be looked up in the set of types, and an integer
  confidence too large for a float raises before the range test.
\<close>

definition validate_proposal_shape :: "platform \<Rightarrow> pyval \<Rightarrow> shape exc" where
  "validate_proposal_shape P proposal =
     (if \<not> is_dict proposal then Inr (shape_of [Not_an_object])
      else
        (let action_type = dget proposal ''type'' in
         if is_list action_type \<or> is_dict action_type then Inl (TypeError ''unhashable type'')
         else if float_overflow (dget proposal ''confidence'') then Inl overflow_error
         else
          (let supported = is_str action_type \<and> List.member SUPPORTED (str_of action_type) in
           Inr (shape_of
             (errors_of [(\<not> supported, Unsupported_action_type action_type),
                         (\<not> nonblank (dget proposal ''reason''), Blank_reason)]
              @ validate_confidence proposal
              @ errors_of [(supported \<and> \<not> py_eq (dget proposal ''risk'')
                                             (PStr (assess_risk (str_of action_type))), Risk_mismatch)]
              @ (if action_type = PStr ''CREATE_INDEX'' then create_index_shape P proposal
                 else if action_type = PStr ''REWRITE_QUERY'' then rewrite_shape P proposal
                 else if action_type = PStr ''ANALYZE_TABLE'' then analyze_shape P proposal
                 else if action_type = PStr ''TERMINATE_BACKEND'' then terminate_shape proposal
                 else []))))))"

end
