(* ===== verification/LockPlan.thy ===== *)
theory LockPlan
  imports IncidentData Actions
begin

text \<open>
  The planning half of \<open>incident_workflow.py\<close>: which lock relationships may be acted on,
  how the Agent's proposals are matched against a complete lock snapshot, and the ordered
  list of actions of a new incident. Rows and proposals are untrusted dictionaries.
\<close>

definition SAFE_BLOCKER_STATES :: "string list" where
  "SAFE_BLOCKER_STATES = [''idle in transaction'', ''idle in transaction (aborted)'']"

datatype row_error =
    Invalid_blocked_pid
  | Invalid_blocker_pid
  | Same_pid
  | Missing_field string
  | Not_lock_wait
  | Blocker_state_unsafe
  | Blocker_not_client
  | Blocked_database_missing
  | Blocker_database_missing
  | Outside_snapshot_database
  | Databases_differ

datatype plan_error =
    Proposal_not_object nat
  | Proposal_not_terminate nat
  | Proposal_shape nat "proposal_error list"
  | Proposal_stale nat
  | Proposal_outside_policy nat "row_error list"

datatype plan_failure =
    Snapshot_invalid string
  | No_proposals
  | Rejected "plan_error list"
  | Conflicting_identities "int list"
  | No_actionable_blocker
  | Too_many_actions
  | Plan_raised exn

section \<open>Snapshots and relationships\<close>

definition snapshot_rows :: "pyval \<Rightarrow> (string, pyval list) sum" where
  "snapshot_rows snapshot =
     (if \<not> is_dict snapshot then Inl ''Lock snapshot must be an object.''
      else if dget snapshot ''truncated'' \<noteq> PBool False
      then Inl ''The lock snapshot is truncated or has no completeness flag.''
      else case dget snapshot ''rows'' of
          PList rows \<Rightarrow>
            if list_all is_dict rows then Inr rows
            else Inl ''Every lock relationship must be an object.''
        | _ \<Rightarrow> Inl ''Lock snapshot rows must be a list.'')"

text \<open>
  The errors of one row. (An unhashable \<open>blocker_state\<close>, which PostgreSQL cannot return,
  is an unsafe state here and a TypeError in Python.)
\<close>

definition relationship_policy_errors :: "pyval \<Rightarrow> pyval \<Rightarrow> row_error list" where
  "relationship_policy_errors row database_name =
     (let blocked = dget row ''blocked_pid''; blocker = dget row ''blocker_pid'';
          row_db = dget row ''database_name''; blocker_db = dget row ''blocker_database_name''
      in errors_of
         [(\<not> is_positive_int blocked, Invalid_blocked_pid),
          (\<not> is_positive_int blocker, Invalid_blocker_pid),
          (is_positive_int blocked \<and> is_positive_int blocker \<and> py_eq blocked blocker, Same_pid),
          (\<not> nonblank (dget row ''blocked_backend_start''), Missing_field ''blocked_backend_start''),
          (\<not> nonblank (dget row ''blocked_xact_start''), Missing_field ''blocked_xact_start''),
          (\<not> nonblank (dget row ''blocker_backend_start''), Missing_field ''blocker_backend_start''),
          (\<not> nonblank (dget row ''blocker_xact_start''), Missing_field ''blocker_xact_start''),
          (\<not> py_eq (dget row ''blocked_wait_event_type'') (PStr ''Lock''), Not_lock_wait),
          (\<not> list_ex (\<lambda>s. py_eq (dget row ''blocker_state'') (PStr s)) SAFE_BLOCKER_STATES,
             Blocker_state_unsafe),
          (\<not> py_eq (dget row ''blocker_backend_type'') (PStr ''client backend''), Blocker_not_client),
          (\<not> nonblank row_db, Blocked_database_missing),
          (\<not> nonblank blocker_db, Blocker_database_missing),
          (nonblank database_name \<and> \<not> py_eq row_db database_name, Outside_snapshot_database),
          (\<not> py_eq blocker_db row_db, Databases_differ)])"

definition eligible_rows :: "pyval \<Rightarrow> pyval list \<Rightarrow> pyval list" where
  "eligible_rows database_name rows =
     filter (\<lambda>row. relationship_policy_errors row database_name = []) rows"

definition actionable_relationships :: "pyval \<Rightarrow> (string, pyval list) sum" where
  "actionable_relationships snapshot =
     ebind (snapshot_rows snapshot)
       (\<lambda>rows. Inr (eligible_rows (dget snapshot ''database_name'') rows))"

definition relationship_target :: "pyval \<Rightarrow> pyval" where
  "relationship_target row = PDict
     [(''database_name'', dget row ''database_name''),
      (''blocker_pid'', dget row ''blocker_pid''),
      (''blocker_backend_start'', dget row ''blocker_backend_start''),
      (''blocker_xact_start'', dget row ''blocker_xact_start'')]"

definition waiter_key :: "pyval \<Rightarrow> pyval list" where
  "waiter_key w =
     [dget w ''blocked_pid'', dget w ''blocked_backend_start'', dget w ''blocked_xact_start'']"

definition proposal_matches_row :: "pyval \<Rightarrow> pyval \<Rightarrow> bool" where
  "proposal_matches_row proposal row \<longleftrightarrow>
     py_eq (dget proposal ''blocked_pid'') (dget row ''blocked_pid'')
   \<and> py_eq (dget proposal ''blocker_pid'') (dget row ''blocker_pid'')
   \<and> py_eq (dget proposal ''blocker_backend_start'') (dget row ''blocker_backend_start'')
   \<and> py_eq (dget proposal ''blocker_xact_start'') (dget row ''blocker_xact_start'')"

definition safe_confidence :: "pyval \<Rightarrow> rat" where
  "safe_confidence v =
     (if is_bool v then 1 else case num_val v of
        None \<Rightarrow> 1 | Some r \<Rightarrow> if r < 0 \<or> 1 < r then 1 else r)"

section \<open>Matching proposals\<close>

text \<open>One proposal: the row it matches, or what is wrong with it.\<close>

definition match_proposal ::
  "platform \<Rightarrow> pyval \<Rightarrow> pyval list \<Rightarrow> nat \<Rightarrow> pyval \<Rightarrow> (plan_error + pyval) exc" where
  "match_proposal P database_name rows index proposal =
     (if \<not> is_dict proposal then Inr (Inl (Proposal_not_object index))
      else if \<not> py_eq (dget proposal ''type'') (PStr ''TERMINATE_BACKEND'')
      then Inr (Inl (Proposal_not_terminate index))
      else ebind (validate_proposal_shape P proposal) (\<lambda>shape.
        if \<not> shape_valid shape then Inr (Inl (Proposal_shape index (shape_errors shape)))
        else case find (proposal_matches_row proposal) (eligible_rows database_name rows) of
            Some row \<Rightarrow> Inr (Inr row)
          | None \<Rightarrow> (case find (proposal_matches_row proposal) rows of
                None \<Rightarrow> Inr (Inl (Proposal_stale index))
              | Some row \<Rightarrow> Inr (Inl (Proposal_outside_policy index
                  (relationship_policy_errors row database_name))))))"

fun match_proposals ::
  "platform \<Rightarrow> pyval \<Rightarrow> pyval list \<Rightarrow> nat \<Rightarrow> pyval list
   \<Rightarrow> (plan_error list \<times> (pyval \<times> pyval) list) exc" where
  "match_proposals P db rows index [] = Inr ([], [])"
| "match_proposals P db rows index (p # ps) =
     ebind (match_proposal P db rows index p) (\<lambda>m.
     ebind (match_proposals P db rows (Suc index) ps) (\<lambda>(errs, matches).
       Inr (case m of Inl e \<Rightarrow> (e # errs, matches) | Inr row \<Rightarrow> (errs, (p, row) # matches))))"

section \<open>Grouping by blocker\<close>

definition row_key :: "pyval \<Rightarrow> pyval list" where
  "row_key row = target_key (relationship_target row)"

definition key_member :: "pyval list \<Rightarrow> pyval list list \<Rightarrow> bool" where
  "key_member k ks = list_ex (py_eqs k) ks"

text \<open>\<open>grouped.setdefault(key, []).append(row)\<close>\<close>

fun add_to_group ::
  "pyval list \<Rightarrow> pyval \<Rightarrow> (pyval list \<times> pyval list) list \<Rightarrow> (pyval list \<times> pyval list) list" where
  "add_to_group k row [] = [(k, [row])]"
| "add_to_group k row ((k', rows) # gs) =
     (if py_eqs k' k then (k', rows @ [row]) # gs else (k', rows) # add_to_group k row gs)"

definition group_rows :: "pyval list list \<Rightarrow> pyval list \<Rightarrow> (pyval list \<times> pyval list) list" where
  "group_rows approved rows =
     foldl (\<lambda>gs row. if key_member (row_key row) approved then add_to_group (row_key row) row gs else gs)
       [] rows"

text \<open>Blocker PIDs seen with two different identities.\<close>

definition conflicting_pids :: "pyval list \<Rightarrow> int list" where
  "conflicting_pids eligible =
     sort (remdups (map (\<lambda>r. int_of (dget r ''blocker_pid''))
       (filter (\<lambda>r. list_ex (\<lambda>r'. py_eq (dget r' ''blocker_pid'') (dget r ''blocker_pid'')
                                 \<and> \<not> py_eqs (row_key r') (row_key r)) eligible) eligible)))"

text \<open>
  Sort key of a group: a blocker that is itself blocked comes later, then by transaction
  start, then by PID.
\<close>

definition group_sort_key :: "pyval list \<Rightarrow> (pyval list \<times> pyval list) \<Rightarrow> pyval list" where
  "group_sort_key blocked g =
     [PBool (list_ex (py_eq (fst g ! 1)) blocked), fst g ! 3, fst g ! 1]"

section \<open>Actions\<close>

fun list_min :: "int list \<Rightarrow> int" where
  "list_min [] = 0"
| "list_min [x] = x"
| "list_min (x # xs) = min x (list_min xs)"

fun list_max :: "rat \<Rightarrow> rat list \<Rightarrow> rat" where
  "list_max d [] = d"
| "list_max d [x] = x"
| "list_max d (x # xs) = max x (list_max d xs)"

text \<open>The set of the keys, for hashable keys.\<close>

fun dedup_keys :: "pyval list list \<Rightarrow> pyval list list" where
  "dedup_keys [] = []"
| "dedup_keys (k # ks) = (if key_member k ks then dedup_keys ks else k # dedup_keys ks)"

definition waiter_dict :: "pyval list \<Rightarrow> pyval" where
  "waiter_dict k = PDict
     [(''blocked_pid'', k ! 0), (''blocked_backend_start'', k ! 1), (''blocked_xact_start'', k ! 2)]"

definition allowed_pids :: "pyval list \<Rightarrow> int list" where
  "allowed_pids rows = sort (remdups (map (\<lambda>r. int_of (dget r ''blocked_pid'')) rows))"

definition group_waiters :: "pyval list \<Rightarrow> pyval list exc" where
  "group_waiters rows =
     ebind (py_sorted (\<lambda>k. k) (dedup_keys (map waiter_key rows))) (\<lambda>ks. Inr (map waiter_dict ks))"

definition PLAN_REASON :: string where
  "PLAN_REASON = ''IncidentWorkflow identified this exact idle-in-transaction backend as a current lock blocker.''"

definition plan_proposal :: "pyval \<Rightarrow> int \<Rightarrow> rat \<Rightarrow> pyval" where
  "plan_proposal target representative confidence = PDict
     [(''type'', PStr ''TERMINATE_BACKEND''),
      (''database_name'', dget target ''database_name''),
      (''blocked_pid'', PInt representative),
      (''blocker_pid'', dget target ''blocker_pid''),
      (''blocker_backend_start'', dget target ''blocker_backend_start''),
      (''blocker_xact_start'', dget target ''blocker_xact_start''),
      (''reason'', PStr PLAN_REASON),
      (''confidence'', PFloat (Finite confidence)),
      (''risk'', PStr ''HIGH'')]"

definition group_proposals :: "(pyval \<times> pyval) list \<Rightarrow> pyval list \<Rightarrow> pyval list" where
  "group_proposals matches key = map fst (filter (\<lambda>(p, row). py_eqs (row_key row) key) matches)"

definition representative_of :: "pyval list \<Rightarrow> int list \<Rightarrow> int" where
  "representative_of proposals allowed =
     (let proposed = filter (\<lambda>pid. List.member allowed pid)
                       (map (\<lambda>p. int_of (dget p ''blocked_pid'')) proposals)
      in if proposed \<noteq> [] then list_min proposed else list_min allowed)"

definition plan_action ::
  "platform \<Rightarrow> string \<Rightarrow> string \<Rightarrow> string \<Rightarrow> (pyval \<times> pyval) list \<Rightarrow> int
   \<Rightarrow> (pyval list \<times> pyval list) \<Rightarrow> action exc" where
  "plan_action P incident_id timestamp action_id matches ordinal g =
     (let target = relationship_target (hd (snd g));
          allowed = allowed_pids (snd g);
          proposals = group_proposals matches (fst g);
          proposal = plan_proposal target (representative_of proposals allowed)
            (list_max 1 (map (\<lambda>p. safe_confidence (dget p ''confidence'')) proposals))
      in ebind (group_waiters (snd g)) (\<lambda>waiters.
         ebind (json_digest P target) (\<lambda>target_digest.
         ebind (json_digest P (PDict
             [(''incident_id'', PStr incident_id), (''plan_revision'', PInt 1),
              (''target_digest'', PStr target_digest)])) (\<lambda>key.
           Inr \<lparr>act_id = action_id, act_ordinal = ordinal, act_revision = 1,
                act_type = ''TERMINATE_BACKEND'', act_risk = ''HIGH'', act_state = PLANNED,
                act_key = key, act_target = target,
                act_blocked_pids = PList (map PInt allowed), act_waiters = PList waiters,
                act_proposal = proposal, act_attempts = 0, act_operation = Some action_id,
                act_result = PNone, act_error = PNone,
                act_created = timestamp, act_updated = timestamp\<rparr>))))"

text \<open>\<open>uuids n\<close> is the identifier drawn for the \<open>n\<close>-th action.\<close>

fun plan_actions ::
  "platform \<Rightarrow> string \<Rightarrow> string \<Rightarrow> (nat \<Rightarrow> string) \<Rightarrow> (pyval \<times> pyval) list \<Rightarrow> nat
   \<Rightarrow> (pyval list \<times> pyval list) list \<Rightarrow> action list exc" where
  "plan_actions P incident_id timestamp uuids matches n [] = Inr []"
| "plan_actions P incident_id timestamp uuids matches n (g # gs) =
     ebind (plan_action P incident_id timestamp (uuids n) matches (int (Suc n)) g) (\<lambda>a.
     ebind (plan_actions P incident_id timestamp uuids matches (Suc n) gs) (\<lambda>as. Inr (a # as)))"

definition approved_keys ::
  "(pyval \<times> pyval) list \<Rightarrow> bool \<Rightarrow> pyval list \<Rightarrow> pyval list list" where
  "approved_keys matches expand_all eligible =
     map (\<lambda>(_, row). row_key row) matches @ (if expand_all then map row_key eligible else [])"

definition raised :: "'a exc \<Rightarrow> plan_failure + 'a" where
  "raised m = (case m of Inl e \<Rightarrow> Inl (Plan_raised e) | Inr x \<Rightarrow> Inr x)"

definition build_termination_plan ::
  "platform \<Rightarrow> string \<Rightarrow> pyval \<Rightarrow> pyval \<Rightarrow> bool \<Rightarrow> int \<Rightarrow> int \<Rightarrow> (nat \<Rightarrow> string)
   \<Rightarrow> plan_failure + action list" where
  "build_termination_plan P incident_id snapshot proposals expand_all max_actions now uuids =
     (case snapshot_rows snapshot of Inl e \<Rightarrow> Inl (Snapshot_invalid e) | Inr rows \<Rightarrow>
      let db = dget snapshot ''database_name''; eligible = eligible_rows db rows in
      if \<not> is_list proposals \<or> py_items proposals = [] then Inl No_proposals else
      ebind (raised (match_proposals P db rows 1 (py_items proposals))) (\<lambda>(errs, matches).
      if errs \<noteq> [] then Inl (Rejected errs)
      else if conflicting_pids eligible \<noteq> []
      then Inl (Conflicting_identities (conflicting_pids eligible))
      else
       (let grouped = group_rows (approved_keys matches expand_all eligible) eligible in
        if grouped = [] then Inl No_actionable_blocker
        else if max_actions < int (length grouped) then Inl Too_many_actions
        else
          ebind (raised (py_sorted
              (group_sort_key (map (\<lambda>r. dget r ''blocked_pid'') eligible)) grouped)) (\<lambda>ordered.
            raised (plan_actions P incident_id (iso_utc now) uuids matches 0 ordered)))))"

definition summarize_row :: "pyval \<Rightarrow> pyval \<Rightarrow> pyval" where
  "summarize_row database_name row = PDict
     [(''blocked_pid'', dget row ''blocked_pid''),
      (''blocked_backend_start'', dget row ''blocked_backend_start''),
      (''blocked_xact_start'', dget row ''blocked_xact_start''),
      (''blocker_pid'', dget row ''blocker_pid''),
      (''blocker_backend_start'', dget row ''blocker_backend_start''),
      (''blocker_xact_start'', dget row ''blocker_xact_start''),
      (''blocker_state'', dget row ''blocker_state''),
      (''eligible'', PBool (relationship_policy_errors row database_name = []))]"

definition summarize_snapshot :: "pyval \<Rightarrow> (string, pyval) sum" where
  "summarize_snapshot snapshot =
     ebind (snapshot_rows snapshot) (\<lambda>rows. Inr (PDict
       [(''captured_at'', dget snapshot ''captured_at''),
        (''database_name'', dget snapshot ''database_name''),
        (''snapshot_digest'', dget snapshot ''snapshot_digest''),
        (''row_count'', PInt (int (length rows))),
        (''truncated'', PBool False),
        (''relationships'', PList (map (summarize_row (dget snapshot ''database_name'')) rows))]))"

section \<open>Eligible rows\<close>

text \<open>What an eligible row is made of: two different positive PIDs and text fields.\<close>

lemma eligible_fields:
  assumes "relationship_policy_errors row db = []"
  obtains i j s t u v d where
    "dget row ''blocked_pid'' = PInt i" "0 < i" "dget row ''blocker_pid'' = PInt j" "0 < j" "i \<noteq> j"
    "dget row ''blocked_backend_start'' = PStr s" "dget row ''blocked_xact_start'' = PStr t"
    "dget row ''blocker_backend_start'' = PStr u" "dget row ''blocker_xact_start'' = PStr v"
    "dget row ''database_name'' = PStr d" "strip d \<noteq> []" "strip u \<noteq> []" "strip v \<noteq> []"
    "strip s \<noteq> []" "strip t \<noteq> []"
    "dget row ''blocker_database_name'' = PStr d"
    "dget row ''blocked_wait_event_type'' = PStr ''Lock''"
    "dget row ''blocker_state'' = PStr ''idle in transaction''
     \<or> dget row ''blocker_state'' = PStr ''idle in transaction (aborted)''"
    "dget row ''blocker_backend_type'' = PStr ''client backend''"
    "nonblank db \<longrightarrow> db = PStr d"
  using assms
  by (auto simp: relationship_policy_errors_def Let_def is_positive_int_iff SAFE_BLOCKER_STATES_def
      py_eq_PStr_right elim!: nonblankE split: if_splits)
     (auto simp: py_eq_PStr_left)

definition plain_key :: "pyval list \<Rightarrow> bool" where
  "plain_key k \<longleftrightarrow> (\<exists>d j u v. k = [PStr d, PInt j, PStr u, PStr v])"

lemma plain_key_eq: "plain_key k \<Longrightarrow> plain_key k' \<Longrightarrow> py_eqs k k' \<longleftrightarrow> k = k'"
  by (auto simp: plain_key_def)

lemma row_key_eq: "row_key row =
    [dget row ''database_name'', dget row ''blocker_pid'',
     dget row ''blocker_backend_start'', dget row ''blocker_xact_start'']"
  by (simp add: row_key_def target_key_def relationship_target_def)

lemma target_of_row_key: "row_key row = row_key row' \<Longrightarrow> relationship_target row = relationship_target row'"
  by (simp add: row_key_eq relationship_target_def)

lemma eligible_plain_key: "relationship_policy_errors row db = [] \<Longrightarrow> plain_key (row_key row)"
  by (erule eligible_fields) (auto simp: row_key_eq plain_key_def)

lemma set_eligible_rows:
  "r \<in> set (eligible_rows db rows) \<longleftrightarrow> r \<in> set rows \<and> relationship_policy_errors r db = []"
  by (auto simp: eligible_rows_def)

section \<open>Groups\<close>

text \<open>
  What the grouping computes: one group per approved identity, in the order of first
  appearance, holding every eligible row of that identity.
\<close>

definition grouping_ok :: "pyval list list \<Rightarrow> pyval list \<Rightarrow> (pyval list \<times> pyval list) list \<Rightarrow> bool" where
  "grouping_ok approved rows gs \<longleftrightarrow>
     distinct (map fst gs)
   \<and> fst ` set gs = row_key ` {r \<in> set rows. key_member (row_key r) approved}
   \<and> (\<forall>(k, rs) \<in> set gs. rs = filter (\<lambda>r. row_key r = k) rows)"

lemma add_to_group_new:
  assumes "\<forall>g \<in> set gs. py_eqs (fst g) k \<longleftrightarrow> fst g = k" and "k \<notin> fst ` set gs"
  shows "add_to_group k r gs = gs @ [(k, [r])]"
  using assms by (induction gs) auto

lemma add_to_group_old:
  assumes "\<forall>g \<in> set gs. py_eqs (fst g) k \<longleftrightarrow> fst g = k" and "k \<in> fst ` set gs"
    and "distinct (map fst gs)"
  shows "add_to_group k r gs = map (\<lambda>(k', rs). (k', if k' = k then rs @ [r] else rs)) gs"
  using assms
proof (induction gs)
  case (Cons g gs)
  obtain k' rs where g: "g = (k', rs)" by (cases g)
  show ?case
  proof (cases "k' = k")
    case True
    then have "map (\<lambda>(k', rs). (k', if k' = k then rs @ [r] else rs)) gs = gs"
      using Cons.prems(3) g by (intro map_idI) (force simp: image_iff)
    with True g Cons.prems(1) show ?thesis by simp
  next
    case False
    with Cons g show ?thesis by auto
  qed
qed simp

lemma group_rows_ok:
  assumes "\<forall>r \<in> set rows. plain_key (row_key r)"
  shows "grouping_ok approved rows (group_rows approved rows)"
  using assms
proof (induction rows rule: rev_induct)
  case Nil
  then show ?case by (simp add: grouping_ok_def group_rows_def)
next
  case (snoc r rows)
  let ?gs = "group_rows approved rows" and ?k = "row_key r"
  from snoc have ok: "grouping_ok approved rows ?gs" and k: "plain_key ?k" by auto
  have step: "group_rows approved (rows @ [r])
      = (if key_member ?k approved then add_to_group ?k r ?gs else ?gs)"
    by (simp add: group_rows_def)
  show ?case
  proof (cases "key_member ?k approved")
    case False
    then have "?k \<notin> fst ` set ?gs" using ok by (auto simp: grouping_ok_def)
    moreover have "{r' \<in> set (rows @ [r]). key_member (row_key r') approved}
        = {r' \<in> set rows. key_member (row_key r') approved}" using False by auto
    moreover have "\<forall>(k', rs) \<in> set ?gs. k' \<noteq> ?k" using calculation(1) by force
    ultimately show ?thesis
      using ok False step unfolding grouping_ok_def by auto
  next
    case True
    have d: "distinct (map fst ?gs)" using ok by (simp add: grouping_ok_def)
    have eq: "\<forall>g \<in> set ?gs. py_eqs (fst g) ?k \<longleftrightarrow> fst g = ?k"
    proof
      fix g assume "g \<in> set ?gs"
      then have "fst g \<in> row_key ` set rows" using ok by (auto simp: grouping_ok_def)
      then show "py_eqs (fst g) ?k \<longleftrightarrow> fst g = ?k" using snoc.prems plain_key_eq by auto
    qed
    have keys: "{r' \<in> set (rows @ [r]). key_member (row_key r') approved}
        = insert r {r' \<in> set rows. key_member (row_key r') approved}" using True by auto
    show ?thesis
    proof (cases "?k \<in> fst ` set ?gs")
      case old: True
      let ?upd = "\<lambda>(k', rs). (k', if k' = ?k then rs @ [r] else rs)"
      have add: "add_to_group ?k r ?gs = map ?upd ?gs" by (rule add_to_group_old [OF eq old d])
      have fsts: "map fst (map ?upd ?gs) = map fst ?gs" by (simp add: comp_def case_prod_beta)
      have new: "group_rows approved (rows @ [r]) = map ?upd ?gs" by (simp only: step True if_True add)
      have "fst ` set (map ?upd ?gs) = insert ?k (fst ` set ?gs)"
        using fsts old by (metis insert_absorb list.set_map)
      moreover have "fst ` set ?gs = row_key ` {r' \<in> set rows. key_member (row_key r') approved}"
        using ok by (simp add: grouping_ok_def)
      moreover have "\<forall>(k', rs) \<in> set (map ?upd ?gs). rs = filter (\<lambda>r'. row_key r' = k') (rows @ [r])"
        using ok by (auto simp: grouping_ok_def)
      ultimately show ?thesis
        unfolding grouping_ok_def keys by (simp only: new fsts d image_insert simp_thms)
    next
      case new: False
      have none: "filter (\<lambda>r'. row_key r' = ?k) rows = []"
      proof -
        have "\<forall>r' \<in> set rows. row_key r' \<noteq> ?k"
        proof
          fix r' assume r': "r' \<in> set rows"
          show "row_key r' \<noteq> ?k"
          proof
            assume "row_key r' = ?k"
            with r' True have "?k \<in> row_key ` {r' \<in> set rows. key_member (row_key r') approved}"
              by (intro image_eqI [of _ _ r']) simp_all
            with ok new show False by (simp add: grouping_ok_def)
          qed
        qed
        then show ?thesis by (simp add: filter_empty_conv)
      qed
      have gs: "group_rows approved (rows @ [r]) = ?gs @ [(?k, [r])]"
        by (simp only: step True if_True add_to_group_new [OF eq new])
      have ne: "k' \<noteq> ?k" if "(k', rs) \<in> set ?gs" for k' rs
        using new that by (metis fst_conv image_eqI)
      have "rs = filter (\<lambda>r'. row_key r' = k') (rows @ [r])"
        if "(k', rs) \<in> set (?gs @ [(?k, [r])])" for k' rs
        using that none ne [of k' rs] ok by (auto simp: grouping_ok_def)
      moreover have "distinct (map fst (?gs @ [(?k, [r])]))" using d new by simp
      moreover have "fst ` set (?gs @ [(?k, [r])])
          = row_key ` insert r {r' \<in> set rows. key_member (row_key r') approved}"
        using ok by (simp add: grouping_ok_def)
      ultimately show ?thesis unfolding grouping_ok_def keys gs by blast
    qed
  qed
qed

section \<open>The plan\<close>

lemma match_proposal_row:
  assumes "match_proposal P db rows n p = Inr (Inr row)"
  shows "row \<in> set (eligible_rows db rows)" "proposal_matches_row p row" "is_dict p"
    "dget p ''type'' = PStr ''TERMINATE_BACKEND''"
    "\<exists>shape. validate_proposal_shape P p = Inr shape \<and> shape_valid shape"
  using assms
  by (auto simp: match_proposal_def ebind_Inr_iff py_eq_PStr_right find_Some_iff
      split: if_splits option.splits dest: nth_mem)

lemma match_proposals_rows:
  assumes "match_proposals P db rows n ps = Inr (errs, ms)" and "(p, row) \<in> set ms"
  shows "p \<in> set ps \<and> (\<exists>m. match_proposal P db rows m p = Inr (Inr row))"
  using assms
proof (induction ps arbitrary: n errs ms)
  case (Cons q ps)
  from Cons.prems(1) obtain m errs' ms' where
    m: "match_proposal P db rows n q = Inr m"
    and rest: "match_proposals P db rows (Suc n) ps = Inr (errs', ms')"
    and ms: "ms = (case m of Inl e \<Rightarrow> ms' | Inr r \<Rightarrow> (q, r) # ms')"
    by (cases "match_proposal P db rows n q"; cases "match_proposals P db rows (Suc n) ps")
      (auto split: sum.splits)
  show ?case
  proof (cases "(p, row) \<in> set ms'")
    case True
    then show ?thesis using Cons.IH [OF rest] by auto
  next
    case False
    with ms Cons.prems(2) m show ?thesis by (auto split: sum.splits)
  qed
qed simp

lemma plan_actions_length:
  "plan_actions P iid ts uuids ms n gs = Inr acts \<Longrightarrow> length acts = length gs"
  by (induction gs arbitrary: n acts) (auto simp: ebind_Inr_iff)

lemma plan_actions_nth:
  assumes "plan_actions P iid ts uuids ms n gs = Inr acts" and "i < length gs"
  shows "plan_action P iid ts (uuids (n + i)) ms (int (Suc (n + i))) (gs ! i) = Inr (acts ! i)"
  using assms
proof (induction gs arbitrary: n acts i)
  case (Cons g gs)
  then show ?case by (cases i) (fastforce simp: ebind_Inr_iff)+
qed simp

lemma plan_action_fields:
  assumes "plan_action P iid ts aid ms n g = Inr a"
  shows "act_id a = aid" "act_ordinal a = n" "act_state a = PLANNED" "act_type a = ''TERMINATE_BACKEND''"
    "act_risk a = ''HIGH''" "act_attempts a = 0" "act_operation a = Some aid"
    "act_target a = relationship_target (hd (snd g))"
    "act_blocked_pids a = PList (map PInt (allowed_pids (snd g)))"
    "\<exists>ws. group_waiters (snd g) = Inr ws \<and> act_waiters a = PList ws"
    "\<exists>c. act_proposal a = plan_proposal (act_target a)
        (representative_of (group_proposals ms (fst g)) (allowed_pids (snd g))) c"
  using assms by (auto simp: plan_action_def Let_def ebind_Inr_iff)

lemma raised_Inr [simp]: "raised m = Inr x \<longleftrightarrow> m = Inr x"
  by (cases m) (auto simp: raised_def)

text \<open>
  The groups of a successful plan: the grouping of the eligible rows under the approved
  keys, in sorted order.
\<close>

lemma build_termination_planE:
  assumes "build_termination_plan P iid snapshot proposals expand_all max_actions now uuids = Inr acts"
  obtains rows matches grouped ordered where
    "snapshot_rows snapshot = Inr rows"
    "match_proposals P (dget snapshot ''database_name'') rows 1 (py_items proposals) = Inr ([], matches)"
    "grouped = group_rows (approved_keys matches expand_all
        (eligible_rows (dget snapshot ''database_name'') rows))
      (eligible_rows (dget snapshot ''database_name'') rows)"
    "grouped \<noteq> []" "int (length grouped) \<le> max_actions"
    "py_sorted (group_sort_key (map (\<lambda>r. dget r ''blocked_pid'')
        (eligible_rows (dget snapshot ''database_name'') rows))) grouped = Inr ordered"
    "plan_actions P iid (iso_utc now) uuids matches 0 ordered = Inr acts"
    "conflicting_pids (eligible_rows (dget snapshot ''database_name'') rows) = []"
  using assms
  by (auto simp: build_termination_plan_def Let_def ebind_Inr_iff split: sum.splits if_splits)

lemma group_of_plan:
  assumes g: "(k, rs) \<in> set (group_rows approved (eligible_rows db rows))"
  shows "rs = filter (\<lambda>r. row_key r = k) (eligible_rows db rows)" "rs \<noteq> []" "key_member k approved"
    "relationship_target (hd rs) = relationship_target r \<longleftrightarrow> row_key r = k"
proof -
  have ok: "grouping_ok approved (eligible_rows db rows) (group_rows approved (eligible_rows db rows))"
    by (rule group_rows_ok) (auto simp: set_eligible_rows intro: eligible_plain_key)
  with g show rs: "rs = filter (\<lambda>r. row_key r = k) (eligible_rows db rows)"
    by (auto simp: grouping_ok_def)
  from ok g have "k \<in> row_key ` {r \<in> set (eligible_rows db rows). key_member (row_key r) approved}"
    unfolding grouping_ok_def by (metis fst_conv image_eqI)
  then obtain r' where r': "r' \<in> set rs" "row_key r' = k" "key_member k approved"
    using rs by auto
  then show "rs \<noteq> []" "key_member k approved" by auto
  then have "hd rs \<in> set rs" by simp
  then have "row_key (hd rs) = k" using rs by auto
  then show "relationship_target (hd rs) = relationship_target r \<longleftrightarrow> row_key r = k"
    by (auto simp: row_key_eq relationship_target_def)
qed

lemma key_member_plain:
  "plain_key k \<Longrightarrow> \<forall>k' \<in> set ks. plain_key k' \<Longrightarrow> key_member k ks \<longleftrightarrow> k \<in> set ks"
  by (auto simp: key_member_def list_ex_iff plain_key_eq)

text \<open>
  The shape of a plan: the eligible rows of each approved identity, one action per group,
  in the sorted order.
\<close>

definition plan_groups :: "pyval \<Rightarrow> pyval list \<Rightarrow> (pyval \<times> pyval) list \<Rightarrow> bool
    \<Rightarrow> (pyval list \<times> pyval list) list" where
  "plan_groups db rows matches expand_all =
     group_rows (approved_keys matches expand_all (eligible_rows db rows)) (eligible_rows db rows)"

lemma plan_structure:
  assumes plan: "build_termination_plan P iid snapshot proposals expand_all max_actions now uuids = Inr acts"
  obtains rows ms ordered where
    "snapshot_rows snapshot = Inr rows"
    "match_proposals P (dget snapshot ''database_name'') rows 1 (py_items proposals) = Inr ([], ms)"
    "set ordered = set (plan_groups (dget snapshot ''database_name'') rows ms expand_all)"
    "distinct (map fst ordered)" "length acts = length ordered" "ordered \<noteq> []"
    "int (length ordered) \<le> max_actions"
    "\<forall>i < length acts.
       plan_action P iid (iso_utc now) (uuids i) ms (int (Suc i)) (ordered ! i) = Inr (acts ! i)"
proof -
  let ?db = "dget snapshot ''database_name''"
  from plan obtain rows ms grouped ordered where
    rows: "snapshot_rows snapshot = Inr rows"
    and m: "match_proposals P ?db rows 1 (py_items proposals) = Inr ([], ms)"
    and gr: "grouped = group_rows (approved_keys ms expand_all (eligible_rows ?db rows)) (eligible_rows ?db rows)"
    and ne: "grouped \<noteq> []" and le: "int (length grouped) \<le> max_actions"
    and so: "py_sorted (group_sort_key (map (\<lambda>r. dget r ''blocked_pid'') (eligible_rows ?db rows))) grouped = Inr ordered"
    and pa: "plan_actions P iid (iso_utc now) uuids ms 0 ordered = Inr acts"
    by (rule build_termination_planE)
  have sl: "set ordered = set grouped" "length ordered = length grouped"
    using py_sorted_InrD [OF so] by auto
  have "grouping_ok (approved_keys ms expand_all (eligible_rows ?db rows)) (eligible_rows ?db rows) grouped"
    unfolding gr by (rule group_rows_ok) (auto simp: set_eligible_rows intro: eligible_plain_key)
  then have "distinct (map fst grouped)" by (simp add: grouping_ok_def)
  then have "card (set (map fst ordered)) = length (map fst ordered)"
    using sl distinct_card by fastforce
  then have d: "distinct (map fst ordered)" by (rule card_distinct)
  have len: "length acts = length ordered" by (rule plan_actions_length [OF pa])
  show thesis
  proof (rule that [OF rows m _ d len])
    show "set ordered = set (plan_groups ?db rows ms expand_all)"
      using sl gr by (simp add: plan_groups_def)
    show "ordered \<noteq> []" "int (length ordered) \<le> max_actions" using sl ne le by auto
    show "\<forall>i < length acts.
        plan_action P iid (iso_utc now) (uuids i) ms (int (Suc i)) (ordered ! i) = Inr (acts ! i)"
      using plan_actions_nth [OF pa] len by simp
  qed
qed

text \<open>A group of a plan, its rows and its target.\<close>

lemma plan_groupE:
  assumes "(k, rs) \<in> set (plan_groups db rows ms expand_all)"
  obtains "rs = filter (\<lambda>r. row_key r = k) (eligible_rows db rows)" "rs \<noteq> []"
    "hd rs \<in> set (eligible_rows db rows)" "row_key (hd rs) = k"
    "k \<in> set (approved_keys ms expand_all (eligible_rows db rows))
     \<or> (\<exists>(p, row) \<in> set ms. row \<notin> set (eligible_rows db rows))"
proof -
  note grp = group_of_plan [OF assms [unfolded plan_groups_def]]
  have hd: "hd rs \<in> set (eligible_rows db rows)" "row_key (hd rs) = k"
    using grp(1,2) hd_in_set [OF grp(2)] by auto
  have pl: "plain_key (row_key r)" if "r \<in> set (eligible_rows db rows)" for r
    using that by (auto simp: set_eligible_rows intro: eligible_plain_key)
  have "k \<in> set (approved_keys ms expand_all (eligible_rows db rows))"
    if all: "\<forall>(p, row) \<in> set ms. row \<in> set (eligible_rows db rows)"
  proof (subst key_member_plain [symmetric])
    show "plain_key k" using pl [OF hd(1)] hd(2) by simp
    show "\<forall>k' \<in> set (approved_keys ms expand_all (eligible_rows db rows)). plain_key k'"
      using all pl by (auto simp: approved_keys_def)
  qed (rule grp(3))
  with grp(1,2) hd show thesis by (intro that) auto
qed

text \<open>
  C5: Every action of a termination plan targets the blocker of a relationship of the snapshot
  that the policy allows, and, unless expansion was asked for, one that a proposal named.
\<close>

theorem plan_actions_in_scope:
  assumes plan: "build_termination_plan P iid snapshot proposals expand_all max_actions now uuids = Inr acts"
    and a: "a \<in> set acts"
  shows "\<exists>rows row. snapshot_rows snapshot = Inr rows \<and> row \<in> set rows
    \<and> relationship_policy_errors row (dget snapshot ''database_name'') = []
    \<and> act_target a = relationship_target row
    \<and> (expand_all \<or> (\<exists>p \<in> set (py_items proposals). proposal_matches_row p row))"
proof -
  let ?db = "dget snapshot ''database_name''"
  from plan obtain rows ms ordered where
    rows: "snapshot_rows snapshot = Inr rows"
    and m: "match_proposals P ?db rows 1 (py_items proposals) = Inr ([], ms)"
    and so: "set ordered = set (plan_groups ?db rows ms expand_all)"
    and len: "length acts = length ordered"
    and acts: "\<forall>i < length acts.
       plan_action P iid (iso_utc now) (uuids i) ms (int (Suc i)) (ordered ! i) = Inr (acts ! i)"
    by (rule plan_structure) blast
  note pa = acts [rule_format]
  from a obtain i where i: "i < length acts" "a = acts ! i" by (auto simp: in_set_conv_nth)
  obtain k rs where g: "ordered ! i = (k, rs)" by (cases "ordered ! i")
  then have mem: "(k, rs) \<in> set (plan_groups ?db rows ms expand_all)"
    using so len i by (metis nth_mem)
  have target: "act_target a = relationship_target (hd rs)"
    using plan_action_fields(8) [OF pa [OF i(1)]] i g by simp
  have match: "row \<in> set (eligible_rows ?db rows)" "p \<in> set (py_items proposals)" "proposal_matches_row p row"
    if "(p, row) \<in> set ms" for p row
    using match_proposals_rows [OF m that] match_proposal_row by blast+
  from mem obtain hd: "hd rs \<in> set (eligible_rows ?db rows)" "row_key (hd rs) = k"
    and k: "k \<in> set (approved_keys ms expand_all (eligible_rows ?db rows))"
    by (rule plan_groupE) (use match in blast)
  from k consider "expand_all" | p row where "(p, row) \<in> set ms" "row_key row = k"
    by (auto simp: approved_keys_def split: if_splits)
  then show ?thesis
  proof cases
    case 1
    with rows hd target show ?thesis by (auto simp: set_eligible_rows)
  next
    case 2
    then have "act_target a = relationship_target row" using target target_of_row_key hd by metis
    with rows match [OF 2(1)] show ?thesis by (auto simp: set_eligible_rows)
  qed
qed

text \<open>
  C11: A plan is non-empty and within the action limit, numbers its actions from 1 with fresh
  identifiers, has one action per target, and starts each in PLANNED with no attempts and HIGH
  risk.
\<close>

theorem plan_actions_shape:
  assumes plan: "build_termination_plan P iid snapshot proposals expand_all max_actions now uuids = Inr acts"
  shows "acts \<noteq> [] \<and> int (length acts) \<le> max_actions
    \<and> map act_id acts = map uuids [0..<length acts]
    \<and> map act_ordinal acts = map int [1..<Suc (length acts)]
    \<and> distinct (map act_target acts)
    \<and> list_all (\<lambda>a. act_state a = PLANNED \<and> act_attempts a = 0 \<and> act_risk a = ''HIGH'') acts"
proof -
  let ?db = "dget snapshot ''database_name''"
  from plan obtain rows ms ordered where
    so: "set ordered = set (plan_groups ?db rows ms expand_all)"
    and d: "distinct (map fst ordered)" and len: "length acts = length ordered"
    and ne: "ordered \<noteq> []" and le: "int (length ordered) \<le> max_actions"
    and acts: "\<forall>i < length acts.
       plan_action P iid (iso_utc now) (uuids i) ms (int (Suc i)) (ordered ! i) = Inr (acts ! i)"
    by (rule plan_structure) blast
  note pa = acts [rule_format]
  have size: "acts \<noteq> []" "int (length acts) \<le> max_actions" using len ne le by auto
  have ids: "map act_id acts = map uuids [0..<length acts]"
    using plan_action_fields(1) [OF pa] by (auto intro: nth_equalityI)
  have ords: "map act_ordinal acts = map int [1..<Suc (length acts)]"
    using plan_action_fields(2) [OF pa] by (auto intro!: nth_equalityI simp del: upt_Suc)
  have "act_state (acts ! i) = PLANNED \<and> act_attempts (acts ! i) = 0 \<and> act_risk (acts ! i) = ''HIGH''"
    if "i < length acts" for i using plan_action_fields(3,5,6) [OF pa [OF that]] by blast
  then have planned: "list_all (\<lambda>a. act_state a = PLANNED \<and> act_attempts a = 0 \<and> act_risk a = ''HIGH'') acts"
    by (simp add: list_all_length)
  have key: "target_key (act_target (acts ! i)) = fst (ordered ! i)" if i: "i < length acts" for i
  proof -
    obtain k rs where g: "ordered ! i = (k, rs)" by (cases "ordered ! i")
    then have "(k, rs) \<in> set (plan_groups ?db rows ms expand_all)" using so len i by (metis nth_mem)
    then have "row_key (hd rs) = k" by (rule plan_groupE)
    with plan_action_fields(8) [OF pa [OF i]] g show ?thesis by (simp add: row_key_def)
  qed
  have "map target_key (map act_target acts) = map fst ordered"
    using key len by (auto intro!: nth_equalityI)
  then have "distinct (map act_target acts)" using d by (metis distinct_map)
  with size ids ords planned show ?thesis by blast
qed

lemma set_dedup_keys:
  assumes "\<And>k k'. k \<in> set ks \<Longrightarrow> k' \<in> set ks \<Longrightarrow> py_eqs k k' \<Longrightarrow> k = k'"
  shows "set (dedup_keys ks) = set ks"
  using assms by (induction ks) (auto simp: key_member_def list_ex_iff)

lemma waiter_key_plain:
  assumes "relationship_policy_errors row db = []"
  shows "\<exists>i s t. waiter_key row = [PInt i, PStr s, PStr t]"
  using assms by (rule eligible_fields) (auto simp: waiter_key_def)

lemma set_group_waiters:
  assumes "group_waiters rs = Inr ws" and "\<forall>r \<in> set rs. relationship_policy_errors r db = []"
  shows "set ws = waiter_dict ` waiter_key ` set rs"
proof -
  have "k = k'" if kk: "k \<in> waiter_key ` set rs" "k' \<in> waiter_key ` set rs" and eq: "py_eqs k k'" for k k'
  proof -
    have plain: "\<exists>i s t. x = [PInt i, PStr s, PStr t]" if "x \<in> waiter_key ` set rs" for x
      using that waiter_key_plain assms(2) by auto
    obtain i s t where "k = [PInt i, PStr s, PStr t]" using plain [OF kk(1)] by blast
    moreover obtain i' s' t' where "k' = [PInt i', PStr s', PStr t']" using plain [OF kk(2)] by blast
    ultimately show ?thesis using eq by simp
  qed
  then have "set (dedup_keys (map waiter_key rs)) = waiter_key ` set rs"
    by (subst set_dedup_keys) auto
  then show ?thesis using assms(1) py_sorted_InrD by (fastforce simp: group_waiters_def ebind_Inr_iff)
qed

text \<open>
  C15: The approved waiters of a planned action are exactly the identities of the allowed
  relationships of the snapshot blocked by its target.
\<close>

theorem plan_waiters_exact:
  assumes plan: "build_termination_plan P iid snapshot proposals expand_all max_actions now uuids = Inr acts"
    and a: "a \<in> set acts" and rows: "snapshot_rows snapshot = Inr rows"
  shows "is_list (act_waiters a)
    \<and> set (py_items (act_waiters a)) = (\<lambda>row. waiter_dict (waiter_key row)) `
        {row \<in> set rows. relationship_policy_errors row (dget snapshot ''database_name'') = []
                        \<and> relationship_target row = act_target a}"
proof -
  let ?db = "dget snapshot ''database_name''"
  from plan obtain rows' ms ordered where
    rows': "snapshot_rows snapshot = Inr rows'"
    and so: "set ordered = set (plan_groups ?db rows' ms expand_all)"
    and len: "length acts = length ordered"
    and acts: "\<forall>i < length acts.
       plan_action P iid (iso_utc now) (uuids i) ms (int (Suc i)) (ordered ! i) = Inr (acts ! i)"
    by (rule plan_structure) blast
  from a obtain i where i: "i < length acts" "a = acts ! i" by (auto simp: in_set_conv_nth)
  obtain k rs where g: "ordered ! i = (k, rs)" by (cases "ordered ! i")
  then have mem: "(k, rs) \<in> set (plan_groups ?db rows ms expand_all)"
    using so len i rows rows' by (metis Inr_inject nth_mem)
  then obtain rs: "rs = filter (\<lambda>r. row_key r = k) (eligible_rows ?db rows)" and "row_key (hd rs) = k"
    by (rule plan_groupE) blast
  note fields = plan_action_fields [OF acts [rule_format, OF i(1)], folded i(2), unfolded g]
  have "relationship_target r = act_target a \<longleftrightarrow> row_key r = k" for r
    using fields(8) \<open>row_key (hd rs) = k\<close> by (auto simp: row_key_eq relationship_target_def)
  then have "set rs = {row \<in> set rows. relationship_policy_errors row ?db = []
      \<and> relationship_target row = act_target a}"
    using rs by (auto simp: set_eligible_rows)
  moreover obtain ws where ws: "group_waiters rs = Inr ws" "act_waiters a = PList ws"
    using fields(10) by auto
  moreover have "set ws = waiter_dict ` waiter_key ` set rs"
    by (rule set_group_waiters [OF ws(1), of ?db]) (auto simp: rs set_eligible_rows)
  ultimately show ?thesis by (simp add: image_image)
qed

end
