(* ===== verification/ActionClaim.thy ===== *)
theory ActionClaim
  imports IncidentStore LockPlan
begin

text \<open>
  \<open>SQLiteIncidentStore.claim_action_execution\<close>: the write transaction that consumes a
  persisted approval for one attempt of one action. Everything the caller passes is an
  untrusted dictionary; the guards are listed in the order of the code.
\<close>

abbreviation unavailable :: "string \<Rightarrow> exn" where
  "unavailable m \<equiv> IncidentApprovalUnavailable m"

section \<open>The reference\<close>

text \<open>The checks before the transaction begins.\<close>

definition reference_error ::
  "store_config \<Rightarrow> pyval \<Rightarrow> pyval \<Rightarrow> pyval \<Rightarrow> pyval \<Rightarrow> pyval \<Rightarrow> exn option" where
  "reference_error C approval_context operation_id proposal evidence execution_context = first_error
     [(\<not> is_dict approval_context, unavailable ''Incident approval reference must be an object.''),
      (\<not> is_dict execution_context, unavailable ''Incident execution context must be an object.''),
      (\<not> is_dict proposal, unavailable ''Incident proposal must be an object.''),
      (\<not> is_dict evidence, unavailable ''Current lock evidence must be an object.''),
      (\<not> is_valid_uuid operation_id, unavailable ''Incident operation_id must be a valid UUID.''),
      (\<not> list_all is_valid_uuid [dget approval_context ''incident_id'',
           dget approval_context ''approval_id'', dget approval_context ''current_action_id''],
         unavailable ''Incident approval reference contains an invalid identifier.''),
      (\<not> py_eq (dget execution_context ''kind'') (PStr ''LOCK_INCIDENT_EXECUTION''),
         unavailable ''Execution context has an unsupported kind.''),
      (\<not> py_eq (dget execution_context ''incident_id'') (dget approval_context ''incident_id'')
         \<or> \<not> py_eq (dget execution_context ''action_id'') (dget approval_context ''current_action_id''),
         unavailable ''Execution context does not identify the approved action.''),
      (\<not> nonblank (dget execution_context ''worker_id''),
         unavailable ''Execution context has no lease owner.''),
      (\<not> is_positive_int (dget execution_context ''plan_revision''),
         unavailable ''Execution context has an invalid plan revision.''),
      (\<not> is_str (dget execution_context ''store_path''),
         unavailable ''Execution context has no incident store path.''),
      (resolve_path C (str_of (dget execution_context ''store_path'')) = None
         \<or> resolve_path C (store_path C) = None,
         unavailable ''Incident store path could not be resolved.''),
      (resolve_path C (str_of (dget execution_context ''store_path'')) \<noteq> resolve_path C (store_path C),
         unavailable ''Execution context references a different incident store.'')]"

section \<open>The joined row\<close>

definition claim_row :: "db \<Rightarrow> string \<Rightarrow> string \<Rightarrow> (incident_row \<times> action \<times> approval) option" where
  "claim_row d i a =
     (case find_incident d i of None \<Rightarrow> None | Some r \<Rightarrow>
      case row_where (\<lambda>x. act_id x = a) (incident_actions d i) of None \<Rightarrow> None | Some x \<Rightarrow>
      case inc_approval_id r of None \<Rightarrow> None | Some q \<Rightarrow>
      case row_where (\<lambda>y. apr_incident y = i \<and> apr_id y = q) (db_approvals d) of
        None \<Rightarrow> None | Some y \<Rightarrow> Some (r, x, y))"

definition deadline_of :: "pyval \<Rightarrow> int option" where
  "deadline_of policy = (if is_dict policy then parse_utc_timestamp (dget policy ''deadline_at'') else None)"

definition opt_text :: "string option \<Rightarrow> pyval" where
  "opt_text s = (case s of None \<Rightarrow> PNone | Some t \<Rightarrow> PStr t)"

text \<open>The checks of the persisted incident, action, approval and lease.\<close>

definition persisted_error ::
  "incident_row \<Rightarrow> action \<Rightarrow> approval \<Rightarrow> pyval \<Rightarrow> pyval \<Rightarrow> pyval \<Rightarrow> pyval \<Rightarrow> int \<Rightarrow> exn option" where
  "persisted_error r x y approval_id operation_id plan_revision worker_id now = first_error
     [(inc_type r \<noteq> ''LOCK_CONTENTION'',
         unavailable ''Persisted incident type cannot authorize this action.''),
      (inc_state r \<noteq> RUNNING, unavailable ''Incident is not in an executable state.''),
      (case deadline_of (inc_policy r) of None \<Rightarrow> True | Some t \<Rightarrow> t \<le> now,
         unavailable ''Incident workflow deadline is invalid or expired.''),
      (act_state x \<noteq> EXECUTING,
         unavailable ''Action intent is absent or has already been claimed.''),
      (act_type x \<noteq> ''TERMINATE_BACKEND'' \<or> act_risk x \<noteq> ''HIGH'',
         unavailable ''Persisted action is outside the supported risk scope.''),
      (\<not> py_eq (opt_text (inc_approval_id r)) approval_id \<or> \<not> py_eq (PStr (apr_id y)) approval_id,
         unavailable ''Approval is not the incident's current approval.''),
      (\<not> py_eq (PInt (inc_revision r)) plan_revision \<or> \<not> py_eq (PInt (act_revision x)) plan_revision
         \<or> \<not> py_eq (PInt (apr_revision y)) plan_revision,
         unavailable ''Approval, incident, action, and execution plan differ.''),
      (\<not> py_eq (opt_text (act_operation x)) operation_id,
         unavailable ''Operation identifier does not match the durable intent.''),
      (\<not> py_eq (opt_text (inc_lease_owner r)) worker_id
         \<or> (case parse_utc_timestamp (opt_text (inc_lease_expires r)) of
              None \<Rightarrow> True | Some t \<Rightarrow> t \<le> now),
         IncidentLeaseUnavailable ''Incident execution lease is absent, expired, or owned by another worker.'')]"

section \<open>Scope\<close>

text \<open>
  The grant of the isolated executor, when the worker passes one: unexpired, and for the
  very scope that is persisted now. (Times are compared exactly; \<open>datetime.timestamp\<close> rounds
  to a double, which keeps microseconds apart until the year 2242.)
\<close>

definition epoch_instant :: int where
  "epoch_instant = 62135596800000000"

definition epoch_seconds :: "int \<Rightarrow> rat" where
  "epoch_seconds t = of_int (t - epoch_instant) / 1000000"

definition grant_check :: "platform \<Rightarrow> pyval \<Rightarrow> pyval \<Rightarrow> int \<Rightarrow> unit exc" where
  "grant_check P grant scope now =
     (if grant = PNone then Inr () else
      let expiry = (if is_dict grant then dget grant ''expires_at'' else PNone);
          denied = Inl (unavailable ''Worker-side grant expired or action scope changed before execution claim.'')
      in if float_overflow expiry then Inl overflow_error
         else if \<not> finite_number expiry \<or> the (num_val expiry) \<le> epoch_seconds now then denied
         else ebind (json_digest P scope) (\<lambda>expected.
           if py_eq (dget grant ''scope_digest'') (PStr expected) then Inr () else denied))"

definition hashable :: "pyval \<Rightarrow> bool" where
  "hashable v \<longleftrightarrow> \<not> is_list v \<and> \<not> is_dict v"

definition unhashable :: "'a exc" where
  "unhashable = Inl (TypeError ''unhashable type'')"

definition waiter_ids :: "pyval \<Rightarrow> pyval list list" where
  "waiter_ids waiters = dedup_keys (map waiter_key (filter is_dict (py_items waiters)))"

definition bad_waiter :: "pyval list \<Rightarrow> bool" where
  "bad_waiter w \<longleftrightarrow> \<not> is_positive_int (w ! 0) \<or> \<not> nonblank (w ! 1) \<or> \<not> nonblank (w ! 2)"

text \<open>\<open>set(xs) != set(ys)\<close> for hashable elements\<close>

definition same_elements :: "pyval list \<Rightarrow> pyval list \<Rightarrow> bool" where
  "same_elements xs ys \<longleftrightarrow>
     list_all (\<lambda>x. list_ex (py_eq x) ys) xs \<and> list_all (\<lambda>y. list_ex (py_eq y) xs) ys"

definition waiter_check :: "pyval \<Rightarrow> pyval \<Rightarrow> unit exc" where
  "waiter_check blocked_pids waiters =
     (if \<not> is_list blocked_pids \<or> \<not> is_list waiters \<or> py_items waiters = []
      then Inl (unavailable ''Persisted action has no valid waiter scope.'')
      else if \<not> list_all (list_all hashable) (map waiter_key (filter is_dict (py_items waiters)))
      then unhashable
      else
       (let ids = waiter_ids waiters;
            pids = filter is_positive_int (map (\<lambda>w. w ! 0) ids);
            bad = Inl (unavailable ''Persisted waiter identities are incomplete or inconsistent.'')
        in if length ids \<noteq> length (py_items waiters) \<or> list_ex bad_waiter ids then bad
           else if \<not> list_all hashable (py_items blocked_pids) then unhashable
           else if \<not> same_elements (py_items blocked_pids) pids then bad
           else Inr ()))"

definition evidence_check :: "pyval \<Rightarrow> pyval \<Rightarrow> pyval \<Rightarrow> pyval \<Rightarrow> unit exc" where
  "evidence_check evidence waiters target proposal =
     (if \<not> list_all hashable (waiter_key evidence) then unhashable
      else if \<not> key_member (waiter_key evidence) (waiter_ids waiters)
      then Inl (unavailable ''Current blocked backend identity is outside approval scope.'')
      else if \<not> is_dict target then Inl (AttributeError ''get'')
      else if \<not> py_eq (dget evidence ''database_name'') (dget target ''database_name'')
         \<or> \<not> py_eq (dget evidence ''blocked_pid'') (dget proposal ''blocked_pid'')
         \<or> \<not> py_eq (dget evidence ''blocker_pid'') (dget target ''blocker_pid'')
         \<or> \<not> py_eq (dget evidence ''blocker_backend_start'') (dget target ''blocker_backend_start'')
         \<or> \<not> py_eq (dget evidence ''blocker_xact_start'') (dget target ''blocker_xact_start'')
      then Inl (unavailable ''Current lock evidence does not match the approved target.'')
      else Inr ())"

text \<open>The approval is validated again, and its scope must contain this very action.\<close>

definition scope_check ::
  "platform \<Rightarrow> approval \<Rightarrow> action \<Rightarrow> pyval \<Rightarrow> string \<Rightarrow> int \<Rightarrow> unit exc" where
  "scope_check P y x proposal a now =
     ebind (validate_approval_context P proposal (approval_dict y a) now) (\<lambda>v.
       if \<not> val_valid v then Inl (unavailable ''Persisted approval is invalid: '')
       else
        ebind (canonical_action (action_dict x)) (\<lambda>expected.
        ebind (canonical_approved_actions (py_items (apr_actions y))) (\<lambda>scope.
        if \<not> py_eqs (filter (\<lambda>item. py_eq (dget item ''action_id'') (PStr a)) scope) [expected]
        then Inl (unavailable ''Persisted action differs from the approved action scope.'')
        else
         ebind (compute_scope_digest P (PStr (apr_incident y)) (PInt (apr_revision y))
             (py_items (apr_actions y)) (PInt (apr_max_actions y)) (PStr (apr_max_risk y))) (\<lambda>digest.
         if apr_digest y \<noteq> digest
         then Inl (unavailable ''Persisted approval scope digest does not match.'')
         else Inr ()))))"

section \<open>The claim\<close>

definition authorization_record ::
  "incident_row \<Rightarrow> action \<Rightarrow> approval \<Rightarrow> pyval \<Rightarrow> pyval \<Rightarrow> pyval \<Rightarrow> pyval \<Rightarrow> string \<Rightarrow> int \<Rightarrow> pyval" where
  "authorization_record r x y operation_id plan_revision worker_id evidence evidence_digest now = PDict
     [(''kind'', PStr ''PERSISTED_ACTION_EXECUTION_CLAIM''),
      (''incident_id'', PStr (inc_id r)), (''approval_id'', PStr (apr_id y)),
      (''action_id'', PStr (act_id x)), (''operation_id'', operation_id),
      (''plan_revision'', plan_revision), (''scope_digest'', PStr (apr_digest y)),
      (''actor'', PStr (apr_actor y)), (''approved_at'', PStr (apr_approved_at y)),
      (''expires_at'', PStr (apr_expires_at y)), (''lease_owner'', worker_id),
      (''waiter_identity'', waiter_dict (waiter_key evidence)),
      (''evidence_digest'', PStr evidence_digest), (''claimed_at'', PStr (iso_utc now)),
      (''incident_version'', PInt (inc_version r + 1))]"

text \<open>The two guarded updates and the event.\<close>

definition claim_writes ::
  "platform \<Rightarrow> int \<Rightarrow> incident_row \<Rightarrow> action \<Rightarrow> approval \<Rightarrow> pyval \<Rightarrow> pyval \<Rightarrow> pyval \<Rightarrow> pyval
   \<Rightarrow> db \<Rightarrow> (db \<times> pyval) exc" where
  "claim_writes P now r x y operation_id plan_revision worker_id evidence d =
     (let i = inc_id r; a = act_id x;
          intent = (\<lambda>(j, b). j = i \<and> act_id b = a \<and> act_state b = EXECUTING
                     \<and> py_eq (opt_text (act_operation b)) operation_id)
      in if count_where intent (db_actions d) \<noteq> 1
         then Inl (unavailable ''Action intent was concurrently claimed or changed.'')
         else
          ebind (update_checked
            (\<lambda>z. inc_id z = i \<and> inc_version z = inc_version r \<and> inc_state z = RUNNING
               \<and> inc_approval_id z = Some (apr_id y) \<and> py_eq (opt_text (inc_lease_owner z)) worker_id
               \<and> (case inc_lease_expires z of None \<Rightarrow> False | Some e \<Rightarrow> iso_utc now < e))
            (\<lambda>z. z\<lparr>inc_version := inc_version z + 1, inc_updated := iso_utc now\<rparr>)
            (unavailable ''Incident revision, approval, or lease changed while claiming the action.'')
            (d\<lparr>db_actions := update_where intent
               (\<lambda>(j, b). (j, b\<lparr>act_state := APPLYING, act_updated := iso_utc now\<rparr>)) (db_actions d)\<rparr>)) (\<lambda>d1.
          ebind (json_digest P (walk P evidence)) (\<lambda>evidence_digest.
          let authorization = authorization_record r x y operation_id plan_revision worker_id
                evidence evidence_digest now in
          ebind (json_column P authorization) (\<lambda>payload.
            Inr (append_event i (Some a) (iso_utc now) ''ACTION_EXECUTION_CLAIMED''
                   (Some ''EXECUTING'') (Some ''APPLYING'') payload d1, authorization)))))"

definition claim_transaction ::
  "platform \<Rightarrow> int \<Rightarrow> db \<Rightarrow> pyval \<Rightarrow> pyval \<Rightarrow> pyval \<Rightarrow> pyval \<Rightarrow> pyval \<Rightarrow> (db \<times> pyval) exc" where
  "claim_transaction P now d approval_context operation_id proposal evidence execution_context =
     (let i = str_of (dget approval_context ''incident_id'');
          a = str_of (dget approval_context ''current_action_id'');
          worker_id = dget execution_context ''worker_id'';
          plan_revision = dget execution_context ''plan_revision''
      in case claim_row d i a of
           None \<Rightarrow> Inl (unavailable ''No current persisted approval exists for this action.'')
         | Some (r, x, y) \<Rightarrow>
             (case persisted_error r x y (dget approval_context ''approval_id'') operation_id
                     plan_revision worker_id now of
                Some e \<Rightarrow> Inl e
              | None \<Rightarrow>
                 ebind (json_column P (act_proposal x)) (\<lambda>durable.
                 ebind (json_column P proposal) (\<lambda>supplied.
                 if durable \<noteq> supplied
                 then Inl (unavailable ''Proposal does not match the durable action intent.'')
                 else
                  ebind (grant_check P (dget execution_context ''isolated_grant'')
                    (action_scope (PStr i) (PInt (inc_revision r)) (PStr a) (act_proposal x)
                       (act_target x) (act_waiters x) (act_blocked_pids x)) now) (\<lambda>_.
                  ebind (waiter_check (act_blocked_pids x) (act_waiters x)) (\<lambda>_.
                  ebind (evidence_check evidence (act_waiters x) (act_target x) proposal) (\<lambda>_.
                  ebind (scope_check P y x proposal a now) (\<lambda>_.
                    claim_writes P now r x y operation_id plan_revision worker_id evidence d))))))))"

definition claim_action_execution ::
  "platform \<Rightarrow> store_config \<Rightarrow> int \<Rightarrow> db \<Rightarrow> pyval \<Rightarrow> pyval \<Rightarrow> pyval \<Rightarrow> pyval \<Rightarrow> pyval
   \<Rightarrow> db \<times> pyval exc" where
  "claim_action_execution P C now d approval_context operation_id proposal evidence execution_context =
     (case reference_error C approval_context operation_id proposal evidence execution_context of
        Some e \<Rightarrow> (d, Inl e)
      | None \<Rightarrow>
         (case claim_transaction P now d approval_context operation_id proposal evidence execution_context of
            Inl e \<Rightarrow> (d, Inl e) | Inr (d', authorization) \<Rightarrow> (d', Inr authorization)))"

end
