(* ===== verification/StoreSafety.thy ===== *)
theory StoreSafety
  imports ActionClaim
begin

text \<open>
  What the store promises to every worker, whatever they call in whatever order: the step
  relation of the store (one committed or refused call per step, at any time), the
  invariant of its tables, and the histories it allows. The two locales are the contracts
  the workflow relies on; both are interpreted on the step relation of the store.
\<close>

section \<open>Contracts\<close>

text \<open>Rows with a version: a step keeps a row or raises its version.\<close>

locale versioned_rows =
  fixes step :: "'d \<Rightarrow> 'd \<Rightarrow> bool" and row :: "'d \<Rightarrow> 'k \<Rightarrow> 'r option" and version :: "'r \<Rightarrow> int"
  assumes keeps: "step d d' \<Longrightarrow> row d k = Some r \<Longrightarrow>
    \<exists>r'. row d' k = Some r' \<and> (r' = r \<or> version r < version r')"
begin

lemma steps_keep:
  assumes "step\<^sup>*\<^sup>* d d'" and "row d k = Some r"
  shows "\<exists>r'. row d' k = Some r' \<and> (r' = r \<or> version r < version r')"
  using assms
proof (induction rule: rtranclp_induct)
  case (step y z)
  then obtain r' where r': "row y k = Some r'" "r' = r \<or> version r < version r'" by blast
  from keeps [OF step.hyps(2) r'(1)] r'(2) show ?case by fastforce
qed simp

text \<open>Two reads that see the same version saw the same row.\<close>

lemma version_identifies:
  assumes "step\<^sup>*\<^sup>* d d'" and "row d k = Some r" and "row d' k = Some r'" and "version r = version r'"
  shows "r' = r"
  using steps_keep [OF assms(1,2)] assms(3,4) by auto

end

text \<open>Keys with a state that only moves along a transition table.\<close>

locale lifecycle =
  fixes step :: "'d \<Rightarrow> 'd \<Rightarrow> bool" and state :: "'d \<Rightarrow> 'k \<Rightarrow> 's option" and allowed :: "'s \<Rightarrow> 's list"
  assumes moves: "step d d' \<Longrightarrow> state d k = Some s \<Longrightarrow> \<exists>s'. state d' k = Some s' \<and> s' \<in> set (allowed s)"
begin

lemma closed_set:
  assumes "step\<^sup>*\<^sup>* d d'" and "state d k = Some s" and "s \<in> S"
    and "\<And>s s'. s \<in> S \<Longrightarrow> s' \<in> set (allowed s) \<Longrightarrow> s' \<in> S"
  shows "\<exists>s'. state d' k = Some s' \<and> s' \<in> S"
  using assms(1)
proof (induction rule: rtranclp_induct)
  case base
  then show ?case using assms(2,3) by simp
next
  case (step y z)
  then obtain s' where "state y k = Some s'" "s' \<in> S" by blast
  with moves [OF step.hyps(2)] assms(4) show ?case by blast
qed

text \<open>A state without a successor other than itself is final.\<close>

lemma absorbing:
  assumes "step\<^sup>*\<^sup>* d d'" and "state d k = Some s" and "set (allowed s) \<subseteq> {s}"
  shows "state d' k = Some s"
  using closed_set [OF assms(1,2), of "{s}"] assms(3) by blast

end

section \<open>The step relation of the store\<close>

inductive store_step :: "platform \<Rightarrow> store_config \<Rightarrow> db \<Rightarrow> db \<Rightarrow> bool" for P C where
  create: "create_incident P d inc = (d', res) \<Longrightarrow> store_step P C d d'"
| save: "save_incident P now d inc event_type payload action_id lease_owner = (d', res)
    \<Longrightarrow> store_step P C d d'"
| claim: "claim_action_execution P C now d approval_context operation_id proposal evidence
      execution_context = (d', out) \<Longrightarrow> store_step P C d d'"
| acquire: "acquire_lease P now d i owner seconds = (d', res) \<Longrightarrow> store_step P C d d'"
| renew: "renew_lease now d i owner seconds = (d', res) \<Longrightarrow> store_step P C d d'"
| release: "release_lease P now d i owner = (d', res) \<Longrightarrow> store_step P C d d'"

abbreviation store_steps :: "platform \<Rightarrow> store_config \<Rightarrow> db \<Rightarrow> db \<Rightarrow> bool" where
  "store_steps P C \<equiv> (store_step P C)\<^sup>*\<^sup>*"

inductive_cases store_stepE: "store_step P C d d'"

section \<open>Effects of the operations\<close>

lemma commit_and_load_db:
  "commit_and_load d i m = (d', res) \<Longrightarrow> d' = d \<or> m = Inr d'"
  by (auto simp: commit_and_load_def split: sum.splits)

lemma append_event_simps [simp]:
  "db_incidents (append_event i a t ty f g p d) = db_incidents d"
  "db_actions (append_event i a t ty f g p d) = db_actions d"
  "db_approvals (append_event i a t ty f g p d) = db_approvals d"
  by (simp_all add: append_event_def)

lemma update_checked_Inr:
  "update_checked match f e d = Inr d' \<longleftrightarrow>
     count_where match (db_incidents d) = 1 \<and> d' = d\<lparr>db_incidents := update_where match f (db_incidents d)\<rparr>"
  by (auto simp: update_checked_def)

lemma find_incident_SomeD: "find_incident d i = Some r \<Longrightarrow> r \<in> set (db_incidents d) \<and> inc_id r = i"
  unfolding find_incident_def by (drule row_where_SomeD) simp

text \<open>What an operation may do to the incident rows.\<close>

definition row_step :: "incident_row \<Rightarrow> incident_row \<Rightarrow> bool" where
  "row_step r r' \<longleftrightarrow> r' = r \<or>
     (inc_id r' = inc_id r \<and> inc_version r < inc_version r'
    \<and> inc_state r' \<in> set (INCIDENT_TRANSITIONS (inc_state r)))"

text \<open>What an operation may do to the action rows.\<close>

definition action_step :: "action \<Rightarrow> action \<Rightarrow> bool" where
  "action_step x x' \<longleftrightarrow> act_id x' = act_id x \<and> act_target x' = act_target x
    \<and> act_waiters x' = act_waiters x \<and> act_blocked_pids x' = act_blocked_pids x
    \<and> act_key x' = act_key x \<and> act_ordinal x' = act_ordinal x \<and> act_revision x' = act_revision x
    \<and> act_state x' \<in> set (ACTION_TRANSITIONS (act_state x))"

lemma self_transitions [simp]:
  "s \<in> set (INCIDENT_TRANSITIONS s)" "t \<in> set (ACTION_TRANSITIONS t)"
  by (cases s; simp) (cases t; simp)

lemma action_step_refl [simp]: "action_step x x"
  by (simp add: action_step_def)

abbreviation tagged_action_step :: "string \<times> action \<Rightarrow> string \<times> action \<Rightarrow> bool" where
  "tagged_action_step \<equiv> \<lambda>(i, x) (j, y). j = i \<and> action_step x y"

abbreviation incidents_evolve :: "db \<Rightarrow> db \<Rightarrow> bool" where
  "incidents_evolve d d' \<equiv> extends_rows row_step (db_incidents d) (db_incidents d')"

abbreviation actions_evolve :: "db \<Rightarrow> db \<Rightarrow> bool" where
  "actions_evolve d d' \<equiv> extends_rows tagged_action_step (db_actions d) (db_actions d')"

lemma row_step_refl [simp]: "row_step r r"
  by (simp add: row_step_def)

lemma tagged_action_step_refl [simp]: "tagged_action_step x x"
  by (cases x) simp

lemma insert_actions_effect:
  "insert_actions P i d as = Inr d' \<Longrightarrow>
     db_incidents d' = db_incidents d \<and> db_approvals d' = db_approvals d \<and> db_events d' = db_events d
   \<and> (\<exists>zs. db_actions d' = db_actions d @ zs)"
proof (induction as arbitrary: d)
  case (Cons a as)
  from Cons.prems obtain d1 where d1: "insert_action P i d a = Inr d1" "insert_actions P i d1 as = Inr d'"
    by (auto simp: ebind_Inr_iff)
  from d1(1) obtain z where "d1 = d\<lparr>db_actions := db_actions d @ [z]\<rparr>"
    by (auto simp: insert_action_def ebind_Inr_iff split: if_splits)
  with Cons.IH [OF d1(2)] show ?case by auto
qed simp

lemma update_actionE:
  assumes "update_action P i d a = Inr d'"
  obtains p r e where "count_where (action_match i (act_id a)) (db_actions d) = 1"
    "d' = d\<lparr>db_actions := update_where (action_match i (act_id a))
       (\<lambda>(j, b). (j, checkpoint_action a p r e b)) (db_actions d)\<rparr>"
  using assms by (auto simp: update_action_def ebind_Inr_iff split: if_splits)

lemma checkpoint_action_step:
  "act_id b = act_id a \<Longrightarrow> act_state a \<in> set (ACTION_TRANSITIONS (act_state x)) \<Longrightarrow> action_step x b
   \<Longrightarrow> action_step x (checkpoint_action a p r e b)"
  by (simp add: action_step_def checkpoint_action_def)

text \<open>
  The updates of a checkpoint, against the rows it started from: every state they write
  was checked against the stored state.
\<close>

lemma update_actions_effect:
  assumes "update_actions P i d as = Inr d'"
    and "list_all2 tagged_action_step rows (db_actions d)"
    and "\<And>a x. a \<in> set as \<Longrightarrow> (i, x) \<in> set rows \<Longrightarrow> act_id x = act_id a
          \<Longrightarrow> act_state a \<in> set (ACTION_TRANSITIONS (act_state x))"
  shows "db_incidents d' = db_incidents d \<and> db_approvals d' = db_approvals d \<and> db_events d' = db_events d
    \<and> list_all2 tagged_action_step rows (db_actions d')"
  using assms
proof (induction as arbitrary: d)
  case (Cons a as)
  from Cons.prems(1) obtain d1 where d1: "update_action P i d a = Inr d1"
    and rest: "update_actions P i d1 as = Inr d'" by (auto simp: ebind_Inr_iff)
  from d1 obtain p r e where eff: "d1 = d\<lparr>db_actions := update_where (action_match i (act_id a))
       (\<lambda>(j, b). (j, checkpoint_action a p r e b)) (db_actions d)\<rparr>" by (rule update_actionE)
  have "tagged_action_step x (if action_match i (act_id a) y
          then (\<lambda>(j, b). (j, checkpoint_action a p r e b)) y else y)"
    if xy: "tagged_action_step x y" "x \<in> set rows" for x y
  proof -
    obtain j u where x: "x = (j, u)" by (cases x)
    obtain w where y: "y = (j, w)" and s: "action_step u w" using xy x by (cases y) auto
    then have "act_id w = act_id u" by (simp add: action_step_def)
    then show ?thesis
      using x y s xy(2) Cons.prems(3) [of a u]
      by (auto simp: action_match_def intro!: checkpoint_action_step)
  qed
  then have "list_all2 tagged_action_step rows (db_actions d1)"
    using Cons.prems(2) eff
    by (auto simp: update_where_def list_all2_map2 intro: list_all2_mono [rotated] simp: list_all2_conv_all_nth)
  from Cons.IH [OF rest this] Cons.prems(3) eff show ?case by simp
qed simp

section \<open>Every step evolves the tables\<close>

definition evolves :: "db \<Rightarrow> db \<Rightarrow> bool" where
  "evolves d d' \<longleftrightarrow> incidents_evolve d d' \<and> actions_evolve d d'
    \<and> (\<exists>zs. db_approvals d' = db_approvals d @ zs) \<and> (\<exists>zs. db_events d' = db_events d @ zs)"

lemma evolves_refl [simp]: "evolves d d"
  by (simp add: evolves_def extends_rows_refl)

lemma append_event_events: "\<exists>z. db_events (append_event i a t ty f g p d) = db_events d @ [z]"
  by (simp add: append_event_def)

lemma evolves_append_event:
  assumes "evolves d d'" and "db_events d' = db_events d"
  shows "evolves d (append_event i a t ty f g p d')"
  using assms append_event_events [of i a t ty f g p d'] by (auto simp: evolves_def)

text \<open>An update of incident rows that keeps the key and the state and raises the version.\<close>

lemma evolves_update_checked:
  assumes "update_checked match f e d = Inr d'"
    and "\<And>r. match r \<Longrightarrow> r \<in> set (db_incidents d) \<Longrightarrow> row_step r (f r)"
  shows "evolves d d' \<and> db_events d' = db_events d \<and> db_actions d' = db_actions d
    \<and> db_approvals d' = db_approvals d"
  using assms by (auto simp: evolves_def update_checked_Inr extends_rows_refl intro!: extends_rows_update)

lemma create_evolves:
  assumes "create_incident P d inc = (d', res)" shows "evolves d d'"
proof -
  from commit_and_load_db [OF assms [unfolded create_incident_def]]
  show ?thesis
  proof
    assume "ebind (insert_incident P inc d) (\<lambda>d1.
      ebind (insert_actions P (inc_id inc) d1 (inc_actions inc)) (\<lambda>d2.
      ebind (json_column P (PDict [(''plan_revision'', PInt (inc_revision inc)),
               (''action_count'', PInt (int (length (inc_actions inc))))])) (\<lambda>payload.
        Inr (append_event (inc_id inc) None (inc_created inc) ''INCIDENT_CREATED'' None
               (Some (incident_state_name (inc_state inc))) payload d2)))) = Inr d'"
    then obtain d1 d2 payload where d1: "insert_incident P inc d = Inr d1"
      and d2: "insert_actions P (inc_id inc) d1 (inc_actions inc) = Inr d2"
      and d': "d' = append_event (inc_id inc) None (inc_created inc) ''INCIDENT_CREATED'' None
               (Some (incident_state_name (inc_state inc))) payload d2"
      by (auto simp: ebind_Inr_iff)
    from d1 obtain z where "d1 = d\<lparr>db_incidents := db_incidents d @ [z]\<rparr>"
      by (auto simp: insert_incident_def ebind_Inr_iff split: if_splits)
    with insert_actions_effect [OF d2] have "evolves d d2" "db_events d2 = db_events d"
      by (auto simp: evolves_def intro!: extends_rows_append [OF row_step_refl]
          extends_rows_append [OF tagged_action_step_refl])
    then show ?thesis unfolding d' by (rule evolves_append_event)
  qed simp
qed

lemma checkpoint_error_None:
  assumes "checkpoint_error r stored inc owner now = None"
  obtains w where "inc_version r = inc_version inc" "owner = Some w" "w \<noteq> []" "holds_lease r w now"
    "inc_state inc \<in> set (INCIDENT_TRANSITIONS (inc_state r))"
    "set (map act_id (inc_actions inc)) = set (map act_id stored)"
    "\<forall>a \<in> set (inc_actions inc). \<forall>old. action_state_of stored (act_id a) = Some old
       \<longrightarrow> act_state a \<in> set (ACTION_TRANSITIONS old)"
  using assms
  by (cases owner) (auto simp: checkpoint_error_def list_ex_iff split: if_splits option.splits)

text \<open>A checkpoint that commits, taken apart.\<close>

lemma save_commits:
  assumes "save_incident P now d inc event_type payload action_id owner = (d', res)" and "d' \<noteq> d"
  obtains r d1 d2 d3 data where "find_incident d (inc_id inc) = Some r"
    "checkpoint_error r (incident_actions d (inc_id inc)) inc owner (iso_utc now) = None"
    "update_incident P r inc (if inc_updated inc = [] then iso_utc now else inc_updated inc) d = Inr d1"
    "update_actions P (inc_id inc) d1 (inc_actions inc) = Inr d2"
    "put_approval P (inc_id inc) (inc_approval inc) d2 = Inr d3"
    "d' = append_event (inc_id inc) action_id
       (if inc_updated inc = [] then iso_utc now else inc_updated inc) event_type
       (Some (incident_state_name (inc_state r))) (Some (incident_state_name (inc_state inc))) data d3"
  using assms(2) commit_and_load_db [OF assms(1) [unfolded save_incident_def]]
  by (auto simp: Let_def ebind_Inr_iff split: option.splits)

lemma incident_actions_row:
  "row_where (\<lambda>x. act_id x = a) (incident_actions d i)
     = map_option snd (row_where (action_match i a) (db_actions d))"
proof -
  have "row_where (\<lambda>x. act_id x = a) (map snd (filter (\<lambda>(j, _). j = i) acts))
      = map_option snd (row_where (action_match i a) acts)" for acts :: "(string \<times> action) list"
    by (induction acts) (auto simp: action_match_def)
  then show ?thesis by (simp add: incident_actions_def)
qed

lemma action_state_of_actions:
  "action_state_of (incident_actions d i) a
     = map_option (act_state \<circ> snd) (row_where (action_match i a) (db_actions d))"
  by (simp add: action_state_of_def incident_actions_row option.map_comp)

lemma count_action_match:
  assumes "list_all2 tagged_action_step xs ys"
  shows "count_where (action_match i a) ys = count_where (action_match i a) xs"
  using assms by induction (auto simp: action_match_def action_step_def)

lemma update_actions_count:
  assumes "update_actions P i d as = Inr d'" and "a \<in> set as"
  shows "count_where (action_match i (act_id a)) (db_actions d) = 1"
  using assms
proof (induction as arbitrary: d)
  case (Cons b bs)
  from Cons.prems(1) obtain d1 where d1: "update_action P i d b = Inr d1"
    and rest: "update_actions P i d1 bs = Inr d'" by (auto simp: ebind_Inr_iff)
  show ?case
  proof (cases "a \<in> set bs")
    case True
    from d1 obtain p r e where "d1 = d\<lparr>db_actions := update_where (action_match i (act_id b))
       (\<lambda>(j, c). (j, checkpoint_action b p r e c)) (db_actions d)\<rparr>" by (rule update_actionE)
    moreover have "count_where (action_match i (act_id a)) (update_where (action_match i (act_id b))
        (\<lambda>(j, c). (j, checkpoint_action b p r e c)) acts) = count_where (action_match i (act_id a)) acts" for acts
      by (induction acts) (auto simp: action_match_def checkpoint_action_def)
    ultimately show ?thesis using Cons.IH [OF rest True] by simp
  next
    case False
    with Cons.prems(2) have "a = b" by simp
    with d1 show ?thesis by (auto elim: update_actionE)
  qed
qed simp

text \<open>What \<open>put_approval\<close> does to the approvals.\<close>

definition approvals_put :: "string \<Rightarrow> approval option \<Rightarrow> approval list \<Rightarrow> approval list \<Rightarrow> bool" where
  "approvals_put i approval ps ps' \<longleftrightarrow> (case approval of None \<Rightarrow> ps' = ps
     | Some p \<Rightarrow> (\<exists>row \<in> set ps'. apr_id row = apr_id p \<and> apr_incident row = i
         \<and> (ps' = ps \<or> ps' = ps @ [row] \<and> (\<forall>q \<in> set ps. apr_id q \<noteq> apr_id p))))"

lemma put_approval_effect:
  assumes "put_approval P i approval d = Inr d'"
  shows "db_incidents d' = db_incidents d \<and> db_actions d' = db_actions d \<and> db_events d' = db_events d
    \<and> approvals_put i approval (db_approvals d) (db_approvals d')"
proof (cases approval)
  case None
  with assms show ?thesis by (simp add: put_approval_def approvals_put_def)
next
  case (Some p)
  with assms obtain actions where "json_column P (apr_actions p) = Inr actions" and
    c: "(case find_approval d (apr_id p) of
          None \<Rightarrow> Inr (d\<lparr>db_approvals := db_approvals d @ [p\<lparr>apr_incident := i, apr_actions := actions\<rparr>]\<rparr>)
        | Some old \<Rightarrow> if old = p\<lparr>apr_incident := i, apr_actions := actions\<rparr> then Inr d
            else Inl (IncidentStoreError ''A persisted approval cannot be modified in-place.'')) = Inr d'"
    by (auto simp: put_approval_def ebind_Inr_iff Let_def)
  show ?thesis
  proof (cases "find_approval d (apr_id p)")
    case None
    then have "\<forall>q \<in> set (db_approvals d). apr_id q \<noteq> apr_id p"
      by (simp add: find_approval_def row_where_None)
    with c None Some show ?thesis by (auto simp: approvals_put_def)
  next
    case old: (Some q)
    then have "q \<in> set (db_approvals d)" unfolding find_approval_def by (drule_tac row_where_SomeD) simp
    with c old have "d' = d" "\<exists>row \<in> set (db_approvals d). apr_id row = apr_id p \<and> apr_incident row = i"
      by (auto split: if_splits intro!: bexI [of _ q])
    with Some show ?thesis by (auto simp: approvals_put_def)
  qed
qed

text \<open>A checkpoint that commits: what it wrote to each table.\<close>

lemma save_tables:
  assumes "save_incident P now d inc event_type payload action_id owner = (d', res)" and "d' \<noteq> d"
  obtains r q p s e u where "find_incident d (inc_id inc) = Some r"
    "checkpoint_error r (incident_actions d (inc_id inc)) inc owner (iso_utc now) = None"
    "count_where (\<lambda>x. inc_id x = inc_id inc \<and> inc_version x = inc_version inc) (db_incidents d) = 1"
    "db_incidents d' = update_where (\<lambda>x. inc_id x = inc_id inc \<and> inc_version x = inc_version inc)
       (checkpoint_incident r inc u q p s e) (db_incidents d)"
    "list_all2 tagged_action_step (db_actions d) (db_actions d')"
    "approvals_put (inc_id inc) (inc_approval inc) (db_approvals d) (db_approvals d')"
    "\<exists>z. db_events d' = db_events d @ [z] \<and> ev_from z = Some (incident_state_name (inc_state r))"
proof -
  from assms obtain r d1 d2 d3 data where
    r: "find_incident d (inc_id inc) = Some r"
    and ok: "checkpoint_error r (incident_actions d (inc_id inc)) inc owner (iso_utc now) = None"
    and d1: "update_incident P r inc (if inc_updated inc = [] then iso_utc now else inc_updated inc) d = Inr d1"
    and d2: "update_actions P (inc_id inc) d1 (inc_actions inc) = Inr d2"
    and d3: "put_approval P (inc_id inc) (inc_approval inc) d2 = Inr d3"
    and d': "d' = append_event (inc_id inc) action_id
       (if inc_updated inc = [] then iso_utc now else inc_updated inc) event_type
       (Some (incident_state_name (inc_state r))) (Some (incident_state_name (inc_state inc))) data d3"
    by (rule save_commits)
  from ok have acts: "\<forall>a \<in> set (inc_actions inc). \<forall>old. action_state_of (incident_actions d (inc_id inc)) (act_id a) = Some old
       \<longrightarrow> act_state a \<in> set (ACTION_TRANSITIONS old)" by (rule checkpoint_error_None) blast
  let ?match = "\<lambda>x. inc_id x = inc_id inc \<and> inc_version x = inc_version inc"
  from d1 obtain u q p s e where up: "update_checked ?match (checkpoint_incident r inc u q p s e)
      (ConcurrentIncidentUpdate ''Incident checkpoint compare-and-swap failed.'') d = Inr d1"
    by (auto simp: update_incident_def ebind_Inr_iff)
  then have e1: "count_where ?match (db_incidents d) = 1"
      "db_incidents d1 = update_where ?match (checkpoint_incident r inc u q p s e) (db_incidents d)"
      "db_actions d1 = db_actions d" "db_approvals d1 = db_approvals d" "db_events d1 = db_events d"
    by (auto simp: update_checked_Inr)
  have rows: "act_state a \<in> set (ACTION_TRANSITIONS (act_state x))"
    if "a \<in> set (inc_actions inc)" "(inc_id inc, x) \<in> set (db_actions d)" "act_id x = act_id a" for a x
  proof -
    have "row_where (action_match (inc_id inc) (act_id a)) (db_actions d) = Some (inc_id inc, x)"
      using update_actions_count [OF d2 that(1)] e1 that(2,3)
      by (intro row_where_unique) (auto simp: action_match_def)
    then show ?thesis using acts that(1) by (simp add: action_state_of_actions)
  qed
  have e2: "db_incidents d2 = db_incidents d1 \<and> db_approvals d2 = db_approvals d1 \<and> db_events d2 = db_events d1
    \<and> list_all2 tagged_action_step (db_actions d) (db_actions d2)"
    by (rule update_actions_effect [OF d2]) (use e1 rows in \<open>auto simp: list_all2_same\<close>)
  note e3 = put_approval_effect [OF d3]
  show thesis
    by (rule that [OF r ok e1(1), of u q p s e]) (use e1 e2 e3 d' in \<open>auto simp: append_event_def\<close>)
qed

lemma save_evolves:
  assumes "save_incident P now d inc event_type payload action_id owner = (d', res)"
  shows "evolves d d'"
proof (cases "d' = d")
  case False
  let ?match = "\<lambda>x. inc_id x = inc_id inc \<and> inc_version x = inc_version inc"
  from assms False obtain r q p s e u where
    r: "find_incident d (inc_id inc) = Some r"
    and ok: "checkpoint_error r (incident_actions d (inc_id inc)) inc owner (iso_utc now) = None"
    and one: "count_where ?match (db_incidents d) = 1"
    and i: "db_incidents d' = update_where ?match (checkpoint_incident r inc u q p s e) (db_incidents d)"
    and a: "list_all2 tagged_action_step (db_actions d) (db_actions d')"
    and ps: "approvals_put (inc_id inc) (inc_approval inc) (db_approvals d) (db_approvals d')"
    and ev: "\<exists>z. db_events d' = db_events d @ [z] \<and> ev_from z = Some (incident_state_name (inc_state r))"
    by (rule save_tables)
  from ok have ver: "inc_version r = inc_version inc"
    and st: "inc_state inc \<in> set (INCIDENT_TRANSITIONS (inc_state r))"
    by (auto elim: checkpoint_error_None)
  have only: "x = r" if "?match x" "x \<in> set (db_incidents d)" for x
  proof -
    have "r \<in> set (db_incidents d)" "?match r" using find_incident_SomeD [OF r] ver by auto
    then have "row_where ?match (db_incidents d) = Some r" by (rule row_where_unique [OF one])
    moreover have "row_where ?match (db_incidents d) = Some x" by (rule row_where_unique [OF one that(2,1)])
    ultimately show ?thesis by simp
  qed
  have "incidents_evolve d d'" unfolding i
    by (rule extends_rows_update) (use only ver st in \<open>auto simp: row_step_def checkpoint_incident_def\<close>)
  moreover have "actions_evolve d d'" by (rule extends_rows_same [OF a])
  moreover have "\<exists>zs. db_approvals d' = db_approvals d @ zs"
    using ps by (auto simp: approvals_put_def split: option.splits)
  ultimately show ?thesis using ev by (auto simp: evolves_def)
qed simp

text \<open>A claim that succeeds, taken apart.\<close>

definition intent :: "string \<Rightarrow> string \<Rightarrow> pyval \<Rightarrow> string \<times> action \<Rightarrow> bool" where
  "intent i a operation_id = (\<lambda>(j, b). j = i \<and> act_id b = a \<and> act_state b = EXECUTING
     \<and> py_eq (opt_text (act_operation b)) operation_id)"

lemma claim_writesE:
  assumes "claim_writes P now r x y operation_id plan_revision worker_id evidence d = Inr (d', auth)"
  obtains d1 payload where
    "count_where (intent (inc_id r) (act_id x) operation_id) (db_actions d) = 1"
    "update_checked
       (\<lambda>z. inc_id z = inc_id r \<and> inc_version z = inc_version r \<and> inc_state z = RUNNING
          \<and> inc_approval_id z = Some (apr_id y) \<and> py_eq (opt_text (inc_lease_owner z)) worker_id
          \<and> (case inc_lease_expires z of None \<Rightarrow> False | Some e \<Rightarrow> iso_utc now < e))
       (\<lambda>z. z\<lparr>inc_version := inc_version z + 1, inc_updated := iso_utc now\<rparr>)
       (unavailable ''Incident revision, approval, or lease changed while claiming the action.'')
       (d\<lparr>db_actions := update_where (intent (inc_id r) (act_id x) operation_id)
          (\<lambda>(j, b). (j, b\<lparr>act_state := APPLYING, act_updated := iso_utc now\<rparr>)) (db_actions d)\<rparr>) = Inr d1"
    "d' = append_event (inc_id r) (Some (act_id x)) (iso_utc now) ''ACTION_EXECUTION_CLAIMED''
       (Some ''EXECUTING'') (Some ''APPLYING'') payload d1"
  using assms by (auto simp: claim_writes_def intent_def [symmetric] Let_def ebind_Inr_iff split: if_splits)

lemma claim_transactionE:
  assumes "claim_transaction P now d approval_context operation_id proposal evidence execution_context
      = Inr (d', auth)"
  obtains r x y where
    "claim_row d (str_of (dget approval_context ''incident_id''))
       (str_of (dget approval_context ''current_action_id'')) = Some (r, x, y)"
    "persisted_error r x y (dget approval_context ''approval_id'') operation_id
       (dget execution_context ''plan_revision'') (dget execution_context ''worker_id'') now = None"
    "json_column P (act_proposal x) = json_column P proposal"
    "grant_check P (dget execution_context ''isolated_grant'')
       (action_scope (PStr (inc_id r)) (PInt (inc_revision r)) (PStr (act_id x)) (act_proposal x)
          (act_target x) (act_waiters x) (act_blocked_pids x)) now = Inr ()"
    "waiter_check (act_blocked_pids x) (act_waiters x) = Inr ()"
    "evidence_check evidence (act_waiters x) (act_target x) proposal = Inr ()"
    "scope_check P y x proposal (act_id x) now = Inr ()"
    "claim_writes P now r x y operation_id (dget execution_context ''plan_revision'')
       (dget execution_context ''worker_id'') evidence d = Inr (d', auth)"
    "find_incident d (inc_id r) = Some r" "inc_approval_id r = Some (apr_id y)"
    "apr_incident y = inc_id r" "(inc_id r, x) \<in> set (db_actions d)" "y \<in> set (db_approvals d)"
    "act_id x = str_of (dget approval_context ''current_action_id'')"
    "inc_id r = str_of (dget approval_context ''incident_id'')"
    "row_where (action_match (inc_id r) (act_id x)) (db_actions d) = Some (inc_id r, x)"
proof -
  let ?i = "str_of (dget approval_context ''incident_id'')"
  let ?a = "str_of (dget approval_context ''current_action_id'')"
  obtain r x y where row: "claim_row d ?i ?a = Some (r, x, y)"
    using assms by (cases "claim_row d ?i ?a") (auto simp: claim_transaction_def Let_def)
  from row have f: "find_incident d ?i = Some r"
    and x: "row_where (\<lambda>x. act_id x = ?a) (incident_actions d ?i) = Some x"
    and y: "row_where (\<lambda>z. apr_incident z = ?i \<and> apr_id z = the (inc_approval_id r)) (db_approvals d) = Some y"
      "inc_approval_id r \<noteq> None"
    by (auto simp: claim_row_def split: option.splits)
  have ids: "inc_id r = ?i" "act_id x = ?a" "(?i, x) \<in> set (db_actions d)"
      "apr_incident y = ?i" "inc_approval_id r = Some (apr_id y)" "y \<in> set (db_approvals d)"
    using find_incident_SomeD [OF f] row_where_SomeD [OF x] row_where_SomeD [OF y(1)] y(2)
    by (auto simp: incident_actions_def)
  from x obtain z where z: "row_where (action_match ?i ?a) (db_actions d) = Some z" "snd z = x"
    by (auto simp: incident_actions_row)
  then have "z = (?i, x)" using row_where_SomeD [OF z(1)] by (cases z) (auto simp: action_match_def)
  with z ids have found: "row_where (action_match (inc_id r) (act_id x)) (db_actions d) = Some (inc_id r, x)"
    by simp
  show thesis
    using assms row unfolding claim_transaction_def Let_def
    by (intro that [of r x y])
      (use f ids found in \<open>auto simp: ebind_Inr_iff split: option.splits if_splits\<close>)
qed

lemma claim_commits:
  assumes "claim_action_execution P C now d ac op pr ev ec = (d', out)" and "d' \<noteq> d"
  obtains auth where "out = Inr auth" "reference_error C ac op pr ev ec = None"
    "claim_transaction P now d ac op pr ev ec = Inr (d', auth)"
  using assms by (auto simp: claim_action_execution_def split: option.splits sum.splits)

lemma claim_evolves:
  assumes "claim_action_execution P C now d ac op pr ev ec = (d', out)" shows "evolves d d'"
proof (cases "d' = d")
  case False
  from claim_commits [OF assms False] obtain auth where
    "claim_transaction P now d ac op pr ev ec = Inr (d', auth)" by blast
  then obtain r x y where
    w: "claim_writes P now r x y op (dget ec ''plan_revision'') (dget ec ''worker_id'') ev d = Inr (d', auth)"
    by (rule claim_transactionE)
  from w obtain d1 payload where
    up: "update_checked
       (\<lambda>z. inc_id z = inc_id r \<and> inc_version z = inc_version r \<and> inc_state z = RUNNING
          \<and> inc_approval_id z = Some (apr_id y) \<and> py_eq (opt_text (inc_lease_owner z)) (dget ec ''worker_id'')
          \<and> (case inc_lease_expires z of None \<Rightarrow> False | Some e \<Rightarrow> iso_utc now < e))
       (\<lambda>z. z\<lparr>inc_version := inc_version z + 1, inc_updated := iso_utc now\<rparr>)
       (unavailable ''Incident revision, approval, or lease changed while claiming the action.'')
       (d\<lparr>db_actions := update_where (intent (inc_id r) (act_id x) op)
          (\<lambda>(j, b). (j, b\<lparr>act_state := APPLYING, act_updated := iso_utc now\<rparr>)) (db_actions d)\<rparr>) = Inr d1"
    and d': "d' = append_event (inc_id r) (Some (act_id x)) (iso_utc now) ''ACTION_EXECUTION_CLAIMED''
       (Some ''EXECUTING'') (Some ''APPLYING'') payload d1" by (rule claim_writesE)
  have "evolves (d\<lparr>db_actions := update_where (intent (inc_id r) (act_id x) op)
          (\<lambda>(j, b). (j, b\<lparr>act_state := APPLYING, act_updated := iso_utc now\<rparr>)) (db_actions d)\<rparr>) d1
      \<and> db_events d1 = db_events d \<and> db_approvals d1 = db_approvals d
      \<and> db_actions d1 = update_where (intent (inc_id r) (act_id x) op)
          (\<lambda>(j, b). (j, b\<lparr>act_state := APPLYING, act_updated := iso_utc now\<rparr>)) (db_actions d)"
    using evolves_update_checked [OF up] by (auto simp: row_step_def)
  moreover have "extends_rows tagged_action_step (db_actions d)
      (update_where (intent (inc_id r) (act_id x) op)
          (\<lambda>(j, b). (j, b\<lparr>act_state := APPLYING, act_updated := iso_utc now\<rparr>)) (db_actions d))"
    by (rule extends_rows_update) (auto simp: intent_def action_step_def)
  ultimately have "evolves d d1" "db_events d1 = db_events d" by (auto simp: evolves_def)
  then show ?thesis unfolding d' by (rule evolves_append_event)
qed simp

text \<open>The three lease operations raise the version of one row and touch nothing else.\<close>

lemma acquire_commits:
  assumes "acquire_lease P now d i owner seconds = (d', res)" and "d' \<noteq> d"
  obtains expires r d1 payload where "lease_argument_error owner seconds = None"
    "lease_expiry now seconds = Inr expires" "find_incident d i = Some r" "is_active (inc_state r)"
    "update_checked (\<lambda>x. inc_id x = i \<and> is_active (inc_state x) \<and> lease_free x owner (iso_utc now))
       (\<lambda>x. x\<lparr>inc_lease_owner := Some owner, inc_lease_expires := Some expires,
              inc_version := inc_version x + 1, inc_updated := iso_utc now\<rparr>)
       (IncidentLeaseUnavailable ''Incident is currently owned by another worker.'') d = Inr d1"
    "d' = append_event i None (iso_utc now) ''LEASE_ACQUIRED''
       (Some (incident_state_name (inc_state r))) (Some (incident_state_name (inc_state r))) payload d1"
  using assms(2) commit_and_load_db [OF assms(1) [unfolded acquire_lease_def]]
  by (auto simp: ebind_Inr_iff split: option.splits if_splits)

lemma renew_commits:
  assumes "renew_lease now d i owner seconds = (d', res)" and "d' \<noteq> d"
  obtains expires where "lease_argument_error owner seconds = None"
    "lease_expiry now seconds = Inr expires"
    "update_checked (\<lambda>x. inc_id x = i \<and> holds_lease x owner (iso_utc now) \<and> is_active (inc_state x))
       (\<lambda>x. x\<lparr>inc_lease_expires := Some expires, inc_version := inc_version x + 1,
              inc_updated := iso_utc now\<rparr>)
       (IncidentLeaseUnavailable ''Incident execution lease expired or changed.'') d = Inr d'"
  using assms(2) commit_and_load_db [OF assms(1) [unfolded renew_lease_def]]
  by (auto simp: ebind_Inr_iff split: option.splits)

lemma release_commits:
  assumes "release_lease P now d i owner = (d', res)" and "d' \<noteq> d"
  obtains r d1 payload where "find_incident d i = Some r"
    "update_checked (\<lambda>x. inc_id x = i \<and> inc_lease_owner x = Some owner)
       (\<lambda>x. x\<lparr>inc_lease_owner := None, inc_lease_expires := None,
              inc_version := inc_version x + 1, inc_updated := iso_utc now\<rparr>)
       (IncidentLeaseUnavailable ''Incident execution lease is not owned by this worker.'') d = Inr d1"
    "d' = append_event i None (iso_utc now) ''LEASE_RELEASED''
       (Some (incident_state_name (inc_state r))) (Some (incident_state_name (inc_state r))) payload d1"
  using assms(2) commit_and_load_db [OF assms(1) [unfolded release_lease_def]]
  by (auto simp: ebind_Inr_iff split: option.splits if_splits)

lemma lease_evolves:
  "acquire_lease P now d i owner seconds = (d', res) \<Longrightarrow> evolves d d'"
  "renew_lease now d i owner seconds = (d', res) \<Longrightarrow> evolves d d'"
  "release_lease P now d i owner = (d', res) \<Longrightarrow> evolves d d'"
proof -
  assume "acquire_lease P now d i owner seconds = (d', res)"
  then show "evolves d d'"
    by (cases "d' = d", simp, elim acquire_commits)
      (auto simp: row_step_def dest!: evolves_update_checked intro!: evolves_append_event)
next
  assume "renew_lease now d i owner seconds = (d', res)"
  then show "evolves d d'"
    by (cases "d' = d", simp, elim renew_commits)
      (auto simp: row_step_def dest!: evolves_update_checked)
next
  assume "release_lease P now d i owner = (d', res)"
  then show "evolves d d'"
    by (cases "d' = d", simp, elim release_commits)
      (auto simp: row_step_def dest!: evolves_update_checked intro!: evolves_append_event)
qed

lemma store_step_evolves: "store_step P C d d' \<Longrightarrow> evolves d d'"
  by (induction rule: store_step.induct)
    (rule create_evolves save_evolves claim_evolves lease_evolves; assumption)+

section \<open>The contracts hold of the store\<close>

definition incident_state_at :: "db \<Rightarrow> string \<Rightarrow> incident_state option" where
  "incident_state_at d i = map_option inc_state (find_incident d i)"

definition action_state_at :: "db \<Rightarrow> string \<times> string \<Rightarrow> action_state option" where
  "action_state_at d k = action_state_of (incident_actions d (fst k)) (snd k)"

lemma action_state_at_row:
  "action_state_at d k = map_option (act_state \<circ> snd)
     (row_where (\<lambda>r. (\<lambda>(j, b). (j, act_id b)) r = k) (db_actions d))"
proof -
  have "row_where (action_match (fst k) (snd k)) acts
      = row_where (\<lambda>r. (\<lambda>(j, b). (j, act_id b)) r = k) acts" for acts :: "(string \<times> action) list"
    by (rule row_where_cong) (auto simp: action_match_def)
  then show ?thesis by (simp add: action_state_at_def action_state_of_actions)
qed

lemma evolves_find_incident:
  assumes "evolves d d'" and "find_incident d i = Some r"
  shows "\<exists>r'. find_incident d' i = Some r' \<and> row_step r r'"
proof -
  have "incidents_evolve d d'" using assms(1) by (simp add: evolves_def)
  moreover have "\<And>x y. row_step x y \<Longrightarrow> inc_id y = inc_id x" by (auto simp: row_step_def)
  ultimately show ?thesis
    using extends_rows_find assms(2) unfolding find_incident_def by metis
qed

lemma evolves_action_state:
  assumes "evolves d d'" and "action_state_at d k = Some s"
  shows "\<exists>s'. action_state_at d' k = Some s' \<and> s' \<in> set (ACTION_TRANSITIONS s)"
proof -
  let ?key = "\<lambda>(j, b). (j, act_id b)"
  from assms(2) obtain x where x: "row_where (\<lambda>r. ?key r = k) (db_actions d) = Some x" "s = act_state (snd x)"
    by (auto simp: action_state_at_row)
  have "actions_evolve d d'" using assms(1) by (simp add: evolves_def)
  moreover have "tagged_action_step x y \<Longrightarrow> ?key y = ?key x" for x y by (auto simp: action_step_def)
  ultimately have "\<exists>y. row_where (\<lambda>r. ?key r = k) (db_actions d') = Some y \<and> tagged_action_step x y"
    using x(1) by (rule extends_rows_find)
  then show ?thesis using x(2) by (auto simp: action_state_at_row action_step_def)
qed

interpretation store_rows: versioned_rows "store_step P C" find_incident inc_version for P C
  by unfold_locales (auto dest!: store_step_evolves evolves_find_incident simp: row_step_def)

interpretation incident_states: lifecycle "store_step P C" incident_state_at INCIDENT_TRANSITIONS for P C
  by unfold_locales
    (auto dest!: store_step_evolves dest: evolves_find_incident simp: incident_state_at_def row_step_def,
     metis evolves_find_incident row_step_def self_transitions(1))

interpretation action_states: lifecycle "store_step P C" action_state_at ACTION_TRANSITIONS for P C
  by unfold_locales (auto dest: store_step_evolves evolves_action_state)

end
