(* ===== verification/StoreInvariant.thy ===== *)
theory StoreInvariant
  imports StoreSafety
begin

text \<open>
  The invariant of the store's tables: unique keys, foreign keys, every current approval
  present, and at most one execution claim per action, whose action never looks unclaimed
  again. Every step keeps it, so every database reachable from an empty one has it.
\<close>

lemma same_key: "distinct (map k xs) \<Longrightarrow> x \<in> set xs \<Longrightarrow> y \<in> set xs \<Longrightarrow> k x = k y \<Longrightarrow> x = y"
  by (auto simp: distinct_map dest: inj_onD)

section \<open>Invariant\<close>

definition keys_ok :: "db \<Rightarrow> bool" where
  "keys_ok d \<longleftrightarrow> distinct (map inc_id (db_incidents d))
    \<and> distinct (map (act_id \<circ> snd) (db_actions d)) \<and> distinct (map apr_id (db_approvals d))
    \<and> fst ` set (db_actions d) \<subseteq> inc_id ` set (db_incidents d)"

definition approvals_ok :: "db \<Rightarrow> bool" where
  "approvals_ok d \<longleftrightarrow> (\<forall>r \<in> set (db_incidents d). \<forall>p. inc_approval_id r = Some p \<longrightarrow>
     (\<exists>y \<in> set (db_approvals d). apr_id y = p \<and> apr_incident y = inc_id r))"

definition is_claim :: "event \<Rightarrow> bool" where
  "is_claim e \<longleftrightarrow> ev_from e = Some ''EXECUTING'' \<and> ev_to e = Some ''APPLYING''"

definition claim_events :: "db \<Rightarrow> event list" where
  "claim_events d = filter is_claim (db_events d)"

definition claims_ok :: "db \<Rightarrow> bool" where
  "claims_ok d \<longleftrightarrow> distinct (map ev_action (claim_events d))
    \<and> (\<forall>e \<in> set (claim_events d). \<exists>(i, x) \<in> set (db_actions d).
         ev_incident e = i \<and> ev_action e = Some (act_id x) \<and> act_state x \<in> claimed_states)"

definition db_ok :: "db \<Rightarrow> bool" where
  "db_ok d \<longleftrightarrow> keys_ok d \<and> approvals_ok d \<and> claims_ok d"

lemma db_ok_empty: "db_ok empty_db"
  by (simp add: db_ok_def keys_ok_def approvals_ok_def claims_ok_def claim_events_def empty_db_def)

section \<open>Keys\<close>

text \<open>The keys of the three tables.\<close>

definition table_keys :: "db \<Rightarrow> string list \<times> (string \<times> string) list \<times> string list" where
  "table_keys d = (map inc_id (db_incidents d), map (\<lambda>(i, x). (i, act_id x)) (db_actions d),
     map apr_id (db_approvals d))"

lemma keys_ok_keys:
  "keys_ok d \<longleftrightarrow> (case table_keys d of (is, as, ps) \<Rightarrow>
     distinct is \<and> distinct (map snd as) \<and> distinct ps \<and> fst ` set as \<subseteq> set is)"
  by (simp add: keys_ok_def table_keys_def comp_def case_prod_beta image_image)

lemma update_checked_keys:
  assumes "update_checked match f e d = Inr d'" and "\<And>r. inc_id (f r) = inc_id r"
  shows "table_keys d' = table_keys d"
  using assms by (auto simp: update_checked_Inr table_keys_def table_simps)

lemma append_event_keys [simp]: "table_keys (append_event i a t ty f g p d) = table_keys d"
  by (simp add: table_keys_def)

lemma tagged_keys:
  "list_all2 tagged_action_step xs ys \<Longrightarrow>
     map (\<lambda>(i, x). (i, act_id x)) ys = map (\<lambda>(i, x). (i, act_id x)) xs"
  by (induction rule: list_all2_induct) (auto simp: action_step_def)

lemma claim_keys:
  assumes "claim_action_execution P C now d ac op pr ev ec = (d', out)"
  shows "table_keys d' = table_keys d"
proof (cases "d' = d")
  case False
  from claim_commits [OF assms False] obtain auth where
    "claim_transaction P now d ac op pr ev ec = Inr (d', auth)" by blast
  then obtain r x y where
    w: "claim_writes P now r x y op (dget ec ''plan_revision'') (dget ec ''worker_id'') ev d = Inr (d', auth)"
    by (rule claim_transactionE)
  have a: "map (\<lambda>(i, x). (i, act_id x)) (update_where (intent (inc_id r) (act_id x) op)
          (\<lambda>(j, b). (j, b\<lparr>act_state := APPLYING, act_updated := iso_utc now\<rparr>)) (db_actions d))
      = map (\<lambda>(i, x). (i, act_id x)) (db_actions d)"
    by (rule map_update_where) auto
  show ?thesis
    by (rule claim_writesE [OF w]) (drule update_checked_keys, simp, simp add: table_keys_def a)
qed simp

lemma incident_state_name_not_claim: "incident_state_name s \<noteq> ''EXECUTING''"
  by (cases s) simp_all

section \<open>Preservation\<close>

text \<open>The part of the invariant about approvals, for steps that leave both tables' keys alone.\<close>

lemma approvals_ok_update:
  assumes "approvals_ok d" and "db_incidents d' = update_where p f (db_incidents d)"
    and "db_approvals d' = db_approvals d @ zs"
    and "\<And>r. inc_id (f r) = inc_id r"
    and "\<And>r q. r \<in> set (db_incidents d) \<Longrightarrow> p r \<Longrightarrow> inc_approval_id (f r) = Some q \<Longrightarrow>
       inc_approval_id r = Some q \<or> (\<exists>y \<in> set (db_approvals d'). apr_id y = q \<and> apr_incident y = inc_id r)"
  shows "approvals_ok d'"
proof -
  have "\<exists>y \<in> set (db_approvals d'). apr_id y = q \<and> apr_incident y = inc_id r'"
    if r': "r' \<in> set (db_incidents d')" and q: "inc_approval_id r' = Some q" for r' q
  proof -
    from r' obtain r where r: "r \<in> set (db_incidents d)" "r' = (if p r then f r else r)"
      unfolding assms(2) set_update_where by blast
    then have id: "inc_id r' = inc_id r" using assms(4) by simp
    have "inc_approval_id r = Some q \<or> (\<exists>y \<in> set (db_approvals d'). apr_id y = q \<and> apr_incident y = inc_id r)"
      using assms(5) [OF r(1)] r(2) q by (auto split: if_splits)
    then show ?thesis using assms(1,3) r(1) id by (auto simp: approvals_ok_def)
  qed
  then show ?thesis by (simp add: approvals_ok_def)
qed

lemma approvals_ok_checked:
  assumes "update_checked match f e d = Inr d'" and "approvals_ok d"
    and "\<And>r. inc_id (f r) = inc_id r" and "\<And>r. inc_approval_id (f r) = inc_approval_id r"
  shows "approvals_ok d'"
  by (rule approvals_ok_update [OF assms(2), of d' match f "[]"])
    (use assms in \<open>auto simp: update_checked_Inr\<close>)

lemma approvals_ok_append_event [simp]: "approvals_ok (append_event i a t ty f g p d) \<longleftrightarrow> approvals_ok d"
  by (simp add: approvals_ok_def)

text \<open>The part about claims, for steps that record no claim.\<close>

lemma claims_ok_evolves:
  assumes "claims_ok d" and "actions_evolve d d'" and "claim_events d' = claim_events d"
  shows "claims_ok d'"
proof -
  from assms(2) obtain us zs where us: "list_all2 tagged_action_step (db_actions d) us"
    and acts: "db_actions d' = us @ zs" by (auto simp: extends_rows_def)
  have "\<exists>(i, x) \<in> set (db_actions d'). ev_incident e = i \<and> ev_action e = Some (act_id x)
      \<and> act_state x \<in> claimed_states" if "e \<in> set (claim_events d)" for e
  proof -
    from that assms(1) obtain x where x: "(ev_incident e, x) \<in> set (db_actions d)"
      "ev_action e = Some (act_id x)" "act_state x \<in> claimed_states"
      by (auto simp: claims_ok_def)
    then obtain n where n: "n < length (db_actions d)" "db_actions d ! n = (ev_incident e, x)"
      by (auto simp: in_set_conv_nth)
    with us have "tagged_action_step (ev_incident e, x) (us ! n)" "n < length us"
      by (auto simp: list_all2_conv_all_nth)
    then obtain y where y: "us ! n = (ev_incident e, y)" "action_step x y" "n < length us"
      by (cases "us ! n") auto
    then have "(ev_incident e, y) \<in> set (db_actions d')" unfolding acts by (metis UnI1 nth_mem set_append)
    moreover have "act_state y \<in> claimed_states"
      using x(3) y(2) claimed_states_closed by (auto simp: action_step_def)
    ultimately show ?thesis
      using x(2) y(2) by (intro bexI [of _ "(ev_incident e, y)"]) (auto simp: action_step_def)
  qed
  with assms(1,3) show ?thesis by (simp add: claims_ok_def)
qed

lemma claim_events_append [simp]:
  "claim_events (append_event i a t ty f g p d) = claim_events d
     @ (if f = Some ''EXECUTING'' \<and> g = Some ''APPLYING'' then
          [\<lparr>ev_id = int (length (db_events d)) + 1, ev_incident = i, ev_action = a, ev_time = t,
            ev_type = ty, ev_from = f, ev_to = g, ev_payload = p\<rparr>] else [])"
  by (simp add: claim_events_def append_event_def is_claim_def)

lemma claim_events_cong: "db_events d' = db_events d \<Longrightarrow> claim_events d' = claim_events d"
  by (simp add: claim_events_def)

text \<open>The three lease operations.\<close>

lemma checked_ok:
  assumes "update_checked match f e d = Inr d'" and "db_ok d"
    and "\<And>r. inc_id (f r) = inc_id r" "\<And>r. inc_approval_id (f r) = inc_approval_id r"
    and "\<And>r. row_step r (f r)"
  shows "keys_ok d' \<and> approvals_ok d' \<and> claims_ok d'"
proof -
  note ev = evolves_update_checked [OF assms(1,5)]
  have "keys_ok d'" using assms(2) update_checked_keys [OF assms(1,3)] by (simp add: keys_ok_keys db_ok_def)
  moreover have "approvals_ok d'"
    using approvals_ok_checked [OF assms(1) _ assms(3,4)] assms(2) by (simp add: db_ok_def)
  moreover have "claims_ok d'"
  proof (rule claims_ok_evolves)
    show "claims_ok d" using assms(2) by (simp add: db_ok_def)
    show "actions_evolve d d'" using ev unfolding evolves_def by blast
    show "claim_events d' = claim_events d" by (rule claim_events_cong) (simp add: ev)
  qed
  ultimately show ?thesis by simp
qed

lemma append_event_ok:
  assumes "keys_ok d \<and> approvals_ok d \<and> claims_ok d" and "f \<noteq> Some ''EXECUTING''"
  shows "db_ok (append_event i a t ty f g p d)"
  using assms by (auto simp: db_ok_def keys_ok_def claims_ok_def)

lemma acquire_ok:
  assumes "acquire_lease P now d i owner seconds = (d', res)" and "db_ok d" shows "db_ok d'"
proof (cases "d' = d")
  case False
  from assms(1) False show ?thesis
  proof (rule acquire_commits)
    fix expires r d1 payload
    assume up: "update_checked (\<lambda>x. inc_id x = i \<and> is_active (inc_state x) \<and> lease_free x owner (iso_utc now))
       (\<lambda>x. x\<lparr>inc_lease_owner := Some owner, inc_lease_expires := Some expires,
              inc_version := inc_version x + 1, inc_updated := iso_utc now\<rparr>)
       (IncidentLeaseUnavailable ''Incident is currently owned by another worker.'') d = Inr d1"
      and d': "d' = append_event i None (iso_utc now) ''LEASE_ACQUIRED''
       (Some (incident_state_name (inc_state r))) (Some (incident_state_name (inc_state r))) payload d1"
    show "db_ok d'" unfolding d'
      by (rule append_event_ok, rule checked_ok [OF up assms(2)])
        (simp_all add: row_step_def incident_state_name_not_claim)
  qed
qed (use assms in simp)

lemma renew_ok:
  assumes "renew_lease now d i owner seconds = (d', res)" and "db_ok d" shows "db_ok d'"
proof (cases "d' = d")
  case False
  from assms(1) False obtain expires where
    "update_checked (\<lambda>x. inc_id x = i \<and> holds_lease x owner (iso_utc now) \<and> is_active (inc_state x))
       (\<lambda>x. x\<lparr>inc_lease_expires := Some expires, inc_version := inc_version x + 1,
              inc_updated := iso_utc now\<rparr>)
       (IncidentLeaseUnavailable ''Incident execution lease expired or changed.'') d = Inr d'"
    by (rule renew_commits)
  then have "keys_ok d' \<and> approvals_ok d' \<and> claims_ok d'"
    by (rule checked_ok [OF _ assms(2)]) (simp_all add: row_step_def)
  then show ?thesis by (simp add: db_ok_def)
qed (use assms in simp)

lemma release_ok:
  assumes "release_lease P now d i owner = (d', res)" and "db_ok d" shows "db_ok d'"
proof (cases "d' = d")
  case False
  from assms(1) False show ?thesis
  proof (rule release_commits)
    fix r d1 payload
    assume up: "update_checked (\<lambda>x. inc_id x = i \<and> inc_lease_owner x = Some owner)
       (\<lambda>x. x\<lparr>inc_lease_owner := None, inc_lease_expires := None,
              inc_version := inc_version x + 1, inc_updated := iso_utc now\<rparr>)
       (IncidentLeaseUnavailable ''Incident execution lease is not owned by this worker.'') d = Inr d1"
      and d': "d' = append_event i None (iso_utc now) ''LEASE_RELEASED''
       (Some (incident_state_name (inc_state r))) (Some (incident_state_name (inc_state r))) payload d1"
    show "db_ok d'" unfolding d'
      by (rule append_event_ok, rule checked_ok [OF up assms(2)])
        (simp_all add: row_step_def incident_state_name_not_claim)
  qed
qed (use assms in simp)

lemma save_ok:
  assumes "save_incident P now d inc event_type payload action_id owner = (d', res)" and "db_ok d"
  shows "db_ok d'"
proof (cases "d' = d")
  case False
  let ?match = "\<lambda>x. inc_id x = inc_id inc \<and> inc_version x = inc_version inc"
  from assms(1) False obtain r q p s e u where
    r: "find_incident d (inc_id inc) = Some r"
    and one: "count_where ?match (db_incidents d) = 1"
    and i: "db_incidents d' = update_where ?match (checkpoint_incident r inc u q p s e) (db_incidents d)"
    and a: "list_all2 tagged_action_step (db_actions d) (db_actions d')"
    and ps: "approvals_put (inc_id inc) (inc_approval inc) (db_approvals d) (db_approvals d')"
    and ev: "\<exists>z. db_events d' = db_events d @ [z] \<and> ev_from z = Some (incident_state_name (inc_state r))"
    by (rule save_tables)
  from assms(2) have ok: "keys_ok d" "approvals_ok d" "claims_ok d" by (auto simp: db_ok_def)
  have ids: "map inc_id (db_incidents d') = map inc_id (db_incidents d)"
    unfolding i by (rule map_update_where) (simp add: checkpoint_incident_def)
  have acts: "map (\<lambda>(i, x). (i, act_id x)) (db_actions d') = map (\<lambda>(i, x). (i, act_id x)) (db_actions d)"
    by (rule tagged_keys [OF a])
  have "distinct (map apr_id (db_approvals d'))"
    using ps ok(1) by (fastforce simp: approvals_put_def keys_ok_def split: option.splits)
  then have "keys_ok d'" using ok(1) ids acts by (simp add: keys_ok_keys table_keys_def)
  moreover have "approvals_ok d'"
  proof -
    obtain zs where zs: "db_approvals d' = db_approvals d @ zs"
      using ps by (auto simp: approvals_put_def split: option.splits)
    have "inc_approval_id x = Some k \<or> (\<exists>y \<in> set (db_approvals d'). apr_id y = k \<and> apr_incident y = inc_id x)"
      if x: "x \<in> set (db_incidents d)" "?match x"
        and k: "inc_approval_id (checkpoint_incident r inc u q p s e x) = Some k" for x k
    proof (cases "inc_approval inc")
      case None
      have "row_where (\<lambda>z. inc_id z = inc_id x) (db_incidents d) = Some x"
          using row_where_distinct [of inc_id "db_incidents d" x] ok(1) x(1) by (simp add: keys_ok_def)
      with r x(2) have "x = r" by (simp add: find_incident_def)
      with None k show ?thesis by (simp add: checkpoint_incident_def)
    next
      case (Some y)
      with ps k x(2) show ?thesis by (auto simp: approvals_put_def checkpoint_incident_def)
    qed
    then show ?thesis
      by (intro approvals_ok_update [OF ok(2) i zs]) (simp_all add: checkpoint_incident_def)
  qed
  moreover have "claims_ok d'"
  proof (rule claims_ok_evolves [OF ok(3) extends_rows_same [OF a]])
    from ev obtain z where "db_events d' = db_events d @ [z]"
      "ev_from z = Some (incident_state_name (inc_state r))" by blast
    then show "claim_events d' = claim_events d"
      using incident_state_name_not_claim by (simp add: claim_events_def is_claim_def)
  qed
  ultimately show ?thesis by (simp add: db_ok_def)
qed (use assms in simp)

lemma claim_ok:
  assumes "claim_action_execution P C now d ac op pr ev ec = (d', out)" and "db_ok d"
  shows "db_ok d'"
proof (cases "d' = d")
  case False
  from assms(2) have ok: "keys_ok d" "approvals_ok d" "claims_ok d" by (auto simp: db_ok_def)
  from claim_commits [OF assms(1) False] obtain auth where
    "claim_transaction P now d ac op pr ev ec = Inr (d', auth)" by blast
  then obtain r x y where
    pe: "persisted_error r x y (dget ac ''approval_id'') op (dget ec ''plan_revision'')
       (dget ec ''worker_id'') now = None"
    and w: "claim_writes P now r x y op (dget ec ''plan_revision'') (dget ec ''worker_id'') ev d = Inr (d', auth)"
    and x: "(inc_id r, x) \<in> set (db_actions d)"
    by (rule claim_transactionE) blast
  from pe have st: "act_state x = EXECUTING" "py_eq (opt_text (act_operation x)) op"
    by (auto simp: persisted_error_def split: if_splits)
  let ?int = "intent (inc_id r) (act_id x) op"
  let ?apply = "\<lambda>(j, b). (j, b\<lparr>act_state := APPLYING, act_updated := iso_utc now\<rparr>)"
  from w obtain d1 payload where
    up: "update_checked
       (\<lambda>z. inc_id z = inc_id r \<and> inc_version z = inc_version r \<and> inc_state z = RUNNING
          \<and> inc_approval_id z = Some (apr_id y) \<and> py_eq (opt_text (inc_lease_owner z)) (dget ec ''worker_id'')
          \<and> (case inc_lease_expires z of None \<Rightarrow> False | Some e \<Rightarrow> iso_utc now < e))
       (\<lambda>z. z\<lparr>inc_version := inc_version z + 1, inc_updated := iso_utc now\<rparr>)
       (unavailable ''Incident revision, approval, or lease changed while claiming the action.'')
       (d\<lparr>db_actions := update_where ?int ?apply (db_actions d)\<rparr>) = Inr d1"
    and d': "d' = append_event (inc_id r) (Some (act_id x)) (iso_utc now) ''ACTION_EXECUTION_CLAIMED''
       (Some ''EXECUTING'') (Some ''APPLYING'') payload d1" by (rule claim_writesE)
  have d1: "db_actions d1 = update_where ?int ?apply (db_actions d)" "db_events d1 = db_events d"
    using up by (auto simp: update_checked_Inr)
  have "keys_ok d'" using claim_keys [OF assms(1)] ok(1) by (simp add: keys_ok_keys)
  moreover have "approvals_ok d'"
  proof -
    have "approvals_ok (d\<lparr>db_actions := update_where ?int ?apply (db_actions d)\<rparr>)"
      using ok(2) by (simp add: approvals_ok_def)
    from approvals_ok_checked [OF up this] show ?thesis unfolding d' by simp
  qed
  moreover have "claims_ok d'"
  proof -
    have new: "(inc_id r, x\<lparr>act_state := APPLYING, act_updated := iso_utc now\<rparr>) \<in> set (db_actions d1)"
      using x st unfolding d1 set_update_where
      by (intro image_eqI [of _ _ "(inc_id r, x)"]) (auto simp: intent_def)
    have "claims_ok d1"
    proof (rule claims_ok_evolves [OF ok(3)])
      have "extends_rows tagged_action_step (db_actions d) (update_where ?int ?apply (db_actions d))"
        by (rule extends_rows_update) (auto simp: intent_def action_step_def)
      then show "actions_evolve d d1" using d1(1) by simp
      show "claim_events d1 = claim_events d" by (rule claim_events_cong [OF d1(2)])
    qed
    moreover have fresh: "Some (act_id x) \<notin> ev_action ` set (claim_events d)"
    proof
      assume "Some (act_id x) \<in> ev_action ` set (claim_events d)"
      then obtain i' x' where x': "(i', x') \<in> set (db_actions d)" "act_id x' = act_id x"
        "act_state x' \<in> claimed_states" using ok(3) by (force simp: claims_ok_def)
      then have "(i', x') = (inc_id r, x)"
        using ok(1) x by (intro same_key [of "act_id \<circ> snd" "db_actions d"]) (simp_all add: keys_ok_def)
      with x' st show False by (simp add: claimed_states_def)
    qed
    moreover have "claim_events d1 = claim_events d" by (rule claim_events_cong [OF d1(2)])
    ultimately show ?thesis
      using new unfolding d' claims_ok_def
      by (auto simp: claimed_states_def intro!: bexI [OF _ new])
  qed
  ultimately show ?thesis by (simp add: db_ok_def)
qed (use assms in simp)

text \<open>Insertions.\<close>

lemma insert_actionE:
  assumes "insert_action P i d a = Inr d'"
  obtains b where "d' = d\<lparr>db_actions := db_actions d @ [(i, b)]\<rparr>" "act_id b = act_id a"
    "\<forall>(j, c) \<in> set (db_actions d). act_id c \<noteq> act_id a"
proof -
  from assms obtain t p w q r e where
    fresh: "\<not> list_ex (\<lambda>(_, b). act_id b = act_id a) (db_actions d)"
    and d': "d' = d\<lparr>db_actions := db_actions d @ [(i, a\<lparr>act_target := t, act_blocked_pids := p,
      act_waiters := w, act_proposal := q, act_result := r, act_error := e\<rparr>)]\<rparr>"
    by (auto simp: insert_action_def ebind_Inr_iff simp del: list_ex_iff split: if_splits)
  then show thesis by (intro that [OF d']) (auto simp: list_ex_iff)
qed

lemma insert_actions_ok:
  "insert_actions P i d as = Inr d' \<Longrightarrow> keys_ok d \<Longrightarrow> i \<in> inc_id ` set (db_incidents d) \<Longrightarrow> keys_ok d'"
proof (induction as arbitrary: d)
  case (Cons a as)
  from Cons.prems(1) obtain d1 where d1: "insert_action P i d a = Inr d1" "insert_actions P i d1 as = Inr d'"
    by (auto simp: ebind_Inr_iff)
  from d1(1) obtain b where b: "d1 = d\<lparr>db_actions := db_actions d @ [(i, b)]\<rparr>" "act_id b = act_id a"
    "\<forall>(j, c) \<in> set (db_actions d). act_id c \<noteq> act_id a"
    by (rule insert_actionE)
  then have "act_id b \<notin> set (map (act_id \<circ> snd) (db_actions d))" by auto
  with b Cons.prems(2,3) have "keys_ok d1" "i \<in> inc_id ` set (db_incidents d1)"
    by (auto simp: keys_ok_def)
  with Cons.IH [OF d1(2)] show ?case by blast
qed simp

lemma create_ok:
  assumes "create_incident P d inc = (d', res)" and "db_ok d" shows "db_ok d'"
proof (cases "d' = d")
  case False
  from assms(2) have ok: "keys_ok d" "approvals_ok d" "claims_ok d" by (auto simp: db_ok_def)
  from False commit_and_load_db [OF assms(1) [unfolded create_incident_def]]
  obtain d1 d2 payload where d1: "insert_incident P inc d = Inr d1"
    and d2: "insert_actions P (inc_id inc) d1 (inc_actions inc) = Inr d2"
    and d': "d' = append_event (inc_id inc) None (inc_created inc) ''INCIDENT_CREATED'' None
             (Some (incident_state_name (inc_state inc))) payload d2"
    by (auto simp: ebind_Inr_iff)
  from d1 obtain z where z: "d1 = d\<lparr>db_incidents := db_incidents d @ [z]\<rparr>" "inc_id z = inc_id inc"
    "inc_approval_id z = None" "inc_id inc \<notin> inc_id ` set (db_incidents d)"
    by (force simp: insert_incident_def ebind_Inr_iff list_ex_iff split: if_splits)
  note eff = insert_actions_effect [OF d2]
  have "keys_ok d1" using z ok(1) by (auto simp: keys_ok_def)
  then have "keys_ok d2" by (rule insert_actions_ok [OF d2]) (use z in auto)
  moreover have "approvals_ok d2" using eff z ok(2) by (auto simp: approvals_ok_def)
  moreover have "claims_ok d2"
  proof (rule claims_ok_evolves [OF ok(3)])
    show "actions_evolve d d2"
      using eff z(1) by (auto intro!: extends_rows_append [OF tagged_action_step_refl])
    show "claim_events d2 = claim_events d" using eff z(1) by (intro claim_events_cong) simp
  qed
  ultimately show ?thesis unfolding d' by (intro append_event_ok) simp_all
qed (use assms in simp)

lemma store_step_ok: "store_step P C d d' \<Longrightarrow> db_ok d \<Longrightarrow> db_ok d'"
  by (induction rule: store_step.induct)
    (blast dest: create_ok save_ok claim_ok acquire_ok renew_ok release_ok)+

lemma store_steps_ok:
  assumes "store_steps P C d d'" and "db_ok d" shows "db_ok d'"
  using assms by (induction rule: rtranclp_induct) (auto intro: store_step_ok)

definition reachable :: "platform \<Rightarrow> store_config \<Rightarrow> db \<Rightarrow> bool" where
  "reachable P C d \<longleftrightarrow> store_steps P C empty_db d"

lemma reachable_ok: "reachable P C d \<Longrightarrow> db_ok d"
  using store_steps_ok db_ok_empty by (auto simp: reachable_def)

lemma reachable_step: "reachable P C d \<Longrightarrow> store_step P C d d' \<Longrightarrow> reachable P C d'"
  by (auto simp: reachable_def)

end
