(* ===== verification/StoreTheorems.thy ===== *)
theory StoreTheorems
  imports StoreInvariant
begin

text \<open>
  The properties of the incident store that its callers rely on, derived from the step
  relation, the invariant and the contracts.
\<close>

section \<open>Refused calls\<close>

lemma claim_Inl_unchanged:
  "claim_action_execution P C now d ac op pr ev ec = (d', Inl e) \<Longrightarrow> d' = d"
  by (auto simp: claim_action_execution_def split: option.splits sum.splits)

lemma claim_InrE:
  assumes "claim_action_execution P C now d ac op pr ev ec = (d', Inr auth)"
  obtains "reference_error C ac op pr ev ec = None"
    "claim_transaction P now d ac op pr ev ec = Inr (d', auth)"
  using assms by (auto simp: claim_action_execution_def split: option.splits sum.splits)

lemma is_str_text: "is_str v \<Longrightarrow> v = PStr (str_of v)"
  by (cases v) auto

lemma reference_ids:
  assumes "reference_error C ac op pr ev ec = None"
  shows "dget ac ''incident_id'' = PStr (str_of (dget ac ''incident_id''))"
    "dget ac ''current_action_id'' = PStr (str_of (dget ac ''current_action_id''))"
    "dget ac ''approval_id'' = PStr (str_of (dget ac ''approval_id''))"
proof -
  from assms have "is_valid_uuid (dget ac ''incident_id'')" "is_valid_uuid (dget ac ''current_action_id'')"
      "is_valid_uuid (dget ac ''approval_id'')"
    by (auto simp: reference_error_def split: if_splits)
  then show "dget ac ''incident_id'' = PStr (str_of (dget ac ''incident_id''))"
    "dget ac ''current_action_id'' = PStr (str_of (dget ac ''current_action_id''))"
    "dget ac ''approval_id'' = PStr (str_of (dget ac ''approval_id''))"
    by (blast intro: is_str_text is_valid_uuid_str)+
qed

section \<open>What a claim proves\<close>

text \<open>The current evidence names the approved target and one of the approved waiters.\<close>

definition evidence_matches :: "pyval \<Rightarrow> action \<Rightarrow> pyval \<Rightarrow> bool" where
  "evidence_matches evidence x proposal \<longleftrightarrow>
     key_member (waiter_key evidence) (waiter_ids (act_waiters x))
   \<and> py_eq (dget evidence ''blocked_pid'') (dget proposal ''blocked_pid'')
   \<and> list_all (\<lambda>f. py_eq (dget evidence f) (dget (act_target x) f))
       [''database_name'', ''blocker_pid'', ''blocker_backend_start'', ''blocker_xact_start'']"

definition lease_live :: "incident_row \<Rightarrow> pyval \<Rightarrow> int \<Rightarrow> bool" where
  "lease_live r worker now \<longleftrightarrow> (\<exists>w e t. inc_lease_owner r = Some w \<and> worker = PStr w
     \<and> inc_lease_expires r = Some e \<and> parse_utc_timestamp (PStr e) = Some t \<and> now < t)"

lemma opt_text_PStr [simp]: "opt_text o' = PStr s \<longleftrightarrow> o' = Some s"
  by (cases o') (auto simp: opt_text_def)

lemma persisted_error_None:
  assumes "persisted_error r x y approval_id (PStr op) revision (PStr w) now = None"
  shows "inc_type r = ''LOCK_CONTENTION'' \<and> inc_state r = RUNNING \<and> act_state x = EXECUTING
    \<and> act_type x = ''TERMINATE_BACKEND'' \<and> act_risk x = ''HIGH''
    \<and> (\<exists>t. deadline_of (inc_policy r) = Some t \<and> now < t)
    \<and> act_operation x = Some op \<and> lease_live r (PStr w) now"
proof -
  have "lease_live r (PStr w) now"
    if "inc_lease_owner r = Some w" "parse_utc_timestamp (opt_text (inc_lease_expires r)) = Some t" "now < t" for t
  proof (cases "inc_lease_expires r")
    case None
    with that show ?thesis by (simp add: opt_text_def parse_utc_timestamp_def)
  next
    case (Some e)
    with that show ?thesis by (simp add: opt_text_def lease_live_def)
  qed
  with assms show ?thesis
    by (auto simp: persisted_error_def py_eq_PStr_right split: if_splits option.splits)
qed

lemma reference_texts:
  assumes "reference_error C ac op pr ev ec = None"
  obtains o' w where "op = PStr o'" "dget ec ''worker_id'' = PStr w" "is_dict pr" "is_dict ev"
proof -
  from assms have "is_valid_uuid op" "nonblank (dget ec ''worker_id'')" "is_dict pr" "is_dict ev"
    by (auto simp: reference_error_def split: if_splits)
  moreover from this(1) have "is_str op" by (rule is_valid_uuid_str)
  ultimately show thesis by (cases op) (auto elim!: nonblankE intro: that)
qed

lemma scope_check_in_force:
  assumes "scope_check P y x proposal a now = Inr ()"
  shows "approval_in_force P proposal (approval_dict y a) now"
  using assms
  by (auto simp: scope_check_def ebind_Inr_iff split: if_splits intro: valid_approval_in_force)

lemma evidence_check_matches:
  assumes "evidence_check ev (act_waiters x) (act_target x) pr = Inr ()"
  shows "evidence_matches ev x pr"
  using assms by (auto simp: evidence_check_def evidence_matches_def unhashable_def split: if_splits)

text \<open>The state of the claimed action afterwards.\<close>

lemma claim_writes_applies:
  assumes "claim_writes P now r x y op revision worker ev d = Inr (d', auth)"
    and x: "row_where (action_match (inc_id r) (act_id x)) (db_actions d) = Some (inc_id r, x)"
    and st: "act_state x = EXECUTING"
    and op: "py_eq (opt_text (act_operation x)) op"
  shows "action_state_at d' (inc_id r, act_id x) = Some APPLYING"
proof -
  from assms(1) obtain d1 payload where
    one: "count_where (intent (inc_id r) (act_id x) op) (db_actions d) = 1"
    and up: "update_checked
       (\<lambda>z. inc_id z = inc_id r \<and> inc_version z = inc_version r \<and> inc_state z = RUNNING
          \<and> inc_approval_id z = Some (apr_id y) \<and> py_eq (opt_text (inc_lease_owner z)) worker
          \<and> (case inc_lease_expires z of None \<Rightarrow> False | Some e \<Rightarrow> iso_utc now < e))
       (\<lambda>z. z\<lparr>inc_version := inc_version z + 1, inc_updated := iso_utc now\<rparr>)
       (unavailable ''Incident revision, approval, or lease changed while claiming the action.'')
       (d\<lparr>db_actions := update_where (intent (inc_id r) (act_id x) op)
          (\<lambda>(j, b). (j, b\<lparr>act_state := APPLYING, act_updated := iso_utc now\<rparr>)) (db_actions d)\<rparr>) = Inr d1"
    and d': "d' = append_event (inc_id r) (Some (act_id x)) (iso_utc now) ''ACTION_EXECUTION_CLAIMED''
       (Some ''EXECUTING'') (Some ''APPLYING'') payload d1" by (rule claim_writesE)
  let ?int = "intent (inc_id r) (act_id x) op"
  let ?apply = "\<lambda>(j, b). (j, b\<lparr>act_state := APPLYING, act_updated := iso_utc now\<rparr>)"
  have acts: "db_actions d' = update_where ?int ?apply (db_actions d)"
    using up unfolding d' by (simp add: update_checked_Inr)
  have "row_where (action_match (inc_id r) (act_id x)) (update_where ?int ?apply rows)
      = map_option (\<lambda>z. if ?int z then ?apply z else z) (row_where (action_match (inc_id r) (act_id x)) rows)"
    for rows by (induction rows) (auto simp: action_match_def)
  moreover have "?int (inc_id r, x)" using st op by (simp add: intent_def)
  ultimately show ?thesis
    using x unfolding action_state_at_def action_state_of_actions acts by simp
qed

text \<open>Everything a successful claim has checked, and what it did to the action.\<close>

lemma claimE:
  assumes "claim_action_execution P C now d ac op pr ev ec = (d', Inr auth)"
  obtains r x y where "find_incident d (inc_id r) = Some r" "dget ac ''incident_id'' = PStr (inc_id r)"
    "row_where (action_match (inc_id r) (act_id x)) (db_actions d) = Some (inc_id r, x)"
    "dget ac ''current_action_id'' = PStr (act_id x)"
    "y \<in> set (db_approvals d)" "inc_approval_id r = Some (apr_id y)" "apr_incident y = inc_id r"
    "inc_state r = RUNNING" "act_state x = EXECUTING" "op = PStr (the (act_operation x))"
    "\<exists>t. deadline_of (inc_policy r) = Some t \<and> now < t"
    "lease_live r (dget ec ''worker_id'') now"
    "json_column P pr = json_column P (act_proposal x)"
    "evidence_matches ev x pr"
    "approval_in_force P pr (approval_dict y (act_id x)) now"
    "action_state_at d' (inc_id r, act_id x) = Some APPLYING"
proof -
  from assms have ref: "reference_error C ac op pr ev ec = None"
    and tr: "claim_transaction P now d ac op pr ev ec = Inr (d', auth)"
    by (auto elim: claim_InrE)
  from ref obtain o' w where t: "op = PStr o'" "dget ec ''worker_id'' = PStr w"
    by (rule reference_texts)
  from tr obtain r x y where
    pe: "persisted_error r x y (dget ac ''approval_id'') op (dget ec ''plan_revision'')
       (dget ec ''worker_id'') now = None"
    and col: "json_column P (act_proposal x) = json_column P pr"
    and ec: "evidence_check ev (act_waiters x) (act_target x) pr = Inr ()"
    and sc: "scope_check P y x pr (act_id x) now = Inr ()"
    and w: "claim_writes P now r x y op (dget ec ''plan_revision'') (dget ec ''worker_id'') ev d = Inr (d', auth)"
    and f: "find_incident d (inc_id r) = Some r" "inc_approval_id r = Some (apr_id y)"
      "apr_incident y = inc_id r" "y \<in> set (db_approvals d)"
      "act_id x = str_of (dget ac ''current_action_id'')" "inc_id r = str_of (dget ac ''incident_id'')"
    and found: "row_where (action_match (inc_id r) (act_id x)) (db_actions d) = Some (inc_id r, x)"
    by (rule claim_transactionE)
  note p = persisted_error_None [OF pe [unfolded t]]
  have "action_state_at d' (inc_id r, act_id x) = Some APPLYING"
    using p by (intro claim_writes_applies [OF w found]) (auto simp: t py_eq_PStr_right)
  with p f reference_ids [OF ref] t col evidence_check_matches [OF ec] scope_check_in_force [OF sc] found
  show thesis by (intro that [of r x y]) simp_all
qed

lemma claim_states:
  assumes "claim_action_execution P C now d ac op pr ev ec = (d', Inr auth)"
  obtains i a where "dget ac ''incident_id'' = PStr i" "dget ac ''current_action_id'' = PStr a"
    "action_state_at d (i, a) = Some EXECUTING" "action_state_at d' (i, a) = Some APPLYING"
proof (rule claimE [OF assms])
  fix r x y
  assume "dget ac ''incident_id'' = PStr (inc_id r)" "dget ac ''current_action_id'' = PStr (act_id x)"
    and "row_where (action_match (inc_id r) (act_id x)) (db_actions d) = Some (inc_id r, x)"
    and "act_state x = EXECUTING" "action_state_at d' (inc_id r, act_id x) = Some APPLYING"
  then show thesis
    by (intro that [of "inc_id r" "act_id x"]) (simp_all add: action_state_at_def action_state_of_actions)
qed

text \<open>
  C1: A successful claim_action_execution finds, in the tables at that moment, the RUNNING
  incident, its action in EXECUTING with the same operation id and the same durable proposal,
  the current approval in force (unrevoked, unexpired, right scope and digest), a live lease of
  the calling worker, an unexpired deadline and matching lock evidence, and leaves the action
  in APPLYING.
\<close>

theorem claim_authorized:
  assumes "claim_action_execution P C now d ac op pr ev ec = (d', Inr auth)"
  shows "\<exists>r x y. find_incident d (inc_id r) = Some r \<and> dget ac ''incident_id'' = PStr (inc_id r)
    \<and> (inc_id r, x) \<in> set (db_actions d) \<and> dget ac ''current_action_id'' = PStr (act_id x)
    \<and> y \<in> set (db_approvals d) \<and> inc_approval_id r = Some (apr_id y) \<and> apr_incident y = inc_id r
    \<and> inc_state r = RUNNING \<and> act_state x = EXECUTING \<and> op = PStr (the (act_operation x))
    \<and> (\<exists>t. deadline_of (inc_policy r) = Some t \<and> now < t)
    \<and> lease_live r (dget ec ''worker_id'') now
    \<and> json_column P pr = json_column P (act_proposal x)
    \<and> evidence_matches ev x pr
    \<and> approval_in_force P pr (approval_dict y (act_id x)) now
    \<and> action_state_at d' (inc_id r, act_id x) = Some APPLYING"
proof (rule claimE [OF assms], goal_cases)
  case (1 r x y)
  then show ?case using row_where_SomeD [OF 1(3)] by (intro exI [of _ r] exI [of _ x] exI [of _ y]) simp
qed

text \<open>
  C2: Once an action has been claimed, no later claim for it succeeds, whatever the store's
  operations do in between and whatever the later call presents: an approved termination is
  executed at most once.
\<close>

theorem claim_single_use:
  assumes first: "claim_action_execution P C now d ac op pr ev ec = (d1, Inr auth)"
    and later: "store_steps P C d1 d2"
    and same: "dget ac' ''incident_id'' = dget ac ''incident_id''"
      "dget ac' ''current_action_id'' = dget ac ''current_action_id''"
  shows "\<exists>e. claim_action_execution P C now' d2 ac' op' pr' ev' ec' = (d2, Inl e)"
proof -
  from first obtain i a where ia: "dget ac ''incident_id'' = PStr i"
    "dget ac ''current_action_id'' = PStr a" "action_state_at d1 (i, a) = Some APPLYING"
    by (rule claim_states)
  have "\<exists>s. action_state_at d2 (i, a) = Some s \<and> s \<in> claimed_states"
    by (rule action_states.closed_set [OF later ia(3)])
      (simp add: claimed_states_def, blast intro: claimed_states_closed)
  then have "action_state_at d2 (i, a) \<noteq> Some EXECUTING" by (auto simp: claimed_states_def)
  then have "\<nexists>d' auth. claim_action_execution P C now' d2 ac' op' pr' ev' ec' = (d', Inr auth)"
    using same ia(1,2) by (auto elim!: claim_states)
  then show ?thesis
    by (cases "claim_action_execution P C now' d2 ac' op' pr' ev' ec'"; cases "snd (claim_action_execution P C now' d2 ac' op' pr' ev' ec')")
      (auto dest: claim_Inl_unchanged)
qed

text \<open>
  In every reachable store the event log holds at most one ACTION_EXECUTION_CLAIMED event per
  action.
\<close>

lemma claim_logged_once:
  assumes "reachable P C d"
  shows "length (filter (\<lambda>e. is_claim e \<and> ev_action e = Some a) (db_events d)) \<le> 1"
proof -
  have "distinct (map ev_action (claim_events d))"
    using reachable_ok [OF assms] by (simp add: db_ok_def claims_ok_def)
  then have "count_where (\<lambda>e. ev_action e = Some a) (claim_events d) \<le> 1"
    by (rule count_where_distinct)
  then show ?thesis by (simp add: count_where_def claim_events_def conj_commute)
qed

section \<open>Leases\<close>

lemma one_row:
  assumes "db_ok d" and "find_incident d i = Some r" and "count_where p (db_incidents d) = 1"
    and "\<And>x. p x \<Longrightarrow> inc_id x = i"
  shows "p r"
proof -
  from assms(3) obtain x where x: "x \<in> set (db_incidents d)" "p x"
    using count_where_pos [of p "db_incidents d"] by auto
  with assms(4) find_incident_SomeD [OF assms(2)] have "x = r"
    using assms(1) by (intro same_key [of inc_id "db_incidents d"]) (auto simp: db_ok_def keys_ok_def)
  with x show ?thesis by simp
qed

lemma commit_and_load_same: "(case m of Inl e \<Rightarrow> True | Inr x \<Rightarrow> False) \<Longrightarrow> \<exists>e. commit_and_load d i m = (d, Inl e)"
  by (auto simp: commit_and_load_def split: sum.splits)

text \<open>
  C3: While a worker's lease is live, no other worker can acquire, renew or release it, save a
  checkpoint or claim an action of that incident: each operation fails and leaves the tables as
  they were.
\<close>

theorem live_lease_excludes:
  assumes reach: "reachable P C d" and r: "find_incident d i = Some r"
    and lease: "inc_lease_owner r = Some w" "inc_lease_expires r = Some (iso_utc e)"
    and time: "now < e" "valid_instant now" "valid_instant e" and other: "v \<noteq> w"
  shows "(\<exists>err. acquire_lease P now d i v seconds = (d, Inl err))
    \<and> (\<exists>err. renew_lease now d i v seconds = (d, Inl err))
    \<and> (\<exists>err. release_lease P now d i v = (d, Inl err))
    \<and> (inc_id inc = i \<longrightarrow> (\<exists>err. save_incident P now d inc event_type payload action_id (Some v) = (d, Inl err)))
    \<and> (dget ac ''incident_id'' = PStr i \<and> dget ec ''worker_id'' = PStr v \<longrightarrow>
        (\<exists>err. claim_action_execution P C now d ac op pr ev ec = (d, Inl err)))"
proof (intro conjI impI)
  have ok: "db_ok d" by (rule reachable_ok [OF reach])
  have late: "\<not> iso_utc e \<le> iso_utc now" using time by (simp add: iso_utc_le_iff)
  have none: "count_where p (db_incidents d) \<noteq> 1" if "\<And>x. p x \<Longrightarrow> inc_id x = i" "\<not> p r" for p
    using one_row [OF ok r] that by blast
  have "count_where (\<lambda>x. inc_id x = i \<and> is_active (inc_state x) \<and> lease_free x v (iso_utc now))
      (db_incidents d) \<noteq> 1"
    by (rule none) (use lease late other in \<open>simp_all add: lease_free_def\<close>)
  then show "\<exists>err. acquire_lease P now d i v seconds = (d, Inl err)"
    unfolding acquire_lease_def
    by (intro commit_and_load_same) (auto simp: r ebind_def update_checked_def split: option.splits sum.splits)
  have "count_where (\<lambda>x. inc_id x = i \<and> holds_lease x v (iso_utc now) \<and> is_active (inc_state x))
      (db_incidents d) \<noteq> 1"
    by (rule none) (use lease other in \<open>simp_all add: holds_lease_def\<close>)
  then show "\<exists>err. renew_lease now d i v seconds = (d, Inl err)"
    unfolding renew_lease_def
    by (intro commit_and_load_same) (auto simp: ebind_def update_checked_def split: option.splits sum.splits)
  have "count_where (\<lambda>x. inc_id x = i \<and> inc_lease_owner x = Some v) (db_incidents d) \<noteq> 1"
    by (rule none) (use lease other in simp_all)
  then show "\<exists>err. release_lease P now d i v = (d, Inl err)"
    unfolding release_lease_def by (intro commit_and_load_same) (auto simp: r ebind_def update_checked_def)
next
  assume i: "inc_id inc = i"
  have "\<not> holds_lease r v (iso_utc now)" using lease other by (simp add: holds_lease_def)
  then have "checkpoint_error r (incident_actions d i) inc (Some v) (iso_utc now) \<noteq> None"
    by (simp add: checkpoint_error_def)
  then show "\<exists>err. save_incident P now d inc event_type payload action_id (Some v) = (d, Inl err)"
    unfolding save_incident_def by (intro commit_and_load_same) (auto simp: i r Let_def)
next
  assume ids: "dget ac ''incident_id'' = PStr i \<and> dget ec ''worker_id'' = PStr v"
  have "\<nexists>d' auth. claim_action_execution P C now d ac op pr ev ec = (d', Inr auth)"
  proof
    assume "\<exists>d' auth. claim_action_execution P C now d ac op pr ev ec = (d', Inr auth)"
    then obtain d' auth where "claim_action_execution P C now d ac op pr ev ec = (d', Inr auth)" by blast
    then show False using ids r lease other by (rule_tac claimE) (auto simp: lease_live_def)
  qed
  then show "\<exists>err. claim_action_execution P C now d ac op pr ev ec = (d, Inl err)"
    by (cases "claim_action_execution P C now d ac op pr ev ec"; cases "snd (claim_action_execution P C now d ac op pr ev ec)")
      (auto dest: claim_Inl_unchanged)
qed

section \<open>Checkpoints\<close>

lemma commit_and_load_Inr:
  assumes "commit_and_load d i m = (d', Inr x)"
  shows "m = Inr d'" "load_incident d' i = Inr x"
  using assms by (auto simp: commit_and_load_def split: sum.splits)

lemma load_incidentE:
  assumes "load_incident d i = Inr inc"
  obtains r where "find_incident d i = Some r" "incident_row.truncate inc = r"
    "inc_actions inc = sort_key act_ordinal (incident_actions d i)"
    "inc_approval inc = (case inc_approval_id r of None \<Rightarrow> None
       | Some p \<Rightarrow> row_where (\<lambda>x. apr_incident x = i \<and> apr_id x = p) (db_approvals d))"
  using assms
  by (auto simp: load_incident_def Let_def incident_row.defs split: option.splits)

lemma truncate_incident [simp]:
  "inc_id (incident_row.truncate x) = inc_id x" "inc_version (incident_row.truncate x) = inc_version x"
  "inc_state (incident_row.truncate x) = inc_state x" "inc_reason (incident_row.truncate x) = inc_reason x"
  "inc_revision (incident_row.truncate x) = inc_revision x"
  "inc_lease_owner (incident_row.truncate x) = inc_lease_owner x"
  "inc_policy (incident_row.truncate x) = inc_policy x"
  by (simp_all add: incident_row.defs)

text \<open>After the updates of a checkpoint, every action is stored as the caller left it.\<close>

definition stored_as :: "platform \<Rightarrow> action \<Rightarrow> action \<Rightarrow> bool" where
  "stored_as P a b \<longleftrightarrow> act_id b = act_id a \<and> act_state b = act_state a
    \<and> act_operation b = act_operation a \<and> act_attempts b = act_attempts a
    \<and> json_column P (act_proposal a) = Inr (act_proposal b)
    \<and> json_optional P (act_result a) = Inr (act_result b)
    \<and> json_optional P (act_error a) = Inr (act_error b)"

lemma update_action_stores:
  assumes "update_action P i d a = Inr d'"
  shows "\<exists>b. row_where (action_match i (act_id a)) (db_actions d') = Some (i, b) \<and> stored_as P a b"
    and "k \<noteq> act_id a \<Longrightarrow>
      row_where (action_match i k) (db_actions d') = row_where (action_match i k) (db_actions d)"
proof -
  from assms obtain p r e where cols: "json_column P (act_proposal a) = Inr p"
      "json_optional P (act_result a) = Inr r" "json_optional P (act_error a) = Inr e"
    and one: "count_where (action_match i (act_id a)) (db_actions d) = 1"
    and d': "db_actions d' = update_where (action_match i (act_id a))
       (\<lambda>(j, b). (j, checkpoint_action a p r e b)) (db_actions d)"
    by (auto simp: update_action_def ebind_Inr_iff split: if_splits)
  have upd: "row_where (action_match i k) (update_where (action_match i (act_id a))
       (\<lambda>(j, b). (j, checkpoint_action a p r e b)) rows) = map_option (\<lambda>z. if k = act_id a
         then (fst z, checkpoint_action a p r e (snd z)) else z) (row_where (action_match i k) rows)" for k rows
    by (induction rows) (auto simp: action_match_def checkpoint_action_def)
  have "row_where (action_match i (act_id a)) (db_actions d) \<noteq> None"
  proof
    assume "row_where (action_match i (act_id a)) (db_actions d) = None"
    then have "count_where (action_match i (act_id a)) (db_actions d) = 0"
      unfolding row_where_None count_where_0 .
    with one show False by simp
  qed
  then obtain z where z: "row_where (action_match i (act_id a)) (db_actions d) = Some z" by blast
  then have "fst z = i" "act_id (snd z) = act_id a"
    using row_where_SomeD [OF z] by (auto simp: action_match_def)
  then show "\<exists>b. row_where (action_match i (act_id a)) (db_actions d') = Some (i, b) \<and> stored_as P a b"
    unfolding d' upd z by (auto simp: stored_as_def checkpoint_action_def cols)
  show "row_where (action_match i k) (db_actions d') = row_where (action_match i k) (db_actions d)"
    if "k \<noteq> act_id a"
    unfolding d' upd using that by (cases "row_where (action_match i k) (db_actions d)") auto
qed

lemma update_actions_stores:
  assumes "update_actions P i d as = Inr d'" and "distinct (map act_id as)" and "a \<in> set as"
  shows "\<exists>b. row_where (action_match i (act_id a)) (db_actions d') = Some (i, b) \<and> stored_as P a b"
  using assms
proof (induction as arbitrary: d)
  case (Cons c cs)
  from Cons.prems(1) obtain d1 where d1: "update_action P i d c = Inr d1"
    and rest: "update_actions P i d1 cs = Inr d'" by (auto simp: ebind_Inr_iff)
  have keep: "k \<notin> set (map act_id cs) \<Longrightarrow>
      row_where (action_match i k) (db_actions d') = row_where (action_match i k) (db_actions d1)" for k
    using rest
  proof (induction cs arbitrary: d1)
    case (Cons b bs)
    then obtain d2 where "update_action P i d1 b = Inr d2" "update_actions P i d2 bs = Inr d'"
      by (auto simp: ebind_Inr_iff)
    with Cons update_action_stores(2) show ?case by (metis list.set_intros list.simps(9))
  qed simp
  show ?case
  proof (cases "a \<in> set cs")
    case True
    with Cons.IH [OF rest] Cons.prems(2) show ?thesis by simp
  next
    case False
    with Cons.prems have "a = c" "act_id c \<notin> set (map act_id cs)" by auto
    with keep update_action_stores(1) [OF d1] show ?thesis by simp
  qed
qed simp

lemma update_actions_tables:
  "update_actions P i d as = Inr d' \<Longrightarrow> db_incidents d' = db_incidents d \<and> db_approvals d' = db_approvals d"
  by (induction as arbitrary: d) (auto simp: ebind_Inr_iff elim!: update_actionE)

text \<open>What a successful checkpoint has checked, and what it answers.\<close>

lemma saveE:
  assumes "save_incident P now d inc event_type payload action_id owner = (d', Inr inc')"
  obtains r w where "find_incident d (inc_id inc) = Some r" "owner = Some w"
    "holds_lease r w (iso_utc now)" "inc_version r = inc_version inc"
    "inc_state inc \<in> set (INCIDENT_TRANSITIONS (inc_state r))"
    "inc_id inc' = inc_id inc" "inc_version inc' = inc_version inc + 1" "inc_state inc' = inc_state inc"
    "inc_reason inc' = inc_reason inc" "inc_revision inc' = inc_revision inc"
    "inc_actions inc' = sort_key act_ordinal (incident_actions d' (inc_id inc))"
    "distinct (map act_id (inc_actions inc)) \<Longrightarrow> \<forall>a \<in> set (inc_actions inc).
       \<exists>b \<in> set (inc_actions inc'). stored_as P a b"
proof -
  note c = commit_and_load_Inr [OF assms [unfolded save_incident_def]]
  from c(1) obtain r where r: "find_incident d (inc_id inc) = Some r"
    and ok: "checkpoint_error r (incident_actions d (inc_id inc)) inc owner (iso_utc now) = None"
    by (auto simp: Let_def split: option.splits)
  from ok obtain w where w: "inc_version r = inc_version inc" "owner = Some w" "holds_lease r w (iso_utc now)"
    "inc_state inc \<in> set (INCIDENT_TRANSITIONS (inc_state r))" by (rule checkpoint_error_None)
  let ?u = "if inc_updated inc = [] then iso_utc now else inc_updated inc"
  from c(1) r ok obtain d1 d2 d3 data where
    d1: "update_incident P r inc ?u d = Inr d1" and d2: "update_actions P (inc_id inc) d1 (inc_actions inc) = Inr d2"
    and d3: "put_approval P (inc_id inc) (inc_approval inc) d2 = Inr d3"
    and d': "d' = append_event (inc_id inc) action_id ?u event_type
       (Some (incident_state_name (inc_state r))) (Some (incident_state_name (inc_state inc))) data d3"
    by (auto simp: Let_def ebind_Inr_iff)
  from d1 obtain q p s e where up: "update_checked (\<lambda>x. inc_id x = inc_id inc \<and> inc_version x = inc_version inc)
      (checkpoint_incident r inc ?u q p s e)
      (ConcurrentIncidentUpdate ''Incident checkpoint compare-and-swap failed.'') d = Inr d1"
    by (auto simp: update_incident_def ebind_Inr_iff)
  have inc': "find_incident d' (inc_id inc) = Some (checkpoint_incident r inc ?u q p s e r)"
  proof -
    have "db_incidents d' = update_where (\<lambda>x. inc_id x = inc_id inc \<and> inc_version x = inc_version inc)
      (checkpoint_incident r inc ?u q p s e) (db_incidents d)"
      using up update_actions_tables [OF d2] put_approval_effect [OF d3] unfolding d'
      by (simp add: update_checked_Inr)
    moreover have "inc_id (checkpoint_incident r inc ?u q p s e x) = inc_id x" for x
      by (simp add: checkpoint_incident_def)
    ultimately show ?thesis
      using r w(1) find_incident_SomeD [OF r] unfolding find_incident_def
      by (simp add: row_where_update_key)
  qed
  from load_incidentE [OF c(2)] obtain r' where r': "find_incident d' (inc_id inc) = Some r'"
    "incident_row.truncate inc' = r'"
    and acts: "inc_actions inc' = sort_key act_ordinal (incident_actions d' (inc_id inc))" by blast
  then have eq: "incident_row.truncate inc' = checkpoint_incident r inc ?u q p s e r" using inc' by simp
  have fields: "inc_id inc' = inc_id inc" "inc_version inc' = inc_version inc + 1"
    "inc_state inc' = inc_state inc" "inc_reason inc' = inc_reason inc" "inc_revision inc' = inc_revision inc"
    using find_incident_SomeD [OF r] arg_cong [OF eq, of inc_id] arg_cong [OF eq, of inc_version]
      arg_cong [OF eq, of inc_state] arg_cong [OF eq, of inc_reason] arg_cong [OF eq, of inc_revision]
    by (simp_all add: checkpoint_incident_def)
  have stored: "\<exists>b \<in> set (inc_actions inc'). stored_as P a b"
    if dist: "distinct (map act_id (inc_actions inc))" and a: "a \<in> set (inc_actions inc)" for a
  proof -
    have "db_actions d' = db_actions d2" using put_approval_effect [OF d3] unfolding d' by simp
    with update_actions_stores [OF d2 dist a] obtain b where
      "row_where (action_match (inc_id inc) (act_id a)) (db_actions d') = Some (inc_id inc, b)" "stored_as P a b"
      by auto
    moreover from this(1) have "b \<in> set (incident_actions d' (inc_id inc))"
      by (drule_tac row_where_SomeD) (force simp: incident_actions_def)
    ultimately show ?thesis unfolding acts by auto
  qed
  show thesis by (rule that [OF r w(2,3,1,4) fields acts]) (use stored in blast)
qed

text \<open>
  C4: A checkpoint that succeeds was made by the holder of a live lease on the version it read,
  moves the incident along the transition table, increments the version and stores every action
  it was given.
\<close>

theorem checkpoint_guarded:
  assumes "save_incident P now d inc event_type payload action_id owner = (d', Inr inc')"
  shows "\<exists>r w. find_incident d (inc_id inc) = Some r \<and> owner = Some w \<and> holds_lease r w (iso_utc now)
    \<and> inc_version inc = inc_version r \<and> inc_version inc' = inc_version r + 1
    \<and> inc_state inc' = inc_state inc \<and> inc_state inc \<in> set (INCIDENT_TRANSITIONS (inc_state r))
    \<and> (distinct (map act_id (inc_actions inc)) \<longrightarrow>
        (\<forall>a \<in> set (inc_actions inc). \<exists>b \<in> set (inc_actions inc'). stored_as P a b))"
  using assms by (rule saveE) auto


text \<open>
  C6: An incident in a terminal state stays in that state under every sequence of store
  operations.
\<close>

theorem terminal_state_final:
  assumes "store_steps P C d d'" and "find_incident d i = Some r" and "is_terminal (inc_state r)"
  shows "\<exists>r'. find_incident d' i = Some r' \<and> inc_state r' = inc_state r"
proof -
  have "incident_state_at d' i = Some (inc_state r)"
    by (rule incident_states.absorbing [OF assms(1)])
      (use assms(2,3) terminal_absorbing in \<open>auto simp: incident_state_at_def\<close>)
  then show ?thesis by (auto simp: incident_state_at_def)
qed

text \<open>
  C16: In every reachable store an incident can be loaded: its actions come back in ordinal
  order and its current approval is present, so the error for a missing approval is never
  raised.
\<close>

theorem reachable_loads:
  assumes "reachable P C d" and "find_incident d i = Some r"
  shows "\<exists>inc. load_incident d i = Inr inc \<and> inc_version inc = inc_version r
    \<and> map act_id (inc_actions inc) = map act_id (sort_key act_ordinal (incident_actions d i))
    \<and> (\<forall>p. inc_approval_id r = Some p \<longrightarrow> (\<exists>y. inc_approval inc = Some y \<and> apr_id y = p))"
proof -
  have ok: "approvals_ok d" using reachable_ok [OF assms(1)] by (simp add: db_ok_def)
  show ?thesis
  proof (cases "inc_approval_id r")
    case None
    with assms(2) show ?thesis by (auto simp: load_incident_def Let_def incident_row.defs)
  next
    case (Some p)
    with ok find_incident_SomeD [OF assms(2)] obtain y where
      "y \<in> set (db_approvals d)" "apr_id y = p" "apr_incident y = i"
      by (auto simp: approvals_ok_def)
    then obtain z where z: "row_where (\<lambda>x. apr_incident x = i \<and> apr_id x = p) (db_approvals d) = Some z"
      using row_where_None [of "\<lambda>x. apr_incident x = i \<and> apr_id x = p"] by (cases "row_where (\<lambda>x. apr_incident x = i \<and> apr_id x = p) (db_approvals d)") auto
    then have "apr_id z = p" using row_where_SomeD [OF z] by simp
    with z Some assms(2) show ?thesis by (auto simp: load_incident_def Let_def incident_row.defs)
  qed
qed

text \<open>
  C10: A persisted approval is never changed or removed by any sequence of store operations.
\<close>

theorem approvals_immutable:
  assumes "store_steps P C d d'" and "y \<in> set (db_approvals d)"
  shows "y \<in> set (db_approvals d')"
  using assms
proof (induction rule: rtranclp_induct)
  case (step y z)
  from store_step_evolves [OF step.hyps(2)] step.IH step.prems show ?case by (auto simp: evolves_def)
qed

end
