(* ===== verification/Grants.thy ===== *)
theory Grants
  imports StoreTheorems
begin

text \<open>
  \<open>execution_grants.py\<close>: the operator's grant database. A grant admits one execution of one
  action whose scope and database it digests, for at most 300 seconds; once is_consumed it can
  neither be used nor issued again.
\<close>

datatype grant_state = ISSUED | REVOKED | CLAIMED | GRANT_RESULT_RECORDED

record grant =
  gr_id :: string
  gr_incident :: string
  gr_action :: string
  gr_scope :: string
  gr_target :: string
  gr_actor :: string
  gr_issued :: rat
  gr_expires :: rat
  gr_state :: grant_state
  gr_operation :: "string option"
  gr_result :: pyval

definition GRANT_PENDING :: "action_state list" where
  "GRANT_PENDING = [PLANNED, REAPPROVAL_REQUIRED, EXECUTING]"

definition pending_actions :: "incident \<Rightarrow> action list" where
  "pending_actions inc = filter (\<lambda>a. List.member GRANT_PENDING (act_state a)) (inc_actions inc)"

definition incident_scope :: "incident \<Rightarrow> action \<Rightarrow> pyval" where
  "incident_scope inc a = scope_of (incident_row.truncate inc) a"

section \<open>Review\<close>

definition preview_grant :: "platform \<Rightarrow> incident \<Rightarrow> pyval \<Rightarrow> (pyval \<times> string) exc" where
  "preview_grant P inc target_identity =
     (let review = PDict
        [(''incident_id'', PStr (inc_id inc)), (''plan_revision'', PInt (inc_revision inc)),
         (''database_identity'', target_identity),
         (''actions'', PList (map (incident_scope inc) (pending_actions inc)))]
      in ebind (json_digest P review) (\<lambda>digest. Inr (review, digest)))"

definition require_review_digest :: "platform \<Rightarrow> incident \<Rightarrow> pyval \<Rightarrow> pyval \<Rightarrow> unit exc" where
  "require_review_digest P inc target_identity expected =
     (let denied = Inl (GrantDenied ''Review digest is absent or changed. Preview the exact current scope again before confirming.'')
      in if \<not> is_str expected then denied
         else ebind (preview_grant P inc target_identity) (\<lambda>(_, digest).
           if expected = PStr digest then Inr () else denied))"

section \<open>Issuing\<close>

definition grant_for :: "string \<Rightarrow> string \<Rightarrow> grant \<Rightarrow> bool" where
  "grant_for i a g \<longleftrightarrow> gr_incident g = i \<and> gr_action g = a"

definition is_consumed :: "grant \<Rightarrow> bool" where
  "is_consumed g \<longleftrightarrow> gr_state g = CLAIMED \<or> gr_state g = GRANT_RESULT_RECORDED"

definition issue_one ::
  "platform \<Rightarrow> incident \<Rightarrow> pyval \<Rightarrow> string \<Rightarrow> rat \<Rightarrow> rat \<Rightarrow> string \<Rightarrow> action \<Rightarrow> grant list \<Rightarrow> grant list exc" where
  "issue_one P inc target_identity actor now expires grant_id a gs =
     (if list_ex (\<lambda>g. grant_for (inc_id inc) (act_id a) g \<and> is_consumed g) gs
      then Inl (GrantDenied ''A is_consumed action grant cannot be reissued.'')
      else
       (let revoked = update_where (\<lambda>g. grant_for (inc_id inc) (act_id a) g \<and> gr_state g = ISSUED)
              (\<lambda>g. g\<lparr>gr_state := REVOKED\<rparr>) gs
        in ebind (json_digest P (incident_scope inc a)) (\<lambda>scope.
           ebind (json_digest P target_identity) (\<lambda>target.
           if list_ex (\<lambda>g. gr_id g = grant_id) revoked
           then Inl (IntegrityError ''UNIQUE constraint failed: grants.grant_id'')
           else Inr (revoked @ [\<lparr>gr_id = grant_id, gr_incident = inc_id inc, gr_action = act_id a,
             gr_scope = scope, gr_target = target, gr_actor = strip actor, gr_issued = now,
             gr_expires = expires, gr_state = ISSUED, gr_operation = None, gr_result = PNone\<rparr>])))))"

fun issue_each ::
  "platform \<Rightarrow> incident \<Rightarrow> pyval \<Rightarrow> string \<Rightarrow> rat \<Rightarrow> rat \<Rightarrow> (nat \<Rightarrow> string) \<Rightarrow> nat \<Rightarrow> action list
   \<Rightarrow> grant list \<Rightarrow> grant list exc" where
  "issue_each P inc target_identity actor now expires uuids n [] gs = Inr gs"
| "issue_each P inc target_identity actor now expires uuids n (a # as) gs =
     ebind (issue_one P inc target_identity actor now expires (uuids n) a gs) (\<lambda>gs'.
       issue_each P inc target_identity actor now expires uuids (Suc n) as gs')"

text \<open>The identifiers issued; an exception rolls the transaction back.\<close>

definition issue ::
  "platform \<Rightarrow> rat \<Rightarrow> (nat \<Rightarrow> string) \<Rightarrow> grant list \<Rightarrow> incident \<Rightarrow> pyval \<Rightarrow> pyval \<Rightarrow> pyval
   \<Rightarrow> grant list \<times> string list exc" where
  "issue P now uuids gs inc target_identity actor ttl =
     (let actions = pending_actions inc in
      if \<not> is_str actor \<or> length (strip (str_of actor)) < 1 \<or> 200 < length (strip (str_of actor))
         \<or> \<not> is_positive_int ttl \<or> 300 < int_of ttl
      then (gs, Inl (ValueError ''A named operator and grant TTL of 1..300 seconds are required.''))
      else if actions = []
         \<or> list_ex (\<lambda>a. \<not> py_eq (dget (act_proposal a) ''type'') (PStr ''TERMINATE_BACKEND'')) actions
      then (gs, Inl (GrantDenied ''Only pending lock actions may receive isolated execution grants.''))
      else if 10 < length actions
      then (gs, Inl (GrantDenied ''Grant action count exceeds the safety bound.''))
      else case issue_each P inc target_identity (str_of actor) now (now + of_int (int_of ttl)) uuids 0 actions gs of
          Inl e \<Rightarrow> (gs, Inl e)
        | Inr gs' \<Rightarrow> (gs', Inr (map uuids [0..<length actions])))"

section \<open>Claiming and recording\<close>

text \<open>\<open>ORDER BY issued_at DESC LIMIT 1\<close>\<close>

fun latest_grant :: "grant list \<Rightarrow> grant option" where
  "latest_grant [] = None"
| "latest_grant (g # gs) = (case latest_grant gs of None \<Rightarrow> Some g
     | Some h \<Rightarrow> if gr_issued g < gr_issued h then Some h else Some g)"

definition claim_grant ::
  "platform \<Rightarrow> rat \<Rightarrow> grant list \<Rightarrow> incident \<Rightarrow> action \<Rightarrow> pyval \<Rightarrow> string
   \<Rightarrow> grant list \<times> grant exc" where
  "claim_grant P now gs inc a target_identity operation_id =
     (let denied = (gs, Inl (GrantDenied ''An unexpired operator grant matching the action and live database is required.''))
      in if \<not> is_valid_uuid (PStr operation_id)
         then (gs, Inl (ValueError ''badly formed hexadecimal UUID string''))
         else
          (case latest_grant (filter (\<lambda>g. grant_for (inc_id inc) (act_id a) g \<and> gr_state g = ISSUED) gs) of
             None \<Rightarrow> denied
           | Some g \<Rightarrow>
              if gr_expires g \<le> now then denied
              else (case json_digest P (incident_scope inc a) of Inl e \<Rightarrow> (gs, Inl e) | Inr scope \<Rightarrow>
                if gr_scope g \<noteq> scope then denied
                else (case json_digest P target_identity of Inl e \<Rightarrow> (gs, Inl e) | Inr target \<Rightarrow>
                  if gr_target g \<noteq> target then denied
                  else if list_ex (\<lambda>h. gr_operation h = Some operation_id) gs
                  then (gs, Inl (IntegrityError ''UNIQUE constraint failed: grants.operation_id''))
                  else (update_where (\<lambda>h. gr_id h = gr_id g \<and> gr_state h = ISSUED)
                          (\<lambda>h. h\<lparr>gr_state := CLAIMED, gr_operation := Some operation_id\<rparr>) gs,
                        Inr g)))))"

definition record_result ::
  "platform \<Rightarrow> grant list \<Rightarrow> string \<Rightarrow> pyval \<Rightarrow> grant list \<times> unit exc" where
  "record_result P gs grant_id result =
     (case canonical_json P result of Inl e \<Rightarrow> (gs, Inl e) | Inr _ \<Rightarrow>
      let match = (\<lambda>g. gr_id g = grant_id \<and> gr_state g = CLAIMED
            \<and> gr_operation g \<noteq> None \<and> PStr (the (gr_operation g)) = dget result ''operation_id'')
      in if count_where match gs \<noteq> 1 then (gs, Inl (GrantDenied ''Grant result identity/state mismatch.''))
         else (update_where match (\<lambda>g. g\<lparr>gr_state := GRANT_RESULT_RECORDED, gr_result := sort_keys result\<rparr>) gs,
               Inr ()))"

section \<open>Safety\<close>

inductive grant_step :: "platform \<Rightarrow> grant list \<Rightarrow> grant list \<Rightarrow> bool" for P where
  issued: "issue P now uuids gs inc target_identity actor ttl = (gs', res) \<Longrightarrow> grant_step P gs gs'"
| claimed: "claim_grant P now gs inc a target_identity operation_id = (gs', out) \<Longrightarrow> grant_step P gs gs'"
| recorded: "record_result P gs grant_id result = (gs', ack) \<Longrightarrow> grant_step P gs gs'"

inductive_cases grant_stepE: "grant_step P gs gs'"

fun GRANT_TRANSITIONS :: "grant_state \<Rightarrow> grant_state list" where
  "GRANT_TRANSITIONS ISSUED = [ISSUED, REVOKED, CLAIMED]"
| "GRANT_TRANSITIONS REVOKED = [REVOKED]"
| "GRANT_TRANSITIONS CLAIMED = [CLAIMED, GRANT_RESULT_RECORDED]"
| "GRANT_TRANSITIONS GRANT_RESULT_RECORDED = [GRANT_RESULT_RECORDED]"

definition grant_step_row :: "grant \<Rightarrow> grant \<Rightarrow> bool" where
  "grant_step_row g h \<longleftrightarrow> gr_id h = gr_id g \<and> gr_incident h = gr_incident g \<and> gr_action h = gr_action g
    \<and> gr_state h \<in> set (GRANT_TRANSITIONS (gr_state g))"

definition grants_ok :: "grant list \<Rightarrow> bool" where
  "grants_ok gs \<longleftrightarrow> distinct (map gr_id gs)
    \<and> (\<forall>i a. count_where (\<lambda>g. grant_for i a g \<and> gr_state g = ISSUED) gs \<le> 1)
    \<and> (\<forall>g \<in> set gs. \<forall>h \<in> set gs. gr_state g = ISSUED \<and> is_consumed h \<longrightarrow>
         \<not> grant_for (gr_incident g) (gr_action g) h)"

lemma grant_self [simp]: "s \<in> set (GRANT_TRANSITIONS s)"
  by (cases s) simp_all

lemma grant_step_row_refl [simp]: "grant_step_row g g"
  by (simp add: grant_step_row_def)

text \<open>Issuing revokes or keeps each old grant, and appends new ones.\<close>

definition kept_or_revoked :: "grant \<Rightarrow> grant \<Rightarrow> bool" where
  "kept_or_revoked g h \<longleftrightarrow> h = g \<or> (gr_state g = ISSUED \<and> h = g\<lparr>gr_state := REVOKED\<rparr>)"

lemma kept_or_revoked_trans:
  "kept_or_revoked g h \<Longrightarrow> kept_or_revoked h k \<Longrightarrow> kept_or_revoked g k"
  by (auto simp: kept_or_revoked_def)

lemma kept_or_revoked_row: "kept_or_revoked g h \<Longrightarrow> grant_step_row g h"
  by (auto simp: kept_or_revoked_def grant_step_row_def)

lemma extends_rows_trans:
  assumes "extends_rows R xs ys" and "extends_rows R ys zs" and "\<And>x y z. R x y \<Longrightarrow> R y z \<Longrightarrow> R x z"
  shows "extends_rows R xs zs"
proof -
  from assms(1) obtain us vs where us: "list_all2 R xs us" "ys = us @ vs" by (auto simp: extends_rows_def)
  from assms(2) obtain ws qs where ws: "list_all2 R ys ws" "zs = ws @ qs" by (auto simp: extends_rows_def)
  from ws(1) us(2) obtain w1 w2 where w: "ws = w1 @ w2" "list_all2 R us w1"
    by (auto simp: list_all2_append1)
  have "list_all2 R xs w1" using us(1) w(2) assms(3) by (rule list_all2_trans [rotated])
  with ws(2) w(1) show ?thesis by (auto simp: extends_rows_def)
qed

lemma extends_rows_mono:
  "extends_rows R xs ys \<Longrightarrow> (\<And>x y. R x y \<Longrightarrow> S x y) \<Longrightarrow> extends_rows S xs ys"
  unfolding extends_rows_def using list_all2_mono [of R xs _ S] by metis

lemma revoked_ids:
  "list_ex (\<lambda>g. gr_id g = x) (update_where p (\<lambda>g. g\<lparr>gr_state := s\<rparr>) gs) = list_ex (\<lambda>g. gr_id g = x) gs"
  by (induction gs) auto

lemma issue_oneE:
  assumes "issue_one P inc target_identity actor now expires grant_id a gs = Inr gs'"
  obtains scope target where
    "\<forall>g \<in> set gs. \<not> (grant_for (inc_id inc) (act_id a) g \<and> is_consumed g)"
    "\<forall>g \<in> set gs. gr_id g \<noteq> grant_id"
    "json_digest P (incident_scope inc a) = Inr scope" "json_digest P target_identity = Inr target"
    "gs' = update_where (\<lambda>g. grant_for (inc_id inc) (act_id a) g \<and> gr_state g = ISSUED)
        (\<lambda>g. g\<lparr>gr_state := REVOKED\<rparr>) gs
      @ [\<lparr>gr_id = grant_id, gr_incident = inc_id inc, gr_action = act_id a,
          gr_scope = scope, gr_target = target, gr_actor = strip actor, gr_issued = now,
          gr_expires = expires, gr_state = ISSUED, gr_operation = None, gr_result = PNone\<rparr>]"
  using assms unfolding issue_one_def Let_def revoked_ids
  by (auto simp: ebind_Inr_iff list_ex_iff split: if_splits)

lemma issue_one_extends:
  assumes "issue_one P inc target_identity actor now expires grant_id a gs = Inr gs'"
  shows "extends_rows kept_or_revoked gs gs'"
proof -
  from assms obtain z where gs': "gs' = update_where (\<lambda>g. grant_for (inc_id inc) (act_id a) g \<and> gr_state g = ISSUED)
        (\<lambda>g. g\<lparr>gr_state := REVOKED\<rparr>) gs @ [z]" by (rule issue_oneE)
  have "list_all2 kept_or_revoked gs (update_where (\<lambda>g. grant_for (inc_id inc) (act_id a) g \<and> gr_state g = ISSUED)
        (\<lambda>g. g\<lparr>gr_state := REVOKED\<rparr>) gs)"
    by (simp add: update_where_def list_all2_map2 list_all2_same kept_or_revoked_def)
  with gs' show ?thesis by (auto simp: extends_rows_def)
qed

lemma count_where_append [simp]: "count_where p (xs @ ys) = count_where p xs + count_where p ys"
  by (simp add: count_where_def)

lemma count_where_mono: "(\<And>x. p x \<Longrightarrow> q x) \<Longrightarrow> count_where p xs \<le> count_where q xs"
  by (induction xs) auto

lemma issue_one_ok:
  assumes one: "issue_one P inc target_identity actor now expires grant_id a gs = Inr gs'" and ok: "grants_ok gs"
  shows "grants_ok gs'"
proof -
  let ?p = "\<lambda>g. grant_for (inc_id inc) (act_id a) g \<and> gr_state g = ISSUED"
  let ?upd = "update_where ?p (\<lambda>g. g\<lparr>gr_state := REVOKED\<rparr>) gs"
  from one obtain scope target z where
    fresh: "\<forall>g \<in> set gs. \<not> (grant_for (inc_id inc) (act_id a) g \<and> is_consumed g)"
      "\<forall>g \<in> set gs. gr_id g \<noteq> grant_id"
    and gs': "gs' = ?upd @ [z]" and z: "gr_id z = grant_id" "gr_incident z = inc_id inc"
      "gr_action z = act_id a" "gr_state z = ISSUED" by (rule issue_oneE) auto
  have ids: "map gr_id ?upd = map gr_id gs" by (rule map_update_where) simp
  have dist: "distinct (map gr_id gs')"
    using ok fresh(2) ids by (auto simp: gs' z grants_ok_def simp del: map_update_where)
  have for_upd: "grant_for i b (if ?p g then g\<lparr>gr_state := REVOKED\<rparr> else g) \<longleftrightarrow> grant_for i b g" for i b g
    by (simp add: grant_for_def)
  have count: "count_where (\<lambda>g. grant_for i b g \<and> gr_state g = ISSUED) gs' \<le> 1" for i b
  proof (cases "i = inc_id inc \<and> b = act_id a")
    case True
    then have "count_where (\<lambda>g. grant_for i b g \<and> gr_state g = ISSUED) ?upd = 0"
      by (auto simp: count_where_0 set_update_where grant_for_def)
    then show ?thesis unfolding gs' by simp
  next
    case False
    have "count_where (\<lambda>g. grant_for i b g \<and> gr_state g = ISSUED) (update_where ?p (\<lambda>g. g\<lparr>gr_state := REVOKED\<rparr>) hs)
        \<le> count_where (\<lambda>g. grant_for i b g \<and> gr_state g = ISSUED) hs" for hs
      by (induction hs) (auto simp: grant_for_def)
    moreover have "\<not> grant_for i b z" using False z by (auto simp: grant_for_def)
    ultimately show ?thesis using ok unfolding gs' grants_ok_def by (auto intro: order_trans)
  qed
  have cons: "\<not> grant_for (gr_incident g) (gr_action g) h"
    if g: "g \<in> set gs'" "gr_state g = ISSUED" and h: "h \<in> set gs'" "is_consumed h" for g h
  proof -
    from h z(4) have "h \<in> set ?upd" unfolding gs' by (auto simp: is_consumed_def)
    then obtain k where k: "k \<in> set gs" "h = (if ?p k then k\<lparr>gr_state := REVOKED\<rparr> else k)"
      by (auto simp: set_update_where)
    with h(2) have hk: "h \<in> set gs" by (auto simp: is_consumed_def split: if_splits)
    show ?thesis
    proof (cases "g = z")
      case True
      with hk h(2) fresh(1) z show ?thesis by auto
    next
      case False
      with g obtain m where m: "m \<in> set gs" "g = (if ?p m then m\<lparr>gr_state := REVOKED\<rparr> else m)"
        unfolding gs' by (auto simp: set_update_where)
      with g(2) have "g \<in> set gs" by (auto split: if_splits)
      with ok hk h(2) g(2) show ?thesis by (auto simp: grants_ok_def)
    qed
  qed
  from dist count cons show ?thesis unfolding grants_ok_def by blast
qed

lemma issue_each_ok:
  "issue_each P inc target_identity actor now expires uuids n as gs = Inr gs' \<Longrightarrow> grants_ok gs \<Longrightarrow>
     grants_ok gs' \<and> extends_rows kept_or_revoked gs gs'"
proof (induction as arbitrary: n gs)
  case Nil
  then show ?case by (simp add: extends_rows_refl kept_or_revoked_def)
next
  case (Cons a as)
  from Cons.prems(1) obtain g1 where g1: "issue_one P inc target_identity actor now expires (uuids n) a gs = Inr g1"
    "issue_each P inc target_identity actor now expires uuids (Suc n) as g1 = Inr gs'"
    by (auto simp: ebind_Inr_iff)
  from Cons.IH [OF g1(2)] issue_one_ok [OF g1(1) Cons.prems(2)]
  have "grants_ok gs'" "extends_rows kept_or_revoked g1 gs'" by auto
  with issue_one_extends [OF g1(1)] show ?case
    by (auto intro: extends_rows_trans kept_or_revoked_trans)
qed

lemma issue_step:
  assumes "issue P now uuids gs inc target_identity actor ttl = (gs', res)"
  shows "grants_ok gs \<longrightarrow> grants_ok gs' \<and> extends_rows grant_step_row gs gs'"
proof (cases "gs' = gs")
  case True
  then show ?thesis by (simp add: extends_rows_refl)
next
  case False
  with assms obtain n expires where
    "issue_each P inc target_identity (str_of actor) now expires uuids n (pending_actions inc) gs = Inr gs'"
    by (auto simp: issue_def Let_def split: if_splits sum.splits)
  from issue_each_ok [OF this] show ?thesis by (auto intro: extends_rows_mono kept_or_revoked_row)
qed

lemma latest_grant_mem: "latest_grant gs = Some g \<Longrightarrow> g \<in> set gs"
  by (induction gs arbitrary: g) (auto split: option.splits if_splits)

lemma claim_grantE:
  assumes "claim_grant P now gs inc a target_identity operation_id = (gs', Inr g)"
  obtains "g \<in> set gs" "grant_for (inc_id inc) (act_id a) g" "gr_state g = ISSUED" "now < gr_expires g"
    "json_digest P (incident_scope inc a) = Inr (gr_scope g)"
    "json_digest P target_identity = Inr (gr_target g)"
    "\<forall>h \<in> set gs. gr_operation h \<noteq> Some operation_id"
    "gs' = update_where (\<lambda>h. gr_id h = gr_id g \<and> gr_state h = ISSUED)
       (\<lambda>h. h\<lparr>gr_state := CLAIMED, gr_operation := Some operation_id\<rparr>) gs"
  using assms
  by (auto simp: claim_grant_def Let_def list_ex_iff split: if_splits option.splits sum.splits
      dest!: latest_grant_mem)

lemma claim_grant_Inl: "claim_grant P now gs inc a t o' = (gs', Inl e) \<Longrightarrow> gs' = gs"
  by (auto simp: claim_grant_def Let_def split: if_splits option.splits sum.splits)

lemma claim_step:
  assumes "claim_grant P now gs inc a target_identity operation_id = (gs', out)" and ok: "grants_ok gs"
  shows "grants_ok gs' \<and> extends_rows grant_step_row gs gs'"
proof (cases out)
  case (Inl e)
  with assms show ?thesis by (auto dest: claim_grant_Inl simp: extends_rows_refl)
next
  case (Inr g)
  from assms(1) [unfolded Inr] show ?thesis
  proof (rule claim_grantE)
    assume g: "g \<in> set gs" "grant_for (inc_id inc) (act_id a) g" "gr_state g = ISSUED"
      and gs': "gs' = update_where (\<lambda>h. gr_id h = gr_id g \<and> gr_state h = ISSUED)
       (\<lambda>h. h\<lparr>gr_state := CLAIMED, gr_operation := Some operation_id\<rparr>) gs"
    let ?c = "g\<lparr>gr_state := CLAIMED, gr_operation := Some operation_id\<rparr>"
    have only: "h = g" if "h \<in> set gs" "gr_id h = gr_id g" for h
      using ok g(1) that by (intro same_key [of gr_id gs]) (auto simp: grants_ok_def)
    have mem: "h = ?c \<or> h \<in> set gs \<and> h \<noteq> g" if "h \<in> set gs'" for h
    proof -
      from that obtain k where k: "k \<in> set gs" "h = (if gr_id k = gr_id g \<and> gr_state k = ISSUED
          then k\<lparr>gr_state := CLAIMED, gr_operation := Some operation_id\<rparr> else k)"
        unfolding gs' set_update_where by blast
      show ?thesis
      proof (cases "k = g")
        case True
        with k(2) g(3) show ?thesis by simp
      next
        case False
        then have "gr_id k \<noteq> gr_id g" using only [OF k(1)] by blast
        with k False show ?thesis by simp
      qed
    qed
    have dist: "distinct (map gr_id gs')"
      using ok unfolding gs' grants_ok_def by (simp add: table_simps)
    have count: "count_where (\<lambda>g. grant_for i b g \<and> gr_state g = ISSUED) gs' \<le> 1" for i b
    proof -
      have "count_where (\<lambda>g. grant_for i b g \<and> gr_state g = ISSUED) (update_where
          (\<lambda>h. gr_id h = gr_id g \<and> gr_state h = ISSUED)
          (\<lambda>h. h\<lparr>gr_state := CLAIMED, gr_operation := Some operation_id\<rparr>) hs)
          \<le> count_where (\<lambda>g. grant_for i b g \<and> gr_state g = ISSUED) hs" for hs
        by (induction hs) auto
      with ok show ?thesis unfolding gs' grants_ok_def by (meson order_trans)
    qed
    have cons: "\<not> grant_for (gr_incident k) (gr_action k) h"
      if k: "k \<in> set gs'" "gr_state k = ISSUED" and h: "h \<in> set gs'" "is_consumed h" for k h
    proof -
      have "k \<noteq> ?c" using k(2) by auto
      with mem [OF k(1)] have kg: "k \<in> set gs" "k \<noteq> g" by blast+
      show ?thesis
      proof (cases "h = ?c")
        case True
        have "\<not> grant_for (gr_incident k) (gr_action k) g"
        proof
          assume same: "grant_for (gr_incident k) (gr_action k) g"
          let ?q = "\<lambda>x. grant_for (gr_incident k) (gr_action k) x \<and> gr_state x = ISSUED"
          have "count_where ?q gs \<le> 1" using ok by (simp add: grants_ok_def)
          moreover have "0 < count_where ?q gs"
            using g(1,3) same by (auto simp: count_where_pos)
          ultimately have "count_where ?q gs = 1" by simp
          then have "row_where ?q gs = Some g" "row_where ?q gs = Some k"
            using g(1,3) same kg(1) k(2) by (auto intro!: row_where_unique simp: grant_for_def)
          with kg(2) show False by simp
        qed
        with True show ?thesis by (simp add: grant_for_def)
      next
        case False
        with h mem have "h \<in> set gs" by blast
        with ok kg(1) k(2) h(2) show ?thesis by (auto simp: grants_ok_def)
      qed
    qed
    have "extends_rows grant_step_row gs gs'" unfolding gs'
      by (rule extends_rows_update) (auto simp: grant_step_row_def)
    with dist count cons show ?thesis unfolding grants_ok_def by blast
  qed
qed

lemma record_step:
  assumes "record_result P gs grant_id result = (gs', ack)"
  shows "(grants_ok gs \<longrightarrow> grants_ok gs') \<and> extends_rows grant_step_row gs gs'"
proof (cases "gs' = gs")
  case True
  then show ?thesis by (simp add: extends_rows_refl)
next
  case False
  let ?f = "\<lambda>g. g\<lparr>gr_state := GRANT_RESULT_RECORDED, gr_result := sort_keys result\<rparr>"
  let ?p = "\<lambda>g. gr_id g = grant_id \<and> gr_state g = CLAIMED
            \<and> gr_operation g \<noteq> None \<and> PStr (the (gr_operation g)) = dget result ''operation_id''"
  from assms False have gs': "gs' = update_where ?p ?f gs"
    by (auto simp: record_result_def Let_def split: sum.splits if_splits)
  have "grants_ok gs'" if ok: "grants_ok gs"
  proof -
    have dist: "distinct (map gr_id gs')"
      using ok unfolding gs' grants_ok_def by (simp add: table_simps)
    have "count_where (\<lambda>g. grant_for i b g \<and> gr_state g = ISSUED) (update_where ?p ?f hs)
          = count_where (\<lambda>g. grant_for i b g \<and> gr_state g = ISSUED) hs" for i b hs
      by (induction hs) auto
    then have count: "count_where (\<lambda>g. grant_for i b g \<and> gr_state g = ISSUED) gs' \<le> 1" for i b
      using ok unfolding gs' grants_ok_def by simp
    have cons: "\<not> grant_for (gr_incident k) (gr_action k) h"
      if k: "k \<in> set gs'" "gr_state k = ISSUED" and h: "h \<in> set gs'" "is_consumed h" for k h
    proof -
      from k have "k \<in> set gs" unfolding gs' set_update_where by (auto split: if_splits)
      moreover from h obtain m where m: "m \<in> set gs" "h = (if ?p m then ?f m else m)"
        unfolding gs' set_update_where by blast
      moreover from m h(2) have "is_consumed m" by (auto simp: is_consumed_def split: if_splits)
      moreover from m have "grant_for i b h \<longleftrightarrow> grant_for i b m" for i b by (auto simp: grant_for_def)
      ultimately show ?thesis using ok k(2) by (auto simp: grants_ok_def)
    qed
    from dist count cons show ?thesis unfolding grants_ok_def by blast
  qed
  moreover have "extends_rows grant_step_row gs gs'" unfolding gs'
    by (rule extends_rows_update) (auto simp: grant_step_row_def)
  ultimately show ?thesis by blast
qed

lemma grant_step_ok:
  assumes "grant_step P gs gs'" and "grants_ok gs"
  shows "grants_ok gs' \<and> extends_rows grant_step_row gs gs'"
  using assms by (cases rule: grant_step.cases) (blast dest: issue_step claim_step record_step)+

lemma grants_ok_Nil: "grants_ok []"
  by (simp add: grants_ok_def)

lemma grant_steps_ok:
  assumes "(grant_step P)\<^sup>*\<^sup>* gs gs'" and "grants_ok gs" shows "grants_ok gs'"
  using assms by (induction rule: rtranclp_induct) (auto dest: grant_step_ok)

definition grant_state_at :: "grant list \<Rightarrow> string \<Rightarrow> grant_state option" where
  "grant_state_at gs g = map_option gr_state (row_where (\<lambda>x. gr_id x = g) gs)"

text \<open>The life of a grant, as the contract that the other tables have too.\<close>

definition sound_grant_step :: "platform \<Rightarrow> grant list \<Rightarrow> grant list \<Rightarrow> bool" where
  "sound_grant_step P gs gs' \<longleftrightarrow> grants_ok gs \<and> grant_step P gs gs'"

interpretation grant_states: lifecycle "sound_grant_step P" grant_state_at GRANT_TRANSITIONS for P
proof
  fix d d' k s
  assume st: "sound_grant_step P d d'" and s: "grant_state_at d k = Some s"
  then have ext: "extends_rows grant_step_row d d'"
    using grant_step_ok by (auto simp: sound_grant_step_def)
  from s obtain g where g: "row_where (\<lambda>x. gr_id x = k) d = Some g" "s = gr_state g"
    by (auto simp: grant_state_at_def)
  have "\<exists>h. row_where (\<lambda>x. gr_id x = k) d' = Some h \<and> grant_step_row g h"
    by (rule extends_rows_find [OF ext _ g(1)]) (simp add: grant_step_row_def)
  then show "\<exists>s'. grant_state_at d' k = Some s' \<and> s' \<in> set (GRANT_TRANSITIONS s)"
    using g(2) by (auto simp: grant_state_at_def grant_step_row_def)
qed

lemma extends_rows_mem:
  assumes "extends_rows R xs ys" and "x \<in> set xs"
  shows "\<exists>y \<in> set ys. R x y"
proof -
  from assms(1) obtain us zs where us: "list_all2 R xs us" and ys: "ys = us @ zs"
    by (auto simp: extends_rows_def)
  from us assms(2) have "\<exists>y \<in> set us. R x y" by (induction rule: list_all2_induct) auto
  with ys show ?thesis by auto
qed

lemma consumed_stays:
  assumes "(grant_step P)\<^sup>*\<^sup>* gs gs'" and "grants_ok gs" and "g \<in> set gs" "grant_for i a g" "is_consumed g"
  shows "\<exists>h \<in> set gs'. grant_for i a h \<and> is_consumed h"
  using assms(1)
proof (induction rule: rtranclp_induct)
  case base
  then show ?case using assms(3-5) by blast
next
  case (step ys zs)
  from step.IH obtain h where h: "h \<in> set ys" "grant_for i a h" "is_consumed h" by blast
  have "extends_rows grant_step_row ys zs"
    using grant_step_ok [OF step.hyps(2)] grant_steps_ok [OF step.hyps(1) assms(2)] by blast
  from extends_rows_mem [OF this h(1)] obtain k where "k \<in> set zs" "grant_step_row h k" by blast
  with h show ?case by (intro bexI [of _ k]) (auto simp: grant_step_row_def grant_for_def is_consumed_def)
qed

text \<open>
  C8: A grant claim succeeds only on an issued, unexpired grant whose scope and database
  digests are those of the current action and database, and it consumes that grant.
\<close>

theorem grant_claim_guarded:
  assumes "claim_grant P now gs inc a target_identity operation_id = (gs', Inr g)"
  shows "g \<in> set gs \<and> gr_incident g = inc_id inc \<and> gr_action g = act_id a \<and> gr_state g = ISSUED
    \<and> now < gr_expires g \<and> json_digest P (incident_scope inc a) = Inr (gr_scope g)
    \<and> json_digest P target_identity = Inr (gr_target g)
    \<and> grant_state_at gs' (gr_id g) \<noteq> Some ISSUED"
  using assms
proof (rule claim_grantE)
  assume g: "g \<in> set gs" "grant_for (inc_id inc) (act_id a) g" "gr_state g = ISSUED" "now < gr_expires g"
    "json_digest P (incident_scope inc a) = Inr (gr_scope g)" "json_digest P target_identity = Inr (gr_target g)"
    and gs': "gs' = update_where (\<lambda>h. gr_id h = gr_id g \<and> gr_state h = ISSUED)
       (\<lambda>h. h\<lparr>gr_state := CLAIMED, gr_operation := Some operation_id\<rparr>) gs"
  have "grant_state_at (update_where (\<lambda>h. gr_id h = gr_id g \<and> gr_state h = ISSUED)
       (\<lambda>h. h\<lparr>gr_state := CLAIMED, gr_operation := Some operation_id\<rparr>) hs) (gr_id g) \<noteq> Some ISSUED" for hs
    by (induction hs) (auto simp: grant_state_at_def)
  with g gs' show ?thesis by (simp add: grant_for_def)
qed

text \<open>
  C7: An operator grant admits one execution: after a successful claim for an action, no
  sequence of grant operations lets another claim for that action succeed.
\<close>

theorem grant_single_use:
  assumes "(grant_step P)\<^sup>*\<^sup>* [] gs"
    and "claim_grant P now gs inc a target_identity operation_id = (gs1, Inr g)"
    and "(grant_step P)\<^sup>*\<^sup>* gs1 gs2" and "inc_id inc' = inc_id inc" "act_id a' = act_id a"
  shows "\<exists>e. claim_grant P now' gs2 inc' a' target_identity' operation_id' = (gs2, Inl e)"
proof -
  have ok: "grants_ok gs" by (rule grant_steps_ok [OF assms(1) grants_ok_Nil])
  have ok1: "grants_ok gs1" using claim_step [OF assms(2) ok] by simp
  from assms(2) obtain h where h: "h \<in> set gs1" "grant_for (inc_id inc) (act_id a) h" "is_consumed h"
  proof (rule claim_grantE)
    assume g: "g \<in> set gs" "grant_for (inc_id inc) (act_id a) g" "gr_state g = ISSUED"
      and gs1: "gs1 = update_where (\<lambda>h. gr_id h = gr_id g \<and> gr_state h = ISSUED)
         (\<lambda>h. h\<lparr>gr_state := CLAIMED, gr_operation := Some operation_id\<rparr>) gs"
    let ?c = "g\<lparr>gr_state := CLAIMED, gr_operation := Some operation_id\<rparr>"
    have "?c \<in> set gs1"
      unfolding gs1 set_update_where by (rule image_eqI [of _ _ g]) (use g in simp_all)
    then show thesis by (rule that) (use g(2) in \<open>simp_all add: grant_for_def is_consumed_def\<close>)
  qed
  from consumed_stays [OF assms(3) ok1 h] obtain k where k: "k \<in> set gs2"
    "grant_for (inc_id inc) (act_id a) k" "is_consumed k" by blast
  have ok2: "grants_ok gs2" by (rule grant_steps_ok [OF assms(3) ok1])
  have "claim_grant P now' gs2 inc' a' target_identity' operation_id' \<noteq> (gs', Inr g')" for gs' g'
  proof
    assume "claim_grant P now' gs2 inc' a' target_identity' operation_id' = (gs', Inr g')"
    then show False
      using ok2 k assms(4,5) by (rule_tac claim_grantE) (auto simp: grants_ok_def grant_for_def)
  qed
  then show ?thesis
    by (cases "claim_grant P now' gs2 inc' a' target_identity' operation_id'";
        cases "snd (claim_grant P now' gs2 inc' a' target_identity' operation_id')")
      (auto dest: claim_grant_Inl)
qed

lemma issue_each_consumed:
  assumes "issue_each P inc target_identity actor now expires uuids n as gs = Inr gs'"
    and "a \<in> set as" "g \<in> set gs"
  shows "\<not> (grant_for (inc_id inc) (act_id a) g \<and> is_consumed g)"
  using assms
proof (induction as arbitrary: n gs g)
  case (Cons b bs)
  from Cons.prems(1) obtain g1 where g1:
    "issue_one P inc target_identity actor now expires (uuids n) b gs = Inr g1"
    "issue_each P inc target_identity actor now expires uuids (Suc n) bs g1 = Inr gs'"
    by (auto simp: ebind_Inr_iff)
  show ?case
  proof (cases "a = b")
    case True
    with g1(1) Cons.prems(3) show ?thesis by (auto elim!: issue_oneE)
  next
    case False
    with Cons.prems(2) have "a \<in> set bs" by simp
    from extends_rows_mem [OF issue_one_extends [OF g1(1)] Cons.prems(3)] obtain h where
      "h \<in> set g1" "kept_or_revoked g h" by blast
    with Cons.IH [OF g1(2) \<open>a \<in> set bs\<close>] show ?thesis
      by (auto simp: kept_or_revoked_def is_consumed_def grant_for_def)
  qed
qed simp

text \<open>
  C17: A consumed grant blocks reissue: issuing grants for an incident one of whose pending
  actions has a consumed grant fails and changes nothing.
\<close>

theorem grant_reissue_refused:
  assumes "g \<in> set gs" and "is_consumed g" and "a \<in> set (pending_actions inc)"
    and "gr_incident g = inc_id inc" and "gr_action g = act_id a"
  shows "\<exists>e. issue P now uuids gs inc target_identity actor ttl = (gs, Inl e)"
proof -
  have "issue_each P inc target_identity (str_of actor) now e uuids 0 (pending_actions inc) gs \<noteq> Inr gs'" for e gs'
  proof
    assume "issue_each P inc target_identity (str_of actor) now e uuids 0 (pending_actions inc) gs = Inr gs'"
    from issue_each_consumed [OF this assms(3,1)] assms show False by (simp add: grant_for_def)
  qed
  then show ?thesis
    by (auto simp: issue_def Let_def split: sum.splits)
qed

end
