(* ===== verification/Scenario.thy ===== *)
theory Scenario
  imports Grants
begin

text \<open>
  One lock incident from plan to claimed action, on concrete values: a waiter blocked by an
  idle transaction, the plan for it, the incident with its approval, the lease, the durable
  intent, the claim and an operator grant. The digest of the platform is the padded length of the
  text, which is enough to evaluate every check. The theorems of this theory apply the
  properties of the others to these values.
\<close>

definition demo_digest :: "nat \<Rightarrow> string" where
  "demo_digest n = (let t = nat_text n in replicate (64 - length t) CHR ''0'' @ t)"

definition demo_P :: platform where
  "demo_P = \<lparr>sha256_hex = (\<lambda>s. demo_digest (length s)), float_repr = (\<lambda>r. ''1.0''),
     include_query_text = False, max_query_length = 50000\<rparr>"

definition demo_C :: store_config where
  "demo_C = \<lparr>store_path = ''incidents.db'', resolve_path = Some\<rparr>"

definition demo_T :: int where "demo_T = 1000000"
definition demo_iid :: string where "demo_iid = ''00000000000000000000000000000001''"
definition demo_aid :: string where "demo_aid = ''00000000000000000000000000000002''"
definition demo_pid :: string where "demo_pid = ''00000000000000000000000000000003''"

definition demo_row :: pyval where
  "demo_row = PDict
     [(''blocked_pid'', PInt 20), (''blocked_backend_start'', PStr ''b1''), (''blocked_xact_start'', PStr ''x1''),
      (''blocker_pid'', PInt 10), (''blocker_backend_start'', PStr ''b0''), (''blocker_xact_start'', PStr ''x0''),
      (''blocked_wait_event_type'', PStr ''Lock''), (''blocker_state'', PStr ''idle in transaction''),
      (''blocker_backend_type'', PStr ''client backend''), (''database_name'', PStr ''app''),
      (''blocker_database_name'', PStr ''app'')]"

definition demo_snapshot :: pyval where
  "demo_snapshot = PDict
     [(''database_name'', PStr ''app''), (''truncated'', PBool False), (''rows'', PList [demo_row])]"

definition demo_proposal :: pyval where
  "demo_proposal = PDict
     [(''type'', PStr ''TERMINATE_BACKEND''), (''database_name'', PStr ''app''), (''blocked_pid'', PInt 20),
      (''blocker_pid'', PInt 10), (''blocker_backend_start'', PStr ''b0''), (''blocker_xact_start'', PStr ''x0''),
      (''reason'', PStr ''lock''), (''confidence'', PFloat (Finite 1)), (''risk'', PStr ''HIGH'')]"

definition demo_time :: string where "demo_time = ''0001-01-01T00:00:01+00:00''"
definition demo_until :: string where "demo_until = ''0001-01-01T00:01:01+00:00''"

section \<open>The plan\<close>

definition demo_action :: action where
  "demo_action = \<lparr>act_id = demo_aid, act_ordinal = 1, act_revision = 1, act_type = ''TERMINATE_BACKEND'',
     act_risk = ''HIGH'', act_state = PLANNED, act_key = demo_digest 151,
     act_target = PDict [(''database_name'', PStr ''app''), (''blocker_pid'', PInt 10),
       (''blocker_backend_start'', PStr ''b0''), (''blocker_xact_start'', PStr ''x0'')],
     act_blocked_pids = PList [PInt 20],
     act_waiters = PList [PDict [(''blocked_pid'', PInt 20), (''blocked_backend_start'', PStr ''b1''),
       (''blocked_xact_start'', PStr ''x1'')]],
     act_proposal = PDict [(''type'', PStr ''TERMINATE_BACKEND''), (''database_name'', PStr ''app''),
       (''blocked_pid'', PInt 20), (''blocker_pid'', PInt 10), (''blocker_backend_start'', PStr ''b0''),
       (''blocker_xact_start'', PStr ''x0''), (''reason'', PStr PLAN_REASON),
       (''confidence'', PFloat (Finite 1)), (''risk'', PStr ''HIGH'')],
     act_attempts = 0, act_operation = Some demo_aid, act_result = PNone, act_error = PNone,
     act_created = demo_time, act_updated = demo_time\<rparr>"

abbreviation demo_actions :: "action list" where "demo_actions \<equiv> [demo_action]"

lemma demo_planned:
  "build_termination_plan demo_P demo_iid demo_snapshot (PList [demo_proposal]) False 10 demo_T
     (\<lambda>_. demo_aid) = Inr demo_actions"
  by code_simp

lemma demo_actions_nonempty: "demo_action \<in> set demo_actions"
  by simp

lemma demo_rows: "snapshot_rows demo_snapshot = Inr [demo_row]"
  by code_simp

theorem plan_actions_in_scope_witness:
  "\<exists>rows row. snapshot_rows demo_snapshot = Inr rows \<and> row \<in> set rows
    \<and> relationship_policy_errors row (dget demo_snapshot ''database_name'') = []
    \<and> act_target demo_action = relationship_target row
    \<and> (False \<or> (\<exists>p \<in> set (py_items (PList [demo_proposal])). proposal_matches_row p row))"
  by (rule plan_actions_in_scope [OF demo_planned demo_actions_nonempty])

theorem plan_actions_shape_witness:
  "demo_actions \<noteq> [] \<and> int (length demo_actions) \<le> 10
    \<and> map act_id demo_actions = map (\<lambda>_. demo_aid) [0..<length demo_actions]
    \<and> map act_ordinal demo_actions = map int [1..<Suc (length demo_actions)]
    \<and> distinct (map act_target demo_actions)
    \<and> list_all (\<lambda>a. act_state a = PLANNED \<and> act_attempts a = 0 \<and> act_risk a = ''HIGH'') demo_actions"
  by (rule plan_actions_shape [OF demo_planned])

theorem plan_waiters_exact_witness:
  "is_list (act_waiters demo_action)
    \<and> set (py_items (act_waiters demo_action)) = (\<lambda>row. waiter_dict (waiter_key row)) `
        {row \<in> set [demo_row]. relationship_policy_errors row (dget demo_snapshot ''database_name'') = []
                        \<and> relationship_target row = act_target demo_action}"
  by (rule plan_waiters_exact [OF demo_planned demo_actions_nonempty demo_rows])

section \<open>The incident\<close>

definition demo_policy :: pyval where
  "demo_policy = PDict [(''deadline_at'', PStr ''0001-01-01T00:05:01+00:00'')]"

definition demo_incident :: incident where
  "demo_incident = \<lparr>inc_id = demo_iid, inc_type = ''LOCK_CONTENTION'', inc_state = AWAITING_APPROVAL,
     inc_revision = 1, inc_request = PDict [], inc_policy = demo_policy,
     inc_summary = PNone, inc_error = PNone, inc_reason = None, inc_approval_id = None, inc_version = 1,
     inc_lease_owner = None, inc_lease_expires = None, inc_created = demo_time,
     inc_updated = demo_time, inc_actions = demo_actions, inc_approval = None\<rparr>"

text \<open>What the store keeps of it.\<close>

definition demo_stored :: "action_state \<Rightarrow> int \<Rightarrow> action" where
  "demo_stored s n = \<lparr>act_id = demo_aid, act_ordinal = 1, act_revision = 1, act_type = ''TERMINATE_BACKEND'',
     act_risk = ''HIGH'', act_state = s, act_key = demo_digest 151,
     act_target = PDict [(''blocker_backend_start'', PStr ''b0''), (''blocker_pid'', PInt 10),
       (''blocker_xact_start'', PStr ''x0''), (''database_name'', PStr ''app'')],
     act_blocked_pids = PList [PInt 20],
     act_waiters = PList [PDict [(''blocked_backend_start'', PStr ''b1''), (''blocked_pid'', PInt 20),
       (''blocked_xact_start'', PStr ''x1'')]],
     act_proposal = PDict [(''blocked_pid'', PInt 20), (''blocker_backend_start'', PStr ''b0''),
       (''blocker_pid'', PInt 10), (''blocker_xact_start'', PStr ''x0''),
       (''confidence'', PFloat (Finite 1)), (''database_name'', PStr ''app''),
       (''reason'', PStr PLAN_REASON), (''risk'', PStr ''HIGH''), (''type'', PStr ''TERMINATE_BACKEND'')],
     act_attempts = n, act_operation = Some demo_aid, act_result = PNone, act_error = PNone,
     act_created = demo_time, act_updated = demo_time\<rparr>"

definition demo_inc_row ::
  "incident_state \<Rightarrow> string option \<Rightarrow> int \<Rightarrow> (string \<times> string) option \<Rightarrow> incident_row" where
  "demo_inc_row s approval version lease = \<lparr>inc_id = demo_iid, inc_type = ''LOCK_CONTENTION'', inc_state = s,
     inc_revision = 1, inc_request = PDict [], inc_policy = demo_policy,
     inc_summary = PNone, inc_error = PNone, inc_reason = None, inc_approval_id = approval,
     inc_version = version, inc_lease_owner = map_option fst lease, inc_lease_expires = map_option snd lease,
     inc_created = demo_time, inc_updated = demo_time\<rparr>"

definition demo_event ::
  "int \<Rightarrow> string option \<Rightarrow> string \<Rightarrow> string option \<Rightarrow> string \<Rightarrow> pyval \<Rightarrow> event" where
  "demo_event n a ty f t payload = \<lparr>ev_id = n, ev_incident = demo_iid, ev_action = a, ev_time = demo_time,
     ev_type = ty, ev_from = f, ev_to = Some t, ev_payload = payload\<rparr>"

abbreviation demo_leased :: "(string \<times> string) option" where
  "demo_leased \<equiv> Some (''w'', demo_until)"

definition demo_created_event :: event where
  "demo_created_event = demo_event 1 None ''INCIDENT_CREATED'' None ''AWAITING_APPROVAL''
     (PDict [(''action_count'', PInt 1), (''plan_revision'', PInt 1)])"

definition demo_lease_event :: event where
  "demo_lease_event = demo_event 2 None ''LEASE_ACQUIRED'' (Some ''AWAITING_APPROVAL'') ''AWAITING_APPROVAL''
     (PDict [(''expires_at'', PStr demo_until), (''owner'', PStr ''w'')])"

definition demo_db1 :: db where
  "demo_db1 = \<lparr>db_incidents = [demo_inc_row AWAITING_APPROVAL None 1 None],
     db_actions = [(demo_iid, demo_stored PLANNED 0)], db_approvals = [], db_events = [demo_created_event]\<rparr>"

definition demo_db2 :: db where
  "demo_db2 = \<lparr>db_incidents = [demo_inc_row AWAITING_APPROVAL None 2 demo_leased],
     db_actions = [(demo_iid, demo_stored PLANNED 0)], db_approvals = [],
     db_events = [demo_created_event, demo_lease_event]\<rparr>"

text \<open>The approval, and the durable intent with it: one checkpoint.\<close>

definition demo_approval :: approval where
  "demo_approval = \<lparr>apr_id = demo_pid, apr_incident = demo_iid, apr_revision = 1,
     apr_digest = demo_digest 412, apr_actor = ''dba'', apr_approved_at = demo_time,
     apr_expires_at = demo_until, apr_revoked_at = None, apr_max_risk = ''HIGH'',
     apr_max_actions = 1, apr_actions = sort_keys (PList [action_dict demo_action])\<rparr>"

definition demo_intent :: incident where
  "demo_intent = incident_row.extend (demo_inc_row RUNNING None 2 demo_leased)
     \<lparr>inc_actions = [demo_stored EXECUTING 1], inc_approval = Some demo_approval\<rparr>"

definition demo_saved :: incident where
  "demo_saved = incident_row.extend (demo_inc_row RUNNING (Some demo_pid) 3 demo_leased)
     \<lparr>inc_actions = [demo_stored EXECUTING 1], inc_approval = Some demo_approval\<rparr>"

definition demo_intent_event :: event where
  "demo_intent_event = demo_event 3 (Some demo_aid) ''ACTION_INTENT'' (Some ''AWAITING_APPROVAL'') ''RUNNING''
     (PDict [])"

definition demo_db3 :: db where
  "demo_db3 = \<lparr>db_incidents = [demo_inc_row RUNNING (Some demo_pid) 3 demo_leased],
     db_actions = [(demo_iid, demo_stored EXECUTING 1)], db_approvals = [demo_approval],
     db_events = [demo_created_event, demo_lease_event, demo_intent_event]\<rparr>"

definition demo_context :: pyval where "demo_context = approval_dict demo_approval demo_aid"

definition demo_execution :: pyval where
  "demo_execution = PDict [(''kind'', PStr ''LOCK_INCIDENT_EXECUTION''), (''store_path'', PStr ''incidents.db''),
     (''worker_id'', PStr ''w''), (''incident_id'', PStr demo_iid), (''action_id'', PStr demo_aid),
     (''plan_revision'', PInt 1)]"

definition demo_auth :: pyval where
  "demo_auth = authorization_record (demo_inc_row RUNNING (Some demo_pid) 3 demo_leased)
     (demo_stored EXECUTING 1) demo_approval (PStr demo_aid) (PInt 1) (PStr ''w'') demo_row (demo_digest 308) demo_T"

definition demo_db4 :: db where
  "demo_db4 = \<lparr>db_incidents = [demo_inc_row RUNNING (Some demo_pid) 4 demo_leased],
     db_actions = [(demo_iid, demo_stored APPLYING 1)], db_approvals = [demo_approval],
     db_events = [demo_created_event, demo_lease_event, demo_intent_event,
       demo_event 4 (Some demo_aid) ''ACTION_EXECUTION_CLAIMED'' (Some ''EXECUTING'') ''APPLYING''
         (sort_keys demo_auth)]\<rparr>"

lemma demo_create: "fst (create_incident demo_P empty_db demo_incident) = demo_db1"
  by code_simp

lemma demo_acquire: "fst (acquire_lease demo_P demo_T demo_db1 demo_iid ''w'' (PInt 60)) = demo_db2"
  by code_simp

lemma demo_saved_ok:
  "save_incident demo_P demo_T demo_db2 demo_intent ''ACTION_INTENT'' PNone (Some demo_aid) (Some ''w'')
     = (demo_db3, Inr demo_saved)"
  by code_simp

lemma demo_claimed:
  "claim_action_execution demo_P demo_C demo_T demo_db3 demo_context (PStr demo_aid)
     (act_proposal demo_action) demo_row demo_execution = (demo_db4, Inr demo_auth)"
  by code_simp

text \<open>Every database of the scenario is reachable.\<close>

lemma demo_reach1: "reachable demo_P demo_C demo_db1"
  unfolding reachable_def demo_create [symmetric]
  by (rule r_into_rtranclp, rule store_step.create) (rule prod.collapse [symmetric])

lemma demo_reach2: "reachable demo_P demo_C demo_db2"
  unfolding demo_acquire [symmetric]
  by (rule reachable_step [OF demo_reach1], rule store_step.acquire) (rule prod.collapse [symmetric])

lemma demo_reach3: "reachable demo_P demo_C demo_db3"
  by (rule reachable_step [OF demo_reach2], rule store_step.save, rule demo_saved_ok)

lemma demo_reach4: "reachable demo_P demo_C demo_db4"
  by (rule reachable_step [OF demo_reach3], rule store_step.claim, rule demo_claimed)

section \<open>The claim\<close>

theorem claim_authorized_witness:
  "\<exists>r x y. find_incident demo_db3 (inc_id r) = Some r \<and> dget demo_context ''incident_id'' = PStr (inc_id r)
    \<and> (inc_id r, x) \<in> set (db_actions demo_db3) \<and> dget demo_context ''current_action_id'' = PStr (act_id x)
    \<and> y \<in> set (db_approvals demo_db3) \<and> inc_approval_id r = Some (apr_id y) \<and> apr_incident y = inc_id r
    \<and> inc_state r = RUNNING \<and> act_state x = EXECUTING \<and> PStr demo_aid = PStr (the (act_operation x))
    \<and> (\<exists>t. deadline_of (inc_policy r) = Some t \<and> demo_T < t)
    \<and> lease_live r (dget demo_execution ''worker_id'') demo_T
    \<and> json_column demo_P (act_proposal demo_action) = json_column demo_P (act_proposal x)
    \<and> evidence_matches demo_row x (act_proposal demo_action)
    \<and> approval_in_force demo_P (act_proposal demo_action) (approval_dict y (act_id x)) demo_T
    \<and> action_state_at demo_db4 (inc_id r, act_id x) = Some APPLYING"
  by (rule claim_authorized [OF demo_claimed])

theorem claim_single_use_witness:
  "\<exists>e. claim_action_execution demo_P demo_C (demo_T + 1) demo_db4 demo_context (PStr demo_aid)
     (act_proposal demo_action) demo_row demo_execution = (demo_db4, Inl e)"
  by (rule claim_single_use [OF demo_claimed rtranclp.rtrancl_refl refl refl])

lemma demo_found2: "find_incident demo_db2 demo_iid = Some (demo_inc_row AWAITING_APPROVAL None 2 demo_leased)"
  by code_simp

lemma demo_lease2:
  "inc_lease_owner (demo_inc_row AWAITING_APPROVAL None 2 demo_leased) = Some ''w''"
  "inc_lease_expires (demo_inc_row AWAITING_APPROVAL None 2 demo_leased) = Some (iso_utc (demo_T + 60000000))"
  by code_simp+

text \<open>A second worker, with an execution context of its own.\<close>

definition demo_other :: pyval where
  "demo_other = PDict [(''kind'', PStr ''LOCK_INCIDENT_EXECUTION''), (''worker_id'', PStr ''v'')]"

theorem live_lease_excludes_witness:
  "(\<exists>err. acquire_lease demo_P demo_T demo_db2 demo_iid ''v'' (PInt 60) = (demo_db2, Inl err))
    \<and> (\<exists>err. renew_lease demo_T demo_db2 demo_iid ''v'' (PInt 60) = (demo_db2, Inl err))
    \<and> (\<exists>err. release_lease demo_P demo_T demo_db2 demo_iid ''v'' = (demo_db2, Inl err))
    \<and> (\<exists>err. save_incident demo_P demo_T demo_db2 demo_intent
          ''ACTION_INTENT'' PNone None (Some ''v'') = (demo_db2, Inl err))
    \<and> (\<exists>err. claim_action_execution demo_P demo_C demo_T demo_db2 demo_context (PStr demo_aid)
          demo_proposal demo_row demo_other = (demo_db2, Inl err))"
proof -
  have ids: "inc_id demo_intent = demo_iid" "dget demo_context ''incident_id'' = PStr demo_iid"
    "dget demo_other ''worker_id'' = PStr ''v''" by code_simp+
  have "demo_T < demo_T + 60000000" "valid_instant demo_T" "valid_instant (demo_T + 60000000)"
    "''v'' \<noteq> ''w''" by (simp_all add: demo_T_def valid_instant_def max_instant_def)
  note excluded = live_lease_excludes [OF demo_reach2 demo_found2 demo_lease2 this]
  show ?thesis using excluded ids by blast
qed

section \<open>Checkpoints\<close>

theorem checkpoint_guarded_witness:
  "\<exists>r w. find_incident demo_db2 (inc_id demo_intent) = Some r \<and> Some ''w'' = Some w
    \<and> holds_lease r w (iso_utc demo_T)
    \<and> inc_version demo_intent = inc_version r \<and> inc_version demo_saved = inc_version r + 1
    \<and> inc_state demo_saved = inc_state demo_intent
    \<and> inc_state demo_intent \<in> set (INCIDENT_TRANSITIONS (inc_state r))
    \<and> (distinct (map act_id (inc_actions demo_intent)) \<longrightarrow>
        (\<forall>a \<in> set (inc_actions demo_intent). \<exists>b \<in> set (inc_actions demo_saved). stored_as demo_P a b))"
  by (rule checkpoint_guarded [OF demo_saved_ok])

lemma demo_steps34: "store_steps demo_P demo_C demo_db3 demo_db4"
  by (rule r_into_rtranclp, rule store_step.claim, rule demo_claimed)


text \<open>The same incident, cancelled instead; then the worker releases its lease.\<close>

definition demo_cancelled :: db where
  "demo_cancelled = \<lparr>db_incidents = [demo_inc_row CANCELLED None 3 demo_leased],
     db_actions = [(demo_iid, demo_stored PLANNED 0)], db_approvals = [],
     db_events = [demo_created_event, demo_lease_event,
       demo_event 3 None ''CANCELLED'' (Some ''AWAITING_APPROVAL'') ''CANCELLED'' (PDict [])]\<rparr>"

lemma demo_cancel:
  "fst (save_incident demo_P demo_T demo_db2 (incident_row.extend (demo_inc_row CANCELLED None 2 demo_leased)
     \<lparr>inc_actions = [demo_stored PLANNED 0], inc_approval = None\<rparr>) ''CANCELLED'' PNone None (Some ''w''))
   = demo_cancelled"
  by code_simp

lemma demo_cancel_row:
  "find_incident demo_cancelled demo_iid = Some (demo_inc_row CANCELLED None 3 demo_leased)"
  "is_terminal (inc_state (demo_inc_row CANCELLED None 3 demo_leased))"
  by code_simp+

definition demo_released :: db where
  "demo_released = fst (release_lease demo_P demo_T demo_cancelled demo_iid ''w'')"

lemma demo_release_step: "store_steps demo_P demo_C demo_cancelled demo_released"
  unfolding demo_released_def
  by (rule r_into_rtranclp, rule store_step.release) (rule prod.collapse [symmetric])

theorem terminal_state_final_witness:
  "\<exists>r'. find_incident demo_released demo_iid = Some r' \<and> inc_state r' = inc_state (demo_inc_row CANCELLED None 3 demo_leased)"
  by (rule terminal_state_final [OF demo_release_step demo_cancel_row])

theorem reachable_loads_witness:
  "\<exists>inc. load_incident demo_db2 demo_iid = Inr inc \<and> inc_version inc = inc_version (demo_inc_row AWAITING_APPROVAL None 2 demo_leased)
    \<and> map act_id (inc_actions inc) = map act_id (sort_key act_ordinal (incident_actions demo_db2 demo_iid))
    \<and> (\<forall>p. inc_approval_id (demo_inc_row AWAITING_APPROVAL None 2 demo_leased) = Some p \<longrightarrow> (\<exists>y. inc_approval inc = Some y \<and> apr_id y = p))"
  by (rule reachable_loads [OF demo_reach2 demo_found2])

lemma demo_approval3: "demo_approval \<in> set (db_approvals demo_db3)"
  by (simp add: demo_db3_def)

theorem approvals_immutable_witness: "demo_approval \<in> set (db_approvals demo_db4)"
  by (rule approvals_immutable [OF demo_steps34 demo_approval3])

section \<open>The operator's grant\<close>

definition demo_grant :: "grant_state \<Rightarrow> string option \<Rightarrow> grant" where
  "demo_grant s operation = \<lparr>gr_id = ''g1'', gr_incident = demo_iid, gr_action = demo_aid, gr_scope = demo_digest 630,
     gr_target = demo_digest 4, gr_actor = ''dba'', gr_issued = 0, gr_expires = 120, gr_state = s,
     gr_operation = operation, gr_result = PNone\<rparr>"

lemma demo_issued:
  "issue demo_P 0 (\<lambda>_. ''g1'') [] demo_saved (PStr ''db'') (PStr ''dba'') (PInt 120)
     = ([demo_grant ISSUED None], Inr [''g1''])"
  by code_simp

lemma demo_granted:
  "claim_grant demo_P 60 [demo_grant ISSUED None] demo_saved (demo_stored EXECUTING 1) (PStr ''db'') demo_aid
     = ([demo_grant CLAIMED (Some demo_aid)], Inr (demo_grant ISSUED None))"
  by code_simp

theorem grant_claim_guarded_witness:
  "let g = demo_grant ISSUED None in g \<in> set [demo_grant ISSUED None] \<and> gr_incident g = inc_id demo_saved
    \<and> gr_action g = act_id (demo_stored EXECUTING 1) \<and> gr_state g = ISSUED \<and> 60 < gr_expires g
    \<and> json_digest demo_P (incident_scope demo_saved (demo_stored EXECUTING 1)) = Inr (gr_scope g)
    \<and> json_digest demo_P (PStr ''db'') = Inr (gr_target g)
    \<and> grant_state_at [demo_grant CLAIMED (Some demo_aid)] (gr_id g) \<noteq> Some ISSUED"
  unfolding Let_def by (rule grant_claim_guarded [OF demo_granted])

lemma demo_grant_steps: "(grant_step demo_P)\<^sup>*\<^sup>* [] [demo_grant ISSUED None]"
  by (rule r_into_rtranclp, rule grant_step.issued, rule demo_issued)

theorem grant_single_use_witness:
  "\<exists>e. claim_grant demo_P 61 [demo_grant CLAIMED (Some demo_aid)] demo_saved (demo_stored EXECUTING 1)
     (PStr ''db'') demo_pid = ([demo_grant CLAIMED (Some demo_aid)], Inl e)"
  by (rule grant_single_use [OF demo_grant_steps demo_granted rtranclp.rtrancl_refl refl refl])

theorem grant_reissue_refused_witness:
  "\<exists>e. issue demo_P 60 (\<lambda>_. ''g2'') [demo_grant CLAIMED (Some demo_aid)] demo_saved (PStr ''db'')
     (PStr ''dba'') (PInt 120) = ([demo_grant CLAIMED (Some demo_aid)], Inl e)"
  by (rule grant_reissue_refused [of "demo_grant CLAIMED (Some demo_aid)" _ "demo_stored EXECUTING 1"])
    (simp_all add: is_consumed_def pending_actions_def GRANT_PENDING_def demo_grant_def demo_saved_def
       demo_inc_row_def incident_row.defs demo_stored_def)

end
