(* ===== verification/AuditRehearsal.thy ===== *)
theory AuditRehearsal
  imports AuditLog Scenario
begin

text \<open>
  The JSON reader and the audit log on concrete values. The digest of \<open>audit_P\<close> is the
  identity, so different texts have different digests; \<open>demo_P\<close> has the length of the text.
\<close>

definition audit_P :: platform where
  "audit_P = demo_P\<lparr>sha256_hex := (\<lambda>s. s)\<rparr>"

definition audit_F :: "string \<Rightarrow> rat option" where
  "audit_F text = Some 1"

definition demo_ab :: pyval where
  "demo_ab = PDict [(''a'', PInt 1), (''b'', PList [PStr ''x'', PNone])]"

definition demo_ba :: pyval where
  "demo_ba = PDict [(''b'', PList [PStr ''x'', PNone]), (''a'', PInt 1)]"

lemma demo_readable: "readable audit_P audit_F demo_ab" "readable audit_P audit_F demo_ba"
  by code_simp+

theorem json_roundtrip_witness:
  "\<exists>text. canonical_json audit_P demo_ba = Inr text \<and> json_loads audit_F text = Some (sort_keys demo_ba)"
  by (rule json_roundtrip [OF demo_readable(2)])

theorem canonical_text_identifies_witness: "canonical_json audit_P demo_ab = canonical_json audit_P demo_ba"
  using canonical_text_identifies [OF demo_readable] by code_simp

definition demo_event :: pyval where
  "demo_event = PDict [(''event'', PStr ''started''), (''password'', PStr ''secret'')]"

definition demo_log :: string where
  "demo_log = ''{}'' @ [NL]"

definition demo_legacy :: verification where
  "demo_legacy = \<lparr>log_valid = True, log_records = 1, log_legacy = 1, log_chained = 0, log_head = None,
     log_error = None\<rparr>"

theorem audit_append_valid_witness:
  "\<exists>line v'. write_audit_log audit_P audit_F demo_event demo_log = Inr (demo_log @ line)
     \<and> verify_audit_log audit_P audit_F (demo_log @ line) = Inr v' \<and> log_chained v' = 1"
proof -
  have "verify_audit_log audit_P audit_F demo_log = Inr demo_legacy" by code_simp
  moreover have "readable audit_P audit_F (sanitize_audit_value audit_P None demo_event)" by code_simp
  ultimately show ?thesis
    using audit_append_valid [of audit_P audit_F demo_log demo_legacy demo_event]
    by (auto simp: demo_legacy_def demo_event_def)
qed

text \<open>One record in two texts that differ in white space: the same chain, so the same entries.\<close>

definition demo_head :: string where
  "demo_head = (case canonical_json audit_P (chain_entry (PDict []) (metadata (PInt 1) (PInt 1) PNone (PStr ''genesis'')))
     of Inr text \<Rightarrow> text | Inl _ \<Rightarrow> [])"

definition demo_chain :: string where
  "demo_chain = json_dumps audit_P '', '' '': '' (PDict [(''_audit'',
     audit_envelope (metadata (PInt 1) (PInt 1) PNone (PStr ''genesis'')) demo_head)]) @ [NL]"

definition demo_spaced :: string where
  "demo_spaced = CHR ''{'' # CHR '' '' # tl demo_chain"

definition demo_verified :: verification where
  "demo_verified = \<lparr>log_valid = True, log_records = 1, log_legacy = 0, log_chained = 1, log_head = Some demo_head,
     log_error = None\<rparr>"

theorem audit_tamper_evident_witness:
  "chained_entries audit_F (physical_lines demo_chain) = chained_entries audit_F (physical_lines demo_spaced)"
proof -
  have "verify_audit_log audit_P audit_F demo_chain = Inr demo_verified" by code_simp
  moreover have "verify_audit_log audit_P audit_F demo_spaced = Inr demo_verified" by code_simp
  moreover have "list_all (readable audit_P audit_F) (chained_entries audit_F (physical_lines demo_chain))" by code_simp
  moreover have "list_all (readable audit_P audit_F) (chained_entries audit_F (physical_lines demo_spaced))" by code_simp
  moreover have "sha256_hex audit_P s = s" for s by (simp add: audit_P_def)
  ultimately show ?thesis
    using audit_tamper_evident [of audit_P audit_F demo_chain demo_verified demo_spaced demo_verified]
    by (simp add: demo_verified_def)
qed

end
