(* ===== verification/RuntimePolicy.thy ===== *)
theory RuntimePolicy
  imports PyValue
begin

text \<open>
  \<open>runtime_policy.py\<close>: trusted controls that can only deny. Every operation boundary reads
  them again; controls that cannot be read or do not have the expected schema deny every
  operation. The attributes of the \<open>config\<close> module, the bytes of the controls file and the
  JSON parser of the standard library are a \<open>deployment\<close>; the parser's tree keeps the pairs
  of an object in order, so duplicate keys are visible to \<open>_unique_object\<close>.
\<close>

section \<open>Operations\<close>

definition ACTION_TYPES :: "string list" where
  "ACTION_TYPES = [''CREATE_INDEX'', ''ANALYZE_TABLE'', ''TERMINATE_BACKEND'', ''REWRITE_QUERY'']"

definition MUTATIONS :: "string list" where
  "MUTATIONS = [''CREATE_INDEX'', ''ANALYZE_TABLE'', ''TERMINATE_BACKEND'', ''DROP_INDEX'']"

text \<open>Sorted, as the policy lists them.\<close>

definition OPERATIONS :: "string list" where
  "OPERATIONS = [''AGENT_RUN'', ''ANALYZE_TABLE'', ''BENCHMARK'', ''COMPARE_QUERY_RESULTS'',
     ''CREATE_INDEX'', ''DROP_INDEX'', ''EXPLAIN_ANALYZE'', ''OBSERVE'', ''REWRITE_QUERY'',
     ''TERMINATE_BACKEND'']"

definition RUNTIME_TOOLS :: "string list" where
  "RUNTIME_TOOLS = [''analyze_query'', ''get_query_plan'']"

definition ENVIRONMENTS :: "string list" where
  "ENVIRONMENTS = [''development'', ''staging'', ''production'', ''benchmark'']"

definition MAX_CONTROL_BYTES :: nat where
  "MAX_CONTROL_BYTES = 16384"

definition CONTROL_FLAGS :: "string list" where
  "CONTROL_FLAGS = [''disable_agent'', ''disable_mutations'', ''disable_runtime_analysis'', ''disable_benchmarks'']"

section \<open>Controls\<close>

datatype file_read = File_missing | File_error string | File_bytes string

record deployment =
  dep_config :: "string \<Rightarrow> pyval option"
  dep_file :: "pyval \<Rightarrow> file_read"
  dep_json :: "string \<Rightarrow> pyval option"

definition setting :: "deployment \<Rightarrow> string \<Rightarrow> pyval \<Rightarrow> pyval" where
  "setting D name v0 = (case dep_config D name of Some v \<Rightarrow> v | None \<Rightarrow> v0)"

text \<open>The two hooks of the parser: no object repeats a key, no constant is infinite or NaN.\<close>

fun unique_object :: "pyval \<Rightarrow> bool" where
  "unique_object (PDict kvs) \<longleftrightarrow> distinct (map fst kvs) \<and> (\<forall>p \<in> set kvs. unique_object (snd p))"
| "unique_object (PList vs) \<longleftrightarrow> (\<forall>v \<in> set vs. unique_object v)"
| "unique_object _ \<longleftrightarrow> True"

fun finite_constants :: "pyval \<Rightarrow> bool" where
  "finite_constants (PDict kvs) \<longleftrightarrow> (\<forall>p \<in> set kvs. finite_constants (snd p))"
| "finite_constants (PList vs) \<longleftrightarrow> (\<forall>v \<in> set vs. finite_constants v)"
| "finite_constants (PFloat (Finite _)) \<longleftrightarrow> True"
| "finite_constants (PFloat _) \<longleftrightarrow> False"
| "finite_constants _ \<longleftrightarrow> True"

definition control_keys :: "pyval \<Rightarrow> string list" where
  "control_keys v = (case v of PDict kvs \<Rightarrow> map fst kvs | _ \<Rightarrow> [])"

definition valid_controls :: "pyval \<Rightarrow> bool" where
  "valid_controls c \<longleftrightarrow> is_dict c
     \<and> list_all (\<lambda>k. List.member ([''version'', ''disabled_actions''] @ CONTROL_FLAGS) k) (control_keys c)
     \<and> dget c ''version'' = PInt 1
     \<and> list_all (\<lambda>k. List.member (control_keys c) k \<longrightarrow> is_bool (dget c k)) CONTROL_FLAGS"

definition disabled_actions :: "pyval \<Rightarrow> pyval" where
  "disabled_actions c = dget_default c ''disabled_actions'' (PList [])"

definition valid_disabled_actions :: "pyval \<Rightarrow> bool" where
  "valid_disabled_actions v \<longleftrightarrow> is_list v
     \<and> list_all (\<lambda>x. is_str x \<and> List.member ACTION_TYPES (str_of x)) (py_items v)
     \<and> distinct (map str_of (py_items v))"

definition read_controls :: "deployment \<Rightarrow> pyval exc" where
  "read_controls D =
     (let path = setting D ''RUNTIME_CONTROLS_PATH'' PNone;
          required = truthy (setting D ''RUNTIME_CONTROLS_REQUIRED'' (PBool False))
      in if \<not> truthy path
         then (if required then Inl (ValueError ''Required controls path is missing.'') else Inr (PDict []))
         else case dep_file D path of
             File_missing \<Rightarrow> (if required then Inl (OtherException ''FileNotFoundError'') else Inr (PDict []))
           | File_error e \<Rightarrow> Inl (OtherException e)
           | File_bytes raw \<Rightarrow>
               if MAX_CONTROL_BYTES < length raw
               then Inl (ValueError ''Runtime controls exceed their size bound.'')
               else case dep_json D raw of
                   None \<Rightarrow> Inl (ValueError ''JSON'')
                 | Some c \<Rightarrow>
                    if \<not> unique_object c then Inl (ValueError ''Duplicate control key.'')
                    else if \<not> finite_constants c then Inl (ValueError ''Non-finite control value.'')
                    else if \<not> valid_controls c then Inl (ValueError ''Invalid runtime controls schema.'')
                    else if \<not> valid_disabled_actions (disabled_actions c)
                    then Inl (ValueError ''Invalid disabled action list.'')
                    else Inr c)"

section \<open>The policy\<close>

record policy =
  pol_environment :: pyval
  pol_valid :: bool
  pol_allowed :: "string list"
  pol_blocked :: "(string \<times> string) list"

text \<open>\<open>blocked.update({op: reason for op in ops})\<close>\<close>

definition block ::
  "bool \<Rightarrow> string list \<Rightarrow> string \<Rightarrow> (string \<Rightarrow> string option) \<Rightarrow> string \<Rightarrow> string option" where
  "block b ops reason m = (if b then (\<lambda>op. if List.member ops op then Some reason else m op) else m)"

definition action_disabled :: "deployment \<Rightarrow> pyval \<Rightarrow> pyval \<Rightarrow> string \<Rightarrow> bool" where
  "action_disabled D environment controls action \<longleftrightarrow>
     \<not> truthy (setting D (''ENABLE_'' @ action)
          (PBool (action \<noteq> ''TERMINATE_BACKEND'' \<or> environment \<noteq> PStr ''production'')))
   \<or> list_ex (py_eq (PStr action)) (py_items (disabled_actions controls))"

definition PRODUCTION_BLOCKED :: "string list" where
  "PRODUCTION_BLOCKED = [''EXPLAIN_ANALYZE'', ''BENCHMARK'', ''COMPARE_QUERY_RESULTS'',
     ''CREATE_INDEX'', ''DROP_INDEX'', ''ANALYZE_TABLE'', ''REWRITE_QUERY'']"

definition ANALYSIS_OPERATIONS :: "string list" where
  "ANALYSIS_OPERATIONS = [''EXPLAIN_ANALYZE'', ''BENCHMARK'', ''COMPARE_QUERY_RESULTS'',
     ''REWRITE_QUERY'', ''CREATE_INDEX'', ''ANALYZE_TABLE'']"

definition BENCHMARK_OPERATIONS :: "string list" where
  "BENCHMARK_OPERATIONS = [''BENCHMARK'', ''REWRITE_QUERY'', ''CREATE_INDEX'', ''ANALYZE_TABLE'']"

definition blocked_operations :: "deployment \<Rightarrow> pyval \<Rightarrow> pyval \<Rightarrow> string \<Rightarrow> string option" where
  "blocked_operations D environment controls =
     (let production = (environment = PStr ''production'');
          flag = (\<lambda>k. truthy (dget controls k));
          off = action_disabled D environment controls
      in block (\<not> truthy (setting D ''ENABLE_AGENT'' (PBool True)) \<or> flag ''disable_agent'')
           OPERATIONS ''agent_disabled''
        (block (off ''CREATE_INDEX'') [''CREATE_INDEX'', ''DROP_INDEX''] ''action_disabled''
        (block True (filter off ACTION_TYPES) ''action_disabled''
        (block (\<not> truthy (setting D ''ENABLE_MUTATIONS'' (PBool (\<not> production))) \<or> flag ''disable_mutations'')
           MUTATIONS ''mutations_disabled''
        (block (\<not> truthy (setting D ''ALLOW_BENCHMARK''
               (PBool (environment = PStr ''development'' \<or> environment = PStr ''benchmark'')))
             \<or> flag ''disable_benchmarks'')
           BENCHMARK_OPERATIONS ''benchmarks_disabled''
        (block (\<not> truthy (setting D ''ALLOW_RUNTIME_ANALYSIS'' (PBool (\<not> production)))
             \<or> flag ''disable_runtime_analysis'')
           ANALYSIS_OPERATIONS ''runtime_analysis_disabled''
        (block production PRODUCTION_BLOCKED ''production_observe_only''
           (\<lambda>_. None))))))))"

definition get_runtime_policy :: "deployment \<Rightarrow> policy" where
  "get_runtime_policy D =
     (let environment = setting D ''SAFEDBA_ENV'' (PStr ''development'');
          invalid = \<lparr>pol_environment = environment, pol_valid = False, pol_allowed = [],
            pol_blocked = map (\<lambda>op. (op, ''runtime_controls_invalid_or_unavailable'')) OPERATIONS\<rparr>
      in if \<not> (is_str environment \<and> List.member ENVIRONMENTS (str_of environment)) then invalid
         else case read_controls D of
             Inl _ \<Rightarrow> invalid
           | Inr controls \<Rightarrow>
              (let blocked = blocked_operations D environment controls in
               \<lparr>pol_environment = environment, pol_valid = True,
                pol_allowed = filter (\<lambda>op. blocked op = None) OPERATIONS,
                pol_blocked = concat (map (\<lambda>op. case blocked op of None \<Rightarrow> [] | Some r \<Rightarrow> [(op, r)]) OPERATIONS)\<rparr>))"

definition require_operation :: "deployment \<Rightarrow> string \<Rightarrow> unit exc" where
  "require_operation D operation =
     (if \<not> List.member OPERATIONS operation then Inl (RuntimePolicyError operation ''unknown_operation'')
      else case map_of (pol_blocked (get_runtime_policy D)) operation of
          Some reason \<Rightarrow> Inl (RuntimePolicyError operation reason)
        | None \<Rightarrow> Inr ())"

definition require_tool :: "deployment \<Rightarrow> string \<Rightarrow> unit exc" where
  "require_tool D name =
     ebind (require_operation D ''AGENT_RUN'') (\<lambda>_.
       if List.member RUNTIME_TOOLS name then require_operation D ''EXPLAIN_ANALYZE'' else Inr ())"

definition tool_name :: "pyval \<Rightarrow> pyval" where
  "tool_name tool = dget (dget tool ''function'') ''name''"

definition filter_tools :: "pyval list \<Rightarrow> policy \<Rightarrow> pyval list" where
  "filter_tools tools policy =
     (if map_of (pol_blocked policy) ''AGENT_RUN'' \<noteq> None then []
      else if map_of (pol_blocked policy) ''EXPLAIN_ANALYZE'' \<noteq> None
      then filter (\<lambda>t. \<not> list_ex (\<lambda>n. py_eq (tool_name t) (PStr n)) RUNTIME_TOOLS) tools
      else tools)"

section \<open>Facts\<close>

lemma blocked_lookup:
  "map_of (concat (map (\<lambda>op. case m op of None \<Rightarrow> [] | Some r \<Rightarrow> [(op, r)]) ops)) op
     = (if op \<in> set ops then m op else None)"
  by (induction ops) (auto split: option.splits)

lemma map_of_constant: "map_of (map (\<lambda>op. (op, r)) ops) op = (if op \<in> set ops then Some r else None)"
  by (induction ops) auto

lemma allowed_iff:
  assumes "op \<in> set OPERATIONS"
  shows "op \<in> set (pol_allowed (get_runtime_policy D))
    \<longleftrightarrow> map_of (pol_blocked (get_runtime_policy D)) op = None"
  using assms
  by (auto simp: get_runtime_policy_def Let_def blocked_lookup map_of_constant split: sum.splits)

lemma require_operation_iff:
  "require_operation D op = Inr () \<longleftrightarrow> op \<in> set (pol_allowed (get_runtime_policy D))"
proof (cases "op \<in> set OPERATIONS")
  case True
  then show ?thesis
    by (simp add: allowed_iff require_operation_def split: option.splits)
next
  case False
  then have "op \<notin> set (pol_allowed (get_runtime_policy D))"
    by (auto simp: get_runtime_policy_def Let_def split: sum.splits)
  with False show ?thesis by (simp add: require_operation_def)
qed

lemma block_None: "block b ops r m op = None \<longleftrightarrow> \<not> (b \<and> op \<in> set ops) \<and> m op = None"
  by (simp add: block_def)

text \<open>What it takes for an operation to be allowed.\<close>

lemma allowed_not_blocked:
  assumes "op \<in> set (pol_allowed (get_runtime_policy D))"
  obtains controls where "read_controls D = Inr controls" "op \<in> set OPERATIONS"
    "blocked_operations D (setting D ''SAFEDBA_ENV'' (PStr ''development'')) controls op = None"
  using assms by (auto simp: get_runtime_policy_def Let_def split: sum.splits if_splits)

text \<open>One set of controls denies at least what another denies.\<close>

definition controls_le :: "pyval \<Rightarrow> pyval \<Rightarrow> bool" where
  "controls_le c c' \<longleftrightarrow>
     (\<forall>k \<in> set CONTROL_FLAGS. truthy (dget c k) \<longrightarrow> truthy (dget c' k))
   \<and> set (py_items (disabled_actions c)) \<subseteq> set (py_items (disabled_actions c'))"

lemma action_disabled_mono:
  "controls_le c c' \<Longrightarrow> action_disabled D e c a \<Longrightarrow> action_disabled D e c' a"
  by (auto simp: action_disabled_def controls_le_def list_ex_iff)

lemma blocked_operations_mono:
  assumes "controls_le c c'" and "blocked_operations D e c' op = None"
  shows "blocked_operations D e c op = None"
  using assms(2) action_disabled_mono [OF assms(1)] assms(1)
  unfolding blocked_operations_def Let_def block_None controls_le_def CONTROL_FLAGS_def
  by auto

lemma require_operation_result:
  "require_operation D op = Inr () \<or> (\<exists>r. require_operation D op = Inl (RuntimePolicyError op r))"
  by (simp add: require_operation_def split: option.splits)

section \<open>Properties\<close>

text \<open>
  C25: The controls file can only take permissions away: an operation allowed under stricter
  controls is allowed under laxer ones with the same configuration.
\<close>

theorem controls_only_deny:
  assumes "read_controls D = Inr c" and "read_controls D' = Inr c'" and "controls_le c c'"
    and "dep_config D' = dep_config D" and "require_operation D' op = Inr ()"
  shows "require_operation D op = Inr ()"
proof -
  from assms(5) obtain "op \<in> set OPERATIONS"
    and b: "blocked_operations D' (setting D' ''SAFEDBA_ENV'' (PStr ''development'')) c' op = None"
    and v: "is_str (setting D' ''SAFEDBA_ENV'' (PStr ''development''))
      \<and> List.member ENVIRONMENTS (str_of (setting D' ''SAFEDBA_ENV'' (PStr ''development'')))"
    using assms(2) unfolding require_operation_iff
    by (auto simp: get_runtime_policy_def Let_def split: if_splits)
  have same: "setting D' = setting D" using assms(4) by (simp add: setting_def fun_eq_iff)
  have "blocked_operations D' e c' = blocked_operations D e c'" for e c'
  proof -
    have "action_disabled D' = action_disabled D" by (simp add: action_disabled_def same fun_eq_iff)
    then show ?thesis unfolding blocked_operations_def same by (simp only:)
  qed
  with b same have "blocked_operations D (setting D ''SAFEDBA_ENV'' (PStr ''development'')) c op = None"
    using blocked_operations_mono [OF assms(3)] by metis
  with v \<open>op \<in> set OPERATIONS\<close> assms(1) show ?thesis
    unfolding require_operation_iff by (simp add: get_runtime_policy_def Let_def same)
qed



end
