(* ===== verification/Host.thy ===== *)
theory Host
  imports Grants RuntimePolicy Actions
begin

text \<open>
  The world the executor and the workflow act on, and their effects. The incident store's
  tables, the operator's grants, the audit log and the trace of statements sent to PostgreSQL are the state; what
  the program cannot decide is a \<open>host\<close>: clock readings, random identifiers, operator input,
  the answers of PostgreSQL, the audit sink, and what other processes commit to the store
  between two of our transactions. The \<open>n\<close>-th effect of a run reads the host at \<open>n\<close>.
\<close>

section \<open>State\<close>

text \<open>
  The three connections of \<open>db_tools.py\<close> and the statements sent over them. The trace keeps the
  number of the effect that sent each statement, the audit log that of the effect that wrote the entry.
\<close>

datatype connection = Observer | Maintenance | Terminator

datatype statement =
    Observe string "pyval list"
  | Inspect_identity
  | Explain bool string
  | Compare_results string string
  | Create_index pyval pyval pyval
  | Index_identity pyval "pyval option"
  | Drop_index pyval
  | Analyze_table pyval "pyval list"
  | Terminate_backend pyval pyval pyval pyval pyval pyval pyval

record world =
  w_db :: db
  w_grants :: "grant list"
  w_audit :: "(nat \<times> pyval) list"
  w_trace :: "(nat \<times> connection \<times> statement) list"
  w_tick :: nat

text \<open>What another process asks of the store, with the time at which it asks.\<close>

datatype store_request =
    Create_request incident
  | Save_request incident string pyval "string option" "string option"
  | Claim_request pyval pyval pyval pyval pyval
  | Acquire_request string string pyval
  | Renew_request string string pyval
  | Release_request string string

text \<open>What the operator asks of the grant database, with the time at which it is asked.\<close>

datatype grant_request = Issue_request "nat \<Rightarrow> string" incident pyval pyval pyval

record host =
  h_platform :: platform
  h_store :: store_config
  h_role :: string
  h_policy :: "nat \<Rightarrow> deployment"
  h_now :: "nat \<Rightarrow> int"
  h_uuid :: "nat \<Rightarrow> string"
  h_input :: "nat \<Rightarrow> string"
  h_audit :: "nat \<Rightarrow> pyval \<Rightarrow> exn option"
  h_answer :: "nat \<Rightarrow> connection \<Rightarrow> statement \<Rightarrow> pyval exc"
  h_others :: "nat \<Rightarrow> (int \<times> store_request) list"
  h_operator :: "nat \<Rightarrow> (rat \<times> grant_request) list"
  h_seconds :: "nat \<Rightarrow> rat"
  h_fault :: "nat \<Rightarrow> exn option"
  h_action_uuids :: "nat \<Rightarrow> nat \<Rightarrow> string"
  h_decider :: "(nat \<Rightarrow> incident \<Rightarrow> pyval exc) option"
  h_proposal_text :: "proposal_error \<Rightarrow> string"
  h_approval_text :: "approval_error \<Rightarrow> string"
  h_exn_text :: "exn \<Rightarrow> string"
  h_max_explain_cost :: rat
  h_min_improvement :: rat
  h_max_cardinality_error :: rat
  h_include_observed_query :: bool
  h_max_observed_query :: nat
  h_database_name :: pyval
  h_max_rows :: nat
  h_max_actions :: int
  h_approval_ttl :: int
  h_lease_seconds :: pyval
  h_deadline_seconds :: int
  h_users :: "connection \<Rightarrow> pyval"

section \<open>Programs\<close>

text \<open>A program changes the world and returns a value or raises.\<close>

type_synonym 'a run = "world \<Rightarrow> world \<times> 'a exc"

definition rreturn :: "'a \<Rightarrow> 'a run" where
  "rreturn x = (\<lambda>w. (w, Inr x))"

definition rlift :: "'a exc \<Rightarrow> 'a run" where
  "rlift m = (\<lambda>w. (w, m))"

definition rraise :: "exn \<Rightarrow> 'a run" where
  "rraise e = (\<lambda>w. (w, Inl e))"

definition rbind :: "'a run \<Rightarrow> ('a \<Rightarrow> 'b run) \<Rightarrow> 'b run" where
  "rbind m f = (\<lambda>w. case m w of (w', Inl e) \<Rightarrow> (w', Inl e) | (w', Inr x) \<Rightarrow> f x w')"

text \<open>\<open>try: m except Exception as e: h\<close> and \<open>try: m finally: f\<close>.\<close>

definition rtry :: "'a run \<Rightarrow> (exn \<Rightarrow> 'a run) \<Rightarrow> 'a run" where
  "rtry m h = (\<lambda>w. case m w of (w', Inl e) \<Rightarrow> h e w' | (w', Inr x) \<Rightarrow> (w', Inr x))"

definition rfinally :: "'a run \<Rightarrow> unit run \<Rightarrow> 'a run" where
  "rfinally m f = (\<lambda>w. case m w of (w', r) \<Rightarrow>
     (case f w' of (w'', Inl e) \<Rightarrow> (w'', Inl e) | (w'', Inr _) \<Rightarrow> (w'', r)))"

text \<open>A program whose exception is inspected by what follows.\<close>

definition attempt :: "'a run \<Rightarrow> 'a exc run" where
  "attempt m = (\<lambda>w. case m w of (w', r) \<Rightarrow> (w', Inr r))"

section \<open>Effects\<close>

definition sample :: "(nat \<Rightarrow> 'a) \<Rightarrow> 'a run" where
  "sample f = (\<lambda>w. (w\<lparr>w_tick := Suc (w_tick w)\<rparr>, Inr (f (w_tick w))))"

definition clock :: "host \<Rightarrow> int run" where
  "clock H = sample (h_now H)"

definition new_uuid :: "host \<Rightarrow> string run" where
  "new_uuid H = sample (h_uuid H)"

definition prompt :: "host \<Rightarrow> string run" where
  "prompt H = sample (h_input H)"

text \<open>The runtime policy is read anew at each operation boundary.\<close>

definition require :: "host \<Rightarrow> string \<Rightarrow> unit run" where
  "require H operation = rbind (sample (h_policy H)) (\<lambda>D. rlift (require_operation D operation))"

definition ask :: "host \<Rightarrow> connection \<Rightarrow> statement \<Rightarrow> pyval run" where
  "ask H c s = (\<lambda>w. (w\<lparr>w_tick := Suc (w_tick w), w_trace := w_trace w @ [(w_tick w, c, s)]\<rparr>,
     h_answer H (w_tick w) c s))"

definition audit_log :: "host \<Rightarrow> pyval \<Rightarrow> unit run" where
  "audit_log H record = (\<lambda>w.
     (case h_audit H (w_tick w) record of
        Some e \<Rightarrow> (w\<lparr>w_tick := Suc (w_tick w)\<rparr>, Inl e)
      | None \<Rightarrow> (w\<lparr>w_tick := Suc (w_tick w), w_audit := w_audit w @ [(w_tick w, record)]\<rparr>, Inr ())))"

fun apply_request :: "platform \<Rightarrow> store_config \<Rightarrow> int \<times> store_request \<Rightarrow> db \<Rightarrow> db" where
  "apply_request P C (now, Create_request inc) d = fst (create_incident P d inc)"
| "apply_request P C (now, Save_request inc event payload a owner) d =
     fst (save_incident P now d inc event payload a owner)"
| "apply_request P C (now, Claim_request ac op proposal evidence ec) d =
     fst (claim_action_execution P C now d ac op proposal evidence ec)"
| "apply_request P C (now, Acquire_request i owner seconds) d = fst (acquire_lease P now d i owner seconds)"
| "apply_request P C (now, Renew_request i owner seconds) d = fst (renew_lease now d i owner seconds)"
| "apply_request P C (now, Release_request i owner) d = fst (release_lease P now d i owner)"

text \<open>What other processes have committed before effect \<open>n\<close>.\<close>

definition interfere :: "host \<Rightarrow> nat \<Rightarrow> db \<Rightarrow> db" where
  "interfere H n d = fold (apply_request (h_platform H) (h_store H)) (h_others H n) d"

text \<open>
  A store operation: other processes have committed what they have committed; then the
  operation runs as one transaction with the clock it reads inside it, unless the database
  refuses it (locked, unreadable, out of space).
\<close>

definition transact :: "host \<Rightarrow> (int \<Rightarrow> db \<Rightarrow> db \<times> 'a exc) \<Rightarrow> 'a run" where
  "transact H operation = (\<lambda>w.
     (case (case h_fault H (w_tick w) of
              Some e \<Rightarrow> (interfere H (w_tick w) (w_db w), Inl e)
            | None \<Rightarrow> operation (h_now H (w_tick w)) (interfere H (w_tick w) (w_db w))) of
        (d, r) \<Rightarrow> (w\<lparr>w_tick := Suc (w_tick w), w_db := d\<rparr>, r)))"

text \<open>An operation on the grant database, after the operator's own.\<close>

fun apply_grant_request :: "platform \<Rightarrow> rat \<times> grant_request \<Rightarrow> grant list \<Rightarrow> grant list" where
  "apply_grant_request P (now, Issue_request uuids inc target_identity actor ttl) gs =
     fst (issue P now uuids gs inc target_identity actor ttl)"

definition operator_grants :: "host \<Rightarrow> nat \<Rightarrow> grant list \<Rightarrow> grant list" where
  "operator_grants H n gs = fold (apply_grant_request (h_platform H)) (h_operator H n) gs"

definition grant_transact :: "host \<Rightarrow> (rat \<Rightarrow> grant list \<Rightarrow> grant list \<times> 'a exc) \<Rightarrow> 'a run" where
  "grant_transact H operation = (\<lambda>w.
     (case (case h_fault H (w_tick w) of
              Some e \<Rightarrow> (operator_grants H (w_tick w) (w_grants w), Inl e)
            | None \<Rightarrow> operation (h_seconds H (w_tick w)) (operator_grants H (w_tick w) (w_grants w))) of
        (gs, r) \<Rightarrow> (w\<lparr>w_tick := Suc (w_tick w), w_grants := gs\<rparr>, r)))"

definition read_item :: "pyval \<Rightarrow> string \<Rightarrow> pyval exc" where
  "read_item v k = (case v of
     PDict kvs \<Rightarrow> (case map_of kvs k of Some x \<Rightarrow> Inr x | None \<Rightarrow> Inl (KeyError k))
   | _ \<Rightarrow> Inl (TypeError ''object is not subscriptable''))"

definition read_get :: "pyval \<Rightarrow> string \<Rightarrow> pyval \<Rightarrow> pyval exc" where
  "read_get v k v0 = (if is_dict v then Inr (dget_default v k v0) else Inl (AttributeError ''get''))"

definition runtime_error :: exn where
  "runtime_error = OtherException ''RuntimeError''"

section \<open>Reading a program\<close>

lemma rreturn_apply [simp]: "rreturn x w = (w, Inr x)"
  by (simp add: rreturn_def)

lemma rlift_apply [simp]: "rlift m w = (w, m)"
  by (simp add: rlift_def)

lemma rraise_apply [simp]: "rraise e w = (w, Inl e)"
  by (simp add: rraise_def)

lemma rbind_InrE:
  assumes "rbind m f w = (w'', Inr y)"
  obtains x w' where "m w = (w', Inr x)" "f x w' = (w'', Inr y)"
  using assms by (auto simp: rbind_def split: prod.splits sum.splits)

lemma rbind_InlE:
  assumes "rbind m f w = (w'', Inl e)"
  obtains "m w = (w'', Inl e)" | x w' where "m w = (w', Inr x)" "f x w' = (w'', Inl e)"
  using assms by (auto simp: rbind_def split: prod.splits sum.splits)

lemma require_Inr:
  "require H op w = (w', Inr u) \<Longrightarrow> require_operation (h_policy H (w_tick w)) op = Inr ()"
  by (auto simp: require_def rbind_def sample_def split: sum.splits)

section \<open>Relations every effect respects\<close>

text \<open>
  A reflexive and transitive relation between the worlds before and after is respected by a
  composed program when its parts respect it. The rules follow the constructors of
  programs, so a proof about a program is \<open>by (intro obeys_intros)\<close> down to its effects.
\<close>

definition obeys :: "(world \<Rightarrow> world \<Rightarrow> bool) \<Rightarrow> 'a run \<Rightarrow> bool" where
  "obeys R m \<longleftrightarrow> (\<forall>w. R w (fst (m w)))"

locale world_relation =
  fixes R :: "world \<Rightarrow> world \<Rightarrow> bool"
  assumes refl: "R w w" and trans: "R u v \<Longrightarrow> R v w \<Longrightarrow> R u w"
begin

lemma obeys_return: "obeys R (rreturn x)"
  by (simp add: obeys_def refl)

lemma obeys_lift: "obeys R (rlift m)"
  by (simp add: obeys_def refl)

lemma obeys_raise: "obeys R (rraise e)"
  by (simp add: obeys_def refl)

lemma obeys_bind:
  assumes "obeys R m" and "\<And>x. obeys R (f x)"
  shows "obeys R (rbind m f)"
proof -
  have "R w (fst (rbind m f w))" for w
  proof (cases "m w")
    case (Pair w' r)
    with assms(1) have "R w w'" by (auto simp: obeys_def dest: spec [of _ w])
    moreover have "R w' (fst (f x w'))" for x using assms(2) by (simp add: obeys_def)
    ultimately show ?thesis using Pair by (auto simp: rbind_def intro: trans split: sum.split)
  qed
  then show ?thesis by (simp add: obeys_def)
qed

lemma obeys_try:
  assumes "obeys R m" and "\<And>e. obeys R (h e)"
  shows "obeys R (rtry m h)"
proof -
  have "R w (fst (rtry m h w))" for w
  proof (cases "m w")
    case (Pair w' r)
    with assms(1) have "R w w'" by (auto simp: obeys_def dest: spec [of _ w])
    moreover have "R w' (fst (h e w'))" for e using assms(2) by (simp add: obeys_def)
    ultimately show ?thesis using Pair by (auto simp: rtry_def intro: trans split: sum.split)
  qed
  then show ?thesis by (simp add: obeys_def)
qed

lemma obeys_finally:
  assumes "obeys R m" and "obeys R f"
  shows "obeys R (rfinally m f)"
proof -
  have "R w (fst (rfinally m f w))" for w
  proof (cases "m w")
    case (Pair w' r)
    with assms(1) have "R w w'" by (auto simp: obeys_def dest: spec [of _ w])
    moreover have "R w' (fst (f w'))" using assms(2) by (simp add: obeys_def)
    ultimately show ?thesis
      using Pair by (auto simp: rfinally_def intro: trans split: sum.split prod.split)
  qed
  then show ?thesis by (simp add: obeys_def)
qed

lemma obeys_attempt: "obeys R m \<Longrightarrow> obeys R (attempt m)"
  by (simp add: obeys_def attempt_def case_prod_beta)

lemma obeys_bind_lift:
  "(\<And>x. m = Inr x \<Longrightarrow> obeys R (f x)) \<Longrightarrow> obeys R (rbind (rlift m) f)"
  by (cases m) (auto simp: obeys_def rbind_def rlift_def refl)

lemma obeys_if: "obeys R m \<Longrightarrow> obeys R m' \<Longrightarrow> obeys R (if b then m else m')"
  by simp

lemma obeys_bool:
  "obeys R m \<Longrightarrow> obeys R m' \<Longrightarrow> obeys R (case b of True \<Rightarrow> m | False \<Rightarrow> m')"
  by (cases b) simp_all

lemma obeys_option:
  "obeys R m \<Longrightarrow> (\<And>x. obeys R (f x)) \<Longrightarrow> obeys R (case v of None \<Rightarrow> m | Some x \<Rightarrow> f x)"
  by (cases v) simp_all

lemma obeys_sum:
  "(\<And>x. obeys R (f x)) \<Longrightarrow> (\<And>y. obeys R (g y)) \<Longrightarrow>
     obeys R (case v of Inl x \<Rightarrow> f x | Inr y \<Rightarrow> g y)"
  by (cases v) simp_all

lemma obeys_prod: "(\<And>x y. obeys R (f x y)) \<Longrightarrow> obeys R (case v of (x, y) \<Rightarrow> f x y)"
  by (cases v) simp

lemma obeys_let: "obeys R (f v) \<Longrightarrow> obeys R (let x = v in f x)"
  by simp

lemmas obeys_intros =
  obeys_return obeys_bind_lift obeys_lift obeys_raise obeys_bind obeys_try obeys_finally obeys_attempt
  obeys_if obeys_bool obeys_option obeys_sum obeys_prod obeys_let

lemma obeysD: "obeys R m \<Longrightarrow> m w = (w', r) \<Longrightarrow> R w w'"
  by (auto simp: obeys_def dest: spec [of _ w])

end

section \<open>The relations used\<close>

text \<open>
  Time moves on: what is sent and what is audited carries the number of an effect between the
  two worlds.
\<close>

definition since :: "(nat \<times> 'x) list \<Rightarrow> (nat \<times> 'x) list \<Rightarrow> nat \<Rightarrow> nat \<Rightarrow> bool" where
  "since xs ys m n \<longleftrightarrow> (\<exists>zs. ys = xs @ zs \<and> list_all (\<lambda>(k, _). m \<le> k \<and> k < n) zs)"

lemma since_refl: "since xs xs m n"
  by (simp add: since_def)

lemma since_trans:
  assumes "since xs ys l m" and "since ys zs m n" and "l \<le> m" and "m \<le> n"
  shows "since xs zs l n"
proof -
  from assms(1) obtain us where us: "ys = xs @ us" "list_all (\<lambda>(k, _). l \<le> k \<and> k < m) us"
    unfolding since_def by blast
  from assms(2) obtain vs where vs: "zs = ys @ vs" "list_all (\<lambda>(k, _). m \<le> k \<and> k < n) vs"
    unfolding since_def by blast
  have "list_all (\<lambda>(k, _). l \<le> k \<and> k < n) us"
    using us(2) assms(4) by (fastforce simp: list_all_iff)
  moreover have "list_all (\<lambda>(k, _). l \<le> k \<and> k < n) vs"
    using vs(2) assms(3) by (fastforce simp: list_all_iff)
  ultimately show ?thesis unfolding since_def using us(1) vs(1) by (intro exI [of _ "us @ vs"]) simp
qed

definition timed :: "world \<Rightarrow> world \<Rightarrow> bool" where
  "timed w w' \<longleftrightarrow> w_tick w \<le> w_tick w'
     \<and> since (w_trace w) (w_trace w') (w_tick w) (w_tick w')
     \<and> since (w_audit w) (w_audit w') (w_tick w) (w_tick w')"

interpretation timed: world_relation timed
  by unfold_locales (auto simp: timed_def intro: since_refl since_trans)

text \<open>A program that only looks: the databases and the audit log are left alone.\<close>

definition inert :: "world \<Rightarrow> world \<Rightarrow> bool" where
  "inert w w' \<longleftrightarrow> w_db w' = w_db w \<and> w_grants w' = w_grants w \<and> w_audit w' = w_audit w \<and> timed w w'"

interpretation inert: world_relation inert
  by unfold_locales (auto simp: inert_def intro: timed.refl timed.trans)

text \<open>The statements a program sends satisfy \<open>S\<close>.\<close>

definition sends :: "(nat \<times> connection \<times> statement \<Rightarrow> bool) \<Rightarrow> world \<Rightarrow> world \<Rightarrow> bool" where
  "sends S w w' \<longleftrightarrow> (\<exists>ts. w_trace w' = w_trace w @ ts \<and> list_all S ts)"

lemma sends_refl: "sends S w w"
  by (simp add: sends_def)

lemma sends_trans: "sends S u v \<Longrightarrow> sends S v w \<Longrightarrow> sends S u w"
  by (auto simp: sends_def)

interpretation sends: world_relation "sends S" for S
  by unfold_locales (auto intro: sends_refl sends_trans)

lemma sends_mono: "obeys (sends S) m \<Longrightarrow> (\<And>t. S t \<Longrightarrow> S' t) \<Longrightarrow> obeys (sends S') m"
  by (fastforce simp: obeys_def sends_def list_all_iff)

text \<open>
  Everything done to the store is a sequence of its operations, every statement sent satisfies
  \<open>S\<close>, the audit log only grows, and the grants are not touched.
\<close>

definition lawful :: "host \<Rightarrow> (nat \<times> connection \<times> statement \<Rightarrow> bool) \<Rightarrow> world \<Rightarrow> world \<Rightarrow> bool" where
  "lawful H S w w' \<longleftrightarrow>
     store_steps (h_platform H) (h_store H) (w_db w) (w_db w') \<and> sends S w w' \<and> timed w w'
     \<and> w_grants w' = w_grants w"

interpretation lawful: world_relation "lawful H S" for H S
  by unfold_locales (auto simp: lawful_def intro: timed.refl timed.trans sends_refl sends_trans)

lemma inert_lawful:
  assumes "obeys inert m" and "obeys (sends S) m"
  shows "obeys (lawful H S) m"
  using assms by (auto simp: obeys_def lawful_def inert_def)

lemma lawful_mono: "obeys (lawful H S) m \<Longrightarrow> (\<And>t. S t \<Longrightarrow> S' t) \<Longrightarrow> obeys (lawful H S') m"
  by (fastforce simp: obeys_def lawful_def sends_def list_all_iff)

text \<open>The effects, one by one.\<close>

lemma obeys_sample: "obeys inert (sample f)" "obeys (sends S) (sample f)" "obeys (lawful H S) (sample f)"
  by (auto simp: obeys_def sample_def inert_def sends_def lawful_def timed_def since_def)

lemma obeys_clock: "obeys inert (clock H)" "obeys (sends S) (clock H)" "obeys (lawful H' S) (clock H)"
  by (simp_all add: clock_def obeys_sample)

lemma obeys_uuid: "obeys inert (new_uuid H)" "obeys (sends S) (new_uuid H)" "obeys (lawful H' S) (new_uuid H)"
  by (simp_all add: new_uuid_def obeys_sample)

lemma obeys_prompt: "obeys inert (prompt H)" "obeys (sends S) (prompt H)" "obeys (lawful H' S) (prompt H)"
  by (simp_all add: prompt_def obeys_sample)

lemma obeys_require: "obeys inert (require H op)" "obeys (sends S) (require H op)"
  "obeys (lawful H' S) (require H op)"
  unfolding require_def
  by (intro inert.obeys_intros obeys_sample, intro sends.obeys_intros obeys_sample,
      intro lawful.obeys_intros obeys_sample)

lemma obeys_ask: "obeys inert (ask H c s)" "(\<And>n. S (n, c, s)) \<Longrightarrow> obeys (sends S) (ask H c s)"
  by (auto simp: obeys_def ask_def inert_def sends_def timed_def since_def)

lemma obeys_audit_log: "obeys (sends S) (audit_log H r)" "obeys (lawful H' S) (audit_log H r)"
  by (auto simp: obeys_def audit_log_def lawful_def sends_def timed_def since_def split: option.split)

lemma sends_transact: "obeys (sends S) (transact H f)"
  by (auto simp: obeys_def transact_def sends_def split: prod.split)

lemma apply_request_step: "store_step P C d (apply_request P C q d)"
  by (cases "(P, C, q, d)" rule: apply_request.cases) (auto intro: store_step.intros prod.collapse [symmetric])

lemma interfere_steps: "store_steps (h_platform H) (h_store H) d (interfere H n d)"
proof -
  have "store_steps P C d (fold (apply_request P C) qs d)" for P C qs
    by (induction qs arbitrary: d) (auto intro: converse_rtranclp_into_rtranclp apply_request_step)
  then show ?thesis by (simp add: interfere_def)
qed

lemma lawful_transact:
  assumes "\<And>now d d' r. f now d = (d', r) \<Longrightarrow> store_steps (h_platform H) (h_store H) d d'"
  shows "obeys (lawful H S) (transact H f)"
proof -
  have "store_steps (h_platform H) (h_store H) (w_db w) d'"
    if "f (h_now H (w_tick w)) (interfere H (w_tick w) (w_db w)) = (d', r)" for w d' r
    using interfere_steps assms [OF that] by (rule rtranclp_trans)
  then show ?thesis
    by (auto simp: obeys_def transact_def lawful_def sends_def timed_def since_def interfere_steps
        split: prod.split option.split)
qed

text \<open>A statement right after its gate: the policy just read allowed the operation.\<close>

lemma sends_gated:
  assumes "\<And>n. require_operation (h_policy H n) op = Inr () \<Longrightarrow> S (Suc n, c, s)"
    and "\<And>x. obeys (sends S) (f x)"
  shows "obeys (sends S) (rbind (require H op) (\<lambda>_. rbind (ask H c s) f))"
proof -
  have "sends S w (fst (rbind (require H op) (\<lambda>_. rbind (ask H c s) f) w))" for w
  proof (cases "require H op w")
    case (Pair w' r)
    have w': "w' = w\<lparr>w_tick := Suc (w_tick w)\<rparr>" and r: "r = require_operation (h_policy H (w_tick w)) op"
      using Pair by (auto simp: require_def rbind_def sample_def)
    show ?thesis
    proof (cases r)
      case (Inl e)
      with Pair w' show ?thesis by (simp add: rbind_def sends_def)
    next
      case (Inr u)
      with r assms(1) have "S (Suc (w_tick w), c, s)" by simp
      then have 1: "sends S w (fst (ask H c s w'))" by (simp add: ask_def sends_def w')
      have 2: "sends S v (fst (f x v))" for x v using assms(2) by (simp add: obeys_def)
      from Pair Inr have "fst (rbind (require H op) (\<lambda>_. rbind (ask H c s) f) w) = fst (rbind (ask H c s) f w')"
        by (simp add: rbind_def)
      also have "sends S w \<dots>"
        using 1 2 by (auto simp: rbind_def intro: sends_trans split: prod.split sum.split)
      finally show ?thesis .
    qed
  qed
  then show ?thesis by (simp add: obeys_def)
qed

lemmas obeys_effects = obeys_sample obeys_clock obeys_uuid obeys_prompt obeys_require obeys_ask(1)
  obeys_audit_log sends_transact

end
