(* ===== verification/DbTools.thy ===== *)
theory DbTools
  imports Host
begin

text \<open>
  \<open>db_tools.py\<close>, \<open>db_catalog.py\<close> and the lock graph of \<open>db_sessions.py\<close>: the statements the
  program sends to PostgreSQL and what it makes of the answers. A row is the list of its
  columns; a timestamp column is the text of its \<open>isoformat\<close>. Connection set-up is part of
  the statement that follows it: an answer may be an exception.
\<close>

definition cell :: "pyval \<Rightarrow> nat \<Rightarrow> pyval" where
  "cell row i = (case row of PList xs \<Rightarrow> if i < length xs then xs ! i else PNone | _ \<Rightarrow> PNone)"

definition read_only_query :: "host \<Rightarrow> pyval \<Rightarrow> string exc" where
  "read_only_query H query = ensure_read_only_query query (max_query_length (h_platform H))"

section \<open>Arithmetic\<close>

definition py_arith ::
  "(int \<Rightarrow> int \<Rightarrow> int) \<Rightarrow> (rat \<Rightarrow> rat \<Rightarrow> rat) \<Rightarrow> pyval \<Rightarrow> pyval \<Rightarrow> pyval exc" where
  "py_arith f g x y =
     (if is_int x \<and> is_int y then Inr (PInt (f (int_of x) (int_of y)))
      else case (num_val x, num_val y) of
          (Some a, Some b) \<Rightarrow> Inr (PFloat (Finite (g a b)))
        | _ \<Rightarrow> Inl (TypeError ''unsupported operand''))"

definition py_mul :: "pyval \<Rightarrow> pyval \<Rightarrow> pyval exc" where
  "py_mul = py_arith (*) (*)"

definition py_add :: "pyval \<Rightarrow> pyval \<Rightarrow> pyval exc" where
  "py_add = py_arith (+) (+)"

definition py_minus :: "pyval \<Rightarrow> pyval \<Rightarrow> pyval exc" where
  "py_minus = py_arith (-) (-)"

definition py_div :: "pyval \<Rightarrow> pyval \<Rightarrow> pyval exc" where
  "py_div x y = (case (num_val x, num_val y) of
     (Some a, Some b) \<Rightarrow> (if b = 0 then Inl (OtherException ''ZeroDivisionError'')
                         else Inr (PFloat (Finite (a / b))))
   | _ \<Rightarrow> Inl (TypeError ''unsupported operand''))"

definition py_gt :: "pyval \<Rightarrow> pyval \<Rightarrow> bool exc" where
  "py_gt x y = (case py_less y x of Some b \<Rightarrow> Inr b | None \<Rightarrow> Inl (TypeError ''not comparable''))"

definition py_max :: "pyval \<Rightarrow> pyval \<Rightarrow> pyval exc" where
  "py_max x y = ebind (py_gt y x) (\<lambda>b. Inr (if b then y else x))"

section \<open>Observations\<close>

definition truncate_observed_query :: "host \<Rightarrow> pyval \<Rightarrow> pyval" where
  "truncate_observed_query H v =
     (case v of PStr s \<Rightarrow>
        if \<not> h_include_observed_query H
        then PStr (''[redacted query sha256='' @ sha256_hex (h_platform H) s
               @ '' characters='' @ int_text (int (length s)) @ '']'')
        else if length s \<le> h_max_observed_query H then v
        else PStr (take (h_max_observed_query H) s @ ''...[truncated]'')
      | _ \<Rightarrow> v)"

definition observe :: "host \<Rightarrow> string \<Rightarrow> pyval list \<Rightarrow> pyval run" where
  "observe H name arguments =
     rbind (require H ''OBSERVE'') (\<lambda>_. ask H Observer (Observe name arguments))"

definition get_indexes :: "host \<Rightarrow> pyval \<Rightarrow> pyval run" where
  "get_indexes H table = rbind (observe H ''pg_indexes'' [table]) (\<lambda>rows.
     rreturn (PList (map (\<lambda>row. PDict
       [(''index_name'', cell row 0), (''index_definition'', cell row 1)]) (py_items rows))))"

definition get_table_columns :: "host \<Rightarrow> pyval \<Rightarrow> pyval run" where
  "get_table_columns H table = rbind (observe H ''information_schema.columns'' [table]) (\<lambda>rows.
     rreturn (PList (map (\<lambda>row. cell row 0) (py_items rows))))"

definition column_row_items :: "pyval \<Rightarrow> (string \<times> pyval) list" where
  "column_row_items row = (if row = PNone then [] else
     [(''null_frac'', cell row 1), (''n_distinct'', cell row 2), (''most_common_vals'', cell row 3),
      (''most_common_freqs'', cell row 4), (''histogram_bounds'', cell row 5)])"

definition table_row_items :: "pyval \<Rightarrow> (string \<times> pyval) list" where
  "table_row_items row = (if row = PNone then [] else
     [(''n_live_tup'', cell row 0), (''n_mod_since_analyze'', cell row 1),
      (''last_analyze'', cell row 2), (''last_autoanalyze'', cell row 3)])"

definition get_column_stats :: "host \<Rightarrow> pyval \<Rightarrow> pyval \<Rightarrow> pyval run" where
  "get_column_stats H table column =
     rbind (observe H ''pg_stats'' [table, column]) (\<lambda>column_row.
     rbind (ask H Observer (Observe ''pg_stat_user_tables'' [table])) (\<lambda>table_row.
       rreturn (if column_row = PNone \<and> table_row = PNone then PNone
         else PDict ([(''table_name'', table), (''column_name'', column)]
                @ column_row_items column_row @ table_row_items table_row))))"

section \<open>The lock graph\<close>

definition as_float :: "pyval \<Rightarrow> pyval" where
  "as_float v = (case num_val v of Some r \<Rightarrow> PFloat (Finite r) | None \<Rightarrow> v)"

definition lock_row :: "host \<Rightarrow> pyval \<Rightarrow> pyval" where
  "lock_row H row = PDict
     [(''blocked_pid'', cell row 0), (''blocked_user'', cell row 1), (''database_name'', cell row 2),
      (''blocked_application'', cell row 3), (''blocked_state'', cell row 4),
      (''blocked_wait_event_type'', cell row 5), (''blocked_wait_event'', cell row 6),
      (''blocked_query'', truncate_observed_query H (cell row 7)),
      (''blocked_query_start'', cell row 8), (''blocked_xact_start'', cell row 9),
      (''blocked_backend_start'', cell row 10),
      (''blocked_query_duration_seconds'', as_float (cell row 11)),
      (''blocked_transaction_age_seconds'', as_float (cell row 12)),
      (''blocker_pid'', cell row 13), (''blocker_user'', cell row 14),
      (''blocker_application'', cell row 15), (''blocker_database_name'', cell row 16),
      (''blocker_backend_type'', cell row 17), (''blocker_state'', cell row 18),
      (''blocker_wait_event_type'', cell row 19), (''blocker_wait_event'', cell row 20),
      (''blocker_query'', truncate_observed_query H (cell row 21)),
      (''blocker_query_start'', cell row 22), (''blocker_xact_start'', cell row 23),
      (''blocker_transaction_age_seconds'', as_float (cell row 25)),
      (''blocker_backend_start'', cell row 24),
      (''waiting_locks'', (if cell row 26 = PNone then PList [] else cell row 26))]"

definition digest_row :: "pyval \<Rightarrow> pyval" where
  "digest_row row = PDict
     (map (\<lambda>k. (k, dget row k))
       [''database_name'', ''blocked_pid'', ''blocked_backend_start'', ''blocked_xact_start'',
        ''blocker_pid'', ''blocker_backend_start'', ''blocker_xact_start'', ''blocker_state''])"

text \<open>
  One more row than the bound is requested, so a graph that does not fit is marked truncated.
\<close>

definition get_lock_graph_snapshot :: "host \<Rightarrow> pyval run" where
  "get_lock_graph_snapshot H =
     rbind (observe H ''lock_graph'' [PInt (int (h_max_rows H) + 1)]) (\<lambda>answer.
     let rows = py_items answer;
         results = map (lock_row H) (take (h_max_rows H) rows)
     in rbind (clock H) (\<lambda>now.
        rbind (rlift (json_digest (h_platform H) (PList (map digest_row results)))) (\<lambda>digest.
          rreturn (PDict
            [(''captured_at'', PStr (iso_utc now)),
             (''database_name'', (case results of [] \<Rightarrow> h_database_name H
                                  | row # _ \<Rightarrow> dget row ''database_name'')),
             (''rows'', PList results),
             (''row_count'', PInt (int (length results))),
             (''truncated'', PBool (h_max_rows H < length rows)),
             (''snapshot_digest'', PStr digest)]))))"

definition get_lock_waits :: "host \<Rightarrow> pyval run" where
  "get_lock_waits H =
     rbind (get_lock_graph_snapshot H) (\<lambda>snapshot. rlift (read_item snapshot ''rows''))"

section \<open>Plans\<close>

definition run_explain :: "host \<Rightarrow> bool \<Rightarrow> pyval \<Rightarrow> pyval run" where
  "run_explain H analyze query =
     (let operation = (if analyze then ''EXPLAIN_ANALYZE'' else ''OBSERVE'') in
      rbind (require H operation) (\<lambda>_.
      rbind (rlift (read_only_query H query)) (\<lambda>q.
      rbind (require H ''OBSERVE'') (\<lambda>_.
      rbind (require H operation) (\<lambda>_.
      rbind (ask H Observer (Explain analyze q)) (\<lambda>plan.
        if truthy plan then rreturn plan else rraise runtime_error))))))"

definition get_estimated_query_plan :: "host \<Rightarrow> pyval \<Rightarrow> pyval run" where
  "get_estimated_query_plan H query = run_explain H False query"

text \<open>An estimate is planned first; a query whose estimated cost exceeds the bound is not run.\<close>

definition get_query_plan :: "host \<Rightarrow> pyval \<Rightarrow> pyval run" where
  "get_query_plan H query =
     rbind (require H ''EXPLAIN_ANALYZE'') (\<lambda>_.
     rbind (get_estimated_query_plan H query) (\<lambda>estimated.
     rbind (rlift (read_get estimated ''Plan'' (PDict []))) (\<lambda>root.
     rbind (rlift (read_get root ''Total Cost'' PNone)) (\<lambda>total_cost.
       if total_cost = PNone then rraise runtime_error
       else case py_less (PFloat (Finite (h_max_explain_cost H))) total_cost of
           None \<Rightarrow> rraise (TypeError ''not comparable'')
         | Some True \<Rightarrow> rraise (ValueError ''EXPLAIN ANALYZE blocked by the cost policy'')
         | Some False \<Rightarrow>
             rbind (run_explain H True query) (\<lambda>analyzed.
               if is_dict analyzed
               then rreturn (dset analyzed ''SafeDBA Preflight'' (PDict
                 [(''estimated_total_cost'', total_cost),
                  (''maximum_total_cost'', PFloat (Finite (h_max_explain_cost H)))]))
               else rraise (TypeError ''item assignment''))))))"

section \<open>Benchmarks\<close>

fun run_times :: "nat \<Rightarrow> 'a run \<Rightarrow> 'a list run" where
  "run_times 0 m = rreturn []"
| "run_times (Suc n) m = rbind m (\<lambda>x. rbind (run_times n m) (\<lambda>xs. rreturn (x # xs)))"

text \<open>\<open>statistics.median\<close>, \<open>min\<close> and \<open>max\<close>: the first of equal values.\<close>

definition median :: "pyval list \<Rightarrow> pyval exc" where
  "median xs =
     ebind (py_sorted (\<lambda>v. [v]) xs) (\<lambda>ys. let n = length ys in
       if odd n then Inr (ys ! (n div 2))
       else ebind (py_add (ys ! (n div 2 - 1)) (ys ! (n div 2))) (\<lambda>s. py_div s (PInt 2)))"

definition extremes :: "pyval list \<Rightarrow> (pyval \<times> pyval) exc" where
  "extremes xs =
     ebind (py_sorted (\<lambda>v. [v]) xs) (\<lambda>ys.
       Inr (hd ys, (case find (py_eq (last ys)) xs of Some v \<Rightarrow> v | None \<Rightarrow> last ys)))"

definition benchmark_query :: "host \<Rightarrow> pyval \<Rightarrow> int \<Rightarrow> int \<Rightarrow> pyval run" where
  "benchmark_query H query warmups runs =
     rbind (require H ''BENCHMARK'') (\<lambda>_.
       if warmups < 0 \<or> runs < 1 \<or> 20 < warmups + runs
       then rraise (ValueError ''Benchmark requires integer warmups >= 0, runs >= 1, and at most 20 total executions.'')
       else
        rbind (run_times (nat warmups)
                 (rbind (require H ''BENCHMARK'') (\<lambda>_. get_query_plan H query))) (\<lambda>_.
        rbind (run_times (nat runs)
                 (rbind (require H ''BENCHMARK'') (\<lambda>_.
                  rbind (get_query_plan H query) (\<lambda>plan.
                  rlift (read_item plan ''Execution Time''))))) (\<lambda>times.
        rbind (rlift (median times)) (\<lambda>middle.
        rbind (rlift (extremes times)) (\<lambda>(least, greatest).
          rreturn (PDict [(''samples'', PList times), (''median_ms'', middle),
            (''min_ms'', least), (''max_ms'', greatest)]))))))"

definition compare_query_results :: "host \<Rightarrow> pyval \<Rightarrow> pyval \<Rightarrow> pyval run" where
  "compare_query_results H original_query rewritten_query =
     rbind (require H ''COMPARE_QUERY_RESULTS'') (\<lambda>_.
     rbind (rlift (read_only_query H original_query)) (\<lambda>original.
     rbind (rlift (read_only_query H rewritten_query)) (\<lambda>rewritten.
     rbind (require H ''OBSERVE'') (\<lambda>_.
     rbind (require H ''COMPARE_QUERY_RESULTS'') (\<lambda>_.
     rbind (ask H Observer (Compare_results original rewritten)) (\<lambda>row.
       if \<not> is_list row then rraise (TypeError ''object is not subscriptable'')
       else rreturn (PDict
         [(''equivalent'', PBool (py_eq (cell row 0) (cell row 1)
             \<and> py_eq (cell row 2) (PInt 0) \<and> py_eq (cell row 3) (PInt 0))),
          (''comparison_scope'', PStr ''CURRENT_SNAPSHOT_UNORDERED_ROW_MULTISET''),
          (''semantic_equivalence_proven'', PBool False),
          (''original_count'', cell row 0), (''rewritten_count'', cell row 1),
          (''only_original_count'', cell row 2), (''only_rewritten_count'', cell row 3)])))))))"

section \<open>Mutations\<close>

text \<open>The maintenance connection exists only in a combined process.\<close>

definition executor_connection :: "host \<Rightarrow> unit run" where
  "executor_connection H = (if h_role H \<noteq> ''combined'' then rraise runtime_error else rreturn ())"

definition terminator_connection :: "host \<Rightarrow> unit run" where
  "terminator_connection H = (if h_role H = ''agent'' then rraise runtime_error else rreturn ())"

definition create_index :: "host \<Rightarrow> pyval \<Rightarrow> pyval \<Rightarrow> pyval \<Rightarrow> pyval run" where
  "create_index H table column index_name =
     rbind (require H ''CREATE_INDEX'') (\<lambda>_.
     rbind (executor_connection H) (\<lambda>_.
     rbind (require H ''CREATE_INDEX'') (\<lambda>_.
     rbind (ask H Maintenance (Create_index index_name table column)) (\<lambda>_.
     rbind (ask H Maintenance (Index_identity index_name (Some table))) (\<lambda>identity.
       if identity = PNone then rraise runtime_error
       else rreturn (PDict [(''index_oid'', cell identity 0), (''table_oid'', cell identity 1),
              (''schema'', cell identity 2), (''index_name'', cell identity 3)]))))))"

definition analyze_table :: "host \<Rightarrow> pyval \<Rightarrow> pyval \<Rightarrow> unit run" where
  "analyze_table H table columns =
     rbind (require H ''ANALYZE_TABLE'') (\<lambda>_.
     rbind (executor_connection H) (\<lambda>_.
     rbind (require H ''ANALYZE_TABLE'') (\<lambda>_.
     rbind (ask H Maintenance (Analyze_table table (py_items (py_or columns (PList []))))) (\<lambda>_.
       rreturn ()))))"

definition drop_index :: "host \<Rightarrow> pyval \<Rightarrow> pyval \<Rightarrow> pyval \<Rightarrow> unit run" where
  "drop_index H index_name expected_index_oid expected_table_oid =
     rbind (require H ''DROP_INDEX'') (\<lambda>_.
     rbind (executor_connection H) (\<lambda>_.
     rbind (ask H Maintenance (Index_identity index_name None)) (\<lambda>identity.
       if \<not> (is_list identity \<and> py_eqs (py_items identity) [expected_index_oid, expected_table_oid])
       then rraise runtime_error
       else rbind (require H ''DROP_INDEX'') (\<lambda>_.
            rbind (ask H Maintenance (Drop_index index_name)) (\<lambda>_. rreturn ())))))"

definition terminate_blocking_backend ::
  "host \<Rightarrow> pyval \<Rightarrow> pyval \<Rightarrow> pyval \<Rightarrow> pyval \<Rightarrow> pyval \<Rightarrow> pyval \<Rightarrow> pyval \<Rightarrow> pyval run" where
  "terminate_blocking_backend H blocked_pid blocker_pid blocker_backend_start blocker_xact_start
      timeout_ms blocked_backend_start blocked_xact_start =
     rbind (require H ''TERMINATE_BACKEND'') (\<lambda>_.
     rbind (terminator_connection H) (\<lambda>_.
     rbind (require H ''TERMINATE_BACKEND'') (\<lambda>_.
     rbind (ask H Terminator (Terminate_backend blocker_pid blocked_pid blocked_backend_start
              blocked_xact_start blocker_backend_start blocker_xact_start timeout_ms)) (\<lambda>row.
       if row = PNone then rreturn (PDict [(''final_validation_passed'', PBool False),
         (''terminated'', PBool False),
         (''reason'', PStr ''The blocked or blocking backend is no longer present.'')])
       else rreturn (PDict
         [(''executor_pid'', cell row 0), (''executor_database'', cell row 1),
          (''blocked_pid'', cell row 2), (''blocked_database'', cell row 3),
          (''blocked_state'', cell row 4), (''blocked_wait_event_type'', cell row 5),
          (''blocked_wait_event'', cell row 6),
          (''blocked_query'', truncate_observed_query H (cell row 7)),
          (''blocked_xact_start'', cell row 8), (''blocked_backend_start'', cell row 9),
          (''blocker_pid'', cell row 10), (''blocker_database'', cell row 11),
          (''blocker_user'', cell row 12), (''blocker_backend_type'', cell row 13),
          (''blocker_state'', cell row 14),
          (''blocker_query'', truncate_observed_query H (cell row 15)),
          (''blocker_xact_start'', cell row 16), (''blocker_backend_start'', cell row 17),
          (''still_blocking'', cell row 18), (''final_validation_passed'', cell row 19),
          (''terminated'', cell row 20)])))))"

section \<open>What the tools send\<close>

text \<open>The operation a statement executes; observations and plain estimates execute none.\<close>

fun operation_of :: "statement \<Rightarrow> string option" where
  "operation_of (Explain analyze q) = (if analyze then Some ''EXPLAIN_ANALYZE'' else None)"
| "operation_of (Compare_results a b) = Some ''COMPARE_QUERY_RESULTS''"
| "operation_of (Create_index i t c) = Some ''CREATE_INDEX''"
| "operation_of (Drop_index i) = Some ''DROP_INDEX''"
| "operation_of (Analyze_table t cs) = Some ''ANALYZE_TABLE''"
| "operation_of (Terminate_backend a b c d e f g) = Some ''TERMINATE_BACKEND''"
| "operation_of _ = None"

definition guarded :: "host \<Rightarrow> string \<Rightarrow> bool" where
  "guarded H q \<longleftrightarrow> (\<exists>query. read_only_query H query = Inr q)"

fun proper_connection :: "host \<Rightarrow> connection \<Rightarrow> statement \<Rightarrow> bool" where
  "proper_connection H c (Observe _ _) \<longleftrightarrow> c = Observer"
| "proper_connection H c Inspect_identity \<longleftrightarrow>
     c = Observer \<or> (c = Maintenance \<and> h_role H = ''combined'') \<or> (c = Terminator \<and> h_role H \<noteq> ''agent'')"
| "proper_connection H c (Explain _ q) \<longleftrightarrow> c = Observer \<and> guarded H q"
| "proper_connection H c (Compare_results a b) \<longleftrightarrow> c = Observer \<and> guarded H a \<and> guarded H b"
| "proper_connection H c (Terminate_backend _ _ _ _ _ _ _) \<longleftrightarrow> c = Terminator \<and> h_role H \<noteq> ''agent''"
| "proper_connection H c _ \<longleftrightarrow> c = Maintenance \<and> h_role H = ''combined''"

text \<open>
  A statement is disciplined when the runtime policy, read anew immediately before, allowed
  its operation, and when it goes over the connection meant for it, with the text of every
  query accepted by the guard.
\<close>

definition disciplined :: "host \<Rightarrow> nat \<times> connection \<times> statement \<Rightarrow> bool" where
  "disciplined H = (\<lambda>(n, c, s).
     (case operation_of s of None \<Rightarrow> True
      | Some op \<Rightarrow> 0 < n \<and> require_operation (h_policy H (n - 1)) op = Inr ())
     \<and> proper_connection H c s)"

definition reading :: "host \<Rightarrow> nat \<times> connection \<times> statement \<Rightarrow> bool" where
  "reading H t \<longleftrightarrow> disciplined H t \<and> fst (snd t) = Observer"

definition maintaining :: "host \<Rightarrow> nat \<times> connection \<times> statement \<Rightarrow> bool" where
  "maintaining H t \<longleftrightarrow> disciplined H t \<and> fst (snd t) = Maintenance"

lemma reading_observe: "reading H (n, Observer, Observe name as)"
  by (simp add: reading_def disciplined_def)

lemmas sends_rules = sends.obeys_intros obeys_effects
lemmas same_rules = inert.obeys_intros obeys_effects

lemma observe_sends: "obeys (sends (reading H)) (observe H name as)"
  unfolding observe_def by (intro sends.obeys_bind obeys_effects obeys_ask(2) reading_observe)

lemma run_explain_sends: "obeys (sends (reading H)) (run_explain H analyze query)"
proof -
  have read: "reading H (Suc n, Observer, Explain analyze q)"
    if "read_only_query H query = Inr q"
      "require_operation (h_policy H n) (if analyze then ''EXPLAIN_ANALYZE'' else ''OBSERVE'') = Inr ()" for n q
    using that by (auto simp: reading_def disciplined_def guarded_def split: if_splits)
  show ?thesis
    unfolding run_explain_def Let_def
    by (rule sends.obeys_bind, rule obeys_effects, rule sends.obeys_bind_lift, rule sends.obeys_bind,
        rule obeys_effects, rule sends_gated, rule read, assumption+) (rule sends_rules)+
qed

lemma get_query_plan_sends: "obeys (sends (reading H)) (get_query_plan H query)"
  unfolding get_query_plan_def get_estimated_query_plan_def
  by (rule run_explain_sends sends_rules)+

lemma catalog_sends:
  "obeys (sends (reading H)) (get_indexes H table)"
  "obeys (sends (reading H)) (get_table_columns H table)"
  "obeys (sends (reading H)) (get_column_stats H table column)"
  "obeys (sends (reading H)) (get_lock_graph_snapshot H)"
  unfolding get_indexes_def get_table_columns_def get_column_stats_def get_lock_graph_snapshot_def Let_def
  by (rule observe_sends sends_rules obeys_ask(2) reading_observe)+

lemma get_lock_waits_sends: "obeys (sends (reading H)) (get_lock_waits H)"
  unfolding get_lock_waits_def by (rule catalog_sends sends_rules)+

lemma run_times_sends: "obeys (sends S) m \<Longrightarrow> obeys (sends S) (run_times n m)"
  by (induction n) (simp, rule sends_rules, simp, (rule sends_rules | assumption)+)

lemma benchmark_query_sends: "obeys (sends (reading H)) (benchmark_query H query warmups runs)"
  unfolding benchmark_query_def
  by (rule run_times_sends get_query_plan_sends sends_rules)+

lemma compare_query_results_sends: "obeys (sends (reading H)) (compare_query_results H q r)"
proof -
  have read: "reading H (Suc n, Observer, Compare_results a b)"
    if "read_only_query H q = Inr a" "read_only_query H r = Inr b"
      "require_operation (h_policy H n) ''COMPARE_QUERY_RESULTS'' = Inr ()" for n a b
    using that by (auto simp: reading_def disciplined_def guarded_def)
  show ?thesis
    unfolding compare_query_results_def
    by (rule sends.obeys_bind, rule obeys_effects, rule sends.obeys_bind_lift, rule sends.obeys_bind_lift,
        rule sends.obeys_bind, rule obeys_effects, rule sends_gated, rule read, assumption+)
      (rule sends_rules)+
qed

text \<open>A connection that is refused sends nothing.\<close>

lemma executor_connection_sends:
  "(h_role H = ''combined'' \<Longrightarrow> obeys (sends S) f) \<Longrightarrow> obeys (sends S) (rbind (executor_connection H) (\<lambda>_. f))"
  by (auto simp: executor_connection_def rbind_def obeys_def sends_refl)

lemma terminator_connection_sends:
  "(h_role H \<noteq> ''agent'' \<Longrightarrow> obeys (sends S) f) \<Longrightarrow> obeys (sends S) (rbind (terminator_connection H) (\<lambda>_. f))"
  by (auto simp: terminator_connection_def rbind_def obeys_def sends_refl)

lemma maintaining_mutation:
  assumes "h_role H = ''combined''"
  shows "maintaining H (n, Maintenance, Index_identity i t)"
    "require_operation (h_policy H n) ''CREATE_INDEX'' = Inr () \<Longrightarrow> maintaining H (Suc n, Maintenance, Create_index i t' c)"
    "require_operation (h_policy H n) ''DROP_INDEX'' = Inr () \<Longrightarrow> maintaining H (Suc n, Maintenance, Drop_index i)"
    "require_operation (h_policy H n) ''ANALYZE_TABLE'' = Inr () \<Longrightarrow> maintaining H (Suc n, Maintenance, Analyze_table t' cs)"
  using assms by (auto simp: maintaining_def disciplined_def)

lemma create_index_sends: "obeys (sends (maintaining H)) (create_index H table column index_name)"
  unfolding create_index_def
  by (rule sends.obeys_bind, rule obeys_effects, rule executor_connection_sends, rule sends_gated,
      rule maintaining_mutation(2), assumption+)
    (rule obeys_ask(2) maintaining_mutation(1) sends_rules | assumption)+

lemma analyze_table_sends: "obeys (sends (maintaining H)) (analyze_table H table columns)"
  unfolding analyze_table_def
  by (rule sends.obeys_bind, rule obeys_effects, rule executor_connection_sends, rule sends_gated,
      rule maintaining_mutation(4), assumption+) (rule sends_rules)+

lemma drop_index_sends: "obeys (sends (maintaining H)) (drop_index H index_name io to)"
  unfolding drop_index_def
  by (rule sends.obeys_bind, rule obeys_effects, rule executor_connection_sends, rule sends.obeys_bind,
      rule obeys_ask(2), rule maintaining_mutation(1), assumption, rule sends.obeys_if, rule sends_rules,
      rule sends_gated, rule maintaining_mutation(3), assumption+) (rule sends_rules)+

lemma terminate_sends: "obeys (sends (disciplined H)) (terminate_blocking_backend H a b c d e f g)"
proof -
  have read: "disciplined H (Suc n, Terminator, Terminate_backend b a f g c d e)"
    if "h_role H \<noteq> ''agent''" "require_operation (h_policy H n) ''TERMINATE_BACKEND'' = Inr ()" for n
    using that by (simp add: disciplined_def)
  show ?thesis
    unfolding terminate_blocking_backend_def
    by (rule sends.obeys_bind, rule obeys_effects, rule terminator_connection_sends, rule sends_gated,
        rule read, assumption+) (rule sends_rules)+
qed

section \<open>The tools leave the store alone\<close>

lemma connections_same: "obeys inert (executor_connection H)" "obeys inert (terminator_connection H)"
  by (auto simp: executor_connection_def terminator_connection_def obeys_def inert.refl)

lemma run_times_same: "obeys inert m \<Longrightarrow> obeys inert (run_times n m)"
  by (induction n) (simp, rule same_rules, simp, (rule same_rules | assumption)+)

lemma observe_same: "obeys inert (observe H name as)"
  unfolding observe_def by (rule same_rules)+

lemma plan_same: "obeys inert (get_query_plan H query)"
  unfolding get_query_plan_def get_estimated_query_plan_def run_explain_def Let_def
  by (rule same_rules)+

lemma tools_same:
  "obeys inert (get_indexes H table)" "obeys inert (get_table_columns H table)"
  "obeys inert (get_column_stats H table column)" "obeys inert (get_lock_graph_snapshot H)"
  "obeys inert (benchmark_query H query warmups runs)" "obeys inert (compare_query_results H q r)"
  "obeys inert (create_index H table column index_name)" "obeys inert (analyze_table H table columns)"
  "obeys inert (drop_index H index_name io to)"
  "obeys inert (terminate_blocking_backend H a b c d e f g)"
  unfolding get_indexes_def get_table_columns_def get_column_stats_def get_lock_graph_snapshot_def
    benchmark_query_def compare_query_results_def create_index_def analyze_table_def drop_index_def
    terminate_blocking_backend_def Let_def
  by (rule observe_same run_times_same plan_same connections_same same_rules)+

lemma get_lock_waits_same: "obeys inert (get_lock_waits H)"
  unfolding get_lock_waits_def by (rule tools_same same_rules)+

end
