(* ===== verification/Diagnostics.thy ===== *)
theory Diagnostics
  imports DbTools
begin

text \<open>
  \<open>diagnostics.py\<close>: the evidence taken from a query plan. \<open>extract_predicate_columns\<close> is the
  lexer of rendered predicates, \<open>analyze_query_plan\<close> the scans and the cardinality error of a
  plan, \<open>detect_cardinality_anomalies\<close> and \<open>detect_non_sargable_predicates\<close> the findings.
  Numbers of a plan are exact: a quotient of two row counts is a rational.
\<close>

section \<open>Predicate columns\<close>

definition EXPRESSION_KEYWORDS :: "string list" where
  "EXPRESSION_KEYWORDS =
    [''all'', ''and'', ''any'', ''array'', ''as'', ''asc'', ''between'', ''bigint'', ''bigserial'',
     ''bit'', ''boolean'', ''both'', ''case'', ''char'', ''character'', ''collate'', ''current'',
     ''date'', ''decimal'', ''desc'', ''distinct'', ''double'', ''else'', ''end'', ''false'',
     ''inet'', ''integer'', ''interval'', ''json'', ''jsonb'', ''from'', ''in'', ''is'', ''leading'',
     ''like'', ''not'', ''null'', ''nulls'', ''numeric'', ''or'', ''overlaps'', ''placing'',
     ''precision'', ''real'', ''serial'', ''smallint'', ''smallserial'', ''similar'', ''some'',
     ''symmetric'', ''text'', ''then'', ''time'', ''timestamp'', ''trailing'', ''true'',
     ''unknown'', ''uuid'', ''varchar'', ''varying'', ''when'', ''with'', ''without'', ''zone'']"

text \<open>
  The text after a string literal (all of it when the literal is not closed), after its
  opening quote. A backslash at the very end escapes nothing.
\<close>

fun skip_literal :: "bool \<Rightarrow> string \<Rightarrow> string" where
  "skip_literal esc [] = []"
| "skip_literal esc [c] = []"
| "skip_literal esc (c # d # s) =
     (if esc \<and> c = BACKSLASH then skip_literal esc s
      else if c = QUOTE then (if d = QUOTE then skip_literal esc s else d # s)
      else skip_literal esc (d # s))"

definition skip_dollar :: "string \<Rightarrow> string \<Rightarrow> string" where
  "skip_dollar delimiter s =
     (case after_text delimiter (drop (length delimiter) s) of None \<Rightarrow> [] | Some rest \<Rightarrow> rest)"

text \<open>
  One turn of the loop: the output so far, last character first, the output for the token at
  the head of \<open>s\<close>, and the text left. An escape string blanks its prefix too.
\<close>

definition mask_expression_token :: "string \<Rightarrow> string \<Rightarrow> string \<Rightarrow> string \<times> string \<times> string" where
  "mask_expression_token prev out s =
     (case s of [] \<Rightarrow> (out, [], [])
      | c # t \<Rightarrow>
        if c = QUOTE then
          (let rest = skip_literal (escape_prefix prev) t in
           ((if escape_prefix prev then CHR '' '' # tl out else out), blank (consumed s rest), rest))
        else (case (if c = CHR ''$'' then dollar_tag t else None) of
                None \<Rightarrow> (out, [c], t)
              | Some tag \<Rightarrow> (let rest = skip_dollar (''$'' @ tag @ ''$'') s in
                             (out, blank (consumed s rest), rest))))"

lemma skip_literal_length: "length (skip_literal esc s) \<le> length s"
  by (induction esc s rule: skip_literal.induct) auto

lemma skip_dollar_length: "length (skip_dollar d s) \<le> length s - length d"
  using after_text_length [of d "drop (length d) s"]
  by (auto simp: skip_dollar_def split: option.split)

lemma mask_expression_token_length:
  assumes "s \<noteq> []" and "mask_expression_token prev out s = (out', now, rest)"
  shows "length rest < length s"
proof -
  obtain c t where s: "s = c # t" using assms(1) by (cases s) auto
  have quote: "length (skip_literal esc t) < length s" for esc
    using skip_literal_length [of esc t] by (simp add: s)
  have dollar: "length (skip_dollar (''$'' @ tag @ ''$'') s) < length s" for tag
    using skip_dollar_length [of "''$'' @ tag @ ''$''" s] by (simp add: s)
  show ?thesis
    using assms(2) quote dollar unfolding mask_expression_token_def s
    by (auto simp: Let_def split: if_splits option.splits)
qed

function mask_expression_from :: "string \<Rightarrow> string \<Rightarrow> string \<Rightarrow> string" where
  "mask_expression_from prev out s =
     (if s = [] then rev out
      else case mask_expression_token prev out s of
        (out', now, rest) \<Rightarrow> mask_expression_from (rev (consumed s rest) @ prev) (rev now @ out') rest)"
  by pat_completeness auto
termination
  by (relation "measure (\<lambda>(prev, out, s). length s)") (auto dest: mask_expression_token_length [OF _ sym])

declare mask_expression_from.simps [simp del]

definition mask_expression_literals :: "string \<Rightarrow> string" where
  "mask_expression_literals expression = mask_expression_from [] [] expression"

text \<open>
  \<open>(?:"(?:[^"]|"")*"|[A-Za-z_][A-Za-z0-9_$]*)\<close>: the text after the component. A doubled quote
  is part of the name unless the name then has no end.
\<close>

fun quoted_end :: "string \<Rightarrow> string option" where
  "quoted_end [] = None"
| "quoted_end [c] = (if c = DQUOTE then Some [] else None)"
| "quoted_end (c # d # s) =
     (if c \<noteq> DQUOTE then quoted_end (d # s)
      else if d = DQUOTE then (case quoted_end s of Some r \<Rightarrow> Some r | None \<Rightarrow> Some (d # s))
      else Some (d # s))"

definition component_end :: "string \<Rightarrow> string option" where
  "component_end s = (case s of [] \<Rightarrow> None
     | c # t \<Rightarrow> if c = DQUOTE then quoted_end t
               else if tag_start c then Some (dropWhile name_char t) else None)"

lemma quoted_end_length: "quoted_end s = Some r \<Longrightarrow> length r < length s"
  by (induction s arbitrary: r rule: quoted_end.induct) (fastforce split: if_splits option.splits)+

lemma component_end_length: "component_end s = Some r \<Longrightarrow> length r < length s"
  using length_dropWhile_le [of name_char "tl s"]
  by (auto simp: component_end_def less_Suc_eq_le split: list.splits if_splits dest: quoted_end_length)

text \<open>\<open>\s*\.\s*component\<close>\<close>

definition qualified_end :: "string \<Rightarrow> string option" where
  "qualified_end s = (case spaces s of [] \<Rightarrow> None
     | c # t \<Rightarrow> if c = CHR ''.'' then component_end (spaces t) else None)"

lemma qualified_end_length: "qualified_end s = Some r \<Longrightarrow> length r < length s"
proof -
  assume "qualified_end s = Some r"
  then obtain t where t: "spaces s = CHR ''.'' # t" "component_end (spaces t) = Some r"
    by (auto simp: qualified_end_def split: list.splits if_splits)
  have "length (spaces t) \<le> length t" "length (spaces s) \<le> length s"
    by (simp_all add: spaces_def length_dropWhile_le)
  with t component_end_length [OF t(2)] show ?thesis by simp
qed

function chain_end :: "string \<Rightarrow> string" where
  "chain_end s = (case qualified_end s of None \<Rightarrow> s | Some r \<Rightarrow> chain_end r)"
  by pat_completeness auto
termination
  by (relation "measure length") (auto dest: qualified_end_length)

declare chain_end.simps [simp del]

definition identifier_chain :: "string \<Rightarrow> string option" where
  "identifier_chain s = map_option chain_end (component_end s)"

text \<open>\<open>component(?:\s*\.\s*component)?\<close>\<close>

definition name_end :: "string \<Rightarrow> string option" where
  "name_end s = map_option (\<lambda>r. case qualified_end r of None \<Rightarrow> r | Some r' \<Rightarrow> r') (component_end s)"

text \<open>\<open>(?:\s*\[\s*\])*\<close>\<close>

definition bracket_end :: "string \<Rightarrow> string option" where
  "bracket_end s = (case spaces s of [] \<Rightarrow> None
     | c # t \<Rightarrow> if c = CHR ''['' then
                 (case spaces t of [] \<Rightarrow> None | d # u \<Rightarrow> if d = CHR '']'' then Some u else None)
               else None)"

lemma bracket_end_length: "bracket_end s = Some r \<Longrightarrow> length r < length s"
proof -
  assume "bracket_end s = Some r"
  then obtain t where t: "spaces s = CHR ''['' # t" "spaces t = CHR '']'' # r"
    by (auto simp: bracket_end_def split: list.splits if_splits)
  have "length (spaces t) \<le> length t" "length (spaces s) \<le> length s"
    by (simp_all add: spaces_def length_dropWhile_le)
  with t show ?thesis by simp
qed

function brackets_end :: "string \<Rightarrow> string" where
  "brackets_end s = (case bracket_end s of None \<Rightarrow> s | Some r \<Rightarrow> brackets_end r)"
  by pat_completeness auto
termination
  by (relation "measure length") (auto dest: bracket_end_length)

declare brackets_end.simps [simp del]

definition type_cast :: "char option \<Rightarrow> string \<Rightarrow> string option" where
  "type_cast prev s =
     (if take 2 s = ''::'' then map_option brackets_end (name_end (spaces (drop 2 s))) else None)"

definition collation :: "char option \<Rightarrow> string \<Rightarrow> string option" where
  "collation prev s =
     (if not_after is_word prev
      then (case Option.bind (lit ''collate'' s) spaces1 of None \<Rightarrow> None | Some r \<Rightarrow> name_end r)
      else None)"

text \<open>\<open>pattern.sub(blanks, s)\<close>: leftmost matches, none inside another.\<close>

function blank_matches :: "(char option \<Rightarrow> string \<Rightarrow> string option) \<Rightarrow> char option \<Rightarrow> string \<Rightarrow> string" where
  "blank_matches m prev s =
     (case s of [] \<Rightarrow> []
      | c # t \<Rightarrow>
        (case m prev s of
           Some rest \<Rightarrow> (if length rest < length s
              then blank (consumed s rest) @ blank_matches m (Some (last (consumed s rest))) rest
              else c # blank_matches m (Some c) t)
         | None \<Rightarrow> c # blank_matches m (Some c) t))"
  by pat_completeness auto
termination
  by (relation "measure (\<lambda>(m, prev, s). length s)") auto

declare blank_matches.simps [simp del]

text \<open>\<open>\bAS\s*$\<close> before a name.\<close>

definition follows_as :: "string \<Rightarrow> bool" where
  "follows_as reversed =
     (case dropWhile is_space reversed of
        s # a # rest \<Rightarrow> ascii_lower s = CHR ''s'' \<and> ascii_lower a = CHR ''a'' \<and> word_end rest
      | _ \<Rightarrow> False)"

text \<open>The components of a chain, in order.\<close>

function components :: "string \<Rightarrow> string list" where
  "components s =
     (case s of [] \<Rightarrow> []
      | c # t \<Rightarrow>
        (case component_end s of
           Some rest \<Rightarrow> (if length rest < length s then consumed s rest # components rest else components t)
         | None \<Rightarrow> components t))"
  by pat_completeness auto
termination
  by (relation "measure length") auto

declare components.simps [simp del]

text \<open>\<open>.replace('""', '"')\<close> on the inside of a quoted component.\<close>

fun undouble :: "string \<Rightarrow> string" where
  "undouble (c # d # s) = (if c = DQUOTE \<and> d = DQUOTE then DQUOTE # undouble s else c # undouble (d # s))"
| "undouble s = s"

definition component_name :: "string \<Rightarrow> string" where
  "component_name x = (if take 1 x = [DQUOTE] then undouble (butlast (tl x)) else lower x)"

definition add_column :: "string list \<Rightarrow> string \<Rightarrow> string list" where
  "add_column columns x =
     (let name = component_name x in
      if name = [] \<or> List.member EXPRESSION_KEYWORDS (lower name) \<or> List.member columns name
      then columns else columns @ [name])"

text \<open>\<open>finditer\<close> over the masked text; \<open>prev\<close> is what precedes \<open>s\<close>, last character first.\<close>

function find_columns :: "string list \<Rightarrow> string \<Rightarrow> string \<Rightarrow> string list" where
  "find_columns columns prev s =
     (case s of [] \<Rightarrow> columns
      | c # t \<Rightarrow>
        (case identifier_chain s of
           None \<Rightarrow> find_columns columns (c # prev) t
         | Some rest \<Rightarrow>
            (if length rest < length s
             then (let raw = consumed s rest; prev' = rev raw @ prev in
                   if take 1 (lstrip rest) = ''('' \<or> follows_as prev then find_columns columns prev' rest
                   else find_columns (add_column columns (last (components raw))) prev' rest)
             else find_columns columns (c # prev) t)))"
  by pat_completeness auto
termination
  by (relation "measure (\<lambda>(columns, prev, s). length s)") auto

declare find_columns.simps [simp del]

definition extract_predicate_columns :: "pyval \<Rightarrow> string list" where
  "extract_predicate_columns expression =
     (if \<not> nonblank expression then []
      else find_columns [] []
        (blank_matches collation None
          (blank_matches type_cast None (mask_expression_literals (str_of expression)))))"

section \<open>Plans\<close>

fun map_exc :: "('a \<Rightarrow> 'b exc) \<Rightarrow> 'a list \<Rightarrow> 'b list exc" where
  "map_exc f [] = Inr []"
| "map_exc f (x # xs) = ebind (f x) (\<lambda>y. ebind (map_exc f xs) (\<lambda>ys. Inr (y # ys)))"

lemma dget_default_size: "dget_default v k (PList []) = PList xs \<Longrightarrow> x \<in> set xs \<Longrightarrow> size x < size v"
proof -
  assume v: "dget_default v k (PList []) = PList xs" and x: "x \<in> set xs"
  then obtain kvs where kvs: "v = PDict kvs" "(k, PList xs) \<in> set kvs"
    by (cases v) (auto simp: dget_default_def dest: map_of_SomeD split: option.splits)
  have "size (PList xs) < size v"
    using kvs(2) unfolding kvs(1) by (induction kvs) auto
  moreover have "size x < size (PList xs)" using x by (induction xs) auto
  ultimately show ?thesis by simp
qed

text \<open>A node and all below it, in preorder.\<close>

function find_nodes :: "pyval \<Rightarrow> pyval list exc" where
  "find_nodes node =
     (if \<not> is_dict node then Inl (AttributeError ''get'')
      else case dget_default node ''Plans'' (PList []) of
          PList children \<Rightarrow>
            ebind (map_exc (\<lambda>child. if child \<in> set children then find_nodes child else Inr []) children)
              (\<lambda>below. Inr (node # concat below))
        | _ \<Rightarrow> Inl (TypeError ''object is not iterable''))"
  by pat_completeness auto
termination
  by (relation "measure size") (auto dest: dget_default_size)

declare find_nodes.simps [simp del]

definition SCAN_TYPES :: "string list" where
  "SCAN_TYPES = [''Seq Scan'', ''Index Scan'', ''Index Only Scan'', ''Bitmap Heap Scan'', ''Bitmap Index Scan'']"

definition scan_name :: "pyval \<Rightarrow> pyval" where
  "scan_name node =
     (if dget node ''Node Type'' = PStr ''Seq Scan''
      then (if truthy (dget_default node ''Parallel Aware'' (PBool False))
            then PStr ''Parallel Sequential Scan'' else PStr ''Sequential Scan'')
      else dget node ''Node Type'')"

text \<open>Row counts are per loop; the evidence has the totals.\<close>

definition scan_evidence :: "pyval \<Rightarrow> pyval exc" where
  "scan_evidence node =
     (let loops = dget_default node ''Actual Loops'' (PInt 1) in
      ebind (py_mul (dget_default node ''Actual Rows'' (PInt 0)) loops) (\<lambda>returned.
      ebind (py_mul (dget_default node ''Rows Removed by Filter'' (PInt 0)) loops) (\<lambda>removed.
      ebind (py_add returned removed) (\<lambda>examined.
      ebind (py_gt examined (PInt 0)) (\<lambda>some.
      ebind (if some then py_div returned examined else Inr PNone) (\<lambda>selectivity.
      ebind (py_gt loops (PInt 1)) (\<lambda>approximate.
        Inr (PDict
          [(''scan_type'', scan_name node), (''table'', dget node ''Relation Name''),
           (''filter'', dget node ''Filter''),
           (''predicate_columns'', PList (map PStr (extract_predicate_columns (dget node ''Filter'')))),
           (''index_name'', dget node ''Index Name''), (''index_cond'', dget node ''Index Cond''),
           (''recheck_cond'', dget node ''Recheck Cond''), (''loops'', loops),
           (''rows_returned'', returned), (''rows_removed_by_filter'', removed),
           (''rows_examined'', examined), (''row_counts_approximate'', PBool approximate),
           (''selectivity'', selectivity),
           (''shared_hit_blocks'', dget_default node ''Shared Hit Blocks'' (PInt 0)),
           (''shared_read_blocks'', dget_default node ''Shared Read Blocks'' (PInt 0))]))))))))"

definition is_scan :: "pyval \<Rightarrow> bool" where
  "is_scan node \<longleftrightarrow> list_ex (\<lambda>t. dget node ''Node Type'' = PStr t) SCAN_TYPES"

text \<open>The error ratio, or the state that has no finite ratio.\<close>

definition cardinality_error :: "pyval \<Rightarrow> pyval \<Rightarrow> (pyval \<times> pyval) exc" where
  "cardinality_error estimated actual =
     ebind (py_gt estimated (PInt 0)) (\<lambda>e.
     ebind (py_gt actual (PInt 0)) (\<lambda>a.
       if e \<and> a then
         ebind (py_div estimated actual) (\<lambda>r.
         ebind (py_div actual estimated) (\<lambda>s.
         ebind (py_max r s) (\<lambda>m. Inr (m, PNone))))
       else if py_eq estimated (PInt 0) \<and> a
       then Inr (PNone, PStr ''ZERO_ESTIMATE_WITH_ACTUAL_ROWS'')
       else if e \<and> py_eq actual (PInt 0)
       then Inr (PNone, PStr ''ESTIMATED_ROWS_WITH_ZERO_ACTUAL'')
       else Inr (PNone, PNone)))"

definition analyze_query_plan :: "pyval \<Rightarrow> pyval exc" where
  "analyze_query_plan plan =
     ebind (read_item plan ''Plan'') (\<lambda>root.
     ebind (read_get root ''Plan Rows'' (PInt 0)) (\<lambda>estimated.
     ebind (py_mul (dget_default root ''Actual Rows'' (PInt 0)) (dget_default root ''Actual Loops'' (PInt 1))) (\<lambda>actual.
     ebind (cardinality_error estimated actual) (\<lambda>(ratio, state).
     ebind (find_nodes root) (\<lambda>nodes.
     ebind (map_exc scan_evidence (filter is_scan nodes)) (\<lambda>scans.
       Inr (PDict
         [(''planning_time_ms'', dget plan ''Planning Time''),
          (''execution_time_ms'', dget plan ''Execution Time''),
          (''estimated_output_rows'', estimated), (''actual_output_rows'', actual),
          (''cardinality_error_ratio'', ratio), (''cardinality_error_state'', state),
          (''scan_nodes'', PList scans)])))))))"

section \<open>Findings\<close>

definition detect_cardinality_anomalies :: "pyval \<Rightarrow> pyval \<Rightarrow> pyval list exc" where
  "detect_cardinality_anomalies analysis threshold =
     (let estimated = dget analysis ''estimated_output_rows''; actual = dget analysis ''actual_output_rows'';
          ratio = dget analysis ''cardinality_error_ratio''; state = dget analysis ''cardinality_error_state''
      in if state \<noteq> PNone then Inr [PDict
           [(''type'', PStr ''SEVERE_CARDINALITY_ERROR''), (''estimated_rows'', estimated),
            (''actual_rows'', actual), (''error_ratio'', PNone), (''unbounded_error'', PBool True),
            (''direction'', PStr (if py_eq state (PStr ''ZERO_ESTIMATE_WITH_ACTUAL_ROWS'')
               then ''UNDER_ESTIMATE'' else ''OVER_ESTIMATE'')),
            (''state'', state), (''threshold'', threshold)]]
         else if estimated = PNone \<or> actual = PNone \<or> ratio = PNone then Inr []
         else
          ebind (py_gt threshold ratio) (\<lambda>low.
          if low then Inr [] else
          ebind (py_gt actual estimated) (\<lambda>under.
          ebind (py_gt estimated actual) (\<lambda>over.
            Inr [PDict
             [(''type'', PStr ''SEVERE_CARDINALITY_ERROR''), (''estimated_rows'', estimated),
              (''actual_rows'', actual), (''error_ratio'', ratio),
              (''direction'', PStr (if under then ''UNDER_ESTIMATE'' else if over then ''OVER_ESTIMATE'' else ''MATCH'')),
              (''threshold'', threshold)]]))))"

text \<open>\<open>re.search(r"\(\s*NAME\b", definition, re.IGNORECASE)\<close>\<close>

definition word_boundary :: "string \<Rightarrow> string \<Rightarrow> bool" where
  "word_boundary name rest \<longleftrightarrow>
     (case rev name of [] \<Rightarrow> False | c # _ \<Rightarrow> is_word c) \<noteq> starts_with_char is_word rest"

definition name_here :: "string \<Rightarrow> string \<Rightarrow> bool" where
  "name_here name s \<longleftrightarrow> map lower_char (take (length name) s) = map lower_char name
     \<and> word_boundary name (drop (length name) s)"

fun after_spaces :: "(string \<Rightarrow> bool) \<Rightarrow> string \<Rightarrow> bool" where
  "after_spaces p [] = p []"
| "after_spaces p (c # s) = (p (c # s) \<or> (is_space c \<and> after_spaces p s))"

definition index_column_at :: "string \<Rightarrow> char option \<Rightarrow> string \<Rightarrow> bool" where
  "index_column_at name prev s =
     (case s of [] \<Rightarrow> False | c # t \<Rightarrow> c = CHR ''('' \<and> after_spaces (name_here name) t)"

fun column_has_index :: "string \<Rightarrow> pyval list \<Rightarrow> bool exc" where
  "column_has_index column [] = Inr False"
| "column_has_index column (index # indexes) =
     ebind (read_item index ''index_definition'') (\<lambda>d.
       if \<not> is_str d then Inl (TypeError ''expected string'')
       else if search_from (index_column_at column) None (str_of d) then Inr True
       else column_has_index column indexes)"

text \<open>A function call on one column: its function, its column, and the text after it.\<close>

definition call_on_column :: "char option \<Rightarrow> string \<Rightarrow> (string \<times> string \<times> string) option" where
  "call_on_column prev s =
     (if not_after is_word prev \<and> starts_with_char tag_start s then
        (case spaces (dropWhile tag_char s) of [] \<Rightarrow> None
         | c # t \<Rightarrow>
            if c = CHR ''('' \<and> starts_with_char tag_start (spaces t) then
              (case spaces (dropWhile tag_char (spaces t)) of [] \<Rightarrow> None
               | d # rest \<Rightarrow> if d = CHR '')''
                   then Some (takeWhile tag_char s, takeWhile tag_char (spaces t), rest) else None)
            else None)
      else None)"

function calls_on_columns :: "char option \<Rightarrow> string \<Rightarrow> (string \<times> string) list" where
  "calls_on_columns prev s =
     (case s of [] \<Rightarrow> []
      | c # t \<Rightarrow>
        (case call_on_column prev s of
           None \<Rightarrow> calls_on_columns (Some c) t
         | Some (f, column, rest) \<Rightarrow>
            (if length rest < length s then (f, column) # calls_on_columns (Some CHR '')'') rest
             else calls_on_columns (Some c) t)))"
  by pat_completeness auto
termination
  by (relation "measure (\<lambda>(prev, s). length s)") auto

declare calls_on_columns.simps [simp del]

definition upper_char :: "char \<Rightarrow> char" where
  "upper_char c = (let n = of_char c :: nat in if 97 \<le> n \<and> n \<le> 122 then char_of (n - 32) else c)"

definition non_sargable :: "pyval \<Rightarrow> string \<times> string \<Rightarrow> pyval" where
  "non_sargable scan = (\<lambda>(f, column). PDict
     [(''type'', PStr ''NON_SARGABLE_FUNCTION_ON_INDEXED_COLUMN''), (''table'', dget scan ''table''),
      (''column'', PStr column), (''function'', PStr (map upper_char f)),
      (''filter'', dget scan ''filter''), (''scan_type'', dget scan ''scan_type''),
      (''reason'', PStr (''Column '' @ QUOTE # str_of (dget scan ''table'') @ ''.'' @ column @ QUOTE #
         '' has an index, but the predicate wraps it in '' @ map upper_char f
         @ ''(...). This may prevent PostgreSQL from using the ordinary index directly.''))])"

fun indexed_calls :: "pyval list \<Rightarrow> (string \<times> string) list \<Rightarrow> (string \<times> string) list exc" where
  "indexed_calls indexes [] = Inr []"
| "indexed_calls indexes ((f, column) # calls) =
     ebind (column_has_index column indexes) (\<lambda>b.
     ebind (indexed_calls indexes calls) (\<lambda>cs. Inr (if b then (f, column) # cs else cs)))"

definition sequential_filter :: "pyval \<Rightarrow> bool" where
  "sequential_filter scan \<longleftrightarrow>
     (dget scan ''scan_type'' = PStr ''Sequential Scan'' \<or> dget scan ''scan_type'' = PStr ''Parallel Sequential Scan'')
     \<and> truthy (dget scan ''table'') \<and> truthy (dget scan ''filter'')"

fun detect_non_sargable_scans :: "host \<Rightarrow> pyval list \<Rightarrow> pyval list run" where
  "detect_non_sargable_scans H [] = rreturn []"
| "detect_non_sargable_scans H (scan # scans) =
     (if \<not> sequential_filter scan then detect_non_sargable_scans H scans
      else
       rbind (get_indexes H (dget scan ''table'')) (\<lambda>indexes.
       rbind (rlift (indexed_calls (py_items indexes) (calls_on_columns None (str_of (dget scan ''filter''))))) (\<lambda>calls.
       rbind (detect_non_sargable_scans H scans) (\<lambda>rest.
         rreturn (map (non_sargable scan) calls @ rest)))))"

definition detect_non_sargable_predicates :: "host \<Rightarrow> pyval \<Rightarrow> pyval list run" where
  "detect_non_sargable_predicates H analysis =
     detect_non_sargable_scans H (py_items (dget_default analysis ''scan_nodes'' (PList [])))"

end
