(* ===== verification/ActionEvidence.thy ===== *)
theory ActionEvidence
  imports Diagnostics LockPlan
begin

text \<open>
  \<open>actions.py\<close>, the validators that read the database: a proposal with a valid shape is
  checked against the catalog (tables, columns, indexes) or against the current lock waits.
\<close>

record verdict =
  ver_errors :: "proposal_error list"
  ver_evidence :: pyval

definition ver_valid :: "verdict \<Rightarrow> bool" where
  "ver_valid v \<longleftrightarrow> ver_errors v = []"

definition verdict_of :: "proposal_error list \<Rightarrow> verdict" where
  "verdict_of errors = \<lparr>ver_errors = errors, ver_evidence = PNone\<rparr>"

definition nonempty_str :: "pyval \<Rightarrow> bool" where
  "nonempty_str v \<longleftrightarrow> is_str v \<and> str_of v \<noteq> []"

text \<open>A query field: missing, or what the guard says of it.\<close>

definition query_errors :: "host \<Rightarrow> pyval \<Rightarrow> proposal_error \<Rightarrow> proposal_error list" where
  "query_errors H query missing =
     (if \<not> nonblank query then [missing] else guard_errors (h_platform H) query)"

section \<open>Index proposals\<close>

definition create_index_field_errors :: "host \<Rightarrow> pyval \<Rightarrow> proposal_error list" where
  "create_index_field_errors H proposal =
     (let table = dget proposal ''table''; column = dget proposal ''column'';
          index_name = dget proposal ''index_name''
      in errors_of [(\<not> nonempty_str table, Missing_table), (\<not> nonempty_str column, Missing_column)]
       @ query_errors H (dget proposal ''query'') (Query_missing ''query'')
       @ errors_of [(\<not> nonblank (dget proposal ''reason''), Blank_reason)]
       @ (if \<not> nonempty_str index_name then [Missing_index_name]
          else if is_str table \<and> is_str column
                  \<and> str_of index_name \<noteq> build_index_name (h_platform H) (str_of table) (str_of column)
          then [Index_name_mismatch] else []))"

definition validate_create_index_proposal :: "host \<Rightarrow> pyval \<Rightarrow> verdict run" where
  "validate_create_index_proposal H proposal =
     (let table = dget proposal ''table''; column = dget proposal ''column'';
          errors = create_index_field_errors H proposal
      in if errors \<noteq> [] then rreturn (verdict_of errors)
         else
          rbind (get_table_columns H table) (\<lambda>columns.
          if \<not> truthy columns then rreturn (verdict_of [Table_unknown (str_of table)])
          else
           rbind (get_indexes H table) (\<lambda>indexes.
           rbind (rlift (column_has_index (str_of column) (py_items indexes))) (\<lambda>indexed.
             rreturn (verdict_of
               (errors_of [(\<not> list_ex (py_eq column) (py_items columns), Column_unknown (str_of column)),
                           (indexed, Column_already_indexed (str_of column))]
                @ validate_confidence proposal))))))"

section \<open>Rewrites\<close>

definition validate_query_rewrite_proposal :: "host \<Rightarrow> pyval \<Rightarrow> verdict" where
  "validate_query_rewrite_proposal H proposal =
     (let original = dget proposal ''original_query''; rewritten = dget proposal ''rewritten_query''
      in verdict_of
        (query_errors H original Missing_original_query
         @ query_errors H rewritten Missing_rewritten_query
         @ errors_of [(is_str original \<and> is_str rewritten
                       \<and> strip (str_of original) = strip (str_of rewritten), Rewrite_identical)]
         @ validate_confidence proposal))"

section \<open>Statistics\<close>

definition analyze_field_errors :: "host \<Rightarrow> pyval \<Rightarrow> proposal_error list" where
  "analyze_field_errors H proposal =
     (let columns = dget_default proposal ''columns'' (PList [])
      in query_errors H (dget proposal ''query'') (Query_missing ''query'')
       @ errors_of [(\<not> nonempty_str (dget proposal ''table''), Missing_table),
           (\<not> is_list columns, Columns_not_list),
           (is_list columns \<and> list_ex (\<lambda>c. \<not> nonempty_str c) (py_items columns), Column_blank)])"

definition validate_analyze_table_proposal :: "host \<Rightarrow> pyval \<Rightarrow> verdict run" where
  "validate_analyze_table_proposal H proposal =
     (let table = dget proposal ''table'';
          columns = py_items (dget_default proposal ''columns'' (PList []));
          errors = analyze_field_errors H proposal
      in if errors \<noteq> [] then rreturn (verdict_of errors)
         else
          rbind (get_table_columns H table) (\<lambda>table_columns.
          if \<not> truthy table_columns then rreturn (verdict_of [Table_unknown (str_of table)])
          else
           (let invalid = filter (\<lambda>c. \<not> list_ex (py_eq c) (py_items table_columns)) columns in
            rreturn (verdict_of
              (errors_of [(invalid \<noteq> [], Columns_unknown invalid)] @ validate_confidence proposal)))))"

section \<open>Terminations\<close>

definition terminate_field_errors :: "pyval \<Rightarrow> proposal_error list" where
  "terminate_field_errors proposal = terminate_shape proposal @ validate_confidence proposal"

definition same_relationship :: "pyval \<Rightarrow> pyval \<Rightarrow> bool" where
  "same_relationship proposal row \<longleftrightarrow>
     py_eq (dget row ''blocked_pid'') (dget proposal ''blocked_pid'')
   \<and> py_eq (dget row ''blocker_pid'') (dget proposal ''blocker_pid'')
   \<and> py_eq (dget row ''blocker_backend_start'') (dget proposal ''blocker_backend_start'')
   \<and> py_eq (dget row ''blocker_xact_start'') (dget proposal ''blocker_xact_start'')"

definition relationship_errors :: "pyval \<Rightarrow> proposal_error list" where
  "relationship_errors row = errors_of
     [(\<not> py_eq (dget row ''blocked_wait_event_type'') (PStr ''Lock''), Not_waiting_on_lock),
      (\<not> list_ex (\<lambda>s. py_eq (dget row ''blocker_state'') (PStr s)) SAFE_BLOCKER_STATES,
         Blocker_not_idle (dget row ''blocker_state''))]"

definition validate_terminate_backend_proposal :: "host \<Rightarrow> pyval \<Rightarrow> verdict run" where
  "validate_terminate_backend_proposal H proposal =
     (let errors = terminate_field_errors proposal in
      if errors \<noteq> [] then rreturn (verdict_of errors)
      else
       rbind (get_lock_waits H) (\<lambda>lock_waits.
         rreturn (case find (same_relationship proposal) (py_items lock_waits) of
             None \<Rightarrow> verdict_of [Not_blocking]
           | Some row \<Rightarrow> \<lparr>ver_errors = relationship_errors row, ver_evidence = row\<rparr>)))"

section \<open>Dispatch\<close>

definition validate_action_proposal :: "host \<Rightarrow> pyval \<Rightarrow> verdict run" where
  "validate_action_proposal H proposal =
     rbind (rlift (validate_proposal_shape (h_platform H) proposal)) (\<lambda>shape.
       if \<not> shape_valid shape then rreturn (verdict_of (shape_errors shape))
       else
        (let action_type = dget proposal ''type'' in
         if action_type = PStr ''CREATE_INDEX'' then validate_create_index_proposal H proposal
         else if action_type = PStr ''REWRITE_QUERY'' then rreturn (validate_query_rewrite_proposal H proposal)
         else if action_type = PStr ''ANALYZE_TABLE'' then validate_analyze_table_proposal H proposal
         else if action_type = PStr ''TERMINATE_BACKEND'' then validate_terminate_backend_proposal H proposal
         else rreturn (verdict_of [Unsupported_action_type action_type])))"

section \<open>Facts\<close>

lemma validate_action_sends: "obeys (sends (reading H)) (validate_action_proposal H proposal)"
  unfolding validate_action_proposal_def validate_create_index_proposal_def
    validate_analyze_table_proposal_def validate_terminate_backend_proposal_def Let_def
  by (rule get_lock_waits_sends catalog_sends sends_rules)+

lemma validate_action_same: "obeys inert (validate_action_proposal H proposal)"
  unfolding validate_action_proposal_def validate_create_index_proposal_def
    validate_analyze_table_proposal_def validate_terminate_backend_proposal_def Let_def
  by (rule get_lock_waits_same tools_same same_rules)+

end
