(* ===== verification/Executor.thy ===== *)
theory Executor
  imports ActionEvidence
begin

text \<open>
  \<open>executor.py\<close>: the executor of controlled actions. Every path ends in a result object that
  has been audited; an action is attempted only after its intent was. Printing is left out;
  \<open>now_utc\<close> reads the clock. The isolated process of the remote executor is a parameter.
\<close>

section \<open>Audit of a result\<close>

definition audit_base :: "pyval \<Rightarrow> pyval \<Rightarrow> int \<Rightarrow> (string \<times> pyval) list" where
  "audit_base result proposal now =
     [(''operation_id'', dget result ''operation_id''), (''timestamp'', PStr (iso_utc now)),
      (''action_type'', dget proposal ''type''), (''status'', dget result ''status''),
      (''decision'', dget result ''decision''), (''risk'', dget result ''risk''),
      (''approved'', dget result ''approved''), (''proposal'', proposal)]"

fun dict_items :: "pyval \<Rightarrow> (string \<times> pyval) list" where
  "dict_items (PDict kvs) = kvs"
| "dict_items _ = []"

definition audit_record :: "pyval \<Rightarrow> pyval \<Rightarrow> int \<Rightarrow> pyval" where
  "audit_record result proposal now =
     (let base = audit_base result proposal now in
      PDict (base @ filter (\<lambda>(k, _). \<not> List.member (map fst base) k) (dict_items result)))"

definition audited_result :: "pyval \<Rightarrow> unit exc \<Rightarrow> pyval" where
  "audited_result result outcome = (case outcome of
     Inr _ \<Rightarrow> dset result ''audit'' (PDict [(''status'', PStr ''WRITTEN'')])
   | Inl e \<Rightarrow>
      (let failed = dset result ''audit'' (PDict
             [(''status'', PStr ''WRITE_FAILED''), (''error_type'', PStr (exn_name e))])
       in if dget result ''status'' = PStr ''SUCCESS''
          then dset (dset failed ''status'' (PStr ''SUCCESS_AUDIT_FAILED'')) ''decision'' (PStr ''REVIEW'')
          else failed))"

text \<open>\<open>write_action_audit\<close> updates the result in place: it is returned here.\<close>

definition write_action_audit :: "host \<Rightarrow> (string \<times> pyval) list \<Rightarrow> pyval \<Rightarrow> pyval run" where
  "write_action_audit H result proposal =
     rbind (clock H) (\<lambda>now.
     rbind (attempt (audit_log H (audit_record (PDict result) proposal now))) (\<lambda>outcome.
       rreturn (audited_result (PDict result) outcome)))"

section \<open>Evidence\<close>

definition find_table_scan :: "pyval \<Rightarrow> pyval \<Rightarrow> pyval" where
  "find_table_scan analysis table =
     (case find (\<lambda>scan. py_eq (dget scan ''table'') table)
             (py_items (dget_default analysis ''scan_nodes'' (PList []))) of
        None \<Rightarrow> PNone | Some scan \<Rightarrow> scan)"

definition capture_query_analysis :: "host \<Rightarrow> pyval \<Rightarrow> pyval run" where
  "capture_query_analysis H query =
     rbind (get_query_plan H query) (\<lambda>plan. rlift (analyze_query_plan plan))"

definition capture_query_state :: "host \<Rightarrow> pyval \<Rightarrow> pyval \<Rightarrow> pyval run" where
  "capture_query_state H query table =
     rbind (get_query_plan H query) (\<lambda>plan.
     rbind (rlift (analyze_query_plan plan)) (\<lambda>analysis.
       rreturn (PDict
         (map (\<lambda>k. (k, dget analysis k))
            [''execution_time_ms'', ''estimated_output_rows'', ''actual_output_rows'', ''cardinality_error_ratio'']
          @ [(''scan'', find_table_scan analysis table),
             (''scan_nodes'', dget_default analysis ''scan_nodes'' (PList []))]))))"

definition get_scan_types :: "pyval \<Rightarrow> pyval" where
  "get_scan_types analysis = PList (filter truthy
     (map (\<lambda>scan. dget scan ''scan_type'') (py_items (dget_default analysis ''scan_nodes'' (PList [])))))"

fun capture_statistics :: "host \<Rightarrow> pyval \<Rightarrow> pyval list \<Rightarrow> pyval \<Rightarrow> pyval run" where
  "capture_statistics H table [] result = rreturn result"
| "capture_statistics H table (column # columns) result =
     rbind (get_column_stats H table column) (\<lambda>stats.
       capture_statistics H table columns (dset result (str_of column) stats))"

definition capture_statistics_state :: "host \<Rightarrow> pyval \<Rightarrow> pyval \<Rightarrow> pyval run" where
  "capture_statistics_state H table columns =
     capture_statistics H table (py_items columns) (PDict [])"

text \<open>The gain in percent; none when the first time is not positive.\<close>

definition improvement_of :: "pyval \<Rightarrow> pyval \<Rightarrow> pyval exc" where
  "improvement_of before_ms after_ms =
     ebind (py_gt before_ms (PInt 0)) (\<lambda>positive.
       if positive then ebind (py_minus before_ms after_ms) (\<lambda>gain.
            ebind (py_div gain before_ms) (\<lambda>ratio. py_mul ratio (PInt 100)))
       else Inr (PFloat (Finite 0)))"

definition error_texts :: "host \<Rightarrow> proposal_error list \<Rightarrow> pyval" where
  "error_texts H errors = PList (map (\<lambda>e. PStr (h_proposal_text H e)) errors)"

text \<open>\<open>answer.strip().lower() == "y"\<close>\<close>

definition operator_approves :: "host \<Rightarrow> bool run" where
  "operator_approves H = rbind (prompt H) (\<lambda>answer. rreturn (lower (strip answer) = ''y''))"

definition rejected :: "string \<Rightarrow> string \<Rightarrow> (string \<times> pyval) list" where
  "rejected operation_id status =
     [(''operation_id'', PStr operation_id), (''status'', PStr status), (''decision'', PStr ''BLOCK'')]"

section \<open>Query rewrites\<close>

definition compare_rewrite :: "host \<Rightarrow> pyval \<Rightarrow> string \<Rightarrow> string \<Rightarrow> pyval \<Rightarrow> pyval run" where
  "compare_rewrite H proposal operation_id risk snapshot =
     (let original = dget proposal ''original_query''; rewritten = dget proposal ''rewritten_query'' in
      rbind (benchmark_query H original 2 5) (\<lambda>old_times.
      rbind (capture_query_analysis H original) (\<lambda>old_analysis.
      rbind (benchmark_query H rewritten 2 5) (\<lambda>new_times.
      rbind (capture_query_analysis H rewritten) (\<lambda>new_analysis.
      rbind (rlift (improvement_of (dget old_times ''median_ms'') (dget new_times ''median_ms''))) (\<lambda>improvement.
      rbind (rlift (py_gt (PFloat (Finite (h_min_improvement H))) improvement)) (\<lambda>insufficient.
        write_action_audit H
          [(''operation_id'', PStr operation_id),
           (''status'', PStr (if insufficient then ''REWRITE_REJECTED'' else ''REWRITE_ACCEPTED'')),
           (''decision'', PStr (if insufficient then ''REJECT_REWRITE'' else ''ACCEPT_REWRITE'')),
           (''risk'', PStr risk), (''snapshot_result_comparison'', snapshot),
           (''before_ms'', dget old_times ''median_ms''), (''after_ms'', dget new_times ''median_ms''),
           (''improvement_pct'', improvement),
           (''before_scan_types'', get_scan_types old_analysis),
           (''after_scan_types'', get_scan_types new_analysis),
           (''plan_changed'', PBool (\<not> py_eq (get_scan_types old_analysis) (get_scan_types new_analysis))),
           (''before_analysis'', old_analysis), (''after_analysis'', new_analysis)] proposal)))))))"

definition execute_query_rewrite_proposal :: "host \<Rightarrow> pyval \<Rightarrow> string \<Rightarrow> pyval run" where
  "execute_query_rewrite_proposal H proposal operation_id =
     rbind (validate_action_proposal H proposal) (\<lambda>validation.
       if \<not> ver_valid validation
       then write_action_audit H (rejected operation_id ''BLOCKED_VALIDATION''
              @ [(''errors'', error_texts H (ver_errors validation))]) proposal
       else
        (let risk = assess_risk ''REWRITE_QUERY'' in
         if \<not> is_operation_allowed risk
         then write_action_audit H (rejected operation_id ''BLOCKED'' @ [(''risk'', PStr risk)]) proposal
         else
          rbind (compare_query_results H (dget proposal ''original_query'') (dget proposal ''rewritten_query''))
           (\<lambda>snapshot.
            if \<not> truthy (dget snapshot ''equivalent'')
            then write_action_audit H (rejected operation_id ''BLOCKED_SNAPSHOT_MISMATCH''
                   @ [(''risk'', PStr risk), (''snapshot_result_comparison'', snapshot)]) proposal
            else compare_rewrite H proposal operation_id risk snapshot)))"

section \<open>Statistics\<close>

definition cardinality_confirmed :: "host \<Rightarrow> pyval \<Rightarrow> pyval \<Rightarrow> bool exc" where
  "cardinality_confirmed H old_error new_error =
     ebind (if old_error = PNone \<or> new_error = PNone then Inr False else py_gt old_error new_error) (\<lambda>improved.
     ebind (if new_error = PNone then Inr True
            else py_gt new_error (PFloat (Finite (h_max_cardinality_error H)))) (\<lambda>unacceptable.
       Inr (improved \<and> \<not> unacceptable)))"

definition analyze_with_evidence :: "host \<Rightarrow> pyval \<Rightarrow> string \<Rightarrow> string \<Rightarrow> pyval run" where
  "analyze_with_evidence H proposal operation_id risk =
     (let query = dget proposal ''query''; table = dget proposal ''table'';
          columns = dget_default proposal ''columns'' (PList [])
      in
      rbind (capture_query_analysis H query) (\<lambda>old_analysis.
      rbind (capture_statistics_state H table columns) (\<lambda>old_stats.
      rbind (attempt (analyze_table H table columns)) (\<lambda>analyzed.
      case analyzed of
        Inl e \<Rightarrow> write_action_audit H
          [(''operation_id'', PStr operation_id), (''status'', PStr ''FAILED''), (''decision'', PStr ''FAILED''),
           (''risk'', PStr risk), (''error'', PStr (h_exn_text H e))] proposal
      | Inr _ \<Rightarrow>
         rbind (capture_query_analysis H query) (\<lambda>new_analysis.
         rbind (capture_statistics_state H table columns) (\<lambda>new_stats.
         let old_error = dget old_analysis ''cardinality_error_ratio'';
             new_error = dget new_analysis ''cardinality_error_ratio''
         in rbind (rlift (cardinality_confirmed H old_error new_error)) (\<lambda>confirmed.
           write_action_audit H
             [(''operation_id'', PStr operation_id),
              (''status'', PStr (if confirmed then ''STATISTICS_REFRESH_CONFIRMED''
                               else ''STATISTICS_REFRESH_INCONCLUSIVE'')),
              (''decision'', PStr (if confirmed then ''ACCEPT_ANALYZE'' else ''REVIEW'')),
              (''risk'', PStr risk),
              (''before_cardinality_error_ratio'', old_error),
              (''after_cardinality_error_ratio'', new_error),
              (''acceptance_threshold'', PFloat (Finite (h_max_cardinality_error H))),
              (''before_analysis'', old_analysis), (''after_analysis'', new_analysis),
              (''before_stats'', old_stats), (''after_stats'', new_stats)] proposal)))))))"

definition execute_analyze_table_proposal :: "host \<Rightarrow> pyval \<Rightarrow> string \<Rightarrow> pyval run" where
  "execute_analyze_table_proposal H proposal operation_id =
     rbind (validate_action_proposal H proposal) (\<lambda>validation.
       if \<not> ver_valid validation
       then write_action_audit H (rejected operation_id ''BLOCKED_VALIDATION''
              @ [(''errors'', error_texts H (ver_errors validation))]) proposal
       else
        (let risk = assess_risk ''ANALYZE_TABLE'' in
         if \<not> is_operation_allowed risk
         then write_action_audit H (rejected operation_id ''BLOCKED'' @ [(''risk'', PStr risk)]) proposal
         else
          rbind (if requires_approval risk then operator_approves H else rreturn True) (\<lambda>approved.
            if \<not> approved
            then write_action_audit H
              [(''operation_id'', PStr operation_id), (''status'', PStr ''CANCELLED''),
               (''decision'', PStr ''CANCEL''), (''risk'', PStr risk), (''approved'', PBool False)] proposal
            else analyze_with_evidence H proposal operation_id risk)))"

section \<open>Terminations\<close>

definition termination_result ::
  "string \<Rightarrow> string \<Rightarrow> string \<Rightarrow> string \<Rightarrow> pyval \<Rightarrow> (string \<times> pyval) list" where
  "termination_result operation_id status decision risk source =
     [(''operation_id'', PStr operation_id), (''status'', PStr status), (''decision'', PStr decision),
      (''risk'', PStr risk), (''approved'', PBool True), (''approval_source'', source)]"

definition verify_termination ::
  "host \<Rightarrow> pyval \<Rightarrow> string \<Rightarrow> string \<Rightarrow> pyval \<Rightarrow> pyval \<Rightarrow> pyval \<Rightarrow> pyval run" where
  "verify_termination H proposal operation_id risk source evidence execution_evidence =
     (let blocked_pid = dget proposal ''blocked_pid''; blocker_pid = dget proposal ''blocker_pid'' in
      rbind (get_lock_waits H) (\<lambda>after_lock_waits.
      let remaining = find (\<lambda>row. py_eq (dget row ''blocked_pid'') blocked_pid
                \<and> py_eq (dget row ''blocker_pid'') blocker_pid) (py_items after_lock_waits)
      in write_action_audit H
        (termination_result operation_id
           (if remaining = None then ''BACKEND_TERMINATION_CONFIRMED'' else ''BACKEND_TERMINATION_INCONCLUSIVE'')
           (if remaining = None then ''RESOLVE_BLOCKING'' else ''REVIEW'') risk source
         @ [(''blocked_pid'', blocked_pid), (''blocker_pid'', blocker_pid), (''before_evidence'', evidence),
            (''final_execution_evidence'', execution_evidence),
            (''blocking_relationship_removed'', PBool (remaining = None)),
            (''remaining_relationship'', (case remaining of None \<Rightarrow> PNone | Some row \<Rightarrow> row))]) proposal))"

definition run_termination :: "host \<Rightarrow> pyval \<Rightarrow> string \<Rightarrow> string \<Rightarrow> pyval \<Rightarrow> pyval \<Rightarrow> pyval run" where
  "run_termination H proposal operation_id risk source evidence =
     rbind (attempt (terminate_blocking_backend H (dget proposal ''blocked_pid'') (dget proposal ''blocker_pid'')
              (dget proposal ''blocker_backend_start'') (dget proposal ''blocker_xact_start'') (PInt 5000)
              (dget evidence ''blocked_backend_start'') (dget evidence ''blocked_xact_start''))) (\<lambda>executed.
     case executed of
       Inl e \<Rightarrow> write_action_audit H
         (termination_result operation_id ''FAILED'' ''FAILED'' risk source
          @ [(''error'', PStr (h_exn_text H e)), (''before_evidence'', evidence)]) proposal
     | Inr execution_evidence \<Rightarrow>
         if \<not> truthy (dget execution_evidence ''final_validation_passed'')
         then write_action_audit H
           (termination_result operation_id ''BLOCKED_FINAL_REVALIDATION'' ''BLOCK'' risk source
            @ [(''before_evidence'', evidence), (''final_execution_evidence'', execution_evidence)]) proposal
         else if \<not> truthy (dget execution_evidence ''terminated'')
         then write_action_audit H
           (termination_result operation_id ''TERMINATION_FAILED'' ''FAILED'' risk source
            @ [(''before_evidence'', evidence), (''final_execution_evidence'', execution_evidence)]) proposal
         else verify_termination H proposal operation_id risk source evidence execution_evidence)"

text \<open>
  The approval of a workflow: the store claims the action, or the execution is refused. The
  value is the source of the approval or the audited refusal.
\<close>

definition approval_refused ::
  "host \<Rightarrow> pyval \<Rightarrow> string \<Rightarrow> string \<Rightarrow> pyval \<Rightarrow> string \<Rightarrow> (string \<times> pyval) list \<Rightarrow> pyval run" where
  "approval_refused H proposal operation_id risk evidence message items = write_action_audit H
     (rejected operation_id ''BLOCKED_INCIDENT_APPROVAL''
      @ [(''risk'', PStr risk), (''approved'', PBool False), (''errors'', PList [PStr message])]
      @ items @ [(''before_evidence'', evidence)]) proposal"

definition claimed_source :: "pyval \<Rightarrow> pyval" where
  "claimed_source authorization = PDict ((''mode'', PStr ''PERSISTED_INCIDENT_CLAIM'')
     # map (\<lambda>k. (k, dget authorization k))
         [''incident_id'', ''approval_id'', ''action_id'', ''operation_id'', ''plan_revision'',
          ''scope_digest'', ''evidence_digest'', ''claimed_at''])"

definition claim_incident_execution ::
  "host \<Rightarrow> pyval \<Rightarrow> string \<Rightarrow> pyval \<Rightarrow> pyval \<Rightarrow> pyval \<Rightarrow> pyval exc run" where
  "claim_incident_execution H proposal operation_id approval_context execution_context evidence =
     attempt (transact H (\<lambda>now d. claim_action_execution (h_platform H) (h_store H) now d
        approval_context (PStr operation_id) proposal evidence execution_context))"

definition terminate_for_incident ::
  "host \<Rightarrow> pyval \<Rightarrow> string \<Rightarrow> pyval \<Rightarrow> pyval \<Rightarrow> string \<Rightarrow> pyval \<Rightarrow> pyval run" where
  "terminate_for_incident H proposal operation_id approval_context execution_context risk evidence =
     (if \<not> is_dict approval_context \<or> \<not> is_dict execution_context
      then approval_refused H proposal operation_id risk evidence
        ''Persisted incident approval and execution context are both required.'' []
      else
       rbind (claim_incident_execution H proposal operation_id approval_context execution_context evidence)
        (\<lambda>claimed. case claimed of
           Inl e \<Rightarrow> approval_refused H proposal operation_id risk evidence
             ''The configured incident store did not authorize this action.''
             [(''approval_error_type'', PStr (exn_name e))]
         | Inr authorization \<Rightarrow>
             run_termination H proposal operation_id risk (claimed_source authorization) evidence))"

definition terminate_interactively ::
  "host \<Rightarrow> pyval \<Rightarrow> string \<Rightarrow> string \<Rightarrow> pyval \<Rightarrow> pyval run" where
  "terminate_interactively H proposal operation_id risk evidence =
     rbind (if requires_approval risk then operator_approves H else rreturn True) (\<lambda>approved.
       if \<not> approved
       then write_action_audit H
         [(''operation_id'', PStr operation_id), (''status'', PStr ''CANCELLED''),
          (''decision'', PStr ''CANCEL''), (''risk'', PStr risk), (''approved'', PBool False),
          (''before_evidence'', evidence)] proposal
       else run_termination H proposal operation_id risk
              (if requires_approval risk then PDict [(''mode'', PStr ''INTERACTIVE_SINGLE_ACTION'')] else PNone)
              evidence)"

definition execute_terminate_backend_proposal ::
  "host \<Rightarrow> pyval \<Rightarrow> string \<Rightarrow> pyval \<Rightarrow> pyval \<Rightarrow> pyval run" where
  "execute_terminate_backend_proposal H proposal operation_id approval_context execution_context =
     rbind (validate_action_proposal H proposal) (\<lambda>validation.
       if \<not> ver_valid validation
       then write_action_audit H (rejected operation_id ''BLOCKED_VALIDATION''
              @ [(''errors'', error_texts H (ver_errors validation))]) proposal
       else
        (let risk = assess_risk ''TERMINATE_BACKEND''; evidence = ver_evidence validation in
         if \<not> is_operation_allowed risk
         then write_action_audit H (rejected operation_id ''BLOCKED'' @ [(''risk'', PStr risk)]) proposal
         else if \<not> nonblank (dget evidence ''blocked_backend_start'')
              \<or> \<not> nonblank (dget evidence ''blocked_xact_start'')
         then write_action_audit H (rejected operation_id ''BLOCKED_VALIDATION''
                @ [(''errors'', PList [PStr ''Current blocked backend identity is incomplete.'']),
                   (''before_evidence'', evidence)]) proposal
         else if approval_context \<noteq> PNone \<or> execution_context \<noteq> PNone
         then terminate_for_incident H proposal operation_id approval_context execution_context risk evidence
         else terminate_interactively H proposal operation_id risk evidence))"

section \<open>Index creation\<close>

definition rollback_index :: "host \<Rightarrow> pyval \<Rightarrow> pyval \<Rightarrow> unit exc run" where
  "rollback_index H proposal identity =
     attempt (drop_index H (dget proposal ''index_name'') (dget identity ''index_oid'') (dget identity ''table_oid''))"

definition index_used :: "pyval \<Rightarrow> pyval \<Rightarrow> bool" where
  "index_used new_state index_name \<longleftrightarrow>
     list_ex (\<lambda>scan. py_eq (dget scan ''index_name'') index_name)
       (py_items (dget_default new_state ''scan_nodes'' (PList [])))"

definition scan_type_of :: "pyval \<Rightarrow> pyval" where
  "scan_type_of state = dget (py_or (dget state ''scan'') (PDict [])) ''scan_type''"

text \<open>The measurements raise while the index exists: it is dropped again.\<close>

definition undo_unverified_index ::
  "host \<Rightarrow> pyval \<Rightarrow> string \<Rightarrow> string \<Rightarrow> pyval \<Rightarrow> pyval \<Rightarrow> exn \<Rightarrow> pyval run" where
  "undo_unverified_index H proposal operation_id risk old_state identity failure =
     rbind (rollback_index H proposal identity) (\<lambda>dropped. case dropped of
       Inl e \<Rightarrow> write_action_audit H
         [(''operation_id'', PStr operation_id), (''status'', PStr ''ROLLBACK_FAILED''),
          (''decision'', PStr ''REVIEW''), (''risk'', PStr risk), (''approved'', PBool True),
          (''verification_error'', PStr (h_exn_text H failure)), (''rollback_error'', PStr (h_exn_text H e)),
          (''created_index_identity'', identity), (''before_state'', old_state)] proposal
     | Inr _ \<Rightarrow> write_action_audit H
         [(''operation_id'', PStr operation_id), (''status'', PStr ''ROLLED_BACK_AFTER_VERIFICATION_ERROR''),
          (''decision'', PStr ''ROLLBACK''), (''risk'', PStr risk), (''approved'', PBool True),
          (''verification_error'', PStr (h_exn_text H failure)),
          (''created_index_identity'', identity), (''before_state'', old_state)] proposal)"

definition index_states :: "pyval \<Rightarrow> pyval \<Rightarrow> (string \<times> pyval) list" where
  "index_states old_state new_state =
     [(''before_scan_type'', scan_type_of old_state), (''after_scan_type'', scan_type_of new_state),
      (''plan_changed'', PBool (\<not> py_eq (scan_type_of old_state) (scan_type_of new_state))),
      (''before_state'', old_state), (''after_state'', new_state)]"

text \<open>An index that does not help enough, or is not used, is dropped.\<close>

definition decide_index ::
  "host \<Rightarrow> pyval \<Rightarrow> string \<Rightarrow> string \<Rightarrow> pyval \<Rightarrow> pyval \<Rightarrow> pyval \<Rightarrow> pyval \<Rightarrow> pyval \<Rightarrow> pyval run" where
  "decide_index H proposal operation_id risk identity before_ms old_state after_ms new_state =
     (let used = index_used new_state (dget proposal ''index_name'') in
      rbind (rlift (improvement_of before_ms after_ms)) (\<lambda>improvement.
      rbind (rlift (py_gt (PFloat (Finite (h_min_improvement H))) improvement)) (\<lambda>insufficient.
      let measured = [(''before_ms'', before_ms), (''after_ms'', after_ms), (''improvement_pct'', improvement)] in
      if insufficient \<or> \<not> used then
        rbind (rollback_index H proposal identity) (\<lambda>dropped. case dropped of
          Inl e \<Rightarrow> write_action_audit H
            ([(''operation_id'', PStr operation_id), (''status'', PStr ''ROLLBACK_FAILED''),
              (''risk'', PStr risk), (''approved'', PBool True)] @ measured
             @ [(''rollback_error'', PStr (h_exn_text H e)), (''index_used'', PBool used),
                (''created_index_identity'', identity)]) proposal
        | Inr _ \<Rightarrow> write_action_audit H
            ([(''operation_id'', PStr operation_id), (''status'', PStr ''ROLLED_BACK''),
              (''decision'', PStr ''ROLLBACK''), (''risk'', PStr risk), (''approved'', PBool True)] @ measured
             @ [(''index_used'', PBool used), (''created_index_identity'', identity),
                (''rollback_reason'', PStr (if used then ''insufficient_improvement''
                                          else ''created_index_not_used''))]
             @ index_states old_state new_state) proposal)
      else write_action_audit H
        ([(''operation_id'', PStr operation_id), (''status'', PStr ''SUCCESS''), (''decision'', PStr ''KEEP''),
          (''risk'', PStr risk), (''approved'', PBool True)] @ measured
         @ [(''index_used'', PBool used), (''created_index_identity'', identity)]
         @ index_states old_state new_state) proposal)))"

definition index_experiment :: "host \<Rightarrow> pyval \<Rightarrow> string \<Rightarrow> string \<Rightarrow> pyval run" where
  "index_experiment H proposal operation_id risk =
     (let query = dget proposal ''query''; table = dget proposal ''table'' in
      rbind (benchmark_query H query 2 5) (\<lambda>old_times.
      rbind (capture_query_state H query table) (\<lambda>old_state.
      rbind (attempt (create_index H table (dget proposal ''column'') (dget proposal ''index_name''))) (\<lambda>created.
      case created of
        Inl e \<Rightarrow> write_action_audit H
          [(''operation_id'', PStr operation_id), (''status'', PStr ''FAILED''), (''risk'', PStr risk),
           (''approved'', PBool True), (''error'', PStr (h_exn_text H e))] proposal
      | Inr identity \<Rightarrow>
          rbind (attempt (rbind (benchmark_query H query 2 5) (\<lambda>new_times.
                          rbind (capture_query_state H query table) (\<lambda>new_state.
                            rreturn (new_times, new_state))))) (\<lambda>verified.
          case verified of
            Inl failure \<Rightarrow> undo_unverified_index H proposal operation_id risk old_state identity failure
          | Inr (new_times, new_state) \<Rightarrow>
              decide_index H proposal operation_id risk identity (dget old_times ''median_ms'') old_state
                (dget new_times ''median_ms'') new_state)))))"

definition execute_create_index :: "host \<Rightarrow> pyval \<Rightarrow> string \<Rightarrow> pyval run" where
  "execute_create_index H proposal operation_id =
     rbind (validate_action_proposal H proposal) (\<lambda>validation.
       if \<not> ver_valid validation
       then write_action_audit H
         [(''operation_id'', PStr operation_id), (''status'', PStr ''BLOCKED_VALIDATION''),
          (''errors'', error_texts H (ver_errors validation))] proposal
       else
        (let risk = assess_risk (str_of (dget proposal ''type'')) in
         if \<not> is_operation_allowed risk
         then write_action_audit H
           [(''operation_id'', PStr operation_id), (''status'', PStr ''BLOCKED''), (''risk'', PStr risk)] proposal
         else
          rbind (if requires_approval risk then operator_approves H else rreturn True) (\<lambda>approved.
            if \<not> approved
            then write_action_audit H
              [(''operation_id'', PStr operation_id), (''status'', PStr ''CANCELLED''), (''risk'', PStr risk)] proposal
            else index_experiment H proposal operation_id risk)))"

section \<open>Dispatch\<close>

definition execute_with_intent :: "host \<Rightarrow> pyval \<Rightarrow> string \<Rightarrow> pyval \<Rightarrow> pyval \<Rightarrow> pyval run" where
  "execute_with_intent H proposal intent_id approval_context execution_context =
     (if \<not> is_dict proposal
      then write_action_audit H (rejected intent_id ''BLOCKED_VALIDATION''
             @ [(''errors'', PList [PStr ''Action proposal must be an object.''])]) proposal
      else
       (let action_type = dget proposal ''type'' in
        if (approval_context \<noteq> PNone \<or> execution_context \<noteq> PNone) \<and> action_type \<noteq> PStr ''TERMINATE_BACKEND''
        then write_action_audit H (rejected intent_id ''BLOCKED_INCIDENT_APPROVAL''
               @ [(''errors'', PList [PStr ''IncidentWorkflow approval currently supports TERMINATE_BACKEND only.''])])
               proposal
        else if action_type = PStr ''REWRITE_QUERY'' then execute_query_rewrite_proposal H proposal intent_id
        else if action_type = PStr ''ANALYZE_TABLE'' then execute_analyze_table_proposal H proposal intent_id
        else if action_type = PStr ''TERMINATE_BACKEND''
        then execute_terminate_backend_proposal H proposal intent_id approval_context execution_context
        else execute_create_index H proposal intent_id))"

definition approval_summary :: "pyval \<Rightarrow> pyval" where
  "approval_summary approval_context =
     (if is_dict approval_context
      then PDict (map (\<lambda>k. (k, dget approval_context k))
        [''kind'', ''incident_id'', ''approval_id'', ''plan_revision'', ''scope_digest'', ''current_action_id''])
      else PNone)"

definition intent_record :: "string \<Rightarrow> pyval \<Rightarrow> pyval \<Rightarrow> pyval \<Rightarrow> int \<Rightarrow> pyval" where
  "intent_record intent_id proposal approval_context execution_context now = PDict
     [(''operation_id'', PStr intent_id), (''timestamp'', PStr (iso_utc now)),
      (''action_type'', dget proposal ''type''), (''status'', PStr ''INTENT_RECEIVED''),
      (''proposal'', proposal), (''execution_context'', execution_context),
      (''approval_context'', approval_summary approval_context)]"

text \<open>The refusal of the runtime policy, before any validation; only its own error is caught.\<close>

fun is_policy_error :: "exn \<Rightarrow> bool" where
  "is_policy_error (RuntimePolicyError _ _) = True"
| "is_policy_error _ = False"

definition policy_refusal :: "host \<Rightarrow> pyval \<Rightarrow> exn option run" where
  "policy_refusal H proposal =
     (let t = dget proposal ''type'' in
      if \<not> is_str t \<or> \<not> List.member ACTION_TYPES (str_of t) then rreturn None
      else rbind (attempt (require H (str_of t))) (\<lambda>allowed. case allowed of
          Inr _ \<Rightarrow> rreturn None
        | Inl e \<Rightarrow> if is_policy_error e then rreturn (Some e) else rraise e))"

fun policy_reason :: "exn \<Rightarrow> string" where
  "policy_reason (RuntimePolicyError _ reason) = reason"
| "policy_reason _ = []"

definition unhandled :: "host \<Rightarrow> pyval \<Rightarrow> string \<Rightarrow> exn \<Rightarrow> pyval run" where
  "unhandled H proposal intent_id e = write_action_audit H
     [(''operation_id'', PStr intent_id), (''status'', PStr ''FAILED_UNHANDLED''),
      (''decision'', PStr ''REVIEW''),
      (''error'', PStr ''Controlled action raised an unexpected exception; database state may be incomplete.''),
      (''error_type'', PStr (exn_name e))] proposal"

definition execute_audited :: "host \<Rightarrow> pyval \<Rightarrow> string \<Rightarrow> pyval \<Rightarrow> pyval \<Rightarrow> pyval run" where
  "execute_audited H proposal intent_id approval_context execution_context =
     rbind (policy_refusal H proposal) (\<lambda>refusal. case refusal of
       Some e \<Rightarrow> write_action_audit H (rejected intent_id ''BLOCKED_RUNTIME_POLICY''
           @ [(''executed'', PBool False), (''error'', PStr (h_exn_text H e)),
              (''policy_reason'', PStr (policy_reason e))]) proposal
     | None \<Rightarrow> rtry (execute_with_intent H proposal intent_id approval_context execution_context)
                 (unhandled H proposal intent_id))"

definition execute_identified :: "host \<Rightarrow> pyval \<Rightarrow> pyval \<Rightarrow> pyval \<Rightarrow> pyval \<Rightarrow> pyval run" where
  "execute_identified H proposal approval_context execution_context intent_id =
     (if \<not> is_valid_uuid intent_id
      then rreturn (PDict [(''operation_id'', intent_id), (''status'', PStr ''BLOCKED_VALIDATION''),
             (''decision'', PStr ''BLOCK''), (''errors'', PList [PStr ''operation_id must be a valid UUID.''])])
      else
       rbind (clock H) (\<lambda>now.
       rbind (attempt (audit_log H
               (intent_record (str_of intent_id) proposal approval_context execution_context now))) (\<lambda>recorded.
       case recorded of
         Inl e \<Rightarrow> rreturn (PDict [(''operation_id'', intent_id), (''status'', PStr ''BLOCKED_AUDIT_UNAVAILABLE''),
           (''decision'', PStr ''BLOCK''),
           (''error'', PStr ''The append-only audit sink was unavailable; no controlled action was attempted.''),
           (''audit_error_type'', PStr (exn_name e))])
       | Inr _ \<Rightarrow> execute_audited H proposal (str_of intent_id) approval_context execution_context)))"

text \<open>\<open>operation_id or str(uuid.uuid4())\<close>\<close>

definition execute_locally :: "host \<Rightarrow> pyval \<Rightarrow> pyval \<Rightarrow> pyval \<Rightarrow> pyval \<Rightarrow> pyval run" where
  "execute_locally H proposal operation_id approval_context execution_context =
     (if truthy operation_id then execute_identified H proposal approval_context execution_context operation_id
      else rbind (new_uuid H) (\<lambda>u.
             execute_identified H proposal approval_context execution_context (PStr u)))"

text \<open>An agent process holds no privileged connection and hands the action to the isolated worker.\<close>

type_synonym executor = "pyval \<Rightarrow> pyval \<Rightarrow> pyval \<Rightarrow> pyval \<Rightarrow> pyval run"

definition execute_action_proposal :: "host \<Rightarrow> executor \<Rightarrow> executor" where
  "execute_action_proposal H remote proposal operation_id approval_context execution_context =
     (if h_role H = ''agent'' then remote proposal operation_id approval_context execution_context
      else execute_locally H proposal operation_id approval_context execution_context)"

end
