(* ===== verification/IncidentWorkflow.thy ===== *)
theory IncidentWorkflow
  imports Executor
begin

text \<open>
  \<open>incident_workflow.py\<close>: creating an incident, asking for its approval, and one pass over its
  actions. Python mutates the loaded incident and checkpoints it; here an incident is a value,
  each store method is one transaction, and an early return of the pass is \<open>Done\<close>. The
  executor is a parameter; telemetry is left out.
\<close>

section \<open>The store as the workflow calls it\<close>

definition load :: "host \<Rightarrow> string \<Rightarrow> incident run" where
  "load H i = transact H (\<lambda>now d. (d, load_incident d i))"

definition lease_duration :: "incident \<Rightarrow> pyval exc" where
  "lease_duration inc = read_item (inc_policy inc) ''lease_seconds''"

definition acquire :: "host \<Rightarrow> string \<Rightarrow> string \<Rightarrow> incident \<Rightarrow> incident run" where
  "acquire H i worker inc = rbind (rlift (lease_duration inc)) (\<lambda>seconds.
     transact H (\<lambda>now d. acquire_lease (h_platform H) now d i worker seconds))"

definition renew :: "host \<Rightarrow> string \<Rightarrow> string \<Rightarrow> incident \<Rightarrow> incident run" where
  "renew H i worker inc = rbind (rlift (lease_duration inc)) (\<lambda>seconds.
     transact H (\<lambda>now d. renew_lease now d i worker seconds))"

fun is_lease_error :: "exn \<Rightarrow> bool" where
  "is_lease_error (IncidentLeaseUnavailable _) = True"
| "is_lease_error _ = False"

definition release :: "host \<Rightarrow> string \<Rightarrow> string \<Rightarrow> unit run" where
  "release H i worker =
     rbind (clock H) (\<lambda>_.
     rbind (attempt (transact H (\<lambda>now d. release_lease (h_platform H) now d i worker))) (\<lambda>released.
     case released of
       Inr _ \<Rightarrow> rreturn ()
     | Inl e \<Rightarrow> if is_lease_error e then rreturn () else rraise e))"

definition checkpoint ::
  "host \<Rightarrow> string \<Rightarrow> incident \<Rightarrow> int \<Rightarrow> string \<Rightarrow> pyval \<Rightarrow> string option \<Rightarrow> incident run" where
  "checkpoint H worker inc timestamp event_type payload action_id =
     transact H (\<lambda>now d. save_incident (h_platform H) now d (inc\<lparr>inc_updated := iso_utc timestamp\<rparr>)
       event_type payload action_id (Some worker))"

section \<open>Incidents in memory\<close>

definition nth_action :: "incident \<Rightarrow> nat \<Rightarrow> action exc" where
  "nth_action inc k = (if k < length (inc_actions inc) then Inr (inc_actions inc ! k)
     else Inl (OtherException ''IndexError''))"

definition set_action :: "incident \<Rightarrow> nat \<Rightarrow> action \<Rightarrow> incident" where
  "set_action inc k x = inc\<lparr>inc_actions := (inc_actions inc)[k := x]\<rparr>"

fun index_of :: "string \<Rightarrow> action list \<Rightarrow> nat option" where
  "index_of a [] = None"
| "index_of a (x # xs) = (if act_id x = a then Some 0 else map_option Suc (index_of a xs))"

definition action_by_id :: "incident \<Rightarrow> string \<Rightarrow> nat exc" where
  "action_by_id inc a = (case index_of a (inc_actions inc) of
     Some k \<Rightarrow> Inr k | None \<Rightarrow> Inl (IncidentWorkflowError ''Incident action not found''))"

definition error_note :: "string \<Rightarrow> string \<Rightarrow> pyval" where
  "error_note kind message = PDict [(''type'', PStr kind), (''message'', PStr message)]"

text \<open>The incident is handed to a human: its state, the error, a checkpoint at a fresh time.\<close>

definition review ::
  "host \<Rightarrow> string \<Rightarrow> incident \<Rightarrow> pyval \<Rightarrow> string \<Rightarrow> string option \<Rightarrow> incident run" where
  "review H worker inc note event_type action_id =
     rbind (clock H) (\<lambda>t. checkpoint H worker (inc\<lparr>inc_state := REVIEW_REQUIRED, inc_error := note\<rparr>)
       t event_type note action_id)"

text \<open>The same with the action it is about: \<open>now()\<close> is read once for each.\<close>

definition settle_action ::
  "host \<Rightarrow> string \<Rightarrow> incident \<Rightarrow> nat \<Rightarrow> action \<Rightarrow> action_state \<Rightarrow> incident_state \<Rightarrow> pyval \<Rightarrow> string
   \<Rightarrow> incident run" where
  "settle_action H worker inc k x s s' note event_type =
     rbind (clock H) (\<lambda>t.
     rbind (clock H) (\<lambda>t'.
       checkpoint H worker
         ((set_action inc k (x\<lparr>act_state := s, act_error := note, act_updated := iso_utc t\<rparr>))
            \<lparr>inc_state := s', inc_error := note\<rparr>)
         t' event_type note (Some (act_id x))))"

fun action_state_name :: "action_state \<Rightarrow> string" where
  "action_state_name PLANNED = ''PLANNED''"
| "action_state_name EXECUTING = ''EXECUTING''"
| "action_state_name APPLYING = ''APPLYING''"
| "action_state_name RESULT_RECORDED = ''RESULT_RECORDED''"
| "action_state_name SUCCEEDED = ''SUCCEEDED''"
| "action_state_name SKIPPED_RESOLVED = ''SKIPPED_RESOLVED''"
| "action_state_name RECONCILED_RESOLVED = ''RECONCILED_RESOLVED''"
| "action_state_name STALE_IDENTITY = ''STALE_IDENTITY''"
| "action_state_name REAPPROVAL_REQUIRED = ''REAPPROVAL_REQUIRED''"
| "action_state_name FAILED = ''FAILED''"
| "action_state_name INCONCLUSIVE = ''INCONCLUSIVE''"
| "action_state_name IN_DOUBT = ''IN_DOUBT''"

section \<open>Rows of an action\<close>

definition plan_rows :: "pyval \<Rightarrow> pyval list exc" where
  "plan_rows snapshot = (case snapshot_rows snapshot of
     Inl m \<Rightarrow> Inl (IncidentPlanError m) | Inr rows \<Rightarrow> Inr rows)"

definition policy_rows :: "pyval \<Rightarrow> pyval list exc" where
  "policy_rows snapshot = (case actionable_relationships snapshot of
     Inl m \<Rightarrow> Inl (IncidentPlanError m) | Inr rows \<Rightarrow> Inr rows)"

definition targets :: "action \<Rightarrow> pyval \<Rightarrow> bool" where
  "targets x row \<longleftrightarrow> py_eqs (target_key (relationship_target row)) (target_key (act_target x))"

definition target_rows :: "pyval list \<Rightarrow> action \<Rightarrow> pyval list" where
  "target_rows rows x = filter (targets x) rows"

definition approved_target_rows :: "pyval list \<Rightarrow> action \<Rightarrow> pyval list" where
  "approved_target_rows rows x =
     (let allowed = map waiter_key (filter is_dict (py_items (act_waiters x)))
      in filter (\<lambda>row. key_member (waiter_key row) allowed) (target_rows rows x))"

definition pid_reused :: "pyval list \<Rightarrow> action \<Rightarrow> bool" where
  "pid_reused rows x \<longleftrightarrow>
     list_ex (\<lambda>row. py_eq (dget row ''blocker_pid'') (dget (act_target x) ''blocker_pid'') \<and> \<not> targets x row) rows"

definition incomplete :: "pyval \<Rightarrow> bool" where
  "incomplete snapshot \<longleftrightarrow> dget snapshot ''truncated'' \<noteq> PBool False"

section \<open>Approvals\<close>

definition later :: "int \<Rightarrow> pyval \<Rightarrow> int exc" where
  "later now seconds = (case timedelta_seconds seconds of
     Some d \<Rightarrow> if valid_instant (now + d) then Inr (now + d) else Inl overflow_error
   | None \<Rightarrow> Inl (TypeError ''unsupported type for timedelta seconds component''))"

definition build_approval :: "host \<Rightarrow> incident \<Rightarrow> string \<Rightarrow> int \<Rightarrow> approval run" where
  "build_approval H inc actor now =
     rbind (rlift (canonical_approved_actions (map action_dict (inc_actions inc)))) (\<lambda>approved_actions.
     rbind (rlift (read_item (inc_policy inc) ''max_actions'')) (\<lambda>limit.
     if \<not> is_int limit then rraise (TypeError ''not comparable'') else
     rbind (rlift (read_item (inc_policy inc) ''approval_ttl_seconds'')) (\<lambda>ttl.
     rbind (rlift (later now ttl)) (\<lambda>expires.
     let max_actions = min (int_of limit) (int (length approved_actions)) in
     rbind (rlift (compute_scope_digest (h_platform H) (PStr (inc_id inc)) (PInt (inc_revision inc))
              approved_actions (PInt max_actions) (PStr ''HIGH''))) (\<lambda>digest.
     rbind (new_uuid H) (\<lambda>u.
       rreturn \<lparr>apr_id = u, apr_incident = inc_id inc, apr_revision = inc_revision inc,
         apr_digest = digest, apr_actor = actor, apr_approved_at = iso_utc now,
         apr_expires_at = iso_utc expires, apr_revoked_at = None, apr_max_risk = ''HIGH'',
         apr_max_actions = max_actions, apr_actions = PList approved_actions\<rparr>))))))"

text \<open>Anything but an explicit \<open>True\<close> rejects.\<close>

definition decision_value :: "pyval \<Rightarrow> bool \<times> string" where
  "decision_value decision = (case decision of
     PBool b \<Rightarrow> (b, ''interactive-user'')
   | PDict kvs \<Rightarrow>
      (let actor = dget_default decision ''actor'' (PStr ''interactive-user'')
       in (dget decision ''approved'' = PBool True,
           if nonblank actor then str_of actor else ''interactive-user''))
   | _ \<Rightarrow> (False, ''interactive-user''))"

definition approval_is_current :: "host \<Rightarrow> incident \<Rightarrow> action \<Rightarrow> int \<Rightarrow> validation exc" where
  "approval_is_current H inc x now = (case inc_approval inc of
     None \<Rightarrow> Inl (TypeError ''NoneType object does not support item assignment'')
   | Some p \<Rightarrow> validate_approval_context (h_platform H) (act_proposal x) (approval_dict p (act_id x)) now)"

definition deadline_passed :: "incident \<Rightarrow> int \<Rightarrow> bool" where
  "deadline_passed inc now = (case parse_utc_timestamp (dget (inc_policy inc) ''deadline_at'') of
     None \<Rightarrow> True | Some t \<Rightarrow> t \<le> now)"

definition executor_result_confirmed :: "pyval \<Rightarrow> bool" where
  "executor_result_confirmed result \<longleftrightarrow>
     is_dict result \<and> py_eq (dget result ''status'') (PStr ''BACKEND_TERMINATION_CONFIRMED'')
   \<and> dget result ''blocking_relationship_removed'' = PBool True
   \<and> is_dict (dget result ''audit'')
   \<and> py_eq (dget (dget result ''audit'') ''status'') (PStr ''WRITTEN'')"

section \<open>Creating an incident\<close>

fun plan_exn :: "plan_failure \<Rightarrow> exn" where
  "plan_exn (Plan_raised e) = e"
| "plan_exn (Snapshot_invalid m) = IncidentPlanError m"
| "plan_exn _ = IncidentPlanError ''Termination plan rejected''"

definition incident_policy :: "host \<Rightarrow> int \<Rightarrow> pyval \<Rightarrow> pyval" where
  "incident_policy H deadline summary = PDict
     [(''max_actions'', PInt (h_max_actions H)), (''approval_ttl_seconds'', PInt (h_approval_ttl H)),
      (''lease_seconds'', h_lease_seconds H), (''deadline_at'', PStr (iso_utc deadline)),
      (''stop_on_first_failure'', PBool True), (''initial_snapshot'', summary)]"

definition create_lock_incident ::
  "host \<Rightarrow> pyval \<Rightarrow> string \<Rightarrow> bool \<Rightarrow> incident run" where
  "create_lock_incident H proposals user_request expand_all =
     rbind (clock H) (\<lambda>current.
     rbind (get_lock_graph_snapshot H) (\<lambda>snapshot.
     rbind (new_uuid H) (\<lambda>i.
     rbind (sample (h_action_uuids H)) (\<lambda>uuids.
     case build_termination_plan (h_platform H) i snapshot proposals expand_all (h_max_actions H) current uuids of
       Inl failure \<Rightarrow> rraise (plan_exn failure)
     | Inr actions \<Rightarrow>
        rbind (rlift (later current (PInt (h_deadline_seconds H)))) (\<lambda>deadline.
        case summarize_snapshot snapshot of
          Inl m \<Rightarrow> rraise (IncidentPlanError m)
        | Inr summary \<Rightarrow> transact H (\<lambda>now d. create_incident (h_platform H) d
            \<lparr>inc_id = i, inc_type = ''LOCK_CONTENTION'', inc_state = AWAITING_APPROVAL, inc_revision = 1,
             inc_request = PDict
               [(''sha256'', PStr (sha256_hex (h_platform H) user_request)),
                (''characters'', PInt (int (length user_request))), (''raw_text_stored'', PBool False)],
             inc_policy = incident_policy H deadline summary,
             inc_summary = PNone, inc_error = PNone, inc_reason = None, inc_approval_id = None,
             inc_version = 0, inc_lease_owner = None, inc_lease_expires = None,
             inc_created = iso_utc current, inc_updated = iso_utc current,
             inc_actions = actions, inc_approval = None\<rparr>))))))"

section \<open>Reconciling an interrupted action\<close>

datatype flow = Done incident | Go incident

definition finish_with :: "incident run \<Rightarrow> flow run" where
  "finish_with m = rbind m (\<lambda>inc. rreturn (Done inc))"

definition go_on :: "incident run \<Rightarrow> flow run" where
  "go_on m = rbind m (\<lambda>inc. rreturn (Go inc))"

definition in_flight :: "action_state \<Rightarrow> bool" where
  "in_flight s \<longleftrightarrow> List.member [EXECUTING, APPLYING, RESULT_RECORDED] s"

text \<open>
  An action set aside by the caller's time \<open>now\<close>: the action and the incident get the error,
  and the checkpoint carries the same time.
\<close>

definition set_aside ::
  "host \<Rightarrow> string \<Rightarrow> int \<Rightarrow> incident \<Rightarrow> nat \<Rightarrow> action \<Rightarrow> action_state \<Rightarrow> pyval \<Rightarrow> string \<Rightarrow> flow run" where
  "set_aside H worker now inc k x s note event_type = finish_with
     (checkpoint H worker
       ((set_action inc k (x\<lparr>act_state := s, act_error := note, act_updated := iso_utc now\<rparr>))
          \<lparr>inc_state := REVIEW_REQUIRED, inc_error := note\<rparr>)
       now event_type note (Some (act_id x)))"

definition settled ::
  "host \<Rightarrow> string \<Rightarrow> int \<Rightarrow> incident \<Rightarrow> nat \<Rightarrow> action \<Rightarrow> action_state \<Rightarrow> string \<Rightarrow> pyval \<Rightarrow> flow run" where
  "settled H worker now inc k x s event_type payload = go_on
     (checkpoint H worker
       (set_action inc k (x\<lparr>act_state := s, act_error := PNone, act_updated := iso_utc now\<rparr>))
       now event_type payload (Some (act_id x)))"

definition reconcile_recorded ::
  "host \<Rightarrow> string \<Rightarrow> int \<Rightarrow> incident \<Rightarrow> nat \<Rightarrow> action \<Rightarrow> pyval list \<Rightarrow> flow run" where
  "reconcile_recorded H worker now inc k x exact_rows =
     (if \<not> executor_result_confirmed (act_result x)
      then set_aside H worker now inc k x FAILED (PDict
        [(''type'', PStr ''RECORDED_EXECUTOR_RESULT_NOT_CONFIRMED''), (''status'', dget (act_result x) ''status''),
         (''message'', PStr ''A durable executor result exists but does not prove a successful audited termination.'')])
        ''RECORDED_RESULT_FAILED_CLOSED''
      else if exact_rows \<noteq> []
      then set_aside H worker now inc k x INCONCLUSIVE
        (error_note ''RECORDED_SUCCESS_TARGET_STILL_PRESENT''
          ''The executor recorded success, but the exact blocker identity still appears in the fresh lock graph.'')
        ''RECORDED_RESULT_VERIFICATION_FAILED''
      else settled H worker now inc k x SUCCEEDED ''RECORDED_RESULT_RECONCILED''
        (PDict [(''operation_id'', opt_text (act_operation x)), (''side_effect_repeated'', PBool False)]))"

definition reconcile_unrecorded ::
  "host \<Rightarrow> string \<Rightarrow> int \<Rightarrow> incident \<Rightarrow> nat \<Rightarrow> action \<Rightarrow> pyval list \<Rightarrow> flow run" where
  "reconcile_unrecorded H worker now inc k x rows =
     (if pid_reused rows x
      then set_aside H worker now inc k x STALE_IDENTITY
        (error_note ''PID_REUSED'' ''The blocker PID now identifies a different backend or transaction.'')
        ''RECONCILIATION_STALE_IDENTITY''
      else if target_rows rows x = []
      then settled H worker now inc k x RECONCILED_RESOLVED ''INFLIGHT_RELATIONSHIP_GONE''
        (PDict [(''causality_confirmed'', PBool False), (''message'', PStr ''The approved blocker identity is no longer present; the workflow does not claim which actor resolved it.'')])
      else set_aside H worker now inc k x IN_DOUBT
        (error_note ''AMBIGUOUS_PRIOR_EXECUTION''
          ''The exact blocker still exists after an interrupted execution; automatic retry is disabled.'')
        ''INFLIGHT_REQUIRES_REVIEW'')"

definition reconcile_inflight :: "host \<Rightarrow> string \<Rightarrow> int \<Rightarrow> incident \<Rightarrow> pyval \<Rightarrow> flow run" where
  "reconcile_inflight H worker now inc snapshot =
     rbind (rlift (plan_rows snapshot)) (\<lambda>rows.
     case filter (\<lambda>k. in_flight (act_state (inc_actions inc ! k))) [0..<length (inc_actions inc)] of
       [] \<Rightarrow> rreturn (Go inc)
     | [k] \<Rightarrow>
        (let x = inc_actions inc ! k in
         if act_state x = RESULT_RECORDED
         then reconcile_recorded H worker now inc k x (target_rows rows x)
         else reconcile_unrecorded H worker now inc k x rows)
     | _ \<Rightarrow>
        (let note = error_note ''MULTIPLE_INFLIGHT_ACTIONS'' ''More than one high-risk action was in flight.'' in
         finish_with (checkpoint H worker (inc\<lparr>inc_state := REVIEW_REQUIRED, inc_error := note\<rparr>)
           now ''RECONCILIATION_BLOCKED'' note None)))"

section \<open>After the executor\<close>

definition may_be_applied :: "action_state \<Rightarrow> bool" where
  "may_be_applied s \<longleftrightarrow> s = EXECUTING \<or> s = APPLYING"

definition executor_raised :: "host \<Rightarrow> string \<Rightarrow> string \<Rightarrow> string \<Rightarrow> exn \<Rightarrow> flow run" where
  "executor_raised H worker i a e =
     rbind (load H i) (\<lambda>inc.
     rbind (rlift (action_by_id inc a)) (\<lambda>k.
     let x = inc_actions inc ! k in
     if \<not> may_be_applied (act_state x)
     then rraise (IncidentWorkflowError ''Executor raised after moving the action to an unexpected state'')
     else finish_with (settle_action H worker inc k x IN_DOUBT REVIEW_REQUIRED
       (error_note (exn_name e) ''Executor raised after a durable action intent; the outcome requires reconciliation.'')
       ''STEP_EXECUTION_IN_DOUBT'')))"

definition audit_status :: "pyval \<Rightarrow> pyval" where
  "audit_status result = dget (dget result ''audit'') ''status''"

text \<open>The lock graph is read again before a confirmed result counts as success.\<close>

definition verify_action :: "host \<Rightarrow> string \<Rightarrow> incident \<Rightarrow> nat \<Rightarrow> action \<Rightarrow> flow run" where
  "verify_action H worker inc k x =
     rbind (get_lock_graph_snapshot H) (\<lambda>snapshot.
     if incomplete snapshot
     then finish_with (review H worker (set_action inc k (x\<lparr>act_state := INCONCLUSIVE\<rparr>))
       (error_note ''TRUNCATED_POST_ACTION_SNAPSHOT'' ''The post-action lock graph is incomplete.'')
       ''POST_ACTION_VERIFICATION_INCONCLUSIVE'' (Some (act_id x)))
     else
      rbind (rlift (plan_rows snapshot)) (\<lambda>rows.
      if target_rows rows x \<noteq> []
      then finish_with (settle_action H worker inc k x INCONCLUSIVE REVIEW_REQUIRED
        (error_note ''BLOCKER_IDENTITY_STILL_PRESENT''
          ''The exact blocker still participates in the lock graph after the executor reported success.'')
        ''HOLISTIC_STEP_VERIFICATION_FAILED'')
      else
       rbind (clock H) (\<lambda>t.
       rbind (clock H) (\<lambda>t'.
         go_on (checkpoint H worker
           (set_action inc k (x\<lparr>act_state := SUCCEEDED, act_error := PNone, act_updated := iso_utc t\<rparr>))
           t' ''STEP_SUCCEEDED''
           (PDict [(''operation_id'', opt_text (act_operation x)),
                   (''resolved_blocked_pids'', act_blocked_pids x)]) (Some (act_id x)))))))"

definition record_outcome ::
  "host \<Rightarrow> string \<Rightarrow> nat \<Rightarrow> incident \<Rightarrow> nat \<Rightarrow> action \<Rightarrow> pyval \<Rightarrow> flow run" where
  "record_outcome H worker index inc k x result =
     rbind (clock H) (\<lambda>t.
     rbind (clock H) (\<lambda>t'.
     rbind (checkpoint H worker
       (set_action inc k (x\<lparr>act_result := result, act_state := RESULT_RECORDED, act_updated := iso_utc t\<rparr>))
       t' ''STEP_RESULT_RECORDED''
       (PDict [(''operation_id'', opt_text (act_operation x)), (''status'', dget result ''status''),
               (''audit_status'', audit_status result)]) (Some (act_id x))) (\<lambda>recorded.
     rbind (rlift (nth_action recorded index)) (\<lambda>y.
       if executor_result_confirmed result then verify_action H worker recorded index y
       else finish_with (settle_action H worker recorded index y FAILED REVIEW_REQUIRED
         (PDict [(''type'', PStr ''EXECUTOR_RESULT_NOT_CONFIRMED''), (''status'', dget result ''status''),
                 (''audit_status'', audit_status result)])
         ''STEP_FAILED_STOPPING_BATCH'')))))"

definition gate_refused :: "pyval \<Rightarrow> bool exc" where
  "gate_refused result =
     (let status = dget result ''status'' in
      if is_list status \<or> is_dict status then Inl (TypeError ''unhashable type'')
      else Inr (py_eq status (PStr ''BLOCKED_INCIDENT_APPROVAL'') \<or> py_eq status (PStr ''BLOCKED_RUNTIME_POLICY'')))"

text \<open>
  What the executor answered, against the state the action now has: only a claimed action
  (\<open>APPLYING\<close>) can have a result recorded.
\<close>

definition after_executor ::
  "host \<Rightarrow> string \<Rightarrow> string \<Rightarrow> nat \<Rightarrow> string \<Rightarrow> pyval \<Rightarrow> flow run" where
  "after_executor H worker i index a result =
     rbind (load H i) (\<lambda>inc.
     rbind (rlift (action_by_id inc a)) (\<lambda>k.
     let x = inc_actions inc ! k in
     if \<not> is_dict result then
       (if \<not> may_be_applied (act_state x)
        then rraise (IncidentWorkflowError ''Malformed executor output followed an unexpected action state'')
        else finish_with (settle_action H worker inc k x IN_DOUBT REVIEW_REQUIRED
          (error_note ''MALFORMED_EXECUTOR_RESULT''
            ''Executor returned a non-object after a durable execution intent; automatic retry is disabled.'')
          ''MALFORMED_EXECUTOR_RESULT''))
     else
      rbind (rlift (gate_refused result)) (\<lambda>refused.
      if refused \<and> act_state x = EXECUTING
      then finish_with (settle_action H worker inc k x PLANNED AWAITING_REAPPROVAL
        (PDict [(''type'', PStr ''EXECUTION_AUTHORIZATION_BLOCKED''),
                (''approval_error_type'', dget result ''approval_error_type''),
                (''policy_reason'', dget result ''policy_reason''),
                (''message'', PStr ''An execution gate refused this attempt before any authorized side effect. Fresh approval is required.'')])
        ''EXECUTION_AUTHORIZATION_BLOCKED'')
      else if act_state x \<noteq> APPLYING then
        (if act_state x \<noteq> EXECUTING
         then rraise (IncidentWorkflowError ''Executor returned after moving the action to an unexpected state'')
         else finish_with (settle_action H worker inc k x IN_DOUBT REVIEW_REQUIRED
           (error_note ''EXECUTION_CLAIM_MISSING''
             ''Executor returned without atomically claiming the persisted action; its outcome cannot be trusted.'')
           ''EXECUTION_CLAIM_MISSING''))
      else record_outcome H worker index inc k x result)))"

definition execution_context :: "host \<Rightarrow> incident \<Rightarrow> action \<Rightarrow> string \<Rightarrow> pyval" where
  "execution_context H inc x worker = PDict
     [(''kind'', PStr ''LOCK_INCIDENT_EXECUTION''), (''store_path'', PStr (store_path (h_store H))),
      (''worker_id'', PStr worker), (''incident_id'', PStr (inc_id inc)), (''action_id'', PStr (act_id x)),
      (''plan_revision'', PInt (inc_revision inc))]"

definition approval_context :: "incident \<Rightarrow> action \<Rightarrow> pyval exc" where
  "approval_context inc x = (case inc_approval inc of
     None \<Rightarrow> Inl (TypeError ''NoneType object does not support item assignment'')
   | Some p \<Rightarrow> Inr (approval_dict p (act_id x)))"

definition call_executor ::
  "host \<Rightarrow> executor \<Rightarrow> string \<Rightarrow> string \<Rightarrow> nat \<Rightarrow> incident \<Rightarrow> action \<Rightarrow> flow run" where
  "call_executor H exec worker i index inc x =
     rbind (attempt (rbind (rlift (approval_context inc x)) (\<lambda>ac.
        exec (act_proposal x) (opt_text (act_operation x)) ac (execution_context H inc x worker)))) (\<lambda>called.
     case called of
       Inl e \<Rightarrow> executor_raised H worker i (act_id x) e
     | Inr result \<Rightarrow> after_executor H worker i index (act_id x) result)"

section \<open>Before the executor\<close>

definition deadline_note :: "string \<Rightarrow> pyval" where
  "deadline_note message = error_note ''WORKFLOW_DEADLINE_EXPIRED'' message"

definition approval_note :: "host \<Rightarrow> validation \<Rightarrow> pyval" where
  "approval_note H v = PDict [(''type'', PStr ''APPROVAL_INVALID_OR_EXPIRED''),
     (''errors'', PList (map (\<lambda>e. PStr (h_approval_text H e)) (val_errors v)))]"

text \<open>The durable intent, then the call.\<close>

definition commit_intent ::
  "host \<Rightarrow> executor \<Rightarrow> string \<Rightarrow> string \<Rightarrow> nat \<Rightarrow> incident \<Rightarrow> action \<Rightarrow> int \<Rightarrow> flow run" where
  "commit_intent H exec worker i index inc x now =
     rbind (rlift (json_digest (h_platform H) (act_target x))) (\<lambda>target_digest.
     rbind (checkpoint H worker
       (set_action inc index (x\<lparr>act_state := EXECUTING, act_attempts := act_attempts x + 1,
          act_operation := Some (act_id x), act_updated := iso_utc now\<rparr>))
       now ''STEP_EXECUTION_INTENT''
       (PDict [(''operation_id'', PStr (act_id x)), (''target_digest'', PStr target_digest)])
       (Some (act_id x))) (\<lambda>intended.
     rbind (rlift (nth_action intended index)) (\<lambda>y.
       call_executor H exec worker i index intended y)))"

text \<open>The last gate: a renewed lease, then deadline and approval at a newly read time.\<close>

definition final_gate ::
  "host \<Rightarrow> executor \<Rightarrow> string \<Rightarrow> string \<Rightarrow> nat \<Rightarrow> incident \<Rightarrow> int \<Rightarrow> flow run" where
  "final_gate H exec worker i index inc representative =
     rbind (renew H i worker inc) (\<lambda>renewed.
     rbind (rlift (nth_action renewed index)) (\<lambda>y.
     let x = y\<lparr>act_proposal := dset (act_proposal y) ''blocked_pid'' (PInt representative)\<rparr>;
         current = set_action renewed index x
     in rbind (clock H) (\<lambda>now.
     if deadline_passed current now
     then (let note = deadline_note ''The incident deadline expired before the execution intent could be committed.'' in
       finish_with (checkpoint H worker (current\<lparr>inc_state := REVIEW_REQUIRED, inc_error := note\<rparr>) now
         ''WORKFLOW_DEADLINE_EXPIRED_BEFORE_INTENT'' note (Some (act_id x))))
     else
      rbind (rlift (approval_is_current H current x now)) (\<lambda>v.
      if \<not> val_valid v
      then finish_with (checkpoint H worker
        (current\<lparr>inc_state := AWAITING_REAPPROVAL, inc_error := approval_note H v\<rparr>) now
        ''APPROVAL_EXPIRED_BEFORE_INTENT'' (approval_note H v) (Some (act_id x)))
      else commit_intent H exec worker i index current x now))))"

definition first_gate ::
  "host \<Rightarrow> executor \<Rightarrow> string \<Rightarrow> string \<Rightarrow> nat \<Rightarrow> incident \<Rightarrow> action \<Rightarrow> pyval list \<Rightarrow> flow run" where
  "first_gate H exec worker i index inc y approved_rows =
     (let representative = list_min (map (\<lambda>row. int_of (dget row ''blocked_pid'')) approved_rows);
          x = y\<lparr>act_proposal := dset (act_proposal y) ''blocked_pid'' (PInt representative)\<rparr>;
          current = set_action inc index x
      in rbind (clock H) (\<lambda>now.
      if deadline_passed current now
      then (let note = deadline_note ''The incident deadline expired while the fresh lock snapshot was being collected.'' in
        finish_with (checkpoint H worker (current\<lparr>inc_state := REVIEW_REQUIRED, inc_error := note\<rparr>) now
          ''WORKFLOW_DEADLINE_EXPIRED_AFTER_OBSERVATION'' note (Some (act_id x))))
      else
       rbind (rlift (approval_is_current H current x now)) (\<lambda>v.
       if \<not> val_valid v
       then rbind (clock H) (\<lambda>t. finish_with (checkpoint H worker
         (current\<lparr>inc_state := AWAITING_REAPPROVAL, inc_error := approval_note H v\<rparr>) t
         ''APPROVAL_EXPIRED_OR_INVALID'' (approval_note H v) (Some (act_id x))))
       else final_gate H exec worker i index current representative)))"

text \<open>No approved relationship is left: resolved by others, or outside the approval.\<close>

definition no_approved_rows ::
  "host \<Rightarrow> string \<Rightarrow> nat \<Rightarrow> incident \<Rightarrow> action \<Rightarrow> bool \<Rightarrow> bool \<Rightarrow> flow run" where
  "no_approved_rows H worker index inc x visible in_policy =
     (if visible
      then finish_with (settle_action H worker inc index x REAPPROVAL_REQUIRED REVIEW_REQUIRED
        (if in_policy
         then error_note ''ONLY_NEW_WAITERS_REMAIN''
           ''The blocker now affects only waiter sessions outside the approved waiter-identity set.''
         else error_note ''TARGET_OUTSIDE_TERMINATION_POLICY''
           ''The exact blocker remains visible but no current relationship satisfies the lock termination policy.'')
        ''STEP_REAPPROVAL_REQUIRED'')
      else
       rbind (clock H) (\<lambda>t.
       rbind (clock H) (\<lambda>t'.
       rbind (rlift (json_digest (h_platform H) (act_target x))) (\<lambda>target_digest.
         go_on (checkpoint H worker
           (set_action inc index (x\<lparr>act_state := SKIPPED_RESOLVED, act_updated := iso_utc t\<rparr>))
           t' ''STEP_ALREADY_RESOLVED'' (PDict [(''target_digest'', PStr target_digest)])
           (Some (act_id x)))))))"

definition choose_rows ::
  "host \<Rightarrow> executor \<Rightarrow> string \<Rightarrow> string \<Rightarrow> nat \<Rightarrow> incident \<Rightarrow> action \<Rightarrow> pyval \<Rightarrow> flow run" where
  "choose_rows H exec worker i index inc x snapshot =
     rbind (rlift (plan_rows snapshot)) (\<lambda>rows.
     if pid_reused rows x
     then finish_with (settle_action H worker inc index x STALE_IDENTITY REVIEW_REQUIRED
       (error_note ''PID_REUSED'' ''The approved PID now has a different identity.'') ''STEP_STALE_IDENTITY'')
     else
      rbind (rlift (policy_rows snapshot)) (\<lambda>eligible.
      if approved_target_rows eligible x = []
      then no_approved_rows H worker index inc x (target_rows rows x \<noteq> []) (target_rows eligible x \<noteq> [])
      else first_gate H exec worker i index inc x (approved_target_rows eligible x)))"

definition run_planned ::
  "host \<Rightarrow> executor \<Rightarrow> string \<Rightarrow> string \<Rightarrow> nat \<Rightarrow> incident \<Rightarrow> flow run" where
  "run_planned H exec worker i index inc =
     rbind (clock H) (\<lambda>now.
     if deadline_passed inc now
     then (let note = deadline_note ''The incident execution deadline expired.'' in
       finish_with (checkpoint H worker (inc\<lparr>inc_state := REVIEW_REQUIRED, inc_error := note\<rparr>) now
         ''WORKFLOW_DEADLINE_EXPIRED'' note None))
     else
      rbind (renew H i worker inc) (\<lambda>renewed.
      rbind (rlift (nth_action renewed index)) (\<lambda>x.
      rbind (get_lock_graph_snapshot H) (\<lambda>snapshot.
      if incomplete snapshot
      then finish_with (review H worker renewed
        (error_note ''TRUNCATED_LOCK_SNAPSHOT'' ''The lock graph became incomplete before an action.'')
        ''STEP_BLOCKED_TRUNCATED_SNAPSHOT'' (Some (act_id x)))
      else choose_rows H exec worker i index renewed x snapshot))))"

definition run_action ::
  "host \<Rightarrow> executor \<Rightarrow> string \<Rightarrow> string \<Rightarrow> nat \<Rightarrow> incident \<Rightarrow> flow run" where
  "run_action H exec worker i index inc =
     rbind (rlift (nth_action inc index)) (\<lambda>x.
     if is_finished (act_state x) then rreturn (Go inc)
     else if act_state x \<noteq> PLANNED
     then finish_with (review H worker inc
       (PDict [(''type'', PStr ''UNEXPECTED_ACTION_STATE''), (''action_id'', PStr (act_id x)),
               (''state'', PStr (action_state_name (act_state x)))])
       ''UNEXPECTED_ACTION_STATE'' (Some (act_id x)))
     else run_planned H exec worker i index inc)"

fun run_actions ::
  "host \<Rightarrow> executor \<Rightarrow> string \<Rightarrow> string \<Rightarrow> nat list \<Rightarrow> incident \<Rightarrow> flow run" where
  "run_actions H exec worker i [] inc = rreturn (Go inc)"
| "run_actions H exec worker i (index # indices) inc =
     rbind (run_action H exec worker i index inc) (\<lambda>f. case f of
       Done r \<Rightarrow> rreturn (Done r)
     | Go inc' \<Rightarrow> run_actions H exec worker i indices inc')"

section \<open>One pass\<close>

definition complete_incident :: "host \<Rightarrow> string \<Rightarrow> incident \<Rightarrow> pyval list \<Rightarrow> pyval \<Rightarrow> incident run" where
  "complete_incident H worker inc rows summary =
     (let remaining = filter (\<lambda>x. target_rows rows x \<noteq> []) (inc_actions inc);
          unapproved = filter (\<lambda>row. \<not> list_ex (\<lambda>x. targets x row) (inc_actions inc)) rows;
          state = (if unapproved \<noteq> [] then COMPLETED_WITH_UNAPPROVED_REMAINDER else COMPLETED)
      in if remaining \<noteq> []
         then review H worker (inc\<lparr>inc_summary := summary\<rparr>)
           (PDict [(''type'', PStr ''APPROVED_TARGETS_REMAIN''),
                   (''action_ids'', PList (map (\<lambda>x. PStr (act_id x)) remaining))])
           ''FINAL_APPROVED_TARGETS_REMAIN'' None
         else
          rbind (clock H) (\<lambda>t. checkpoint H worker
            (inc\<lparr>inc_summary := summary, inc_error := PNone, inc_state := state,
               inc_reason := Some (if unapproved \<noteq> []
                 then ''APPROVED_SCOPE_RESOLVED_NEW_OR_UNAPPROVED_LOCKS_REMAIN''
                 else ''APPROVED_SCOPE_RESOLVED'')\<rparr>)
            t ''INCIDENT_COMPLETED''
            (PDict [(''state'', PStr (incident_state_name state)),
                    (''remaining_relationship_count'', PInt (int (length unapproved)))]) None))"

definition finish_incident :: "host \<Rightarrow> string \<Rightarrow> incident \<Rightarrow> incident run" where
  "finish_incident H worker inc =
     rbind (get_lock_graph_snapshot H) (\<lambda>snapshot.
     if incomplete snapshot
     then review H worker inc
       (error_note ''TRUNCATED_FINAL_SNAPSHOT'' ''The incident cannot be completed without a full final lock graph.'')
       ''FINAL_VERIFICATION_INCONCLUSIVE'' None
     else
      rbind (rlift (plan_rows snapshot)) (\<lambda>rows.
      case summarize_snapshot snapshot of
        Inl m \<Rightarrow> rraise (IncidentPlanError m)
      | Inr summary \<Rightarrow> complete_incident H worker inc rows summary))"

definition run_approved :: "host \<Rightarrow> executor \<Rightarrow> string \<Rightarrow> string \<Rightarrow> incident \<Rightarrow> incident run" where
  "run_approved H exec worker i inc =
     rbind (clock H) (\<lambda>_.
     rbind (renew H i worker inc) (\<lambda>renewed.
     rbind (get_lock_graph_snapshot H) (\<lambda>snapshot.
     if incomplete snapshot
     then review H worker renewed
       (error_note ''TRUNCATED_LOCK_SNAPSHOT'' ''A complete lock graph is required before execution.'')
       ''EXECUTION_BLOCKED_TRUNCATED_SNAPSHOT'' None
     else
      rbind (clock H) (\<lambda>now.
      rbind (reconcile_inflight H worker now renewed snapshot) (\<lambda>f. case f of
        Done r \<Rightarrow> rreturn r
      | Go ready \<Rightarrow>
         rbind (run_actions H exec worker i [0..<length (inc_actions ready)] ready) (\<lambda>g. case g of
           Done r \<Rightarrow> rreturn r
         | Go finished \<Rightarrow> finish_incident H worker finished))))))"

text \<open>The decision and the plan it was asked for: its revision and the digest of its actions.\<close>

definition plan_digest :: "host \<Rightarrow> incident \<Rightarrow> string exc" where
  "plan_digest H inc = ebind (canonical_approved_actions (map action_dict (inc_actions inc)))
     (\<lambda>actions. json_digest (h_platform H) (PList actions))"

definition awaits_approval :: "incident \<Rightarrow> bool" where
  "awaits_approval inc \<longleftrightarrow> inc_state inc = AWAITING_APPROVAL \<or> inc_state inc = AWAITING_REAPPROVAL"

definition collect_decision ::
  "host \<Rightarrow> (nat \<Rightarrow> incident \<Rightarrow> pyval exc) \<Rightarrow> incident \<Rightarrow> (pyval \<times> int \<times> string) run" where
  "collect_decision H decider inc =
     rbind (rlift (plan_digest H inc)) (\<lambda>digest.
     rbind (sample decider) (\<lambda>decide.
     rbind (rlift (decide inc)) (\<lambda>decision.
       rreturn (decision, inc_revision inc, digest))))"

definition apply_decision ::
  "host \<Rightarrow> string \<Rightarrow> incident \<Rightarrow> (pyval \<times> int \<times> string) \<Rightarrow> flow run" where
  "apply_decision H worker inc = (\<lambda>(decision, revision, digest).
     rbind (rlift (plan_digest H inc)) (\<lambda>current_digest.
     if inc_revision inc \<noteq> revision \<or> current_digest \<noteq> digest
     then rraise (IncidentWorkflowError ''The plan changed while approval was being collected.'')
     else
      rbind (clock H) (\<lambda>now.
      let (approved, actor) = decision_value decision in
      if \<not> approved
      then finish_with (checkpoint H worker
        (inc\<lparr>inc_state := CANCELLED, inc_reason := Some ''USER_REJECTED_BATCH''\<rparr>) now
        ''APPROVAL_REJECTED'' (PDict [(''actor'', PStr actor)]) None)
      else
       rbind (build_approval H inc actor now) (\<lambda>p.
         go_on (checkpoint H worker (inc\<lparr>inc_approval := Some p, inc_state := RUNNING\<rparr>) now
           ''PLAN_APPROVED''
           (PDict [(''approval_id'', PStr (apr_id p)), (''scope_digest'', PStr (apr_digest p)),
                   (''action_count'', PInt (int (length (inc_actions inc))))]) None)))))"

definition run_leased ::
  "host \<Rightarrow> executor \<Rightarrow> string \<Rightarrow> string \<Rightarrow> (pyval \<times> int \<times> string) option \<Rightarrow> incident \<Rightarrow> incident run" where
  "run_leased H exec worker i decision inc =
     rbind (if awaits_approval inc
            then (case decision of None \<Rightarrow> rreturn (Done inc) | Some c \<Rightarrow>
              if fst c = PNone then rreturn (Done inc) else apply_decision H worker inc c)
            else rreturn (Go inc)) (\<lambda>f. case f of
       Done r \<Rightarrow> rreturn r
     | Go ready \<Rightarrow> if inc_state ready \<noteq> RUNNING then rreturn ready else run_approved H exec worker i ready)"

definition run_with_lease ::
  "host \<Rightarrow> executor \<Rightarrow> string \<Rightarrow> incident \<Rightarrow> (pyval \<times> int \<times> string) option \<Rightarrow> incident run" where
  "run_with_lease H exec i loaded decision =
     rbind (new_uuid H) (\<lambda>worker.
     rbind (clock H) (\<lambda>_.
     rbind (acquire H i worker loaded) (\<lambda>inc.
       rfinally (run_leased H exec worker i decision inc) (release H i worker))))"

definition run_lock_incident_once :: "host \<Rightarrow> executor \<Rightarrow> string \<Rightarrow> incident run" where
  "run_lock_incident_once H exec i =
     rbind (load H i) (\<lambda>inc.
     if is_terminal (inc_state inc) then rreturn inc
     else if awaits_approval inc
     then (case h_decider H of
             None \<Rightarrow> rreturn inc
           | Some decider \<Rightarrow>
               rbind (collect_decision H decider inc) (\<lambda>c. run_with_lease H exec i inc (Some c)))
     else run_with_lease H exec i inc None)"

definition run_lock_incident :: "host \<Rightarrow> executor \<Rightarrow> string \<Rightarrow> incident run" where
  "run_lock_incident H exec i =
     rbind (load H i) (\<lambda>_. rbind (run_lock_incident_once H exec i) (\<lambda>_. load H i))"

end
