(* ===== verification/ExecutorSafety.thy ===== *)
theory ExecutorSafety
  imports Executor
begin

text \<open>
  What the executor guarantees, whatever the database, the operator, the clock and the audit
  sink answer: every statement is disciplined, the intent is on the audit log before anything
  is sent, and a termination asked for by a workflow is covered by a claim of its own.
\<close>

section \<open>Statements that terminate nothing\<close>

fun is_termination :: "nat \<times> connection \<times> statement \<Rightarrow> bool" where
  "is_termination (_, _, Terminate_backend _ _ _ _ _ _ _) = True"
| "is_termination _ = False"

definition harmless :: "host \<Rightarrow> nat \<times> connection \<times> statement \<Rightarrow> bool" where
  "harmless H t \<longleftrightarrow> disciplined H t \<and> \<not> is_termination t"

lemma disciplined_termination:
  "disciplined H t \<Longrightarrow> is_termination t \<Longrightarrow> fst (snd t) = Terminator"
  by (cases t rule: is_termination.cases) (auto simp: disciplined_def)

lemma harmless_no_termination: "harmless H t \<Longrightarrow> \<not> is_termination t"
  by (simp add: harmless_def)

lemma reading_lawful:
  "obeys inert m \<Longrightarrow> obeys (sends (reading H)) m \<Longrightarrow> obeys (lawful H' (harmless H)) m"
  by (rule lawful_mono [where S = "reading H"]) (auto simp: reading_def harmless_def dest: disciplined_termination intro: inert_lawful)

lemma maintaining_lawful:
  "obeys inert m \<Longrightarrow> obeys (sends (maintaining H)) m \<Longrightarrow> obeys (lawful H' (harmless H)) m"
  by (rule lawful_mono [where S = "maintaining H"]) (auto simp: maintaining_def harmless_def dest: disciplined_termination intro: inert_lawful)

lemmas reading_tools =
  reading_lawful [OF validate_action_same validate_action_sends]
  reading_lawful [OF plan_same get_query_plan_sends]
  reading_lawful [OF tools_same(3) catalog_sends(3)]
  reading_lawful [OF get_lock_waits_same get_lock_waits_sends]
  reading_lawful [OF tools_same(5) benchmark_query_sends]
  reading_lawful [OF tools_same(6) compare_query_results_sends]

lemmas maintaining_tools =
  maintaining_lawful [OF tools_same(7) create_index_sends]
  maintaining_lawful [OF tools_same(8) analyze_table_sends]
  maintaining_lawful [OF tools_same(9) drop_index_sends]

lemma write_action_audit_lawful: "obeys (lawful H' S) (write_action_audit H result proposal)"
  unfolding write_action_audit_def by (rule lawful.obeys_intros obeys_effects)+

lemmas lawful_rules = write_action_audit_lawful lawful.obeys_intros obeys_effects

lemma capture_lawful:
  "obeys (lawful H (harmless H)) (capture_query_analysis H query)"
  "obeys (lawful H (harmless H)) (capture_query_state H query table)"
  unfolding capture_query_analysis_def capture_query_state_def
  by (rule reading_tools lawful_rules)+

lemma statistics_lawful: "obeys (lawful H (harmless H)) (capture_statistics H table columns result)"
  by (induction columns arbitrary: result) (auto intro!: reading_tools lawful_rules)

lemma capture_statistics_lawful: "obeys (lawful H (harmless H)) (capture_statistics_state H table columns)"
  by (simp add: capture_statistics_state_def statistics_lawful)

lemma operator_lawful: "obeys (lawful H' S) (operator_approves H)"
  unfolding operator_approves_def by (rule lawful_rules)+

lemma rewrite_lawful: "obeys (lawful H (harmless H)) (execute_query_rewrite_proposal H proposal o')"
  unfolding execute_query_rewrite_proposal_def compare_rewrite_def Let_def
  by (rule capture_lawful reading_tools lawful_rules)+

lemma analyze_lawful: "obeys (lawful H (harmless H)) (execute_analyze_table_proposal H proposal o')"
  unfolding execute_analyze_table_proposal_def analyze_with_evidence_def Let_def
  by (rule capture_lawful capture_statistics_lawful operator_lawful reading_tools maintaining_tools lawful_rules)+

lemma rollback_lawful: "obeys (lawful H (harmless H)) (rollback_index H proposal identity)"
  unfolding rollback_index_def by (rule maintaining_tools lawful_rules)+

lemma index_lawful: "obeys (lawful H (harmless H)) (execute_create_index H proposal o')"
  unfolding execute_create_index_def index_experiment_def undo_unverified_index_def decide_index_def Let_def
  by (rule capture_lawful rollback_lawful operator_lawful reading_tools maintaining_tools lawful_rules)+

section \<open>Terminations\<close>

lemma harmless_disciplined: "obeys (lawful H' (harmless H)) m \<Longrightarrow> obeys (lawful H' (disciplined H)) m"
  by (rule lawful_mono [where S = "harmless H"]) (auto simp: harmless_def)

lemma terminate_lawful: "obeys (lawful H' (disciplined H)) (terminate_blocking_backend H a b c d e f g)"
  by (rule inert_lawful [OF tools_same(10) terminate_sends])

lemma verify_termination_lawful:
  "obeys (lawful H (harmless H)) (verify_termination H proposal o' risk source evidence executed)"
  unfolding verify_termination_def Let_def by (rule reading_tools lawful_rules)+

lemma run_termination_lawful:
  "obeys (lawful H (disciplined H)) (run_termination H proposal o' risk source evidence)"
  unfolding run_termination_def
  by (rule terminate_lawful harmless_disciplined [OF verify_termination_lawful] lawful_rules)+

lemma claim_lawful:
  "obeys (lawful H S) (claim_incident_execution H proposal o' ac ec evidence)"
  unfolding claim_incident_execution_def
  by (rule lawful.obeys_attempt, rule lawful_transact) (auto intro: store_step.claim)

lemma incident_lawful:
  "obeys (lawful H (disciplined H)) (terminate_for_incident H proposal o' ac ec risk evidence)"
  unfolding terminate_for_incident_def approval_refused_def
  by (rule claim_lawful run_termination_lawful lawful_rules)+

lemma terminate_proposal_lawful:
  "obeys (lawful H (disciplined H)) (execute_terminate_backend_proposal H proposal o' ac ec)"
  unfolding execute_terminate_backend_proposal_def terminate_interactively_def Let_def
  by (rule incident_lawful run_termination_lawful operator_lawful
      harmless_disciplined [OF reading_tools(1)] lawful_rules)+

section \<open>The executor\<close>

lemma policy_refusal_lawful: "obeys (lawful H' S) (policy_refusal H proposal)"
  unfolding policy_refusal_def Let_def by (rule lawful_rules)+

lemma execute_with_intent_lawful:
  "obeys (lawful H (disciplined H)) (execute_with_intent H proposal o' ac ec)"
  unfolding execute_with_intent_def Let_def
  by (rule terminate_proposal_lawful harmless_disciplined rewrite_lawful analyze_lawful index_lawful
      lawful_rules)+

lemma execute_audited_lawful:
  "obeys (lawful H (disciplined H)) (execute_audited H proposal o' ac ec)"
  unfolding execute_audited_def unhandled_def
  by (rule policy_refusal_lawful execute_with_intent_lawful lawful_rules)+

lemma execute_locally_lawful:
  "obeys (lawful H (disciplined H)) (execute_locally H proposal o' ac ec)"
  unfolding execute_locally_def execute_identified_def
  by (rule execute_audited_lawful lawful_rules)+

section \<open>What is new in a world\<close>

definition new_statements :: "world \<Rightarrow> world \<Rightarrow> (nat \<times> connection \<times> statement) set" where
  "new_statements w w' = set (drop (length (w_trace w)) (w_trace w'))"

definition terminations :: "world \<Rightarrow> nat" where
  "terminations w = length (filter is_termination (w_trace w))"

definition claims :: "world \<Rightarrow> nat" where
  "claims w = length (claim_events (w_db w))"

lemma new_statements_sends: "sends S w w' \<Longrightarrow> t \<in> new_statements w w' \<Longrightarrow> S t"
  by (auto simp: sends_def new_statements_def list_all_iff)

lemma new_statements_refl [simp]: "new_statements w w = {}"
  by (simp add: new_statements_def)

lemma new_statements_trans:
  assumes "sends S u v" and "sends S' v w"
  shows "new_statements u w = new_statements u v \<union> new_statements v w"
  using assms by (auto simp: sends_def new_statements_def)

lemma new_statements_timed:
  assumes "timed w w'" and "(n, c, s) \<in> new_statements w w'"
  shows "w_tick w \<le> n"
  using assms by (auto simp: timed_def since_def new_statements_def list_all_iff)

lemma terminations_harmless:
  assumes "sends (harmless H) w w'"
  shows "terminations w' = terminations w"
proof -
  from assms obtain ts where ts: "w_trace w' = w_trace w @ ts" "list_all (harmless H) ts"
    unfolding sends_def by blast
  have "filter is_termination ts = []"
    using ts(2) by (auto simp only: list_all_iff filter_empty_conv dest: harmless_no_termination bspec)
  with ts(1) show ?thesis by (simp add: terminations_def)
qed

lemma store_steps_claims:
  assumes "store_steps P C d d'"
  shows "length (claim_events d) \<le> length (claim_events d')"
  using assms
proof (induction rule: rtranclp_induct)
  case (step d' d'')
  from store_step_evolves [OF step.hyps(2)] have "\<exists>zs. db_events d'' = db_events d' @ zs"
    by (simp add: evolves_def)
  then have "length (claim_events d') \<le> length (claim_events d'')" by (auto simp: claim_events_def)
  with step.IH show ?case by simp
qed simp

section \<open>Terminations are backed by claims\<close>

definition claimed_between ::
  "host \<Rightarrow> pyval \<Rightarrow> string \<Rightarrow> pyval \<Rightarrow> pyval \<Rightarrow> nat \<Rightarrow> db \<Rightarrow> db \<Rightarrow> bool" where
  "claimed_between H proposal operation_id ac ec n d d' \<longleftrightarrow>
     (\<exists>k < n. \<exists>d1 d2 evidence authorization.
        store_steps (h_platform H) (h_store H) d d1
      \<and> claim_action_execution (h_platform H) (h_store H) (h_now H k) d1 ac (PStr operation_id)
          proposal evidence ec = (d2, Inr authorization)
      \<and> store_steps (h_platform H) (h_store H) d2 d')"

definition backed :: "host \<Rightarrow> pyval \<Rightarrow> string \<Rightarrow> pyval \<Rightarrow> pyval \<Rightarrow> world \<Rightarrow> world \<Rightarrow> bool" where
  "backed H proposal operation_id ac ec w w' \<longleftrightarrow>
     lawful H (disciplined H) w w'
   \<and> terminations w' + claims w \<le> terminations w + claims w'
   \<and> (\<forall>(n, c, s) \<in> new_statements w w'. is_termination (n, c, s) \<longrightarrow>
        claimed_between H proposal operation_id ac ec n (w_db w) (w_db w'))"

lemma claimed_between_widen:
  assumes "claimed_between H proposal o' ac ec n d1 d2"
    and "store_steps (h_platform H) (h_store H) d d1" and "store_steps (h_platform H) (h_store H) d2 d'"
  shows "claimed_between H proposal o' ac ec n d d'"
  using assms unfolding claimed_between_def by (meson rtranclp_trans)

interpretation backed: world_relation "backed H proposal o' ac ec" for H proposal o' ac ec
proof
  show "backed H proposal o' ac ec w w" for w
    by (simp add: backed_def lawful.refl)
next
  fix u v w
  assume uv: "backed H proposal o' ac ec u v" and vw: "backed H proposal o' ac ec v w"
  then have l: "lawful H (disciplined H) u v" "lawful H (disciplined H) v w" by (simp_all add: backed_def)
  have new: "new_statements u w = new_statements u v \<union> new_statements v w"
    by (rule new_statements_trans [of "disciplined H" _ _ "disciplined H"]) (use l in \<open>simp_all add: lawful_def\<close>)
  have steps: "store_steps (h_platform H) (h_store H) (w_db u) (w_db v)"
    "store_steps (h_platform H) (h_store H) (w_db v) (w_db w)"
    using l by (simp_all add: lawful_def)
  have "claimed_between H proposal o' ac ec n (w_db u) (w_db w)"
    if t: "(n, c, s) \<in> new_statements u w" "is_termination (n, c, s)" for n c s
  proof (cases "(n, c, s) \<in> new_statements u v")
    case True
    with uv t(2) have "claimed_between H proposal o' ac ec n (w_db u) (w_db v)" by (auto simp: backed_def)
    then show ?thesis using steps(2) by (rule claimed_between_widen [OF _ rtranclp.rtrancl_refl])
  next
    case False
    with t(1) new have "(n, c, s) \<in> new_statements v w" by simp
    with vw t(2) have "claimed_between H proposal o' ac ec n (w_db v) (w_db w)" by (auto simp: backed_def)
    then show ?thesis using steps(1) by (rule claimed_between_widen [OF _ _ rtranclp.rtrancl_refl])
  qed
  moreover have "lawful H (disciplined H) u w" using l by (rule lawful.trans)
  moreover have "terminations w + claims u \<le> terminations u + claims w"
    using uv vw by (simp add: backed_def)
  ultimately show "backed H proposal o' ac ec u w" by (auto simp: backed_def)
qed

lemma harmless_backed:
  assumes "obeys (lawful H (harmless H)) m"
  shows "obeys (backed H proposal o' ac ec) m"
proof -
  have "backed H proposal o' ac ec w (fst (m w))" for w
  proof -
    have l: "lawful H (harmless H) w (fst (m w))" using assms by (simp add: obeys_def)
    then have s: "sends (harmless H) w (fst (m w))" by (simp add: lawful_def)
    have "lawful H (disciplined H) w (fst (m w))"
      using harmless_disciplined [OF assms] by (simp add: obeys_def)
    moreover have "claims w \<le> claims (fst (m w))"
      using l unfolding claims_def lawful_def by (blast intro: store_steps_claims)
    moreover have "\<not> is_termination t" if "t \<in> new_statements w (fst (m w))" for t
      using new_statements_sends [OF s that] by (rule harmless_no_termination)
    ultimately show ?thesis
      unfolding backed_def using terminations_harmless [OF s] by auto
  qed
  then show ?thesis by (simp add: obeys_def)
qed

text \<open>At most one statement per call of the terminator.\<close>

lemma terminate_once:
  "terminations (fst (terminate_blocking_backend H a b c d e f g w)) \<le> Suc (terminations w)"
  by (auto simp: terminate_blocking_backend_def rbind_def require_def sample_def ask_def
      terminator_connection_def terminations_def split: sum.split)

lemma run_termination_once:
  "terminations (fst (run_termination H proposal o' risk source evidence w)) \<le> Suc (terminations w)"
proof -
  let ?t = "terminate_blocking_backend H (dget proposal ''blocked_pid'') (dget proposal ''blocker_pid'')
      (dget proposal ''blocker_backend_start'') (dget proposal ''blocker_xact_start'') (PInt 5000)
      (dget evidence ''blocked_backend_start'') (dget evidence ''blocked_xact_start'')"
  define rest where "rest = (\<lambda>executed. case executed of
       Inl e \<Rightarrow> write_action_audit H
         (termination_result o' ''FAILED'' ''FAILED'' risk source
          @ [(''error'', PStr (h_exn_text H e)), (''before_evidence'', evidence)]) proposal
     | Inr execution_evidence \<Rightarrow>
         if \<not> truthy (dget execution_evidence ''final_validation_passed'')
         then write_action_audit H
           (termination_result o' ''BLOCKED_FINAL_REVALIDATION'' ''BLOCK'' risk source
            @ [(''before_evidence'', evidence), (''final_execution_evidence'', execution_evidence)]) proposal
         else if \<not> truthy (dget execution_evidence ''terminated'')
         then write_action_audit H
           (termination_result o' ''TERMINATION_FAILED'' ''FAILED'' risk source
            @ [(''before_evidence'', evidence), (''final_execution_evidence'', execution_evidence)]) proposal
         else verify_termination H proposal o' risk source evidence execution_evidence)"
  have run: "run_termination H proposal o' risk source evidence = rbind (attempt ?t) rest"
    by (simp add: run_termination_def rest_def)
  have "obeys (lawful H (harmless H)) (rest r)" for r
    unfolding rest_def by (rule verify_termination_lawful lawful_rules)+
  then have rest: "terminations (fst (rest r v)) = terminations v" for r v
    by (intro terminations_harmless [of H]) (simp add: obeys_def lawful_def)
  obtain v r where v: "?t w = (v, r)" by (cases "?t w")
  then have "fst (rbind (attempt ?t) rest w) = fst (rest r v)" by (simp add: rbind_def attempt_def)
  moreover have "terminations v \<le> Suc (terminations w)"
    using terminate_once [of H _ _ _ _ _ _ _ w] v by (metis fst_conv)
  ultimately show ?thesis using run rest by simp
qed

lemma claim_logs_event:
  assumes "claim_action_execution P C now d ac op pr ev ec = (d', Inr auth)"
  shows "length (claim_events d') = Suc (length (claim_events d))"
proof -
  from assms have "claim_transaction P now d ac op pr ev ec = Inr (d', auth)" by (rule claim_InrE)
  then obtain r x y where
    "claim_writes P now r x y op (dget ec ''plan_revision'') (dget ec ''worker_id'') ev d = Inr (d', auth)"
    by (rule claim_transactionE)
  then obtain d1 payload where
    up: "update_checked
       (\<lambda>z. inc_id z = inc_id r \<and> inc_version z = inc_version r \<and> inc_state z = RUNNING
          \<and> inc_approval_id z = Some (apr_id y) \<and> py_eq (opt_text (inc_lease_owner z)) (dget ec ''worker_id'')
          \<and> (case inc_lease_expires z of None \<Rightarrow> False | Some e \<Rightarrow> iso_utc now < e))
       (\<lambda>z. z\<lparr>inc_version := inc_version z + 1, inc_updated := iso_utc now\<rparr>)
       (unavailable ''Incident revision, approval, or lease changed while claiming the action.'')
       (d\<lparr>db_actions := update_where (intent (inc_id r) (act_id x) op)
          (\<lambda>(j, b). (j, b\<lparr>act_state := APPLYING, act_updated := iso_utc now\<rparr>)) (db_actions d)\<rparr>) = Inr d1"
    and d': "d' = append_event (inc_id r) (Some (act_id x)) (iso_utc now) ''ACTION_EXECUTION_CLAIMED''
       (Some ''EXECUTING'') (Some ''APPLYING'') payload d1" by (rule claim_writesE)
  have "db_events d1 = db_events d" using up by (simp add: update_checked_Inr)
  then have "claim_events d1 = claim_events d" by (rule claim_events_cong)
  then show ?thesis unfolding d' by simp
qed

lemma incident_backed:
  "obeys (backed H proposal o' ac ec) (terminate_for_incident H proposal o' ac ec risk evidence)"
proof -
  have refused: "obeys (backed H proposal o' ac ec) (approval_refused H proposal o' risk evidence m items)" for m items
    unfolding approval_refused_def by (rule harmless_backed, rule write_action_audit_lawful)
  have "backed H proposal o' ac ec w
      (fst (terminate_for_incident H proposal o' ac ec risk evidence w))" for w
  proof (cases "is_dict ac \<and> is_dict ec")
    case False
    then show ?thesis using refused by (auto simp: terminate_for_incident_def obeys_def)
  next
    case dicts: True
    let ?claim = "claim_incident_execution H proposal o' ac ec evidence"
    obtain v r where v: "?claim w = (v, Inr r)"
      unfolding claim_incident_execution_def attempt_def by (simp add: case_prod_beta)
    have claim: "lawful H (harmless H) w v"
      using claim_lawful [of H "harmless H" proposal o' ac ec evidence] v by (rule lawful.obeysD)
    show ?thesis
    proof (cases r)
      case (Inl e)
      have "backed H proposal o' ac ec w v"
        using harmless_backed [OF claim_lawful] v by (rule backed.obeysD)
      moreover have "backed H proposal o' ac ec v (fst (approval_refused H proposal o' risk evidence
          ''The configured incident store did not authorize this action.''
          [(''approval_error_type'', PStr (exn_name e))] v))"
        using refused by (simp add: obeys_def)
      ultimately show ?thesis
        using dicts v Inl by (auto simp: terminate_for_incident_def rbind_def intro: backed.trans)
    next
      case (Inr authorization)
      let ?run = "run_termination H proposal o' risk (claimed_source authorization) evidence"
      let ?d1 = "interfere H (w_tick w) (w_db w)"
      have c: "claim_action_execution (h_platform H) (h_store H) (h_now H (w_tick w)) ?d1 ac (PStr o')
          proposal evidence ec = (w_db v, Inr authorization)"
        and tick: "w_tick v = Suc (w_tick w)" and same: "w_trace v = w_trace w"
        using v Inr by (auto simp: claim_incident_execution_def attempt_def transact_def
            split: prod.splits option.splits)
      have d1: "store_steps (h_platform H) (h_store H) (w_db w) ?d1"
        by (rule interfere_steps)
      obtain w' q where w': "?run v = (w', q)" by (cases "?run v")
      have run: "lawful H (disciplined H) v w'" using run_termination_lawful w' by (rule lawful.obeysD)
      then have steps: "store_steps (h_platform H) (h_store H) (w_db v) (w_db w')"
        and sent: "sends (disciplined H) v w'" and time: "timed v w'" by (simp_all add: lawful_def)
      have "terminations w' \<le> Suc (terminations v)"
        using run_termination_once [of H proposal o' risk "claimed_source authorization" evidence v] w' by simp
      moreover have "terminations v = terminations w" using same by (simp add: terminations_def)
      moreover have "Suc (claims w) \<le> claims w'"
        using claim_logs_event [OF c] store_steps_claims [OF d1] store_steps_claims [OF steps]
        by (simp add: claims_def)
      ultimately have count: "terminations w' + claims w \<le> terminations w + claims w'" by simp
      have "claimed_between H proposal o' ac ec n (w_db w) (w_db w')"
        if "(n, k, s) \<in> new_statements w w'" for n k s
      proof -
        from that same have "(n, k, s) \<in> new_statements v w'" by (simp add: new_statements_def)
        with time tick have "w_tick w < n" using new_statements_timed by fastforce
        with c d1 steps show ?thesis unfolding claimed_between_def by blast
      qed
      moreover have "lawful H (disciplined H) w w'"
        using claim_lawful v run by (blast intro: lawful.trans lawful.obeysD)
      ultimately have "backed H proposal o' ac ec w w'" using count by (auto simp: backed_def)
      then show ?thesis using dicts v Inr w' by (simp add: terminate_for_incident_def rbind_def)
    qed
  qed
  then show ?thesis by (simp add: obeys_def)
qed

lemmas backed_rules = harmless_backed [OF write_action_audit_lawful] backed.obeys_intros
  harmless_backed [OF obeys_clock(3)] harmless_backed [OF obeys_uuid(3)] harmless_backed [OF obeys_audit_log(2)]

lemma terminate_proposal_backed:
  assumes "ac \<noteq> PNone \<or> ec \<noteq> PNone"
  shows "obeys (backed H proposal o' ac ec) (execute_terminate_backend_proposal H proposal o' ac ec)"
  unfolding execute_terminate_backend_proposal_def Let_def if_P [OF assms]
  by (rule incident_backed assms harmless_backed [OF reading_tools(1)] backed_rules)+

lemma execute_audited_backed:
  assumes "ac \<noteq> PNone \<or> ec \<noteq> PNone"
  shows "obeys (backed H proposal o' ac ec) (execute_audited H proposal o' ac ec)"
  unfolding execute_audited_def execute_with_intent_def unhandled_def Let_def
  by (rule terminate_proposal_backed assms harmless_backed [OF policy_refusal_lawful]
      harmless_backed [OF rewrite_lawful] harmless_backed [OF analyze_lawful] harmless_backed [OF index_lawful]
      backed_rules)+

section \<open>The executor's guarantees\<close>

text \<open>The two ways through \<open>execute_locally\<close>: nothing was done, or the intent is on the log.\<close>

lemma execute_identifiedE:
  assumes "execute_identified H proposal ac ec i w = (w', r)"
  obtains (refused) "w_db w' = w_db w" "w_trace w' = w_trace w" "w_audit w' = w_audit w"
      "\<exists>items. r = Inr (PDict items) \<and> (map_of items ''status'' = Some (PStr ''BLOCKED_VALIDATION'')
         \<or> map_of items ''status'' = Some (PStr ''BLOCKED_AUDIT_UNAVAILABLE''))"
  | (recorded) v k ident where "is_valid_uuid (PStr ident)" "i = PStr ident"
      "execute_audited H proposal ident ac ec v = (w', r)"
      "w_db v = w_db w" "w_trace v = w_trace w" "w_tick w \<le> k" "w_tick v = Suc k"
      "w_audit v = w_audit w @ [(k, intent_record ident proposal ac ec (h_now H (k - 1)))]"
      "h_audit H k (intent_record ident proposal ac ec (h_now H (k - 1))) = None"
proof (cases "is_valid_uuid i")
  case False
  with assms show thesis by (intro refused) (auto simp: execute_identified_def)
next
  case uuid: True
  then obtain ident where ident: "i = PStr ident" using is_valid_uuid_str is_str_iff by blast
  let ?entry = "intent_record ident proposal ac ec (h_now H (w_tick w))"
  let ?v = "w\<lparr>w_tick := Suc (Suc (w_tick w))\<rparr>"
  note run = assms [unfolded execute_identified_def ident rbind_def clock_def sample_def attempt_def audit_log_def]
  show thesis
  proof (cases "h_audit H (Suc (w_tick w)) ?entry")
    case (Some e)
    with run uuid ident have "w' = ?v" "\<exists>items. r = Inr (PDict items)
        \<and> map_of items ''status'' = Some (PStr ''BLOCKED_AUDIT_UNAVAILABLE'')"
      by auto
    then show thesis by (intro refused) auto
  next
    case None
    have "execute_audited H proposal ident ac ec
        (?v\<lparr>w_audit := w_audit w @ [(Suc (w_tick w), ?entry)]\<rparr>) = (w', r)"
      using run uuid ident None by simp
    with uuid ident None show thesis
      by (intro recorded [of ident "?v\<lparr>w_audit := w_audit w @ [(Suc (w_tick w), ?entry)]\<rparr>" "Suc (w_tick w)"])
        simp_all
  qed
qed

lemma execute_locallyE:
  assumes "execute_locally H proposal operation_id ac ec w = (w', r)"
  obtains (refused) "w_db w' = w_db w" "w_trace w' = w_trace w" "w_audit w' = w_audit w"
      "\<exists>items. r = Inr (PDict items) \<and> (map_of items ''status'' = Some (PStr ''BLOCKED_VALIDATION'')
         \<or> map_of items ''status'' = Some (PStr ''BLOCKED_AUDIT_UNAVAILABLE''))"
  | (recorded) v k ident where "is_valid_uuid (PStr ident)" "truthy operation_id \<Longrightarrow> operation_id = PStr ident"
      "execute_audited H proposal ident ac ec v = (w', r)"
      "w_db v = w_db w" "w_trace v = w_trace w" "w_tick w \<le> k" "w_tick v = Suc k"
      "w_audit v = w_audit w @ [(k, intent_record ident proposal ac ec (h_now H (k - 1)))]"
      "h_audit H k (intent_record ident proposal ac ec (h_now H (k - 1))) = None"
proof (cases "truthy operation_id")
  case True
  with assms have "execute_identified H proposal ac ec operation_id w = (w', r)" by (simp add: execute_locally_def)
  then show thesis
  proof (rule execute_identifiedE)
    fix v k ident
    assume "is_valid_uuid (PStr ident)" "operation_id = PStr ident"
      "execute_audited H proposal ident ac ec v = (w', r)"
      "w_db v = w_db w" "w_trace v = w_trace w" "w_tick w \<le> k" "w_tick v = Suc k"
      "w_audit v = w_audit w @ [(k, intent_record ident proposal ac ec (h_now H (k - 1)))]"
      "h_audit H k (intent_record ident proposal ac ec (h_now H (k - 1))) = None"
    then show thesis by (intro recorded [of ident v k])
  qed (intro refused; simp)
next
  case False
  let ?u = "w\<lparr>w_tick := Suc (w_tick w)\<rparr>"
  from False assms have "execute_identified H proposal ac ec (PStr (h_uuid H (w_tick w))) ?u = (w', r)"
    by (simp add: execute_locally_def rbind_def new_uuid_def sample_def)
  then show thesis
  proof (rule execute_identifiedE)
    fix v k ident
    assume "is_valid_uuid (PStr ident)" "execute_audited H proposal ident ac ec v = (w', r)"
      "w_db v = w_db ?u" "w_trace v = w_trace ?u" "w_tick ?u \<le> k" "w_tick v = Suc k"
      "w_audit v = w_audit ?u @ [(k, intent_record ident proposal ac ec (h_now H (k - 1)))]"
      "h_audit H k (intent_record ident proposal ac ec (h_now H (k - 1))) = None"
    with False show thesis by (intro recorded [of ident v k]) simp_all
  qed (intro refused; simp)
qed


text \<open>
  C20: When executing a proposal sends any statement or changes the store, its intent was
  audited first, under a valid operation id, before the first statement.
\<close>

theorem intent_precedes_statements:
  assumes "h_role H \<noteq> ''agent''"
    and "execute_action_proposal H remote proposal operation_id ac ec w = (w', r)"
    and "new_statements w w' \<noteq> {} \<or> w_db w' \<noteq> w_db w"
  shows "\<exists>k ident. (k, intent_record ident proposal ac ec (h_now H (k - 1))) \<in> set (w_audit w')
    \<and> is_valid_uuid (PStr ident) \<and> w_tick w \<le> k \<and> (\<forall>(n, c, s) \<in> new_statements w w'. k < n)"
proof -
  have "execute_locally H proposal operation_id ac ec w = (w', r)"
    using assms(1,2) by (simp add: execute_action_proposal_def)
  then show ?thesis
  proof (cases rule: execute_locallyE)
    case refused
    with assms(3) show ?thesis by (auto simp: new_statements_def)
  next
    case (recorded v k ident)
    have l: "lawful H (disciplined H) v w'"
      using execute_audited_lawful recorded(3) by (rule lawful.obeysD)
    then obtain zs where "w_audit w' = w_audit v @ zs" by (auto simp: lawful_def timed_def since_def)
    with recorded have "(k, intent_record ident proposal ac ec (h_now H (k - 1))) \<in> set (w_audit w')" by simp
    moreover have "k < n" if "(n, c, s) \<in> new_statements w w'" for n c s
    proof -
      from that recorded(5) have "(n, c, s) \<in> new_statements v w'" by (simp add: new_statements_def)
      with l recorded(7) show ?thesis by (auto simp: lawful_def dest: new_statements_timed)
    qed
    ultimately show ?thesis using recorded by blast
  qed
qed

text \<open>
  C22: While the audit sink fails, executing any proposal sends no statement and changes
  nothing: the result says it was blocked.
\<close>

theorem audit_outage_blocks:
  assumes "h_role H \<noteq> ''agent''" and "\<And>n e. h_audit H n e \<noteq> None"
    and "execute_action_proposal H remote proposal operation_id ac ec w = (w', r)"
  shows "w_trace w' = w_trace w \<and> w_db w' = w_db w \<and> w_audit w' = w_audit w
    \<and> (\<exists>items. r = Inr (PDict items) \<and> (map_of items ''status'' = Some (PStr ''BLOCKED_VALIDATION'')
         \<or> map_of items ''status'' = Some (PStr ''BLOCKED_AUDIT_UNAVAILABLE'')))"
proof -
  have "execute_locally H proposal operation_id ac ec w = (w', r)"
    using assms(1,3) by (simp add: execute_action_proposal_def)
  then show ?thesis
  proof (cases rule: execute_locallyE)
    case refused
    then show ?thesis by blast
  next
    case (recorded v k ident)
    with assms(2) show ?thesis by blast
  qed
qed

lemma execute_locally_claimed:
  assumes "ac \<noteq> PNone \<or> ec \<noteq> PNone"
    and "execute_locally H proposal (PStr ident) ac ec w = (w', r)" and "ident \<noteq> []"
  shows "terminations w' + claims w \<le> terminations w + claims w'"
    "t \<in> new_statements w w' \<Longrightarrow> is_termination t \<Longrightarrow>
       claimed_between H proposal ident ac ec (fst t) (w_db w) (w_db w')"
proof -
  have "terminations w' + claims w \<le> terminations w + claims w'
    \<and> (\<forall>t \<in> new_statements w w'. is_termination t \<longrightarrow>
         claimed_between H proposal ident ac ec (fst t) (w_db w) (w_db w'))"
    using assms(2)
  proof (cases rule: execute_locallyE)
    case refused
    then show ?thesis by (simp add: new_statements_def terminations_def claims_def)
  next
    case (recorded v k i)
    with assms(3) have "i = ident" by simp
    with recorded(3) have b: "backed H proposal ident ac ec v w'"
      using execute_audited_backed [OF assms(1)] by (blast intro: backed.obeysD)
    have "terminations v = terminations w" "claims v = claims w" "new_statements v w' = new_statements w w'"
      using recorded by (simp_all add: terminations_def claims_def new_statements_def)
    with b recorded(4) show ?thesis by (auto simp: backed_def)
  qed
  then show "terminations w' + claims w \<le> terminations w + claims w'"
    "t \<in> new_statements w w' \<Longrightarrow> is_termination t \<Longrightarrow>
       claimed_between H proposal ident ac ec (fst t) (w_db w) (w_db w')" by blast+
qed

text \<open>
  C18: Executing an incident's action sends no more pg_terminate_backend statements than it
  makes claims in the store, and each one comes after a successful claim for that very
  proposal, operation and approval.
\<close>

theorem termination_claimed:
  assumes "h_role H \<noteq> ''agent''" and "ac \<noteq> PNone \<or> ec \<noteq> PNone"
    and "execute_action_proposal H remote proposal (PStr ident) ac ec w = (w', r)" and "ident \<noteq> []"
  shows "terminations w' + claims w \<le> terminations w + claims w'
    \<and> (\<forall>t \<in> new_statements w w'. is_termination t \<longrightarrow>
         claimed_between H proposal ident ac ec (fst t) (w_db w) (w_db w'))"
proof -
  have "execute_locally H proposal (PStr ident) ac ec w = (w', r)"
    using assms(1,3) by (simp add: execute_action_proposal_def)
  from execute_locally_claimed [OF assms(2) this assms(4)] show ?thesis by blast
qed

end
