(* ===== verification/WorkflowSafety.thy ===== *)
theory WorkflowSafety
  imports IncidentWorkflow ExecutorSafety
begin

text \<open>
  What a pass of the workflow guarantees. The workflow asks of its executor only that a call
  respects the relation at hand (\<open>workflow_runner\<close>); every such relation that holds between
  worlds with the same trace is respected by the whole pass. The relation that counts claims
  against terminations is one, and the modelled executor meets it.
\<close>

section \<open>The workflow's own effects\<close>

lemma store_transactions:
  "obeys (lawful H S) (transact H (\<lambda>now d. acquire_lease (h_platform H) now d i worker seconds))"
  "obeys (lawful H S) (transact H (\<lambda>now d. renew_lease now d i worker seconds))"
  "obeys (lawful H S) (transact H (\<lambda>now d. release_lease (h_platform H) now d i worker))"
  "obeys (lawful H S) (transact H (\<lambda>now d. save_incident (h_platform H) now d inc event payload a owner))"
  "obeys (lawful H S) (transact H (\<lambda>now d. create_incident (h_platform H) d inc))"
  by (rule lawful_transact, rule r_into_rtranclp, erule store_step.intros)+

lemma store_calls_lawful:
  "obeys (lawful H S) (load H i)" "obeys (lawful H S) (acquire H i worker inc)"
  "obeys (lawful H S) (renew H i worker inc)" "obeys (lawful H S) (release H i worker)"
  "obeys (lawful H S) (checkpoint H worker inc t event payload a)"
proof -
  show "obeys (lawful H S) (load H i)" unfolding load_def by (rule lawful_transact) simp
qed (unfold acquire_def renew_def release_def checkpoint_def,
     (rule store_transactions lawful.obeys_intros obeys_effects)+)

lemma snapshot_lawful: "obeys (lawful H (reading H)) (get_lock_graph_snapshot H)"
  by (rule inert_lawful [OF tools_same(4) catalog_sends(4)])

locale workflow_runner = world_relation R for R :: "world \<Rightarrow> world \<Rightarrow> bool" +
  fixes H :: host and exec :: executor
  assumes quiet: "lawful H (reading H) u v \<Longrightarrow> R u v"
    and call: "is_dict ec \<Longrightarrow> obeys R (exec proposal operation_id ac ec)"
begin

lemma quiet_obeys: "obeys (lawful H (reading H)) m \<Longrightarrow> obeys R m"
  by (auto simp: obeys_def intro: quiet)

lemma obeys_flow:
  "(\<And>inc. obeys R (f inc)) \<Longrightarrow> (\<And>inc. obeys R (g inc)) \<Longrightarrow>
     obeys R (case v of Done inc \<Rightarrow> f inc | Go inc \<Rightarrow> g inc)"
  by (cases v) simp_all

lemma obeys_list:
  "obeys R m \<Longrightarrow> (\<And>x xs. obeys R (f x xs)) \<Longrightarrow> obeys R (case v of [] \<Rightarrow> m | x # xs \<Rightarrow> f x xs)"
  by (cases v) simp_all

lemmas own_effects = quiet_obeys [OF obeys_clock(3)] quiet_obeys [OF obeys_uuid(3)]
  quiet_obeys [OF obeys_sample(3)] quiet_obeys [OF snapshot_lawful]
  quiet_obeys [OF store_calls_lawful(1)] quiet_obeys [OF store_calls_lawful(2)]
  quiet_obeys [OF store_calls_lawful(3)] quiet_obeys [OF store_calls_lawful(4)]
  quiet_obeys [OF store_calls_lawful(5)]

lemmas rules = own_effects obeys_flow obeys_list obeys_intros

lemma small_steps:
  "obeys R m \<Longrightarrow> obeys R (finish_with m)" "obeys R m \<Longrightarrow> obeys R (go_on m)"
  "obeys R (review H worker inc note event a)"
  "obeys R (settle_action H worker inc k x s s' note event)"
  unfolding finish_with_def go_on_def review_def settle_action_def by (rule rules | assumption)+

lemma reconcile_obeys: "obeys R (reconcile_inflight H worker now inc snapshot)"
  unfolding reconcile_inflight_def reconcile_recorded_def reconcile_unrecorded_def set_aside_def settled_def Let_def
  by (rule small_steps rules)+

lemma after_obeys:
  "obeys R (executor_raised H worker i a e)" "obeys R (after_executor H worker i index a result)"
  unfolding executor_raised_def after_executor_def record_outcome_def verify_action_def Let_def
  by (rule small_steps rules)+

lemma call_obeys: "obeys R (call_executor H exec worker i index inc x)"
proof -
  have called: "obeys R (exec p op ac (execution_context H inc x worker))" for p op ac
    by (rule call) (simp add: execution_context_def)
  show ?thesis unfolding call_executor_def by (rule called after_obeys rules)+
qed

lemma action_obeys: "obeys R (run_action H exec worker i index inc)"
  unfolding run_action_def run_planned_def choose_rows_def no_approved_rows_def first_gate_def
    final_gate_def commit_intent_def Let_def
  by (rule call_obeys small_steps rules)+

lemma actions_obey: "obeys R (run_actions H exec worker i indices inc)"
  by (induction indices arbitrary: inc) (auto intro!: action_obeys rules)

lemma approved_obeys: "obeys R (run_approved H exec worker i inc)"
  unfolding run_approved_def finish_incident_def complete_incident_def Let_def
  by (rule actions_obey reconcile_obeys small_steps rules)+

lemma leased_obeys: "obeys R (run_leased H exec worker i decision inc)"
  unfolding run_leased_def apply_decision_def build_approval_def Let_def
  by (rule approved_obeys small_steps rules)+

lemma once_obeys: "obeys R (run_lock_incident_once H exec i)"
  unfolding run_lock_incident_once_def run_with_lease_def collect_decision_def
  by (rule leased_obeys small_steps rules)+

lemma run_obeys: "obeys R (run_lock_incident H exec i)"
  unfolding run_lock_incident_def by (rule once_obeys rules)+

end

section \<open>Terminations never outnumber claims\<close>

definition covered :: "host \<Rightarrow> world \<Rightarrow> world \<Rightarrow> bool" where
  "covered H w w' \<longleftrightarrow> lawful H (disciplined H) w w'
     \<and> terminations w' + claims w \<le> terminations w + claims w'"

lemma backed_covered: "backed H proposal o' ac ec w w' \<Longrightarrow> covered H w w'"
  by (simp add: backed_def covered_def)

interpretation covered: world_relation "covered H" for H
proof
  show "covered H w w" for w by (simp add: covered_def lawful.refl)
next
  fix u v w
  assume "covered H u v" and "covered H v w"
  then show "covered H u w" unfolding covered_def by (auto intro: lawful.trans)
qed

lemma reading_covered: "lawful H (reading H) u v \<Longrightarrow> covered H u v"
proof -
  assume l: "lawful H (reading H) u v"
  then have "sends (harmless H) u v"
    by (fastforce simp: lawful_def sends_def list_all_iff reading_def harmless_def dest: disciplined_termination)
  then have "terminations v = terminations u" by (rule terminations_harmless)
  moreover have "claims u \<le> claims v"
    using l unfolding claims_def lawful_def by (blast intro: store_steps_claims)
  moreover have "lawful H (disciplined H) u v"
    using l by (auto simp: lawful_def sends_def list_all_iff reading_def)
  ultimately show ?thesis by (simp add: covered_def)
qed

lemma execute_locally_covered:
  assumes "is_dict ec"
  shows "obeys (covered H) (execute_locally H proposal operation_id ac ec)"
proof -
  have "ac \<noteq> PNone \<or> ec \<noteq> PNone" using assms by auto
  then have b: "obeys (backed H proposal ident ac ec) (execute_audited H proposal ident ac ec)" for ident
    by (rule execute_audited_backed)
  have "covered H w w'" if "execute_locally H proposal operation_id ac ec w = (w', r)" for w w' r
    using that
  proof (cases rule: execute_locallyE)
    case refused
    have "lawful H (disciplined H) w w'" using execute_locally_lawful that by (rule lawful.obeysD)
    with refused show ?thesis by (simp add: covered_def terminations_def claims_def)
  next
    case (recorded v k ident)
    have "lawful H (disciplined H) w w'" using execute_locally_lawful that by (rule lawful.obeysD)
    moreover have "backed H proposal ident ac ec v w'" using b recorded(3) by (rule backed.obeysD)
    ultimately show ?thesis using recorded by (simp add: backed_def covered_def terminations_def claims_def)
  qed
  then show ?thesis unfolding obeys_def by (metis prod.collapse)
qed

interpretation claimed_run: workflow_runner "covered H" H "execute_locally H" for H
  by unfold_locales (rule reading_covered, assumption, rule execute_locally_covered, assumption)

lemma claims_bounded:
  assumes "reachable P C d"
  shows "length (claim_events d) \<le> length (db_actions d)"
proof -
  have ok: "claims_ok d" using reachable_ok [OF assms] by (simp add: db_ok_def)
  then have "length (claim_events d) = card (ev_action ` set (claim_events d))"
    by (metis claims_ok_def distinct_card length_map set_map)
  moreover have "ev_action ` set (claim_events d) \<subseteq> (\<lambda>(_, x). Some (act_id x)) ` set (db_actions d)"
  proof
    fix a assume "a \<in> ev_action ` set (claim_events d)"
    then obtain e where "e \<in> set (claim_events d)" "a = ev_action e" by blast
    with ok obtain i x where "(i, x) \<in> set (db_actions d)" "a = Some (act_id x)"
      unfolding claims_ok_def by blast
    then show "a \<in> (\<lambda>(_, x). Some (act_id x)) ` set (db_actions d)" by (intro image_eqI) auto
  qed
  then have "card (ev_action ` set (claim_events d)) \<le> card (set (db_actions d))"
    by (rule surj_card_le [OF finite_set])
  moreover have "card (set (db_actions d)) \<le> length (db_actions d)" by (rule card_length)
  ultimately show ?thesis by simp
qed

lemma local_executor: "h_role H \<noteq> ''agent'' \<Longrightarrow> execute_action_proposal H remote = execute_locally H"
  by (intro ext) (simp add: execute_action_proposal_def)

text \<open>
  C19: A whole pass of run_lock_incident, with other processes committing in between, keeps the
  store reachable and the number of terminations sent at most the number of claims, which is at
  most the number of planned actions.
\<close>

theorem workflow_terminations_claimed:
  assumes "reachable (h_platform H) (h_store H) (w_db w)" and "terminations w \<le> claims w"
    and "h_role H \<noteq> ''agent''"
    and "run_lock_incident H (execute_action_proposal H remote) i w = (w', r)"
  shows "terminations w' \<le> claims w' \<and> claims w' \<le> length (db_actions (w_db w'))
    \<and> reachable (h_platform H) (h_store H) (w_db w')"
proof -
  have c: "covered H w w'"
    using claimed_run.run_obeys assms(4) unfolding local_executor [OF assms(3)] by (rule covered.obeysD)
  then have steps: "store_steps (h_platform H) (h_store H) (w_db w) (w_db w')"
    by (simp add: covered_def lawful_def)
  have r: "reachable (h_platform H) (h_store H) (w_db w')"
    using assms(1) steps unfolding reachable_def by (rule rtranclp_trans)
  then have "claims w' \<le> length (db_actions (w_db w'))" unfolding claims_def by (rule claims_bounded)
  with c assms(2) r show ?thesis by (simp add: covered_def)
qed


section \<open>Completion\<close>

lemma checkpoint_state:
  "checkpoint H worker inc t event payload a w = (w', Inr inc') \<Longrightarrow> inc_state inc' = inc_state inc"
  by (auto simp: checkpoint_def transact_def split: prod.splits option.splits elim: saveE)

lemma review_state: "review H worker inc note event a w = (w', Inr inc') \<Longrightarrow> inc_state inc' = REVIEW_REQUIRED"
  unfolding review_def by (elim rbind_InrE) (auto dest: checkpoint_state)

lemma complete_no_rows:
  assumes "complete_incident H worker inc rows summary w = (w', Inr inc')" and "inc_state inc' = COMPLETED"
  shows "rows = []"
proof -
  let ?remaining = "filter (\<lambda>x. target_rows rows x \<noteq> []) (inc_actions inc)"
  let ?unapproved = "filter (\<lambda>row. \<not> list_ex (\<lambda>x. targets x row) (inc_actions inc)) rows"
  have none: "?remaining = []"
  proof (rule ccontr)
    assume "?remaining \<noteq> []"
    with assms(1) have "inc_state inc' = REVIEW_REQUIRED"
      unfolding complete_incident_def Let_def by (simp only: if_True simp_thms) (erule review_state)
    with assms(2) show False by simp
  qed
  have "?unapproved = []"
  proof (rule ccontr)
    assume "?unapproved \<noteq> []"
    with assms(1) none have "inc_state inc' = COMPLETED_WITH_UNAPPROVED_REMAINDER"
      unfolding complete_incident_def Let_def
      by (simp only: if_True if_False simp_thms) (erule rbind_InrE, drule checkpoint_state, simp)
    with assms(2) show False by simp
  qed
  then have some: "\<exists>x \<in> set (inc_actions inc). targets x row" if "row \<in> set rows" for row
    using that by (auto simp: filter_empty_conv list_ex_iff)
  have "row \<notin> set rows" for row
    using some [of row] none by (auto simp: filter_empty_conv target_rows_def)
  then show ?thesis by (cases rows) auto
qed


end
