(* ===== verification/Rehearsal.thy ===== *)
theory Rehearsal
  imports Scenario WorkflowSafety
begin

text \<open>
  A host on concrete values, on which the executor terminates the blocker of the scenario and
  the workflow completes. Runs are evaluated effect by effect: a lemma per tool says what it
  does to any world, and the simplifier goes through a program in the order of its effects.
  The theorems apply the properties of the policy, the executor and the workflow to these runs.
\<close>

section \<open>Policies\<close>

definition demo_controls :: "string \<Rightarrow> string list \<Rightarrow> deployment" where
  "demo_controls environment disabled = \<lparr>dep_config = [''RUNTIME_CONTROLS_PATH'' \<mapsto> PStr ''controls.json'',
       ''SAFEDBA_ENV'' \<mapsto> PStr environment],
     dep_file = (\<lambda>_. File_bytes ''controls''),
     dep_json = (\<lambda>_. Some (PDict [(''version'', PInt 1), (''disabled_actions'', PList (map PStr disabled))]))\<rparr>"

definition demo_broken :: deployment where
  "demo_broken = (demo_controls ''development'' [])\<lparr>dep_json := (\<lambda>_. None)\<rparr>"

theorem controls_only_deny_witness:
  "require_operation (demo_controls ''development'' []) ''ANALYZE_TABLE'' = Inr ()
   \<and> (\<exists>reason. require_operation (demo_controls ''development'' [''CREATE_INDEX'']) ''CREATE_INDEX''
        = Inl (RuntimePolicyError ''CREATE_INDEX'' reason))"
proof
  let ?D = "demo_controls ''development'' []" and ?D' = "demo_controls ''development'' [''CREATE_INDEX'']"
  have read: "read_controls ?D = Inr (PDict [(''version'', PInt 1), (''disabled_actions'', PList [])])"
    "read_controls ?D' = Inr (PDict [(''version'', PInt 1), (''disabled_actions'', PList [PStr ''CREATE_INDEX''])])"
    by code_simp+
  have "controls_le (PDict [(''version'', PInt 1), (''disabled_actions'', PList [])])
     (PDict [(''version'', PInt 1), (''disabled_actions'', PList [PStr ''CREATE_INDEX''])])"
    by (simp add: controls_le_def disabled_actions_def dget_default_def dget_def CONTROL_FLAGS_def)
  moreover have "dep_config ?D' = dep_config ?D" by (simp add: demo_controls_def)
  moreover have "require_operation ?D' ''ANALYZE_TABLE'' = Inr ()" by code_simp
  ultimately show "require_operation ?D ''ANALYZE_TABLE'' = Inr ()" by (rule controls_only_deny [OF read])
  have "require_operation ?D' ''CREATE_INDEX'' \<noteq> Inr ()" by code_simp
  then show "\<exists>reason. require_operation ?D' ''CREATE_INDEX'' = Inl (RuntimePolicyError ''CREATE_INDEX'' reason)"
    using require_operation_result [of ?D' "''CREATE_INDEX''"] by blast
qed



section \<open>The host\<close>

definition demo_uuid :: "nat \<Rightarrow> string" where
  "demo_uuid n = (let t = nat_text n in replicate (32 - length t) CHR ''0'' @ t)"

definition demo_deployment :: deployment where
  "demo_deployment = \<lparr>dep_config = (\<lambda>_. None), dep_file = (\<lambda>_. File_missing), dep_json = (\<lambda>_. None)\<rparr>"

definition demo_lock_row :: pyval where
  "demo_lock_row = PList
     [PInt 20, PStr ''app_user'', PStr ''app'', PStr ''web'', PStr ''active'', PStr ''Lock'', PStr ''tuple'',
      PStr ''UPDATE t'', PStr ''q1'', PStr ''x1'', PStr ''b1'', PInt 5, PInt 6,
      PInt 10, PStr ''app_user'', PStr ''batch'', PStr ''app'', PStr ''client backend'',
      PStr ''idle in transaction'', PNone, PNone, PStr ''UPDATE t'', PStr ''q0'', PStr ''x0'', PStr ''b0'',
      PInt 60, PNone]"

definition demo_killed :: pyval where
  "demo_killed = PList
     [PInt 30, PStr ''app'', PInt 20, PStr ''app'', PStr ''active'', PStr ''Lock'', PStr ''tuple'',
      PStr ''UPDATE t'', PStr ''x1'', PStr ''b1'', PInt 10, PStr ''app'', PStr ''app_user'',
      PStr ''client backend'', PStr ''idle in transaction'', PStr ''UPDATE t'', PStr ''x0'', PStr ''b0'',
      PBool True, PBool True, PBool True]"

text \<open>Roles without powers, but for the signal of the terminator.\<close>

definition demo_identity :: "connection \<Rightarrow> pyval" where
  "demo_identity c = PList ([PStr (if c = Terminator then ''terminator'' else ''observer''), PStr ''app'']
     @ replicate 5 (PBool False) @ [PBool True, PBool False, PBool False, PBool (c = Terminator), PBool False])"

fun demo_answer :: "nat \<Rightarrow> nat \<Rightarrow> connection \<Rightarrow> statement \<Rightarrow> pyval exc" where
  "demo_answer free n _ (Observe name _) =
     Inr (PList (if name = ''lock_graph'' \<and> n < free then [demo_lock_row] else []))"
| "demo_answer free n c Inspect_identity = Inr (demo_identity c)"
| "demo_answer free n _ (Terminate_backend _ _ _ _ _ _ _) = Inr demo_killed"
| "demo_answer free n _ _ = Inl (OtherException ''UndefinedTable'')"

definition demo_at :: "string \<Rightarrow> nat \<Rightarrow> host" where
  "demo_at role free = \<lparr>h_platform = demo_P, h_store = demo_C, h_role = role,
     h_policy = (\<lambda>_. demo_deployment), h_now = (\<lambda>_. demo_T), h_uuid = demo_uuid,
     h_input = (\<lambda>_. ''y''), h_audit = (\<lambda>_ _. None), h_answer = demo_answer free, h_others = (\<lambda>_. []),
     h_operator = (\<lambda>_. []), h_seconds = (\<lambda>_. 1), h_fault = (\<lambda>_. None), h_action_uuids = (\<lambda>n k. demo_uuid (1000 + n + k)),
     h_decider = Some (\<lambda>_ _. Inr (PBool True)), h_proposal_text = (\<lambda>_. ''invalid''),
     h_approval_text = (\<lambda>_. ''invalid''), h_exn_text = exn_name, h_max_explain_cost = 100000,
     h_min_improvement = 10, h_max_cardinality_error = 10, h_include_observed_query = False,
     h_max_observed_query = 200, h_database_name = PStr ''app'', h_max_rows = 100, h_max_actions = 10,
     h_approval_ttl = 300, h_lease_seconds = PInt 60, h_deadline_seconds = 600,
     h_users = (\<lambda>c. PStr (case c of Observer \<Rightarrow> ''observer'' | Maintenance \<Rightarrow> ''maintainer'' | Terminator \<Rightarrow> ''terminator''))\<rparr>"

abbreviation demo_host :: "nat \<Rightarrow> host" where
  "demo_host \<equiv> demo_at ''combined''"

definition demo_seen :: pyval where
  "demo_seen = lock_row (demo_host 0) demo_lock_row"

lemma demo_host_simps [simp]:
  "h_platform (demo_at role n) = demo_P" "h_store (demo_at role n) = demo_C" "h_role (demo_at role n) = role"
  "h_policy (demo_at role n) = (\<lambda>_. demo_deployment)" "h_now (demo_at role n) = (\<lambda>_. demo_T)"
  "h_input (demo_at role n) = (\<lambda>_. ''y'')" "h_audit (demo_at role n) = (\<lambda>_ _. None)"
  "h_answer (demo_at role n) = demo_answer n" "h_others (demo_at role n) = (\<lambda>_. [])" "h_fault (demo_at role n) = (\<lambda>_. None)"
  "h_include_observed_query (demo_at role n) = False" "h_decider (demo_at role n) = Some (\<lambda>_ _. Inr (PBool True))"
  "h_operator (demo_at role n) = (\<lambda>_. [])" "h_seconds (demo_at role n) = (\<lambda>_. 1)"
  "h_users (demo_at role n) Observer = PStr ''observer''" "h_users (demo_at role n) Terminator = PStr ''terminator''"
  "h_max_rows (demo_at role n) = 100" "h_database_name (demo_at role n) = PStr ''app''"
  by (simp_all add: demo_at_def)

section \<open>The effects, one by one\<close>

lemma run_step:
  "rbind m f w = (case m w of (w', Inl e) \<Rightarrow> (w', Inl e) | (w', Inr x) \<Rightarrow> f x w')"
  "rtry m h w = (case m w of (w', Inl e) \<Rightarrow> h e w' | (w', Inr x) \<Rightarrow> (w', Inr x))"
  "attempt m w = (case m w of (w', r) \<Rightarrow> (w', Inr r))"
  by (simp_all add: rbind_def rtry_def attempt_def)

text \<open>Only the world is rewritten under a bind: what follows is reached when its value is known.\<close>

lemma rbind_world_cong: "w = w' \<Longrightarrow> rbind m f w = rbind m f w'"
  by simp

lemma clock_step: "clock (demo_at role n) w = (w\<lparr>w_tick := Suc (w_tick w)\<rparr>, Inr demo_T)"
  by (simp add: clock_def sample_def)

lemma demo_allows:
  "require_operation demo_deployment ''OBSERVE'' = Inr ()"
  "require_operation demo_deployment ''TERMINATE_BACKEND'' = Inr ()"
  by code_simp+

lemma require_step:
  "op \<in> {''OBSERVE'', ''TERMINATE_BACKEND''} \<Longrightarrow>
     require (demo_at role n) op w = (w\<lparr>w_tick := Suc (w_tick w)\<rparr>, Inr ())"
  by (auto simp: require_def sample_def run_step demo_allows)

lemma audit_step:
  "audit_log (demo_at role n) r w =
     (w\<lparr>w_tick := Suc (w_tick w), w_audit := w_audit w @ [(w_tick w, r)]\<rparr>, Inr ())"
  "write_action_audit (demo_at role n) result proposal w =
     (w\<lparr>w_tick := w_tick w + 2,
        w_audit := w_audit w @ [(Suc (w_tick w), audit_record (PDict result) proposal demo_T)]\<rparr>,
      Inr (dset (PDict result) ''audit'' (PDict [(''status'', PStr ''WRITTEN'')])))"
  by (simp_all add: write_action_audit_def run_step clock_step audit_log_def audited_result_def)

text \<open>The lock graph: the scenario's relationship until the effect \<open>free\<close>, nothing afterwards.\<close>

lemma demo_seen_row: "lock_row (demo_at role n) demo_lock_row = demo_seen"
  by (simp add: demo_seen_def lock_row_def truncate_observed_query_def split: pyval.split)

lemma seen_digest: "\<exists>t. json_digest demo_P (PList [digest_row demo_seen]) = Inr t"
proof -
  have "case json_digest demo_P (PList [digest_row demo_seen]) of Inr _ \<Rightarrow> True | Inl _ \<Rightarrow> False"
    by code_simp
  then show ?thesis by (auto split: sum.splits)
qed

lemma free_digest: "json_digest demo_P (PList []) = Inr (demo_digest 2)"
  by code_simp

lemma waits_step:
  "get_lock_waits (demo_at role n) w = (w\<lparr>w_tick := w_tick w + 3,
     w_trace := w_trace w @ [(Suc (w_tick w), Observer, Observe ''lock_graph'' [PInt 101])]\<rparr>,
     Inr (PList (if Suc (w_tick w) < n then [demo_seen] else [])))"
proof -
  obtain t where "json_digest demo_P (PList [digest_row demo_seen]) = Inr t" using seen_digest by blast
  then show ?thesis
    by (auto simp: get_lock_waits_def get_lock_graph_snapshot_def observe_def run_step require_step ask_def
        Let_def clock_step demo_seen_row free_digest read_item_def eval_nat_numeral)
qed

definition demo_final :: pyval where
  "demo_final = PDict [(''captured_at'', PStr (iso_utc demo_T)), (''database_name'', PStr ''app''),
     (''rows'', PList []), (''row_count'', PInt 0), (''truncated'', PBool False),
     (''snapshot_digest'', PStr (demo_digest 2))]"

lemma final_step:
  "get_lock_graph_snapshot (demo_at role 0) w = (w\<lparr>w_tick := w_tick w + 3,
     w_trace := w_trace w @ [(Suc (w_tick w), Observer, Observe ''lock_graph'' [PInt 101])]\<rparr>, Inr demo_final)"
  by (auto simp: get_lock_graph_snapshot_def observe_def run_step require_step ask_def Let_def clock_step
      free_digest demo_final_def)

section \<open>The executor\<close>

text \<open>The scenario's store with the intent to execute its action, and a proposal for it.\<close>

definition demo_ready :: world where
  "demo_ready = \<lparr>w_db = demo_db3, w_grants = [], w_audit = [], w_trace = [], w_tick = 10\<rparr>"

definition demo_act :: pyval where
  "demo_act = act_proposal (demo_stored EXECUTING 1)"

definition demo_kill :: statement where
  "demo_kill = Terminate_backend (PInt 10) (PInt 20) (PStr ''b1'') (PStr ''x1'') (PStr ''b0'') (PStr ''x0'') (PInt 5000)"

definition demo_db5 :: db where
  "demo_db5 = fst (claim_action_execution demo_P demo_C demo_T demo_db3 demo_context (PStr demo_aid)
     demo_act demo_seen demo_execution)"

lemma claim_seen:
  "\<exists>authorization. claim_action_execution demo_P demo_C demo_T demo_db3 demo_context (PStr demo_aid)
     demo_act demo_seen demo_execution = (demo_db5, Inr authorization)"
proof -
  have "case claim_action_execution demo_P demo_C demo_T demo_db3 demo_context (PStr demo_aid)
     demo_act demo_seen demo_execution of (d, Inr _) \<Rightarrow> True | _ \<Rightarrow> False" by code_simp
  then show ?thesis unfolding demo_db5_def by (auto split: prod.splits sum.splits)
qed

lemma kill_step:
  assumes "role \<noteq> ''agent''"
  shows "\<exists>v. (\<forall>w. terminate_blocking_backend (demo_at role n) (PInt 20) (PInt 10) (PStr ''b0'') (PStr ''x0'')
              (PInt 5000) (PStr ''b1'') (PStr ''x1'') w =
          (w\<lparr>w_tick := w_tick w + 3, w_trace := w_trace w @ [(w_tick w + 2, Terminator, demo_kill)]\<rparr>, Inr v))
   \<and> dget v ''final_validation_passed'' = PBool True \<and> dget v ''terminated'' = PBool True"
  using assms
  by (simp add: terminate_blocking_backend_def run_step require_step terminator_connection_def ask_def
      demo_kill_def demo_killed_def dget_def cell_def eval_nat_numeral)

text \<open>What the executor computes from the proposal and the row.\<close>

lemma demo_facts:
  "validate_proposal_shape demo_P demo_act = Inr (shape_of [])"
  "dget demo_act ''type'' = PStr ''TERMINATE_BACKEND''" "is_dict demo_act"
  "terminate_field_errors demo_act = []" "same_relationship demo_act demo_seen"
  "relationship_errors demo_seen = []"
  "dget demo_act ''blocked_pid'' = PInt 20" "dget demo_act ''blocker_pid'' = PInt 10"
  "dget demo_act ''blocker_backend_start'' = PStr ''b0''" "dget demo_act ''blocker_xact_start'' = PStr ''x0''"
  "dget demo_seen ''blocked_backend_start'' = PStr ''b1''" "dget demo_seen ''blocked_xact_start'' = PStr ''x1''"
  "nonblank (PStr ''b1'')" "nonblank (PStr ''x1'')"
  "is_operation_allowed (assess_risk ''TERMINATE_BACKEND'')"
  "demo_context \<noteq> PNone" "is_dict demo_context" "is_dict demo_execution"
  "is_valid_uuid (PStr demo_aid)" "demo_aid \<noteq> []"
  by code_simp+

lemma demo_action_type: "''TERMINATE_BACKEND'' \<in> set ACTION_TYPES"
  by (simp add: ACTION_TYPES_def)

text \<open>One execution, in any role that may terminate and in any world whose store has the intent.\<close>

lemma demo_executed_at:
  assumes claimed: "claim_action_execution demo_P demo_C demo_T demo_db3 demo_context (PStr demo_aid)
       demo_act demo_seen ec = (d, Inr authorization)" and "is_dict ec" and "role \<noteq> ''agent''"
  shows "\<exists>a r. execute_locally (demo_at role 20) demo_act (PStr demo_aid) demo_context ec
       \<lparr>w_db = demo_db3, w_grants = gs, w_audit = [], w_trace = ts, w_tick = 10\<rparr>
    = (\<lparr>w_db = d, w_grants = gs, w_audit = a,
         w_trace = ts @ [(14, Observer, Observe ''lock_graph'' [PInt 101]), (19, Terminator, demo_kill),
                    (21, Observer, Observe ''lock_graph'' [PInt 101])], w_tick = 25\<rparr>, Inr r)
     \<and> dget r ''status'' = PStr ''BACKEND_TERMINATION_CONFIRMED''"
proof -
  obtain v where kill: "\<And>w. terminate_blocking_backend (demo_at role 20) (PInt 20) (PInt 10) (PStr ''b0'')
       (PStr ''x0'') (PInt 5000) (PStr ''b1'') (PStr ''x1'') w =
     (w\<lparr>w_tick := w_tick w + 3, w_trace := w_trace w @ [(w_tick w + 2, Terminator, demo_kill)]\<rparr>, Inr v)"
    "dget v ''final_validation_passed'' = PBool True" "dget v ''terminated'' = PBool True"
    using kill_step [OF assms(3), of 20] by blast
  have claim: "claim_incident_execution (demo_at role 20) demo_act demo_aid demo_context ec demo_seen w
     = (w\<lparr>w_tick := Suc (w_tick w), w_db := d\<rparr>, Inr (Inr authorization))" if "w_db w = demo_db3" for w
    using that claimed by (simp add: claim_incident_execution_def transact_def run_step interfere_def)
  have uuid: "truthy (PStr demo_aid)" "is_valid_uuid (PStr demo_aid)" using demo_facts by simp_all
  show ?thesis
    unfolding execute_locally_def execute_identified_def if_P [OF uuid(1)] uuid(2) not_True_eq_False if_False str_of.simps
    by (simp add: run_step clock_step audit_step execute_audited_def policy_refusal_def demo_facts demo_action_type
        require_step execute_with_intent_def execute_terminate_backend_proposal_def validate_action_proposal_def
        shape_of_def validate_terminate_backend_proposal_def waits_step Let_def ver_valid_def terminate_for_incident_def
        claim run_termination_def kill verify_termination_def assms(2) cong: rbind_world_cong)
      (simp add: termination_result_def)
qed

lemma demo_executed:
  "\<exists>a r. execute_locally (demo_host 20) demo_act (PStr demo_aid) demo_context demo_execution demo_ready
    = (\<lparr>w_db = demo_db5, w_grants = [], w_audit = a,
         w_trace = [(14, Observer, Observe ''lock_graph'' [PInt 101]), (19, Terminator, demo_kill),
                    (21, Observer, Observe ''lock_graph'' [PInt 101])], w_tick = 25\<rparr>, Inr r)"
proof -
  obtain authorization where "claim_action_execution demo_P demo_C demo_T demo_db3 demo_context (PStr demo_aid)
       demo_act demo_seen demo_execution = (demo_db5, Inr authorization)" using claim_seen by blast
  from demo_executed_at [OF this, of "''combined''" "[]" "[]"] demo_facts
  show ?thesis by (auto simp: demo_ready_def)
qed

definition demo_end :: world where
  "demo_end = fst (execute_locally (demo_host 20) demo_act (PStr demo_aid) demo_context demo_execution demo_ready)"

lemma demo_end_state: "w_db demo_end = demo_db5"
  "w_trace demo_end = [(14, Observer, Observe ''lock_graph'' [PInt 101]), (19, Terminator, demo_kill),
     (21, Observer, Observe ''lock_graph'' [PInt 101])]"
  using demo_executed by (auto simp: demo_end_def)

lemma demo_run:
  "\<exists>r. execute_action_proposal (demo_host 20) remote demo_act (PStr demo_aid) demo_context demo_execution demo_ready
    = (demo_end, Inr r)"
  using demo_executed by (auto simp: demo_end_def execute_action_proposal_def)

lemma demo_sent: "(19, Terminator, demo_kill) \<in> new_statements demo_ready demo_end"
  by (simp add: new_statements_def demo_ready_def demo_end_state)


theorem intent_precedes_statements_witness:
  "\<exists>k ident. (k, intent_record ident demo_act demo_context demo_execution demo_T) \<in> set (w_audit demo_end)
    \<and> is_valid_uuid (PStr ident) \<and> 10 \<le> k \<and> k < 19"
proof -
  obtain r where run: "execute_action_proposal (demo_host 20) (\<lambda>_ _ _ _. rreturn PNone) demo_act (PStr demo_aid)
      demo_context demo_execution demo_ready = (demo_end, Inr r)"
    using demo_run by blast
  have some: "new_statements demo_ready demo_end \<noteq> {} \<or> w_db demo_end \<noteq> w_db demo_ready"
    using demo_sent by blast
  have "h_role (demo_host 20) \<noteq> ''agent''" by simp
  from intent_precedes_statements [OF this run some] demo_sent show ?thesis
    by (fastforce simp: demo_ready_def)
qed

definition demo_mute :: host where
  "demo_mute = (demo_host 20)\<lparr>h_audit := \<lambda>_ _. Some (OtherException ''OSError'')\<rparr>"

definition demo_outage :: "world \<times> pyval exc" where
  "demo_outage = execute_action_proposal demo_mute (\<lambda>_ _ _ _. rreturn PNone) demo_act (PStr demo_aid)
     demo_context demo_execution demo_ready"

theorem audit_outage_blocks_witness:
  "w_trace (fst demo_outage) = [] \<and> w_db (fst demo_outage) = demo_db3 \<and> w_audit (fst demo_outage) = []
    \<and> (\<exists>items. snd demo_outage = Inr (PDict items))"
proof -
  have "h_role demo_mute \<noteq> ''agent''" "\<And>n e. h_audit demo_mute n e \<noteq> None"
    by (simp_all add: demo_mute_def)
  moreover have "execute_action_proposal demo_mute (\<lambda>_ _ _ _. rreturn PNone) demo_act (PStr demo_aid)
     demo_context demo_execution demo_ready = (fst demo_outage, snd demo_outage)"
    by (simp add: demo_outage_def)
  ultimately have "w_trace (fst demo_outage) = w_trace demo_ready \<and> w_db (fst demo_outage) = w_db demo_ready
    \<and> w_audit (fst demo_outage) = w_audit demo_ready
    \<and> (\<exists>items. snd demo_outage = Inr (PDict items) \<and> (map_of items ''status'' = Some (PStr ''BLOCKED_VALIDATION'')
         \<or> map_of items ''status'' = Some (PStr ''BLOCKED_AUDIT_UNAVAILABLE'')))"
    by (rule audit_outage_blocks)
  then show ?thesis by (auto simp: demo_ready_def)
qed

theorem termination_claimed_witness:
  "terminations demo_end + claims demo_ready \<le> terminations demo_ready + claims demo_end
    \<and> terminations demo_end = 1
    \<and> claimed_between (demo_host 20) demo_act demo_aid demo_context demo_execution 19 demo_db3 demo_db5"
proof -
  obtain r where run: "execute_action_proposal (demo_host 20) (\<lambda>_ _ _ _. rreturn PNone) demo_act (PStr demo_aid)
      demo_context demo_execution demo_ready = (demo_end, Inr r)"
    using demo_run by blast
  have "h_role (demo_host 20) \<noteq> ''agent''" "demo_context \<noteq> PNone \<or> demo_execution \<noteq> PNone"
    using demo_facts by simp_all
  note both = termination_claimed [OF this run] demo_facts
  have "is_termination (19, Terminator, demo_kill)" by (simp add: demo_kill_def)
  with both demo_sent
  have "claimed_between (demo_host 20) demo_act demo_aid demo_context demo_execution (fst (19::nat, Terminator, demo_kill))
      (w_db demo_ready) (w_db demo_end)" by blast
  moreover have "terminations demo_end = 1" by (simp add: terminations_def demo_end_state demo_kill_def)
  ultimately show ?thesis using both by (simp add: demo_ready_def demo_end_state)
qed

section \<open>The workflow\<close>

definition demo_summary :: pyval where
  "demo_summary = (case summarize_snapshot demo_final of Inr s \<Rightarrow> s | Inl _ \<Rightarrow> PNone)"

lemma final_facts:
  "incomplete demo_final = False" "plan_rows demo_final = Inr []"
  "summarize_snapshot demo_final = Inr demo_summary"
  by code_simp+

definition demo_closing :: incident where
  "demo_closing = demo_saved\<lparr>inc_summary := demo_summary, inc_error := PNone, inc_state := COMPLETED,
     inc_reason := Some ''APPROVED_SCOPE_RESOLVED'', inc_updated := iso_utc demo_T\<rparr>"

lemma closing_saved:
  "\<exists>d inc'. save_incident demo_P demo_T demo_db3 demo_closing ''INCIDENT_COMPLETED''
     (PDict [(''state'', PStr ''COMPLETED''), (''remaining_relationship_count'', PInt 0)]) None (Some ''w'')
       = (d, Inr inc') \<and> inc_state inc' = COMPLETED"
proof -
  have "case save_incident demo_P demo_T demo_db3 demo_closing ''INCIDENT_COMPLETED''
      (PDict [(''state'', PStr ''COMPLETED''), (''remaining_relationship_count'', PInt 0)]) None (Some ''w'') of
    (d, r) \<Rightarrow> (case r of Inr x \<Rightarrow> inc_state x = COMPLETED | Inl _ \<Rightarrow> False)" by code_simp
  then show ?thesis by (auto split: prod.splits sum.splits)
qed

lemma demo_finished:
  "\<exists>w' inc'. finish_incident (demo_host 0) ''w'' demo_saved demo_ready = (w', Inr inc') \<and> inc_state inc' = COMPLETED"
  using closing_saved
  by (auto simp: finish_incident_def run_step final_step final_facts complete_incident_def target_rows_def
      clock_step checkpoint_def transact_def interfere_def demo_ready_def demo_closing_def cong: rbind_world_cong)


text \<open>A pass over the scenario's incident, whatever its outcome.\<close>

definition demo_pass :: "world \<times> incident exc" where
  "demo_pass = run_lock_incident (demo_host 20) (execute_action_proposal (demo_host 20) (\<lambda>_ _ _ _. rreturn PNone))
     demo_iid demo_ready"

theorem workflow_terminations_claimed_witness:
  "terminations (fst demo_pass) \<le> claims (fst demo_pass)
    \<and> claims (fst demo_pass) \<le> length (db_actions (w_db (fst demo_pass)))
    \<and> reachable demo_P demo_C (w_db (fst demo_pass))"
proof -
  have "reachable (h_platform (demo_host 20)) (h_store (demo_host 20)) (w_db demo_ready)"
    "terminations demo_ready \<le> claims demo_ready" "h_role (demo_host 20) \<noteq> ''agent''"
    using demo_reach3 by (simp_all add: demo_ready_def terminations_def)
  from workflow_terminations_claimed [OF this, of "\<lambda>_ _ _ _. rreturn PNone" demo_iid "fst demo_pass" "snd demo_pass"]
  show ?thesis by (simp add: demo_pass_def)
qed


end
