(* ===== verification/Isolation.thy ===== *)
theory Isolation
  imports Json IncidentWorkflow
begin

text \<open>
  The isolated deployment: \<open>executor_worker.py\<close> (the worker and its HTTP handler),
  \<open>execution_client.py\<close> (the executor of an agent process) and \<open>verify_runtime_security\<close> of
  \<open>db_tools.py\<close>. The worker runs the same executor under its own host, behind a grant of the
  operator; the agent and the worker share the incident store. The network may lose a request or
  its response, and anyone on the machine may send the worker requests of their own.
\<close>

section \<open>Identity of the database roles\<close>

definition inspect_runtime_identity :: "host \<Rightarrow> connection \<Rightarrow> pyval run" where
  "inspect_runtime_identity H c = rbind (ask H c Inspect_identity) (\<lambda>row.
     if row = PNone then rraise runtime_error
     else rreturn (PDict
       [(''user'', cell row 0), (''database'', cell row 1), (''superuser'', cell row 2),
        (''create_role'', cell row 3), (''create_database'', cell row 4), (''replication'', cell row 5),
        (''bypass_rls'', cell row 6), (''default_read_only'', cell row 7), (''temporary'', cell row 8),
        (''schema_create'', cell row 9), (''signal_backend'', cell row 10),
        (''table_write_privilege'', cell row 11)]))"

definition any_of :: "pyval \<Rightarrow> string list \<Rightarrow> bool" where
  "any_of identity names = list_ex (\<lambda>k. truthy (dget identity k)) names"

definition CLUSTER_CAPABILITIES :: "string list" where
  "CLUSTER_CAPABILITIES = [''superuser'', ''create_role'', ''create_database'', ''replication'', ''bypass_rls'']"

definition WRITE_CAPABILITIES :: "string list" where
  "WRITE_CAPABILITIES = [''temporary'', ''schema_create'', ''signal_backend'', ''table_write_privilege'']"

text \<open>The agent sees its own connection only.\<close>

definition agent_observer_safe :: "host \<Rightarrow> pyval \<Rightarrow> bool" where
  "agent_observer_safe H observer \<longleftrightarrow> py_eq (dget observer ''user'') (h_users H Observer)
     \<and> truthy (dget observer ''default_read_only'')
     \<and> \<not> any_of observer (CLUSTER_CAPABILITIES @ WRITE_CAPABILITIES)"

text \<open>\<open>len(set(xs))\<close>\<close>

fun count_distinct :: "pyval list \<Rightarrow> nat" where
  "count_distinct [] = 0"
| "count_distinct (x # xs) = (if list_ex (py_eq x) xs then 0 else 1) + count_distinct xs"

text \<open>The list of violated rules; each is named by a short label instead of its sentence.\<close>

type_synonym identities = "(connection \<times> pyval) list"

definition role_identity_errors :: "host \<Rightarrow> connection \<times> pyval \<Rightarrow> string list" where
  "role_identity_errors H = (\<lambda>(c, identity).
     (if py_eq (dget identity ''user'') (h_users H c) then [] else [''current_user''])
     @ (if any_of identity CLUSTER_CAPABILITIES then [''cluster-level capability''] else []))"

definition role_errors :: "connection \<times> pyval \<Rightarrow> string list" where
  "role_errors = (\<lambda>(c, identity). case c of
     Observer \<Rightarrow> (if truthy (dget identity ''default_read_only'') then [] else [''observer not read-only''])
       @ (if any_of identity WRITE_CAPABILITIES then [''observer rights''] else [])
   | Maintenance \<Rightarrow> (if truthy (dget identity ''signal_backend'') then [''executor signals''] else [])
       @ (if truthy (dget identity ''schema_create'') then [] else [''executor lacks CREATE''])
   | Terminator \<Rightarrow> (if truthy (dget identity ''default_read_only'') then [] else [''terminator not read-only''])
       @ (if \<not> truthy (dget identity ''signal_backend'')
              \<or> any_of identity [''temporary'', ''schema_create'', ''table_write_privilege'']
          then [''terminator rights''] else []))"

definition security_errors :: "host \<Rightarrow> identities \<Rightarrow> string list" where
  "security_errors H ids =
     (if count_distinct (map (\<lambda>(c, i). dget i ''user'') ids) \<noteq> length ids then [''distinct users''] else [])
     @ (if count_distinct (map (\<lambda>(c, i). dget i ''database'') ids) \<noteq> 1 then [''same database''] else [])
     @ concat (map (role_identity_errors H) ids) @ concat (map role_errors ids)"

fun inspect_all :: "host \<Rightarrow> connection list \<Rightarrow> identities run" where
  "inspect_all H [] = rreturn []"
| "inspect_all H (c # cs) = rbind (inspect_runtime_identity H c) (\<lambda>i.
     rbind (inspect_all H cs) (\<lambda>ids. rreturn ((c, i) # ids)))"

definition inspected_connections :: "host \<Rightarrow> connection list" where
  "inspected_connections H =
     (if h_role H = ''combined'' then [Observer, Maintenance, Terminator] else [Observer, Terminator])"

definition verify_runtime_security :: "host \<Rightarrow> identities run" where
  "verify_runtime_security H =
     (if h_role H = ''agent''
      then rbind (inspect_runtime_identity H Observer) (\<lambda>observer.
             if agent_observer_safe H observer then rreturn [(Observer, observer)] else rraise runtime_error)
      else rbind (inspect_all H (inspected_connections H)) (\<lambda>ids.
             if security_errors H ids = [] then rreturn ids else rraise runtime_error))"

definition IDENTITY_FIELDS :: "string list" where
  "IDENTITY_FIELDS = [''database'', ''database_oid'', ''server_address'', ''server_port'', ''postmaster_start'']"

definition database_identity :: "host \<Rightarrow> pyval run" where
  "database_identity H = rbind (observe H ''database_identity'' []) (\<lambda>row.
     if \<not> is_list row then rraise (TypeError ''zip argument is not iterable'')
     else rreturn (PDict (zip IDENTITY_FIELDS (py_items row))))"

section \<open>The wire\<close>

definition MAX_BODY :: nat where
  "MAX_BODY = 32768"

text \<open>UTF-8 of the code points below 256.\<close>

definition utf8_bytes :: "char \<Rightarrow> string" where
  "utf8_bytes c = (let n = of_char c :: nat in
     if n < 128 then [c] else [char_of (192 + n div 64), char_of (128 + n mod 64)])"

definition utf8_encode :: "string \<Rightarrow> string" where
  "utf8_encode s = concat (map utf8_bytes s)"

fun utf8_decode :: "string \<Rightarrow> string option" where
  "utf8_decode [] = Some []"
| "utf8_decode (c # s) = (let n = of_char c :: nat in
     if n < 128 then map_option ((#) c) (utf8_decode s)
     else if n = 194 \<or> n = 195 then
       (case s of [] \<Rightarrow> None
        | d # t \<Rightarrow> (let k = of_char d :: nat in
            if 128 \<le> k \<and> k < 192
            then map_option ((#) (char_of ((n - 192) * 64 + (k - 128)))) (utf8_decode t) else None))
     else None)"

text \<open>\<open>None\<close> of the reader stands for the errors it raises, all of them \<open>ValueError\<close>s.\<close>

definition strict_json :: "(string \<Rightarrow> rat option) \<Rightarrow> string \<Rightarrow> pyval exc" where
  "strict_json F raw =
     (if MAX_BODY < length raw then Inl (ValueError ''Execution payload exceeds its size bound.'')
      else case utf8_decode raw of None \<Rightarrow> Inl (ValueError ''UTF-8'')
        | Some text \<Rightarrow> (case json_loads F text of None \<Rightarrow> Inl (ValueError ''JSON'') | Some v \<Rightarrow> Inr v))"

section \<open>The worker\<close>

definition intent_mismatch :: "incident \<Rightarrow> action \<Rightarrow> pyval \<Rightarrow> string \<Rightarrow> bool" where
  "intent_mismatch inc a request proposal_digest \<longleftrightarrow>
     \<not> py_eq (dget (act_proposal a) ''type'') (PStr ''TERMINATE_BACKEND'')
   \<or> \<not> py_eq (PInt (inc_revision inc)) (dget request ''plan_revision'')
   \<or> \<not> py_eq (opt_text (act_operation a)) (dget request ''operation_id'')
   \<or> act_state a \<noteq> EXECUTING
   \<or> \<not> py_eq (PStr proposal_digest) (dget request ''proposal_digest'')
   \<or> inc_approval inc = None
   \<or> \<not> py_eq (opt_text (inc_lease_owner inc)) (dget request ''worker_id'')"

definition worker_gate :: "host \<Rightarrow> pyval \<Rightarrow> (incident \<times> action \<times> grant) run" where
  "worker_gate H request =
     rbind (require H ''TERMINATE_BACKEND'') (\<lambda>_.
     rbind (verify_runtime_security H) (\<lambda>_.
     rbind (load H (str_of (dget request ''incident_id''))) (\<lambda>inc.
       case find (\<lambda>a. act_id a = str_of (dget request ''action_id'')) (inc_actions inc) of
         None \<Rightarrow> rraise (OtherException ''StopIteration'')
       | Some a \<Rightarrow>
          if \<not> is_dict (act_proposal a) then rraise (AttributeError ''get'')
          else rbind (rlift (json_digest (h_platform H) (act_proposal a))) (\<lambda>proposal_digest.
            if intent_mismatch inc a request proposal_digest
            then rraise (GrantDenied ''Request does not match a pending approved execution intent.'')
            else rbind (database_identity H) (\<lambda>identity.
                 rbind (grant_transact H (\<lambda>now gs. claim_grant (h_platform H) now gs inc a identity
                    (str_of (dget request ''operation_id'')))) (\<lambda>g.
                 rreturn (inc, a, g)))))))"

text \<open>The context of \<open>IncidentWorkflow.execution_context\<close>, with the grant; never from the caller.\<close>

definition grant_dict :: "grant \<Rightarrow> pyval" where
  "grant_dict g = PDict [(''grant_id'', PStr (gr_id g)), (''scope_digest'', PStr (gr_scope g)),
     (''expires_at'', PFloat (Finite (gr_expires g)))]"

definition worker_context :: "host \<Rightarrow> pyval \<Rightarrow> incident \<Rightarrow> action \<Rightarrow> grant \<Rightarrow> pyval" where
  "worker_context H request inc a g = PDict
     [(''kind'', PStr ''LOCK_INCIDENT_EXECUTION''), (''store_path'', PStr (store_path (h_store H))),
      (''worker_id'', dget request ''worker_id''), (''incident_id'', PStr (inc_id inc)),
      (''action_id'', PStr (act_id a)), (''plan_revision'', PInt (inc_revision inc)),
      (''isolated_grant'', grant_dict g)]"

definition worker_approval :: "incident \<Rightarrow> action \<Rightarrow> pyval" where
  "worker_approval inc a = (case inc_approval inc of None \<Rightarrow> PNone | Some p \<Rightarrow> approval_dict p (act_id a))"

definition grant_refused :: "host \<Rightarrow> pyval \<Rightarrow> pyval run" where
  "grant_refused H request =
     rbind (audit_log H (PDict
       [(''operation_id'', dget request ''operation_id''), (''status'', PStr ''BLOCKED_EXECUTOR_GRANT''),
        (''incident_id'', dget request ''incident_id''), (''action_id'', dget request ''action_id'')])) (\<lambda>_.
     rreturn (PDict
       [(''operation_id'', dget request ''operation_id''), (''status'', PStr ''BLOCKED_INCIDENT_APPROVAL''),
        (''decision'', PStr ''BLOCK''), (''executed'', PBool False),
        (''approval_error_type'', PStr ''IsolatedExecutionGateDenied'')]))"

text \<open>\<open>main\<close> starts the worker in the role \<open>executor\<close> only, in which \<open>execute_action_proposal\<close> runs locally.\<close>

definition granted_execution :: "host \<Rightarrow> pyval \<Rightarrow> incident \<times> action \<times> grant \<Rightarrow> pyval run" where
  "granted_execution H request = (\<lambda>(inc, a, g).
     rbind (execute_locally H (act_proposal a) (dget request ''operation_id'') (worker_approval inc a)
              (worker_context H request inc a g)) (\<lambda>result.
     rbind (grant_transact H (\<lambda>_ gs. record_result (h_platform H) gs (gr_id g) result)) (\<lambda>_.
     rreturn result)))"

definition execute_request :: "host \<Rightarrow> pyval \<Rightarrow> pyval run" where
  "execute_request H payload =
     rbind (rlift (validate_request payload)) (\<lambda>request.
     rbind (attempt (worker_gate H request)) (\<lambda>gate. case gate of
       Inl _ \<Rightarrow> grant_refused H request
     | Inr granted \<Rightarrow> granted_execution H request granted))"

section \<open>The handler\<close>

record http_request =
  rq_authorization :: "string list"
  rq_path :: string
  rq_transfer_encoding :: "string option"
  rq_content_lengths :: "string list"
  rq_body :: string

text \<open>\<open>int(text)\<close>: digits with single underscores between, white space and a sign around.\<close>

fun digit_groups :: "string \<Rightarrow> bool" where
  "digit_groups [] \<longleftrightarrow> False"
| "digit_groups [c] \<longleftrightarrow> is_digit c"
| "digit_groups (c # d # s) \<longleftrightarrow> is_digit c \<and> (if d = CHR ''_'' then digit_groups s else digit_groups (d # s))"

definition unsigned_int :: "string \<Rightarrow> int option" where
  "unsigned_int s = (if digit_groups s then Some (digits_value (filter is_digit s)) else None)"

definition parse_int :: "string \<Rightarrow> int option" where
  "parse_int text = (case strip text of [] \<Rightarrow> None
     | c # s \<Rightarrow> if c = CHR ''-'' then map_option uminus (unsigned_int s)
               else if c = CHR ''+'' then unsigned_int s else unsigned_int (c # s))"

definition authorized :: "string \<Rightarrow> http_request \<Rightarrow> bool" where
  "authorized token rq \<longleftrightarrow> rq_authorization rq = [''Bearer '' @ token]"

definition well_addressed :: "http_request \<Rightarrow> bool" where
  "well_addressed rq \<longleftrightarrow> rq_path rq = ''/execute''
     \<and> (case rq_transfer_encoding rq of None \<Rightarrow> True | Some s \<Rightarrow> s = [])
     \<and> length (rq_content_lengths rq) = 1"

definition read_request :: "(string \<Rightarrow> rat option) \<Rightarrow> http_request \<Rightarrow> pyval exc" where
  "read_request F rq =
     (case parse_int (hd (rq_content_lengths rq)) of None \<Rightarrow> Inl (ValueError ''int'')
      | Some n \<Rightarrow>
         if \<not> (0 < n \<and> n \<le> int MAX_BODY) then Inl (ValueError ''Invalid body size'')
         else (let raw = take (nat n) (rq_body rq) in
           if length raw \<noteq> nat n then Inl (ValueError ''Incomplete body'')
           else ebind (strict_json F raw) validate_request))"

definition answer_request :: "host \<Rightarrow> pyval \<Rightarrow> (int \<times> string) run" where
  "answer_request H request =
     rbind (attempt (rbind (execute_request H request) (\<lambda>result.
       rbind (rlift (canonical_json (h_platform H) result)) (\<lambda>text.
         if MAX_BODY < length (utf8_encode text) then rraise (ValueError ''Result exceeds wire budget'')
         else rreturn (utf8_encode text))))) (\<lambda>answer. case answer of
       Inr raw \<Rightarrow> rreturn (200, raw)
     | Inl _ \<Rightarrow> rreturn (500, []))"

definition do_POST :: "host \<Rightarrow> (string \<Rightarrow> rat option) \<Rightarrow> string \<Rightarrow> http_request \<Rightarrow> (int \<times> string) run" where
  "do_POST H F token rq =
     (if \<not> authorized token rq then rreturn (401, [])
      else if \<not> well_addressed rq then rreturn (400, [])
      else case read_request F rq of
          Inl _ \<Rightarrow> rreturn (400, [])
        | Inr request \<Rightarrow> answer_request H request)"

section \<open>The operator\<close>

text \<open>\<open>approve\<close> on the command line of the worker: without confirmation it only previews.\<close>

definition approve :: "host \<Rightarrow> string \<Rightarrow> pyval \<Rightarrow> pyval \<Rightarrow> bool \<Rightarrow> pyval \<Rightarrow> string list run" where
  "approve H incident_id actor ttl confirm review_digest =
     rbind (verify_runtime_security H) (\<lambda>_.
     rbind (load H incident_id) (\<lambda>inc.
     rbind (database_identity H) (\<lambda>identity.
     rbind (rlift (preview_grant (h_platform H) inc identity)) (\<lambda>_.
       if \<not> confirm then rraise (OtherException ''SystemExit'')
       else
        rbind (rlift (require_review_digest (h_platform H) inc identity review_digest)) (\<lambda>_.
        rbind (sample (h_action_uuids H)) (\<lambda>uuids.
          grant_transact H (\<lambda>now gs. issue (h_platform H) now uuids gs inc identity actor ttl)))))))"

section \<open>The client\<close>

record endpoint =
  ep_scheme :: string
  ep_hostname :: "string option"
  ep_port :: "nat option"
  ep_username :: "string option"
  ep_password :: "string option"
  ep_path :: string
  ep_query :: string
  ep_fragment :: string
  ep_token :: string

definition given :: "string option \<Rightarrow> bool" where
  "given s \<longleftrightarrow> s \<noteq> None \<and> s \<noteq> Some []"

definition endpoint_ok :: "endpoint \<Rightarrow> bool" where
  "endpoint_ok E \<longleftrightarrow> ep_scheme E = ''http'' \<and> ep_hostname E = Some ''127.0.0.1''
     \<and> ep_port E \<noteq> None \<and> ep_port E \<noteq> Some 0 \<and> \<not> given (ep_username E) \<and> \<not> given (ep_password E)
     \<and> List.member [[], ''/''] (ep_path E) \<and> ep_query E = [] \<and> ep_fragment E = [] \<and> 32 \<le> length (ep_token E)"

definition uncertain :: exn where
  "uncertain = OtherException ''RemoteExecutionUncertain''"

definition remote_request :: "host \<Rightarrow> pyval \<Rightarrow> pyval \<Rightarrow> pyval \<Rightarrow> pyval exc" where
  "remote_request H proposal ident ec =
     ebind (read_item ec ''incident_id'') (\<lambda>incident_id.
     ebind (read_item ec ''action_id'') (\<lambda>action_id.
     ebind (read_item ec ''worker_id'') (\<lambda>worker_id.
     ebind (read_item ec ''plan_revision'') (\<lambda>plan_revision.
     ebind (json_digest (h_platform H) proposal) (\<lambda>proposal_digest.
       validate_request (PDict
         [(''version'', PInt 1), (''incident_id'', incident_id), (''action_id'', action_id),
          (''operation_id'', ident), (''worker_id'', worker_id), (''plan_revision'', plan_revision),
          (''proposal_digest'', PStr proposal_digest)]))))))"

definition client_request :: "endpoint \<Rightarrow> string \<Rightarrow> http_request" where
  "client_request E text = \<lparr>rq_authorization = [''Bearer '' @ ep_token E], rq_path = ''/execute'',
     rq_transfer_encoding = None, rq_content_lengths = [nat_text (length (utf8_encode text))],
     rq_body = utf8_encode text\<rparr>"

definition accept_response :: "(string \<Rightarrow> rat option) \<Rightarrow> pyval \<Rightarrow> int \<times> string \<Rightarrow> pyval exc" where
  "accept_response F ident = (\<lambda>(status, raw).
     if status \<noteq> 200 then Inl uncertain
     else case strict_json F (take (MAX_BODY + 1) raw) of
         Inl _ \<Rightarrow> Inl uncertain
       | Inr result \<Rightarrow>
          if \<not> is_dict result \<or> \<not> py_eq (dget result ''operation_id'') ident
             \<or> \<not> is_str (dget result ''status'')
          then Inl uncertain else Inr result)"

text \<open>\<open>OSError\<close>, \<open>http.client.HTTPException\<close> and \<open>ValueError\<close>; the network raises the first two.\<close>

fun is_transport_error :: "exn \<Rightarrow> bool" where
  "is_transport_error (ValueError _) = True"
| "is_transport_error (OtherException name) = List.member [''OSError'', ''HTTPException''] name"
| "is_transport_error _ = False"

definition execute_remote ::
  "host \<Rightarrow> (string \<Rightarrow> rat option) \<Rightarrow> endpoint \<Rightarrow> (http_request \<Rightarrow> (int \<times> string) run) \<Rightarrow> executor" where
  "execute_remote H F E send proposal ident ac ec =
     (if \<not> is_dict proposal \<or> \<not> py_eq (dget proposal ''type'') (PStr ''TERMINATE_BACKEND'')
         \<or> \<not> truthy ac \<or> \<not> truthy ec
      then rreturn (PDict
        [(''operation_id'', ident), (''status'', PStr ''BLOCKED_INCIDENT_APPROVAL''),
         (''decision'', PStr ''BLOCK''), (''executed'', PBool False),
         (''errors'', PList [PStr ''Isolated execution supports persisted lock workflows only.''])])
      else
       rbind (require H ''TERMINATE_BACKEND'') (\<lambda>_.
       rbind (rlift (remote_request H proposal ident ec)) (\<lambda>request.
         if \<not> endpoint_ok E then rraise (ValueError ''Isolated executor requires an explicit loopback HTTP endpoint and a token of at least 32 characters.'')
         else
          rtry (rbind (rlift (canonical_json (h_platform H) request)) (\<lambda>text.
                rbind (send (client_request E text)) (\<lambda>response.
                rlift (accept_response F ident response))))
            (\<lambda>e. if is_transport_error e then rraise uncertain else rraise e))))"

section \<open>The network\<close>

datatype delivery = Delivered | Request_lost exn | Response_lost exn

record network =
  net_delivery :: "nat \<Rightarrow> delivery"
  net_requests :: "nat \<Rightarrow> http_request list"

fun serve_all :: "host \<Rightarrow> (string \<Rightarrow> rat option) \<Rightarrow> string \<Rightarrow> http_request list \<Rightarrow> unit run" where
  "serve_all W F token [] = rreturn ()"
| "serve_all W F token (rq # rqs) = rbind (attempt (do_POST W F token rq)) (\<lambda>_. serve_all W F token rqs)"

text \<open>One exchange: the worker first serves what others have sent it, then ours.\<close>

definition exchange ::
  "host \<Rightarrow> (string \<Rightarrow> rat option) \<Rightarrow> string \<Rightarrow> network \<Rightarrow> http_request \<Rightarrow> (int \<times> string) run" where
  "exchange W F token N rq =
     rbind (sample (net_requests N)) (\<lambda>rqs.
     rbind (serve_all W F token rqs) (\<lambda>_.
     rbind (sample (net_delivery N)) (\<lambda>d. case d of
       Request_lost e \<Rightarrow> rraise e
     | Delivered \<Rightarrow> do_POST W F token rq
     | Response_lost e \<Rightarrow> rbind (do_POST W F token rq) (\<lambda>_. rraise e))))"

text \<open>The worker's host next to an agent's: both read and write the same incident store.\<close>

definition beside :: "host \<Rightarrow> host \<Rightarrow> host" where
  "beside A W = W\<lparr>h_role := ''executor'', h_platform := h_platform A, h_store := h_store A\<rparr>"

definition isolated_executor ::
  "host \<Rightarrow> host \<Rightarrow> (string \<Rightarrow> rat option) \<Rightarrow> endpoint \<Rightarrow> string \<Rightarrow> network \<Rightarrow> executor" where
  "isolated_executor A W F E token N = execute_remote A F E (exchange (beside A W) F token N)"

end
