(* ===== verification/Wire.thy ===== *)
theory Wire
  imports Isolation
begin

text \<open>
  The messages between an agent and its worker: what the client sends is read by the worker as
  the request it was. UTF-8, the length in the header, canonical JSON and the validation of
  the request are gone through in both directions.
\<close>

section \<open>UTF-8\<close>

lemma utf8_decode_bytes: "utf8_decode (utf8_bytes c @ s) = map_option ((#) c) (utf8_decode s)"
proof (cases "(of_char c :: nat) < 128")
  case True
  then show ?thesis by (simp add: utf8_bytes_def)
next
  case False
  let ?n = "of_char c :: nat"
  have halves: "n div 64 = 2 \<or> n div 64 = 3" if "\<not> n < 128" and "n < 256" for n :: nat
    using that div_le_mono [of 128 n 64] less_mult_imp_div_less [of n 4 64] by auto
  have d: "?n div 64 = 2 \<or> ?n div 64 = 3" using False by (rule halves) simp
  have whole: "char_of (k * 64 + ?n mod 64) = c" if "?n div 64 = k" for k
  proof -
    have "k * 64 + ?n mod 64 = ?n" using div_mult_mod_eq [of ?n 64] that by simp
    then show ?thesis by (simp only: char_of_char)
  qed
  from d show ?thesis
  proof
    assume "?n div 64 = 2"
    with whole [OF this] False show ?thesis by (auto simp: utf8_bytes_def Let_def)
  next
    assume "?n div 64 = 3"
    with whole [OF this] False show ?thesis by (auto simp: utf8_bytes_def Let_def)
  qed
qed

lemma utf8_roundtrip: "utf8_decode (utf8_encode s) = Some s"
  by (induction s) (simp_all add: utf8_encode_def utf8_decode_bytes)

section \<open>Numbers in headers\<close>

lemma digits_grouped: "list_all is_digit s \<Longrightarrow> s \<noteq> [] \<Longrightarrow> digit_groups s"
  by (induction s rule: digit_groups.induct) (auto simp: is_digit_def)

lemma digit_no_space: "is_digit c \<Longrightarrow> \<not> is_space c"
  by (auto simp: is_digit_def is_space_def)

lemma strip_digits: "list_all is_digit s \<Longrightarrow> strip s = s"
proof -
  assume d: "list_all is_digit s"
  then have none: "\<forall>c \<in> set s. \<not> is_space c" by (auto simp: list_all_iff dest: digit_no_space)
  then have "dropWhile is_space s = s" by (cases s) auto
  moreover have "dropWhile is_space (rev s) = rev s"
    using none by (auto simp: dropWhile_eq_self_iff hd_rev)
  ultimately show ?thesis by (simp add: strip_def lstrip_def rstrip_def)
qed

lemma parse_int_nat_text: "parse_int (nat_text n) = Some (int n)"
proof -
  have d: "list_all is_digit (nat_text n)" by (rule nat_text_digits)
  then obtain c s where cs: "nat_text n = c # s" "is_digit c" using nat_text_nonempty [of n] by (cases "nat_text n") auto
  have "c \<noteq> CHR ''-''" "c \<noteq> CHR ''+''" using cs(2) by (auto simp: is_digit_def)
  moreover have "filter is_digit (nat_text n) = nat_text n" using d by (simp add: filter_id_conv list_all_iff)
  ultimately show ?thesis
    using strip_digits [OF d] digits_grouped [OF d nat_text_nonempty] digits_value_nat_text [of n] cs(1)
    by (simp add: parse_int_def unsigned_int_def)
qed

section \<open>Sorted requests\<close>

lemma sorted_fields:
  assumes "distinct (map fst kvs)"
  shows "dget (sort_keys (PDict kvs)) k = sort_keys (dget (PDict kvs) k)"
    "set (dict_keys (sort_keys (PDict kvs))) = set (map fst kvs)"
proof -
  let ?kvs = "map (\<lambda>(k, v). (k, sort_keys v)) kvs"
  have keys: "map fst ?kvs = map fst kvs" by (induction kvs) auto
  have d: "distinct (map fst ?kvs)" using assms keys by (simp del: map_map)
  then have "distinct (map fst (sort_key fst ?kvs))" by (simp only: distinct_map distinct_sort set_sort)
  then have "map_of (sort_key fst ?kvs) = map_of ?kvs"
    using d by (simp only: map_of_inject_set set_sort)
  moreover have "map_of ?kvs k = map_option sort_keys (map_of kvs k)" by (induction kvs) auto
  ultimately show "dget (sort_keys (PDict kvs)) k = sort_keys (dget (PDict kvs) k)"
    by (simp add: dget_def split: option.split)
  show "set (dict_keys (sort_keys (PDict kvs))) = set (map fst kvs)"
    by (simp add: dict_keys_def) (metis keys list.set_map)
qed

definition scalar_fields :: "pyval \<Rightarrow> bool" where
  "scalar_fields v \<longleftrightarrow> dget v ''version'' = PInt 1 \<and> is_positive_int (dget v ''plan_revision'')
     \<and> list_all (\<lambda>k. is_str (dget v k))
         [''incident_id'', ''action_id'', ''operation_id'', ''worker_id'', ''proposal_digest'']"

lemma validate_request_scalars: "validate_request v = Inr r \<Longrightarrow> scalar_fields v"
  by (auto simp: validate_request_def scalar_fields_def split: option.splits if_splits)

lemma scalar_sorted:
  assumes "scalar_fields v" and "k \<in> set REQUEST_KEYS"
  shows "sort_keys (dget v k) = dget v k"
proof -
  have str: "is_str x \<Longrightarrow> sort_keys x = x" for x by (cases x) simp_all
  have num: "is_positive_int x \<Longrightarrow> sort_keys x = x" for x by (cases x) (simp_all add: is_positive_int_def)
  note fields = assms(1) [unfolded scalar_fields_def list_all_iff]
  have "k = ''version'' \<or> k = ''plan_revision'' \<or> k \<in> set
      [''incident_id'', ''action_id'', ''operation_id'', ''worker_id'', ''proposal_digest'']"
    using assms(2) by (auto simp: REQUEST_KEYS_def)
  with fields str num show ?thesis by (elim disjE) auto
qed

lemma validate_sorted:
  assumes "validate_request (PDict kvs) = Inr r" and "distinct (map fst kvs)"
  shows "validate_request (sort_keys (PDict kvs)) = Inr (sort_keys (PDict kvs))"
proof -
  note sorted = sorted_fields [OF assms(2)]
  have "dget (sort_keys (PDict kvs)) k = dget (PDict kvs) k" if "k \<in> set REQUEST_KEYS" for k
    using sorted(1) [of k] scalar_sorted [OF validate_request_scalars [OF assms(1)] that] by simp
  then have same: "dget (sort_keys (PDict kvs)) ''version'' = dget (PDict kvs) ''version''"
    "dget (sort_keys (PDict kvs)) ''incident_id'' = dget (PDict kvs) ''incident_id''"
    "dget (sort_keys (PDict kvs)) ''action_id'' = dget (PDict kvs) ''action_id''"
    "dget (sort_keys (PDict kvs)) ''operation_id'' = dget (PDict kvs) ''operation_id''"
    "dget (sort_keys (PDict kvs)) ''worker_id'' = dget (PDict kvs) ''worker_id''"
    "dget (sort_keys (PDict kvs)) ''plan_revision'' = dget (PDict kvs) ''plan_revision''"
    "dget (sort_keys (PDict kvs)) ''proposal_digest'' = dget (PDict kvs) ''proposal_digest''"
    by (simp_all add: REQUEST_KEYS_def)
  have "is_dict (sort_keys (PDict kvs))" "set (dict_keys (sort_keys (PDict kvs))) = set (dict_keys (PDict kvs))"
    using sorted(2) by (simp_all add: dict_keys_def)
  moreover have "is_dict (PDict kvs)" by simp
  ultimately have "validate_request (sort_keys (PDict kvs)) = (case validate_request (PDict kvs) of
      Inl e \<Rightarrow> Inl e | Inr _ \<Rightarrow> Inr (sort_keys (PDict kvs)))"
    unfolding validate_request_def same by (simp only: split: option.split) simp
  with assms(1) show ?thesis by simp
qed

section \<open>A request on the wire\<close>

lemma remote_requestE:
  assumes "remote_request H proposal ident ec = Inr request"
  obtains kvs where "request = PDict kvs" "distinct (map fst kvs)" "validate_request (PDict kvs) = Inr request"
    "\<And>P F. readable P F (PDict kvs)"
proof -
  from assms obtain i a w n d where
    v: "validate_request (PDict
         [(''version'', PInt 1), (''incident_id'', i), (''action_id'', a), (''operation_id'', ident),
          (''worker_id'', w), (''plan_revision'', n), (''proposal_digest'', PStr d)]) = Inr request"
    by (auto simp: remote_request_def ebind_Inr_iff)
  let ?kvs = "[(''version'', PInt 1), (''incident_id'', i), (''action_id'', a), (''operation_id'', ident),
          (''worker_id'', w), (''plan_revision'', n), (''proposal_digest'', PStr d)]"
  from validate_request_scalars [OF v]
  have "is_str i" "is_str a" "is_str ident" "is_str w" "is_positive_int n"
    by (simp_all add: scalar_fields_def dget_def)
  moreover have "readable P F n" if "is_positive_int n" for P F
    using that by (cases n) (simp_all add: is_positive_int_def)
  ultimately have "readable P F (PDict ?kvs)" for P F by (auto simp: is_str_iff)
  then show thesis using that [of ?kvs] v validate_request_fields(1) [OF v] by simp
qed

text \<open>
  C34: The request the client sends is authorized, well addressed and read by the worker as
  that same request, with its keys sorted.
\<close>

theorem wire_roundtrip:
  assumes "remote_request H proposal ident ec = Inr request"
    and "canonical_json (h_platform H) request = Inr body" and "length (utf8_encode body) \<le> MAX_BODY"
  shows "authorized (ep_token E) (client_request E body) \<and> well_addressed (client_request E body)
    \<and> read_request F (client_request E body) = Inr (sort_keys request)"
proof -
  from assms(1) obtain kvs where kvs: "request = PDict kvs" "distinct (map fst kvs)"
    "validate_request (PDict kvs) = Inr request" "readable (h_platform H) F (PDict kvs)" by (rule remote_requestE) blast
  from canonical_json_read [OF kvs(4)] assms(2) kvs(1)
  have read: "json_loads F body = Some (sort_keys request)" and nonempty: "body \<noteq> []" by (auto simp: json_dumps.simps)
  have "utf8_encode body \<noteq> []" using utf8_roundtrip [of body] nonempty by auto
  moreover have "strict_json F (utf8_encode body) = Inr (sort_keys request)"
    using assms(3) read by (simp add: strict_json_def utf8_roundtrip)
  moreover have "validate_request (sort_keys request) = Inr (sort_keys request)"
    unfolding kvs(1) by (rule validate_sorted [OF kvs(3,2)])
  ultimately show ?thesis
    using assms(3)
    by (simp add: client_request_def authorized_def well_addressed_def read_request_def parse_int_nat_text ebind_def)
qed

end
