(* ===== verification/IsolationSafety.thy ===== *)
theory IsolationSafety
  imports Isolation WorkflowSafety
begin

text \<open>
  What the isolated deployment guarantees. However often the worker is asked, and whatever is
  lost on the network, the terminations it sends are outnumbered neither by the claims in the
  incident store nor by the operator's grants it has consumed. The workflow of an agent process,
  whose executor is the client, is an instance of \<open>workflow_runner\<close>.
\<close>

section \<open>Spent grants\<close>

definition spent :: "world \<Rightarrow> nat" where
  "spent w = length (filter is_consumed (w_grants w))"

abbreviation grant_steps :: "platform \<Rightarrow> grant list \<Rightarrow> grant list \<Rightarrow> bool" where
  "grant_steps P \<equiv> (grant_step P)\<^sup>*\<^sup>*"

lemma spent_kept:
  "list_all2 kept_or_revoked gs hs \<Longrightarrow> length (filter is_consumed gs) = length (filter is_consumed hs)"
  by (induction rule: list_all2_induct) (auto simp: kept_or_revoked_def is_consumed_def)

lemma spent_extends:
  "extends_rows kept_or_revoked gs hs \<Longrightarrow> length (filter is_consumed gs) \<le> length (filter is_consumed hs)"
  by (auto simp: extends_rows_def dest!: spent_kept)

lemma issue_each_extends:
  "issue_each P inc t actor now expires uuids n xs gs = Inr gs' \<Longrightarrow> extends_rows kept_or_revoked gs gs'"
proof (induction xs arbitrary: n gs)
  case Nil
  then show ?case by (simp add: extends_rows_refl kept_or_revoked_def)
next
  case (Cons x xs)
  then obtain g1 where "issue_one P inc t actor now expires (uuids n) x gs = Inr g1"
    "issue_each P inc t actor now expires uuids (Suc n) xs g1 = Inr gs'" by (auto simp: ebind_Inr_iff)
  with Cons.IH issue_one_extends show ?case by (blast intro: extends_rows_trans kept_or_revoked_trans)
qed

lemma issue_extends: "issue P now uuids gs inc t actor ttl = (gs', res) \<Longrightarrow> extends_rows kept_or_revoked gs gs'"
  by (auto simp: issue_def Let_def extends_rows_refl kept_or_revoked_def
      split: if_splits sum.splits dest: issue_each_extends)

lemma spent_update:
  assumes "\<And>g. g \<in> set gs \<Longrightarrow> is_consumed g \<Longrightarrow> is_consumed (if p g then f g else g)"
  shows "length (filter is_consumed gs) \<le> length (filter is_consumed (update_where p f gs))"
  using assms
proof (induction gs)
  case (Cons g gs)
  have "is_consumed g \<Longrightarrow> is_consumed (if p g then f g else g)" by (rule Cons.prems) simp_all
  moreover have "length (filter is_consumed gs) \<le> length (filter is_consumed (update_where p f gs))"
    by (rule Cons.IH) (simp add: Cons.prems)
  ultimately show ?case by (cases "is_consumed g"; cases "p g") (simp_all add: update_where_def)
qed simp

lemma spent_claim:
  assumes "claim_grant P now gs inc a t ident = (gs', Inr g)"
  shows "Suc (length (filter is_consumed gs)) \<le> length (filter is_consumed gs')"
proof -
  let ?f = "\<lambda>h. h\<lparr>gr_state := CLAIMED, gr_operation := Some ident\<rparr>"
  let ?p = "\<lambda>h. gr_id h = gr_id g \<and> gr_state h = ISSUED"
  from assms have g: "g \<in> set gs" "gr_state g = ISSUED" and gs': "gs' = update_where ?p ?f gs"
    by (rule claim_grantE, simp)+
  from g(1) obtain xs ys where xs: "gs = xs @ g # ys" by (auto simp: in_set_conv_decomp)
  have "length (filter is_consumed zs) \<le> length (filter is_consumed (update_where ?p ?f zs))" for zs
    by (rule spent_update) (auto simp: is_consumed_def)
  from this [of xs] this [of ys] g(2) show ?thesis
    unfolding gs' xs by (simp add: update_where_def is_consumed_def)
qed

lemma spent_claim_le:
  "claim_grant P now gs inc a t ident = (gs', out) \<Longrightarrow> length (filter is_consumed gs) \<le> length (filter is_consumed gs')"
  by (cases out) (auto dest: claim_grant_Inl spent_claim)

lemma spent_record:
  "record_result P gs i result = (gs', ack) \<Longrightarrow> length (filter is_consumed gs) \<le> length (filter is_consumed gs')"
  by (auto simp: record_result_def Let_def is_consumed_def split: sum.splits if_splits intro!: spent_update)

lemma grant_step_spent:
  "grant_step P gs gs' \<Longrightarrow> length (filter is_consumed gs) \<le> length (filter is_consumed gs')"
  by (elim grant_stepE) (blast dest: issue_extends spent_extends spent_claim_le spent_record)+

lemma grant_steps_spent:
  "grant_steps P gs gs' \<Longrightarrow> length (filter is_consumed gs) \<le> length (filter is_consumed gs')"
  by (induction rule: rtranclp_induct) (auto dest: grant_step_spent)

lemma operator_steps: "grant_steps (h_platform H) gs (operator_grants H n gs)"
proof -
  have "grant_steps P gs (fold (apply_grant_request P) qs gs)" for P qs
  proof (induction qs arbitrary: gs)
    case (Cons q qs)
    have "grant_step P gs (apply_grant_request P q gs)"
      by (cases "(P, q, gs)" rule: apply_grant_request.cases) (auto intro: grant_step.intros prod.collapse [symmetric])
    with Cons show ?case by (auto intro: converse_rtranclp_into_rtranclp)
  qed simp
  then show ?thesis by (simp add: operator_grants_def)
qed

section \<open>At most one termination per execution\<close>

definition once :: "'a run \<Rightarrow> bool" where
  "once m \<longleftrightarrow> (\<forall>w. terminations (fst (m w)) \<le> Suc (terminations w))"

lemma harmless_terminations:
  assumes "obeys (lawful H (harmless H)) m" and "m w = (w', r)"
  shows "terminations w' = terminations w"
  using lawful.obeysD [OF assms] by (intro terminations_harmless [of H]) (simp add: lawful_def)

lemma once_harmless: "obeys (lawful H (harmless H)) m \<Longrightarrow> once m"
  unfolding once_def by (metis harmless_terminations prod.collapse le_SucI le_refl)

lemma once_bind:
  assumes "obeys (lawful H (harmless H)) m" and "\<And>x. once (f x)"
  shows "once (rbind m f)"
proof -
  have "terminations (fst (rbind m f w)) \<le> Suc (terminations w)" for w
  proof (cases "m w")
    case (Pair v r)
    then have "terminations v = terminations w" using assms(1) by (intro harmless_terminations)
    then show ?thesis
      using Pair assms(2) by (auto simp: rbind_def once_def split: sum.split) (metis)
  qed
  then show ?thesis by (simp add: once_def)
qed

lemma once_try:
  assumes "once m" and "\<And>e. obeys (lawful H (harmless H)) (h e)"
  shows "once (rtry m h)"
proof -
  have "terminations (fst (rtry m h w)) \<le> Suc (terminations w)" for w
  proof (cases "m w")
    case (Pair v r)
    then have v: "terminations v \<le> Suc (terminations w)" using assms(1) by (metis once_def fst_conv)
    show ?thesis
    proof (cases r)
      case (Inl e)
      have "terminations (fst (h e v)) = terminations v"
        using assms(2) by (metis harmless_terminations prod.collapse)
      with Pair Inl v show ?thesis by (simp add: rtry_def)
    next
      case (Inr x)
      with Pair v show ?thesis by (simp add: rtry_def)
    qed
  qed
  then show ?thesis by (simp add: once_def)
qed

lemma once_cases:
  "once m \<Longrightarrow> once m' \<Longrightarrow> once (if b then m else m')"
  "(\<And>x. once (f x)) \<Longrightarrow> (\<And>y. once (g y)) \<Longrightarrow> once (case v of Inl x \<Rightarrow> f x | Inr y \<Rightarrow> g y)"
  "once n \<Longrightarrow> (\<And>x. once (k x)) \<Longrightarrow> once (case u of None \<Rightarrow> n | Some x \<Rightarrow> k x)"
  by (auto split: sum.split option.split)

lemma run_termination_is_once: "once (run_termination H proposal ident risk source evidence)"
  by (simp add: once_def run_termination_once)

lemma incident_once: "once (terminate_for_incident H proposal ident ac ec risk evidence)"
  unfolding terminate_for_incident_def approval_refused_def
  by (intro once_cases once_bind [OF claim_lawful] run_termination_is_once)
    (rule once_harmless, rule write_action_audit_lawful)+

lemma execute_audited_once:
  assumes "ac \<noteq> PNone \<or> ec \<noteq> PNone"
  shows "once (execute_audited H proposal ident ac ec)"
proof -
  have audit: "once (write_action_audit H r p)" for r p
    by (rule once_harmless, rule write_action_audit_lawful)
  have terminate: "once (execute_terminate_backend_proposal H proposal ident ac ec)"
    unfolding execute_terminate_backend_proposal_def Let_def if_P [OF assms]
    by (intro once_cases once_bind [OF reading_tools(1)] incident_once audit)
  have "once (execute_with_intent H proposal ident ac ec)"
    unfolding execute_with_intent_def Let_def
    by (intro once_cases audit terminate once_harmless [OF rewrite_lawful] once_harmless [OF analyze_lawful]
        once_harmless [OF index_lawful])
  then show ?thesis
    unfolding execute_audited_def unhandled_def
    by (intro once_cases once_bind [OF policy_refusal_lawful] once_try audit write_action_audit_lawful)
qed

lemma execute_locally_once:
  assumes "is_dict ec"
  shows "once (execute_locally H proposal ident ac ec)"
proof -
  have "ac \<noteq> PNone \<or> ec \<noteq> PNone" using assms by auto
  note audited = execute_audited_once [OF this, unfolded once_def]
  have "terminations w' \<le> Suc (terminations w)" if "execute_locally H proposal ident ac ec w = (w', r)" for w w' r
    using that
  proof (cases rule: execute_locallyE)
    case refused
    then show ?thesis by (simp add: terminations_def)
  next
    case (recorded v k i)
    then have "terminations v = terminations w" by (simp add: terminations_def)
    moreover have "terminations w' \<le> Suc (terminations v)" using audited recorded(3) by (metis fst_conv)
    ultimately show ?thesis by simp
  qed
  then show ?thesis unfolding once_def by (metis prod.collapse)
qed

section \<open>The relation of the deployment\<close>

definition calm :: "host \<Rightarrow> world \<Rightarrow> world \<Rightarrow> bool" where
  "calm H w w' \<longleftrightarrow> store_steps (h_platform H) (h_store H) (w_db w) (w_db w')
     \<and> grant_steps (h_platform H) (w_grants w) (w_grants w') \<and> sends (harmless H) w w' \<and> timed w w'"

interpretation calm: world_relation "calm H" for H
  by unfold_locales (auto simp: calm_def intro: timed.refl timed.trans sends_refl sends_trans)

definition isolated :: "host \<Rightarrow> (nat \<times> connection \<times> statement \<Rightarrow> bool) \<Rightarrow> world \<Rightarrow> world \<Rightarrow> bool" where
  "isolated H S w w' \<longleftrightarrow> store_steps (h_platform H) (h_store H) (w_db w) (w_db w')
     \<and> grant_steps (h_platform H) (w_grants w) (w_grants w') \<and> sends S w w' \<and> timed w w'
     \<and> terminations w' + claims w \<le> terminations w + claims w'
     \<and> terminations w' + spent w \<le> terminations w + spent w'"

interpretation isolated: world_relation "isolated H S" for H S
  by unfold_locales (auto simp: isolated_def intro: timed.refl timed.trans sends_refl sends_trans)

lemma lawful_calm: "lawful H (harmless H) w w' \<Longrightarrow> calm H w w'"
  by (simp add: lawful_def calm_def)

lemma calm_obeys: "obeys (lawful H (harmless H)) m \<Longrightarrow> obeys (calm H) m"
  by (auto simp: obeys_def intro: lawful_calm)

lemma calm_counts:
  assumes "calm H w w'"
  shows "terminations w' = terminations w" "claims w \<le> claims w'" "spent w \<le> spent w'"
proof -
  from assms have c: "sends (harmless H) w w'" "store_steps (h_platform H) (h_store H) (w_db w) (w_db w')"
    "grant_steps (h_platform H) (w_grants w) (w_grants w')" by (simp_all add: calm_def)
  show "terminations w' = terminations w" using c(1) by (rule terminations_harmless)
  show "claims w \<le> claims w'" unfolding claims_def using c(2) by (rule store_steps_claims)
  show "spent w \<le> spent w'" unfolding spent_def using c(3) by (rule grant_steps_spent)
qed

lemma sends_weaken: "sends S w w' \<Longrightarrow> (\<And>t. S t \<Longrightarrow> S' t) \<Longrightarrow> sends S' w w'"
  by (auto simp: sends_def list_all_iff)

lemma calm_isolated:
  assumes "calm H w w'"
  shows "isolated H (disciplined H) w w'"
proof -
  have "sends (disciplined H) w w'"
    using assms by (rule sends_weaken [of "harmless H", OF calm_def [THEN iffD1, THEN conjunct2, THEN conjunct2, THEN conjunct1]])
      (simp add: harmless_def)
  with calm_counts [OF assms] assms show ?thesis by (simp add: isolated_def calm_def)
qed

lemma calm_grants:
  assumes "\<And>now gs gs' x. f now gs = (gs', x) \<Longrightarrow> grant_step (h_platform H) gs gs'"
  shows "obeys (calm H) (grant_transact H f)"
proof -
  have "grant_steps (h_platform H) (w_grants w) gs'"
    if "f (h_seconds H (w_tick w)) (operator_grants H (w_tick w) (w_grants w)) = (gs', x)" for w gs' x
    using operator_steps assms [OF that] by (rule rtranclp.rtrancl_into_rtrancl)
  then show ?thesis
    by (auto simp: obeys_def grant_transact_def calm_def sends_def timed_def since_def operator_steps
        split: prod.split option.split)
qed

section \<open>The worker\<close>

lemma inspect_calm:
  assumes "proper_connection H c Inspect_identity"
  shows "obeys (calm H) (inspect_runtime_identity H c)"
  unfolding inspect_runtime_identity_def
  by (rule calm_obeys, rule lawful.obeys_bind, rule inert_lawful [OF obeys_ask(1) obeys_ask(2)])
    (use assms in \<open>simp add: harmless_def disciplined_def\<close>, intro lawful.obeys_intros)

lemma inspect_all_calm:
  "\<forall>c \<in> set cs. proper_connection H c Inspect_identity \<Longrightarrow> obeys (calm H) (inspect_all H cs)"
  by (induction cs) (auto intro!: calm.obeys_intros inspect_calm)

lemma verify_runtime_security_calm: "obeys (calm H) (verify_runtime_security H)"
  unfolding verify_runtime_security_def
  by (auto intro!: calm.obeys_intros inspect_calm inspect_all_calm simp: inspected_connections_def)

lemma load_calm: "obeys (calm H) (load H i)"
  by (rule calm_obeys) (rule store_calls_lawful(1))

lemma database_identity_calm: "obeys (calm H) (database_identity H)"
proof -
  have ask: "obeys (calm H) (ask H Observer (Observe name xs))" for name xs
    by (rule calm_obeys, rule inert_lawful [OF obeys_ask(1) obeys_ask(2)]) (simp add: harmless_def disciplined_def)
  show ?thesis
    unfolding database_identity_def observe_def
    by (rule calm.obeys_intros calm_obeys [OF obeys_require(3)] ask)+
qed

lemmas gate_parts = calm_obeys [OF obeys_require(3)] verify_runtime_security_calm load_calm database_identity_calm

lemma worker_gate_calm: "obeys (calm H) (worker_gate H request)"
  unfolding worker_gate_def
  by (rule calm.obeys_intros gate_parts calm_grants | erule grant_step.claimed)+

text \<open>A gate that is passed has consumed a grant.\<close>

definition spends :: "'a run \<Rightarrow> bool" where
  "spends m \<longleftrightarrow> (\<forall>w w' x. m w = (w', Inr x) \<longrightarrow> Suc (spent w) \<le> spent w')"

lemma spends_bind:
  assumes "obeys (calm H) m" and "\<And>x. spends (f x)"
  shows "spends (rbind m f)"
proof -
  have "Suc (spent w) \<le> spent w'" if run: "rbind m f w = (w', Inr y)" for w w' y
    using run
  proof (rule rbind_InrE)
    fix x v assume m: "m w = (v, Inr x)" and f: "f x v = (w', Inr y)"
    have "spent w \<le> spent v" using calm.obeysD [OF assms(1) m] by (rule calm_counts(3))
    moreover have "Suc (spent v) \<le> spent w'" using assms(2) [of x] f unfolding spends_def by blast
    ultimately show ?thesis by simp
  qed
  then show ?thesis by (simp add: spends_def)
qed

lemma spends_first:
  assumes "spends m" and "\<And>x. obeys (calm H) (f x)"
  shows "spends (rbind m f)"
proof -
  have "Suc (spent w) \<le> spent w'" if run: "rbind m f w = (w', Inr y)" for w w' y
    using run
  proof (rule rbind_InrE)
    fix x v assume m: "m w = (v, Inr x)" and f: "f x v = (w', Inr y)"
    have "spent v \<le> spent w'" using calm.obeysD [OF assms(2) f] by (rule calm_counts(3))
    moreover have "Suc (spent w) \<le> spent v" using assms(1) m unfolding spends_def by blast
    ultimately show ?thesis by simp
  qed
  then show ?thesis by (simp add: spends_def)
qed

lemma spends_cases:
  "spends (rraise e)" "spends m \<Longrightarrow> spends m' \<Longrightarrow> spends (if b then m else m')"
  "spends m \<Longrightarrow> (\<And>x. spends (f x)) \<Longrightarrow> spends (case v of None \<Rightarrow> m | Some x \<Rightarrow> f x)"
  by (auto simp: spends_def split: option.splits)

lemma claim_spends:
  "spends (grant_transact H (\<lambda>now gs. claim_grant (h_platform H) now gs inc a identity ident))"
proof -
  have "Suc (spent w) \<le> spent w'"
    if "grant_transact H (\<lambda>now gs. claim_grant (h_platform H) now gs inc a identity ident) w = (w', Inr g)" for w w' g
  proof -
    let ?gs = "operator_grants H (w_tick w) (w_grants w)"
    from that obtain gs' where "claim_grant (h_platform H) (h_seconds H (w_tick w)) ?gs inc a identity ident = (gs', Inr g)"
      "w_grants w' = gs'" by (auto simp: grant_transact_def split: prod.splits option.splits)
    then have "Suc (length (filter is_consumed ?gs)) \<le> spent w'"
      using spent_claim unfolding spent_def by blast
    moreover have "spent w \<le> length (filter is_consumed ?gs)"
      unfolding spent_def by (rule grant_steps_spent, rule operator_steps)
    ultimately show ?thesis by simp
  qed
  then show ?thesis by (simp add: spends_def)
qed

lemma worker_gate_spends: "spends (worker_gate H request)"
  unfolding worker_gate_def
  by (rule gate_parts [THEN spends_bind] spends_cases claim_spends calm.obeys_lift [THEN spends_bind]
      spends_first [OF claim_spends] calm.obeys_return)+

text \<open>An execution under a grant: at most one termination, and the gate has spent a grant for it.\<close>

lemma record_calm: "obeys (calm H) (grant_transact H (\<lambda>_ gs. record_result (h_platform H) gs i result))"
  by (rule calm_grants, erule grant_step.recorded)

lemma granted_execution_counts:
  assumes "granted_execution H request granted v = (w', r)"
  shows "covered H v (w'\<lparr>w_grants := w_grants v\<rparr>)" "grant_steps (h_platform H) (w_grants v) (w_grants w')"
    "terminations w' \<le> Suc (terminations v)"
proof -
  obtain inc a g where granted: "granted = (inc, a, g)" by (cases granted)
  let ?exec = "execute_locally H (act_proposal a) (dget request ''operation_id'') (worker_approval inc a)
      (worker_context H request inc a g)"
  have dict: "is_dict (worker_context H request inc a g)" by (simp add: worker_context_def)
  obtain u x where u: "?exec v = (u, x)" by (cases "?exec v")
  have c: "covered H v u" using execute_locally_covered [OF dict] u by (rule covered.obeysD)
  have one: "terminations u \<le> Suc (terminations v)"
    using execute_locally_once [OF dict] u unfolding once_def by (metis fst_conv)
  have same: "w_grants u = w_grants v" using c by (simp add: covered_def lawful_def)
  have tail: "calm H u w' \<and> w_db w' = w_db u \<and> w_trace w' = w_trace u"
  proof (cases x)
    case (Inl e)
    with assms u granted show ?thesis by (simp add: granted_execution_def rbind_def calm.refl)
  next
    case (Inr result)
    let ?noted = "grant_transact H (\<lambda>_ gs. record_result (h_platform H) gs (gr_id g) result)"
    obtain u' y where u': "?noted u = (u', y)" by (cases "?noted u")
    with assms u granted Inr have "w' = u'"
      by (auto simp: granted_execution_def rbind_def split: sum.splits)
    moreover have "calm H u u'" using record_calm u' by (rule calm.obeysD)
    moreover have "w_db u' = w_db u" "w_trace u' = w_trace u"
      using u' by (auto simp: grant_transact_def split: prod.splits)
    ultimately show ?thesis by simp
  qed
  then show "grant_steps (h_platform H) (w_grants v) (w_grants w')" "terminations w' \<le> Suc (terminations v)"
    using one same by (simp_all add: calm_def terminations_def)
  have "timed u w'" using tail by (simp add: calm_def)
  with c have "timed v w'" by (auto simp: covered_def lawful_def intro: timed.trans)
  with c tail show "covered H v (w'\<lparr>w_grants := w_grants v\<rparr>)"
    by (auto simp: covered_def lawful_def sends_def timed_def terminations_def claims_def)
qed

lemma execute_request_isolated: "obeys (isolated H (disciplined H)) (execute_request H payload)"
proof -
  have refused: "obeys (isolated H (disciplined H)) (grant_refused H request)" for request
  proof -
    have "obeys (calm H) (grant_refused H request)"
      unfolding grant_refused_def by (rule calm_obeys) (rule lawful.obeys_intros obeys_audit_log(2))+
    then show ?thesis by (auto simp: obeys_def intro: calm_isolated)
  qed
  have gated: "isolated H (disciplined H) w w'"
    if run: "rbind (attempt (worker_gate H request)) (\<lambda>gate. case gate of Inl e \<Rightarrow> grant_refused H request
       | Inr granted \<Rightarrow> granted_execution H request granted) w = (w', r)" for request w w' r
  proof -
    obtain v x where v: "worker_gate H request w = (v, x)" by (cases "worker_gate H request w")
    have c: "calm H w v" using worker_gate_calm v by (rule calm.obeysD)
    then have wv: "isolated H (disciplined H) w v" by (rule calm_isolated)
    show ?thesis
    proof (cases x)
      case (Inl e)
      with run v have "grant_refused H request v = (w', r)" by (simp add: rbind_def attempt_def)
      with refused have "isolated H (disciplined H) v w'" by (rule isolated.obeysD)
      with wv show ?thesis by (rule isolated.trans)
    next
      case (Inr granted)
      with run v have e: "granted_execution H request granted v = (w', r)" by (simp add: rbind_def attempt_def)
      note counts = granted_execution_counts [OF e]
      have "Suc (spent w) \<le> spent v" using worker_gate_spends v Inr unfolding spends_def by blast
      moreover have "spent v \<le> spent w'" unfolding spent_def by (rule grant_steps_spent, rule counts(2))
      moreover have "terminations v = terminations w" "claims w \<le> claims v" using calm_counts [OF c] by simp_all
      moreover have "terminations w' + claims v \<le> terminations v + claims w'"
        using counts(1) by (simp add: covered_def terminations_def claims_def)
      ultimately have "terminations w' + claims w \<le> terminations w + claims w'"
        "terminations w' + spent w \<le> terminations w + spent w'" using counts(3) by simp_all
      moreover have "store_steps (h_platform H) (h_store H) (w_db v) (w_db w')" "sends (disciplined H) v w'" "timed v w'"
        using counts(1) by (simp_all add: covered_def lawful_def sends_def timed_def)
      ultimately show ?thesis
        using wv counts(2) by (auto simp: isolated_def intro: sends_trans timed.trans)
    qed
  qed
  show ?thesis
    unfolding execute_request_def
    by (rule isolated.obeys_bind_lift) (unfold obeys_def, metis gated prod.collapse)
qed

lemma do_POST_isolated: "obeys (isolated H (disciplined H)) (do_POST H F token rq)"
  unfolding do_POST_def answer_request_def
  by (rule isolated.obeys_intros execute_request_isolated)+

section \<open>The agent and its worker\<close>

definition agent_or_worker :: "host \<Rightarrow> host \<Rightarrow> nat \<times> connection \<times> statement \<Rightarrow> bool" where
  "agent_or_worker A W t \<longleftrightarrow> reading A t \<or> disciplined (beside A W) t"

lemma beside_simps [simp]:
  "h_platform (beside A W) = h_platform A" "h_store (beside A W) = h_store A" "h_role (beside A W) = ''executor''"
  by (simp_all add: beside_def)

lemma worker_beside:
  assumes "obeys (isolated (beside A W) (disciplined (beside A W))) m"
  shows "obeys (isolated A (agent_or_worker A W)) m"
proof -
  have "isolated A (agent_or_worker A W) u v" if "isolated (beside A W) (disciplined (beside A W)) u v" for u v
  proof -
    have "sends (agent_or_worker A W) u v"
      by (rule sends_weaken [of "disciplined (beside A W)"])
        (use that in \<open>simp_all add: isolated_def agent_or_worker_def\<close>)
    with that show ?thesis by (simp add: isolated_def)
  qed
  with assms show ?thesis by (simp add: obeys_def)
qed

lemma reading_isolated: "lawful A (reading A) u v \<Longrightarrow> isolated A (agent_or_worker A W) u v"
proof -
  assume l: "lawful A (reading A) u v"
  have "covered A u v" using l by (rule reading_covered)
  moreover have "sends (agent_or_worker A W) u v"
    by (rule sends_weaken [of "reading A"]) (use l in \<open>simp_all add: lawful_def agent_or_worker_def\<close>)
  moreover have "calm A u v"
  proof -
    have "sends (harmless A) u v"
      by (rule sends_weaken [of "reading A"])
        (use l in \<open>auto simp: lawful_def reading_def harmless_def dest: disciplined_termination\<close>)
    with l show ?thesis by (simp add: lawful_def calm_def)
  qed
  ultimately show ?thesis
    using calm_counts [of A u v] by (simp add: isolated_def calm_def covered_def)
qed

lemma agent_obeys: "obeys (lawful A (reading A)) m \<Longrightarrow> obeys (isolated A (agent_or_worker A W)) m"
  by (auto simp: obeys_def intro: reading_isolated)

lemma serve_all_isolated: "obeys (isolated A (agent_or_worker A W)) (serve_all (beside A W) F token rqs)"
  by (induction rqs; unfold serve_all.simps)
    (rule isolated.obeys_intros worker_beside [OF do_POST_isolated] | assumption)+

lemma delivery_obeys:
  "obeys R m \<Longrightarrow> (\<And>e. obeys R (f e)) \<Longrightarrow> (\<And>e. obeys R (g e)) \<Longrightarrow>
     obeys R (case d of Request_lost e \<Rightarrow> f e | Delivered \<Rightarrow> m | Response_lost e \<Rightarrow> g e)"
  by (cases d) simp_all

lemma exchange_isolated: "obeys (isolated A (agent_or_worker A W)) (exchange (beside A W) F token N rq)"
  unfolding exchange_def
  by (rule isolated.obeys_intros agent_obeys [OF obeys_sample(3)] serve_all_isolated delivery_obeys
      worker_beside [OF do_POST_isolated])+

lemma remote_isolated:
  "obeys (isolated A (agent_or_worker A W)) (isolated_executor A W F E token N proposal ident ac ec)"
  unfolding isolated_executor_def execute_remote_def
  by (rule isolated.obeys_intros agent_obeys [OF obeys_require(3)] exchange_isolated)+

interpretation isolated_run: workflow_runner "isolated A (agent_or_worker A W)" A "isolated_executor A W F E token N"
  for A W F E token N
  by unfold_locales (rule reading_isolated, assumption, rule remote_isolated)

text \<open>
  C32: In the isolated deployment, whatever requests reach the worker and whatever the network
  loses, a pass of the agent's workflow keeps the terminations sent at most the claims in the
  store and at most the operator's grants consumed; the agent itself only observes.
\<close>

theorem isolated_terminations_granted:
  assumes "reachable (h_platform A) (h_store A) (w_db w)" and "terminations w \<le> claims w"
    and "terminations w \<le> spent w" and "h_role A = ''agent''"
    and "run_lock_incident A (execute_action_proposal A (isolated_executor A W F E token N)) i w = (w', r)"
  shows "terminations w' \<le> claims w' \<and> terminations w' \<le> spent w'
    \<and> reachable (h_platform A) (h_store A) (w_db w')
    \<and> (\<forall>t \<in> new_statements w w'. fst (snd t) = Observer \<or> disciplined (beside A W) t)"
proof -
  have exec: "execute_action_proposal A remote = remote" for remote
    using assms(4) by (intro ext) (simp add: execute_action_proposal_def)
  have i: "isolated A (agent_or_worker A W) w w'"
    using isolated_run.run_obeys assms(5) unfolding exec by (rule isolated.obeysD)
  then have "reachable (h_platform A) (h_store A) (w_db w')"
    using assms(1) unfolding isolated_def reachable_def by (blast intro: rtranclp_trans)
  moreover have "fst (snd t) = Observer \<or> disciplined (beside A W) t" if "t \<in> new_statements w w'" for t
    using i that by (auto simp: isolated_def agent_or_worker_def reading_def dest: new_statements_sends)
  ultimately show ?thesis using i assms(2,3) by (simp add: isolated_def)
qed

text \<open>What has passed the gate.\<close>

lemma rbind_lift: "rbind (rlift (Inr x)) f = f x"
  by (simp add: rbind_def rlift_def)

lemma worker_gateE:
  assumes "worker_gate H request w = (w', Inr (inc, a, g))"
  obtains d now gs gs' identity where "store_steps (h_platform H) (h_store H) (w_db w) d"
    "load_incident d (str_of (dget request ''incident_id'')) = Inr inc" "a \<in> set (inc_actions inc)"
    "act_id a = str_of (dget request ''action_id'')"
    "\<exists>digest. json_digest (h_platform H) (act_proposal a) = Inr digest \<and> \<not> intent_mismatch inc a request digest"
    "claim_grant (h_platform H) now gs inc a identity (str_of (dget request ''operation_id'')) = (gs', Inr g)"
  using assms unfolding worker_gate_def
proof (elim rbind_InrE)
  fix u1 w1 u2 w2 inc' w3
  assume 1: "require H ''TERMINATE_BACKEND'' w = (w1, Inr u1)" "verify_runtime_security H w1 = (w2, Inr u2)"
    "load H (str_of (dget request ''incident_id'')) w2 = (w3, Inr inc')"
    and rest: "(case find (\<lambda>a. act_id a = str_of (dget request ''action_id'')) (inc_actions inc') of
         None \<Rightarrow> rraise (OtherException ''StopIteration'')
       | Some a \<Rightarrow>
          if \<not> is_dict (act_proposal a) then rraise (AttributeError ''get'')
          else rbind (rlift (json_digest (h_platform H) (act_proposal a))) (\<lambda>proposal_digest.
            if intent_mismatch inc' a request proposal_digest
            then rraise (GrantDenied ''Request does not match a pending approved execution intent.'')
            else rbind (database_identity H) (\<lambda>identity.
                 rbind (grant_transact H (\<lambda>now gs. claim_grant (h_platform H) now gs inc' a identity
                    (str_of (dget request ''operation_id'')))) (\<lambda>g.
                 rreturn (inc', a, g))))) w3 = (w', Inr (inc, a, g))"
  have "calm H w w1" using gate_parts(1) 1(1) by (rule calm.obeysD)
  moreover have "calm H w1 w2" using gate_parts(2) 1(2) by (rule calm.obeysD)
  ultimately have s: "store_steps (h_platform H) (h_store H) (w_db w) (w_db w2)"
    by (auto simp: calm_def)
  from 1(3) have l: "load_incident (interfere H (w_tick w2) (w_db w2)) (str_of (dget request ''incident_id'')) = Inr inc'"
    by (auto simp: load_def transact_def split: prod.splits option.splits)
  have d: "store_steps (h_platform H) (h_store H) (w_db w) (interfere H (w_tick w2) (w_db w2))"
    using s interfere_steps by (rule rtranclp_trans)
  from rest obtain b where b: "find (\<lambda>a. act_id a = str_of (dget request ''action_id'')) (inc_actions inc') = Some b"
    by (auto split: option.splits)
  note rest = rest [unfolded b option.case]
  from rest have dict: "is_dict (act_proposal b)" by (auto split: if_splits)
  from rest dict obtain digest v where digest: "json_digest (h_platform H) (act_proposal b) = Inr digest"
    "\<not> intent_mismatch inc' b request digest"
    by (auto simp: rbind_def split: if_splits sum.splits)
  let ?claim = "\<lambda>identity. grant_transact H (\<lambda>now gs. claim_grant (h_platform H) now gs inc' b identity
       (str_of (dget request ''operation_id'')))"
  from rest dict digest have "rbind (database_identity H) (\<lambda>identity.
      rbind (?claim identity) (\<lambda>g. rreturn (inc', b, g))) w3 = (w', Inr (inc, a, g))"
    by (simp add: rbind_lift)
  then obtain identity v where "rbind (?claim identity) (\<lambda>g. rreturn (inc', b, g)) v = (w', Inr (inc, a, g))"
    by (rule rbind_InrE)
  then obtain x v' where "?claim identity v = (v', Inr x)" and "rreturn (inc', b, x) v' = (w', Inr (inc, a, g))"
    by (rule rbind_InrE)
  then have "?claim identity v = (v', Inr x)" and eq: "inc = inc'" "a = b" "g = x" by simp_all
  then obtain gs' where c: "claim_grant (h_platform H) (h_seconds H (w_tick v)) (operator_grants H (w_tick v) (w_grants v))
      inc' b identity (str_of (dget request ''operation_id'')) = (gs', Inr x)"
    by (auto simp: grant_transact_def split: prod.splits option.splits)
  have "b \<in> set (inc_actions inc')" "act_id b = str_of (dget request ''action_id'')"
    using b by (auto simp: find_Some_iff)
  with l digest c show thesis
    unfolding eq [symmetric] by (intro that [OF d]) blast+
qed


end
