(* ===== verification/IsolationRehearsal.thy ===== *)
theory IsolationRehearsal
  imports Rehearsal Wire IsolationSafety
begin

text \<open>
  The worker on concrete values: a request that passes the gate with an issued grant and
  terminates the scenario's blocker, its way over the wire, and a pass of an agent's workflow.
\<close>

section \<open>The gate\<close>

abbreviation demo_worker :: host where "demo_worker \<equiv> demo_at ''executor'' 20"

definition demo_proposal_digest :: string where
  "demo_proposal_digest = (case json_digest demo_P demo_act of Inr d \<Rightarrow> d | Inl _ \<Rightarrow> [])"

definition demo_request :: pyval where
  "demo_request = PDict
     [(''version'', PInt 1), (''incident_id'', PStr demo_iid), (''action_id'', PStr demo_aid),
      (''operation_id'', PStr demo_aid), (''worker_id'', PStr ''w''), (''plan_revision'', PInt 1),
      (''proposal_digest'', PStr demo_proposal_digest)]"

definition demo_offer :: "grant_state \<Rightarrow> string option \<Rightarrow> grant" where
  "demo_offer s operation = (demo_grant s operation)\<lparr>gr_target := demo_digest 2\<rparr>"

definition demo_waiting :: world where
  "demo_waiting = \<lparr>w_db = demo_db3, w_grants = [demo_offer ISSUED None], w_audit = [], w_trace = [], w_tick = 3\<rparr>"

definition demo_looked :: "(nat \<times> connection \<times> statement) list" where
  "demo_looked = [(4, Observer, Inspect_identity), (5, Terminator, Inspect_identity),
     (8, Observer, Observe ''database_identity'' [])]"

definition demo_passed :: world where
  "demo_passed = \<lparr>w_db = demo_db3, w_grants = [demo_offer CLAIMED (Some demo_aid)], w_audit = [],
     w_trace = demo_looked, w_tick = 10\<rparr>"

definition demo_inspected :: "connection \<Rightarrow> pyval" where
  "demo_inspected c = PDict
     [(''user'', PStr (if c = Terminator then ''terminator'' else ''observer'')), (''database'', PStr ''app''),
      (''superuser'', PBool False), (''create_role'', PBool False), (''create_database'', PBool False),
      (''replication'', PBool False), (''bypass_rls'', PBool False), (''default_read_only'', PBool True),
      (''temporary'', PBool False), (''schema_create'', PBool False), (''signal_backend'', PBool (c = Terminator)),
      (''table_write_privilege'', PBool False)]"

lemma inspect_step:
  "inspect_runtime_identity (demo_at role n) c w =
     (w\<lparr>w_tick := Suc (w_tick w), w_trace := w_trace w @ [(w_tick w, c, Inspect_identity)]\<rparr>, Inr (demo_inspected c))"
  by (simp add: inspect_runtime_identity_def run_step ask_def demo_identity_def demo_inspected_def cell_def
      eval_nat_numeral)

lemma demo_secure: "security_errors demo_worker [(Observer, demo_inspected Observer), (Terminator, demo_inspected Terminator)] = []"
  by code_simp

lemma security_step:
  "\<exists>ids. \<forall>w. verify_runtime_security demo_worker w =
     (w\<lparr>w_tick := w_tick w + 2, w_trace := w_trace w @ [(w_tick w, Observer, Inspect_identity),
        (Suc (w_tick w), Terminator, Inspect_identity)]\<rparr>, Inr ids)"
  by (simp add: verify_runtime_security_def inspected_connections_def run_step inspect_step demo_secure)

lemma identity_step:
  "database_identity demo_worker w = (w\<lparr>w_tick := w_tick w + 2,
     w_trace := w_trace w @ [(Suc (w_tick w), Observer, Observe ''database_identity'' [])]\<rparr>, Inr (PDict []))"
  by (simp add: database_identity_def observe_def run_step require_step ask_def)

lemma demo_loaded: "load_incident demo_db3 demo_iid = Inr demo_saved"
  by code_simp

lemma demo_found:
  "find (\<lambda>a. act_id a = demo_aid) (inc_actions demo_saved) = Some (demo_stored EXECUTING 1)"
  by code_simp

lemma demo_matches:
  "json_digest demo_P demo_act = Inr demo_proposal_digest"
  "intent_mismatch demo_saved (demo_stored EXECUTING 1) demo_request demo_proposal_digest = False"
  "validate_request demo_request = Inr demo_request"
  by code_simp+

lemma demo_request_fields:
  "dget demo_request ''incident_id'' = PStr demo_iid" "dget demo_request ''action_id'' = PStr demo_aid"
  "dget demo_request ''operation_id'' = PStr demo_aid"
  by (simp_all add: demo_request_def dget_def)

lemma demo_offer_claimed:
  "claim_grant demo_P 1 [demo_offer ISSUED None] demo_saved (demo_stored EXECUTING 1) (PDict []) demo_aid
     = ([demo_offer CLAIMED (Some demo_aid)], Inr (demo_offer ISSUED None))"
  by code_simp

lemma demo_gate:
  "worker_gate demo_worker demo_request demo_waiting
     = (demo_passed, Inr (demo_saved, demo_stored EXECUTING 1, demo_offer ISSUED None))"
proof -
  obtain ids where security: "\<And>w. verify_runtime_security demo_worker w =
     (w\<lparr>w_tick := w_tick w + 2, w_trace := w_trace w @ [(w_tick w, Observer, Inspect_identity),
        (Suc (w_tick w), Terminator, Inspect_identity)]\<rparr>, Inr ids)" using security_step by blast
  have dict: "is_dict (act_proposal (demo_stored EXECUTING 1))" by (simp add: demo_stored_def)
  show ?thesis
    by (simp add: worker_gate_def run_step require_step security load_def transact_def interfere_def demo_waiting_def
        demo_request_fields demo_loaded demo_found dict demo_matches [unfolded demo_act_def] identity_step
        grant_transact_def operator_grants_def demo_offer_claimed demo_passed_def demo_looked_def cong: rbind_world_cong)
qed

section \<open>The execution\<close>

definition demo_granted_context :: pyval where
  "demo_granted_context = PDict
     [(''kind'', PStr ''LOCK_INCIDENT_EXECUTION''), (''store_path'', PStr (store_path demo_C)),
      (''worker_id'', PStr ''w''), (''incident_id'', PStr (inc_id demo_saved)),
      (''action_id'', PStr (act_id (demo_stored EXECUTING 1))), (''plan_revision'', PInt (inc_revision demo_saved)),
      (''isolated_grant'', grant_dict (demo_offer ISSUED None))]"

lemma granted_context:
  "worker_context demo_worker demo_request demo_saved (demo_stored EXECUTING 1) (demo_offer ISSUED None)
     = demo_granted_context"
  by (simp add: worker_context_def demo_granted_context_def demo_request_def dget_def)

lemma granted_claim:
  "\<exists>d authorization. claim_action_execution demo_P demo_C demo_T demo_db3 demo_context (PStr demo_aid)
     demo_act demo_seen demo_granted_context = (d, Inr authorization)"
proof -
  have "case claim_action_execution demo_P demo_C demo_T demo_db3 demo_context (PStr demo_aid)
     demo_act demo_seen demo_granted_context of (d, Inr _) \<Rightarrow> True | _ \<Rightarrow> False" by code_simp
  then show ?thesis by (auto split: prod.splits sum.splits)
qed

definition demo_worked :: "world \<times> pyval exc" where
  "demo_worked = execute_request demo_worker demo_request demo_waiting"

lemma demo_worked_sent: "(19, Terminator, demo_kill) \<in> new_statements demo_waiting (fst demo_worked)"
proof -
  obtain d authorization where claimed: "claim_action_execution demo_P demo_C demo_T demo_db3 demo_context
     (PStr demo_aid) demo_act demo_seen demo_granted_context = (d, Inr authorization)" using granted_claim by blast
  have dict: "is_dict demo_granted_context" by (simp add: demo_granted_context_def)
  have approved: "worker_approval demo_saved (demo_stored EXECUTING 1) = demo_context"
    by code_simp
  let ?run = "execute_locally demo_worker demo_act (PStr demo_aid) demo_context demo_granted_context demo_passed"
  obtain a r where run: "?run = (\<lparr>w_db = d, w_grants = w_grants demo_passed, w_audit = a,
      w_trace = demo_looked @ [(14, Observer, Observe ''lock_graph'' [PInt 101]), (19, Terminator, demo_kill),
        (21, Observer, Observe ''lock_graph'' [PInt 101])], w_tick = 25\<rparr>, Inr r)"
    using demo_executed_at [OF claimed dict, of "''executor''" "[demo_offer CLAIMED (Some demo_aid)]" demo_looked]
    by (auto simp: demo_passed_def)
  let ?granted = "granted_execution demo_worker demo_request
      (demo_saved, demo_stored EXECUTING 1, demo_offer ISSUED None) demo_passed"
  have "fst demo_worked = fst ?granted"
    by (simp add: demo_worked_def execute_request_def run_step demo_matches demo_gate)
  moreover have "w_trace (fst ?granted) = w_trace (fst ?run)"
    by (simp only: granted_execution_def prod.case granted_context demo_request_fields approved
        demo_act_def [symmetric] run_step(1) run)
      (simp add: grant_transact_def run_step split: prod.split sum.split)
  ultimately have "w_trace (fst demo_worked) = w_trace (fst ?run)" by (simp only:)
  then show ?thesis using run by (simp add: new_statements_def demo_waiting_def)
qed


section \<open>The wire\<close>

definition demo_endpoint :: endpoint where
  "demo_endpoint = \<lparr>ep_scheme = ''http'', ep_hostname = Some ''127.0.0.1'', ep_port = Some 8080,
     ep_username = None, ep_password = None, ep_path = [], ep_query = [], ep_fragment = [],
     ep_token = replicate 32 CHR ''t''\<rparr>"

definition demo_message :: string where
  "demo_message = (case canonical_json demo_P demo_request of Inr t \<Rightarrow> t | Inl _ \<Rightarrow> [])"

theorem wire_roundtrip_witness:
  "authorized (ep_token demo_endpoint) (client_request demo_endpoint demo_message)
   \<and> well_addressed (client_request demo_endpoint demo_message)
   \<and> read_request (\<lambda>_. None) (client_request demo_endpoint demo_message) = Inr (sort_keys demo_request)"
proof (rule wire_roundtrip)
  show "remote_request demo_worker demo_act (PStr demo_aid) demo_execution = Inr demo_request"
    unfolding remote_request_def demo_host_simps by code_simp
  show "canonical_json (h_platform demo_worker) demo_request = Inr demo_message"
    unfolding demo_host_simps by code_simp
  show "length (utf8_encode demo_message) \<le> MAX_BODY" by code_simp
qed

section \<open>The agent\<close>

abbreviation demo_agent :: host where "demo_agent \<equiv> demo_at ''agent'' 20"

definition demo_network :: network where
  "demo_network = \<lparr>net_delivery = (\<lambda>_. Delivered), net_requests = (\<lambda>_. [])\<rparr>"

definition demo_isolated :: "world \<times> incident exc" where
  "demo_isolated = run_lock_incident demo_agent (execute_action_proposal demo_agent
     (isolated_executor demo_agent demo_worker (\<lambda>_. Some 1) demo_endpoint (ep_token demo_endpoint) demo_network))
     demo_iid demo_waiting"

theorem isolated_terminations_granted_witness:
  "terminations (fst demo_isolated) \<le> claims (fst demo_isolated)
    \<and> terminations (fst demo_isolated) \<le> spent (fst demo_isolated)
    \<and> reachable demo_P demo_C (w_db (fst demo_isolated))"
proof -
  have "reachable (h_platform demo_agent) (h_store demo_agent) (w_db demo_waiting)"
    "terminations demo_waiting \<le> claims demo_waiting" "terminations demo_waiting \<le> spent demo_waiting"
    "h_role demo_agent = ''agent''"
    using demo_reach3 by (simp_all add: demo_waiting_def terminations_def)
  from isolated_terminations_granted [OF this, of demo_worker "\<lambda>_. Some 1" demo_endpoint "ep_token demo_endpoint"
      demo_network demo_iid "fst demo_isolated" "snd demo_isolated"]
  show ?thesis by (simp add: demo_isolated_def)
qed

end
