(* ===== verification/AgentTools.thy ===== *)
theory AgentTools
  imports QueryGuard Json
begin

text \<open>
  The part of \<open>agent_policy.py\<close> that stands between the language model and the tools: what a
  request asks for, the canonical form of a call, the summaries of the trace and the bounded text
  of a result. Patterns with
  Chinese literals never match a text of code points below 256, so they are left out.
\<close>

section \<open>Requests\<close>

text \<open>
  A pattern \<open>\b(?:a|b)\s+(?:c|d)\b\<close> as the list of its words, each with its alternatives.
\<close>

fun phrase :: "string list list \<Rightarrow> string \<Rightarrow> bool" where
  "phrase [] s = word_end s"
| "phrase [ws] s = list_ex (\<lambda>w. case lit w s of None \<Rightarrow> False | Some r \<Rightarrow> word_end r) ws"
| "phrase (ws # x # xs) s =
     list_ex (\<lambda>w. case Option.bind (lit w s) spaces1 of None \<Rightarrow> False | Some r \<Rightarrow> phrase (x # xs) r) ws"

definition phrase_at :: "string list list \<Rightarrow> char option \<Rightarrow> string \<Rightarrow> bool" where
  "phrase_at p prev s \<longleftrightarrow> not_after is_word prev \<and> phrase p s"

definition DIAGNOSIS_ONLY_PATTERNS :: "string list list list" where
  "DIAGNOSIS_ONLY_PATTERNS =
     [[[''diagnose'', ''diagnosis'', ''diagnostic''], [''only'']],
      [[''read-only'', ''read only''], [''investigation'', ''diagnosis'']],
      [[''do''], [''not''], [''execute'', ''apply'', ''change'', ''modify'', ''terminate'']],
      [[''no''], [''changes'', ''remediation'', ''execution'']]]"

definition EXPLICIT_PROPOSAL_PATTERNS :: "string list list list" where
  "EXPLICIT_PROPOSAL_PATTERNS =
     [[[''propose'', ''proposal'', ''proposals'']],
      [[''recommend'', ''recommendation'', ''recommendations'']],
      [[''remediate'', ''remediation'']],
      [[''action''], [''plan'']]]"

definition is_diagnosis_only_request :: "string \<Rightarrow> bool" where
  "is_diagnosis_only_request user_message =
     list_ex (\<lambda>p. search_from (phrase_at p) None user_message) DIAGNOSIS_ONLY_PATTERNS"

definition is_explicit_proposal_request :: "string \<Rightarrow> bool" where
  "is_explicit_proposal_request user_message =
     list_ex (\<lambda>p. search_from (phrase_at p) None user_message) EXPLICIT_PROPOSAL_PATTERNS"

section \<open>Calls\<close>

definition PROPOSAL_TOOL_TO_ACTION :: "(string \<times> string) list" where
  "PROPOSAL_TOOL_TO_ACTION =
     [(''propose_create_index'', ''CREATE_INDEX''), (''propose_query_rewrite'', ''REWRITE_QUERY''),
      (''propose_analyze_table'', ''ANALYZE_TABLE''), (''propose_terminate_backend'', ''TERMINATE_BACKEND'')]"

definition is_proposal_tool :: "string \<Rightarrow> bool" where
  "is_proposal_tool tool = List.member (map fst PROPOSAL_TOOL_TO_ACTION) tool"

definition VOLATILE_OBSERVATION_TOOLS :: "string list" where
  "VOLATILE_OBSERVATION_TOOLS =
     [''get_active_sessions'', ''get_database_health'', ''get_lock_waits'', ''get_transaction_sessions'']"

text \<open>\<open>str.split()\<close>; \<open>acc\<close> is the word read so far, backwards.\<close>

fun split_words :: "string \<Rightarrow> string \<Rightarrow> string list" where
  "split_words acc [] = (if acc = [] then [] else [rev acc])"
| "split_words acc (c # s) =
     (if is_space c then (if acc = [] then split_words [] s else rev acc # split_words [] s)
      else split_words (c # acc) s)"

definition canonical_text :: "string \<Rightarrow> string" where
  "canonical_text value = (let normalized = strip value in
     join '' '' (split_words [] (if normalized \<noteq> [] \<and> last normalized = CHR '';''
                                then butlast normalized else normalized)))"

definition canonical_query :: "pyval \<Rightarrow> pyval" where
  "canonical_query value = (case value of PStr s \<Rightarrow> PStr (canonical_text s) | _ \<Rightarrow> PNone)"

definition stable_json :: "platform \<Rightarrow> pyval \<Rightarrow> string" where
  "stable_json P value = json_dumps P '','' '':'' (sort_keys value)"

definition digest_value :: "platform \<Rightarrow> pyval \<Rightarrow> string" where
  "digest_value P value = sha256_hex P (stable_json P value)"

type_synonym arguments = "(string \<times> pyval) list"

definition canonical_arguments :: "arguments \<Rightarrow> arguments" where
  "canonical_arguments args = map (\<lambda>(k, v). (k,
     if List.member [''query'', ''original_query'', ''rewritten_query''] k then canonical_query v else v)) args"

definition canonical_call_key :: "platform \<Rightarrow> string \<Rightarrow> arguments \<Rightarrow> string" where
  "canonical_call_key P tool args =
     digest_value P (PDict [(''tool'', PStr tool), (''arguments'', PDict (canonical_arguments args))])"

section \<open>Summaries\<close>

definition QUERY_ARGUMENTS :: "string list" where
  "QUERY_ARGUMENTS = [''query'', ''original_query'', ''rewritten_query'', ''blocked_query'', ''blocker_query'']"

definition query_fingerprint :: "platform \<Rightarrow> string \<Rightarrow> pyval" where
  "query_fingerprint P value =
     (let normalized = (if canonical_text value = [] then value else canonical_text value) in PDict
       [(''sha256'', PStr (sha256_hex P value)), (''characters'', PInt (int (length value))),
        (''canonical_sha256'', PStr (sha256_hex P normalized)),
        (''canonical_characters'', PInt (int (length normalized)))])"

definition summarize_argument :: "platform \<Rightarrow> string \<Rightarrow> pyval \<Rightarrow> pyval" where
  "summarize_argument P k v = (case v of
     PStr s \<Rightarrow> if List.member QUERY_ARGUMENTS k then query_fingerprint P s
              else if 500 < length s then PStr (take 500 s @ ''...[truncated]'') else v
   | _ \<Rightarrow> v)"

definition summarize_arguments :: "platform \<Rightarrow> arguments \<Rightarrow> pyval" where
  "summarize_arguments P args = PDict (map (\<lambda>(k, v). (k, summarize_argument P k v)) args)"

fun type_name :: "pyval \<Rightarrow> string" where
  "type_name PNone = ''NoneType''"
| "type_name (PBool _) = ''bool''"
| "type_name (PInt _) = ''int''"
| "type_name (PFloat _) = ''float''"
| "type_name (PStr _) = ''str''"
| "type_name (PList _) = ''list''"
| "type_name (PDict _) = ''dict''"

definition summarize_result :: "platform \<Rightarrow> pyval \<Rightarrow> pyval" where
  "summarize_result P result = PDict
     ([(''sha256'', PStr (digest_value P result)), (''type'', PStr (type_name result))]
      @ (case result of
           PDict kvs \<Rightarrow> [(''keys'', PList (map PStr (take 50 (sort (map fst kvs)))))]
         | PList xs \<Rightarrow> [(''items'', PInt (int (length xs)))]
         | _ \<Rightarrow> []))"

section \<open>Tool output\<close>

definition float_name :: "pyfloat \<Rightarrow> string" where
  "float_name f = (case f of PosInf \<Rightarrow> ''inf'' | NegInf \<Rightarrow> ''-inf'' | _ \<Rightarrow> ''nan'')"

fun strict_tool_json_value :: "pyval \<Rightarrow> pyval" where
  "strict_tool_json_value (PFloat (Finite r)) = PFloat (Finite r)"
| "strict_tool_json_value (PFloat f) = PDict [(''non_finite_float'', PStr (float_name f))]"
| "strict_tool_json_value (PDict kvs) = PDict (map (\<lambda>(k, v). (k, strict_tool_json_value v)) kvs)"
| "strict_tool_json_value (PList xs) = PList (map strict_tool_json_value xs)"
| "strict_tool_json_value v = v"

text \<open>The envelope of a truncated result whose preview has the first \<open>k\<close> characters.\<close>

definition truncated_text :: "platform \<Rightarrow> string \<Rightarrow> nat \<Rightarrow> string" where
  "truncated_text P payload k = json_dumps P '', '' '': '' (PDict
     [(''truncated'', PBool True),
      (''reason'', PStr ''Tool output exceeded the configured agent-context limit.''),
      (''original_characters'', PInt (int (length payload))),
      (''sha256'', PStr (sha256_hex P payload)), (''preview'', PStr (take k payload))])"

text \<open>The binary search for the longest preview that fits.\<close>

function preview_search :: "platform \<Rightarrow> string \<Rightarrow> nat \<Rightarrow> int \<Rightarrow> int \<Rightarrow> string \<Rightarrow> string" where
  "preview_search P payload max_chars lo hi best =
     (if hi < lo then best
      else (let midpoint = (lo + hi) div 2; candidate = truncated_text P payload (nat midpoint) in
        if length candidate \<le> max_chars
        then preview_search P payload max_chars (midpoint + 1) hi candidate
        else preview_search P payload max_chars lo (midpoint - 1) best))"
  by pat_completeness auto

termination by (relation "measure (\<lambda>(P, payload, m, lo, hi, best). nat (hi + 1 - lo))") auto

declare preview_search.simps [simp del]

definition serialize_tool_output :: "platform \<Rightarrow> pyval \<Rightarrow> pyval \<Rightarrow> string exc" where
  "serialize_tool_output P result max_chars =
     (if is_bool max_chars \<or> \<not> is_int max_chars \<or> int_of max_chars < 256
      then Inl (ValueError ''Tool output limit must be an integer of at least 256.'')
      else
       (let limit = nat (int_of max_chars);
            payload = json_dumps P '', '' '': '' (strict_tool_json_value result) in
        if length payload \<le> limit then Inr payload
        else (let best = preview_search P payload limit 0 (int (length payload)) (truncated_text P payload 0) in
          if limit < length best
          then Inl (ValueError ''Tool output limit is too small for truncation metadata.'')
          else Inr best)))"

lemma truncated_mono: "j \<le> k \<Longrightarrow> length (truncated_text P payload j) \<le> length (truncated_text P payload k)"
proof -
  assume "j \<le> k"
  then obtain d where "k = j + d" by (metis le_iff_add)
  then have "take k payload = take j payload @ take d (drop j payload)" by (simp add: take_add)
  then show ?thesis by (simp add: truncated_text_def json_string_def)
qed

text \<open>
  What the search keeps: \<open>best\<close> is the text for some length below \<open>lo\<close> that fits (or the
  initial one), and no length above \<open>hi\<close> fits.
\<close>

lemma preview_search_longest:
  assumes "0 \<le> lo" and "lo \<le> hi + 1" and "hi \<le> int (length payload)"
    and "best = truncated_text P payload (nat (lo - 1))" and "0 < lo \<Longrightarrow> length best \<le> max_chars"
    and "\<And>k. hi < int k \<Longrightarrow> k \<le> length payload \<Longrightarrow> max_chars < length (truncated_text P payload k)"
  shows "\<exists>k \<le> length payload. preview_search P payload max_chars lo hi best = truncated_text P payload k
    \<and> (k = 0 \<or> length (truncated_text P payload k) \<le> max_chars)
    \<and> (\<forall>j. k < j \<and> j \<le> length payload \<longrightarrow> max_chars < length (truncated_text P payload j))"
  using assms
proof (induction P payload max_chars lo hi best rule: preview_search.induct)
  case (1 P payload max_chars lo hi best)
  show ?case
  proof (cases "hi < lo")
    case True
    then have u: "hi = lo - 1" using "1.prems"(2) by simp
    have "max_chars < length (truncated_text P payload j)" if "nat (lo - 1) < j" "j \<le> length payload" for j
      using "1.prems"(6) [of j] that u "1.prems"(1) by auto
    moreover have "preview_search P payload max_chars lo hi best = best"
      using True by (simp add: preview_search.simps)
    moreover have "nat (lo - 1) \<le> length payload" using "1.prems"(3) u by simp
    moreover have "nat (lo - 1) = 0 \<or> length best \<le> max_chars" using "1.prems"(5) by (cases "0 < lo") auto
    ultimately show ?thesis using "1.prems"(4) by blast
  next
    case False
    let ?m = "(lo + hi) div 2"
    let ?c = "truncated_text P payload (nat ?m)"
    have m: "lo \<le> ?m" "?m \<le> hi" using False by auto
    show ?thesis
    proof (cases "length ?c \<le> max_chars")
      case True
      have "\<exists>k \<le> length payload. preview_search P payload max_chars (?m + 1) hi ?c = truncated_text P payload k
        \<and> (k = 0 \<or> length (truncated_text P payload k) \<le> max_chars)
        \<and> (\<forall>j. k < j \<and> j \<le> length payload \<longrightarrow> max_chars < length (truncated_text P payload j))"
        by (rule "1.IH"(1) [OF _ refl refl True]) (use False m True "1.prems" in auto)
      then show ?thesis using False True by (subst preview_search.simps) (simp add: Let_def)
    next
      case fits: False
      have "max_chars < length (truncated_text P payload k)" if "?m - 1 < int k" for k
      proof -
        have "nat ?m \<le> k" using that by linarith
        from truncated_mono [OF this, of P payload] fits show ?thesis by linarith
      qed
      then have "\<exists>k \<le> length payload. preview_search P payload max_chars lo (?m - 1) best = truncated_text P payload k
        \<and> (k = 0 \<or> length (truncated_text P payload k) \<le> max_chars)
        \<and> (\<forall>j. k < j \<and> j \<le> length payload \<longrightarrow> max_chars < length (truncated_text P payload j))"
        by (intro "1.IH"(2) [OF _ refl refl fits]) (use False m "1.prems" in auto)
      then show ?thesis using False fits by (subst preview_search.simps) (simp add: Let_def)
    qed
  qed
qed

lemma nat_text_length: "n < 10 ^ k \<Longrightarrow> 0 < k \<Longrightarrow> length (nat_text n) \<le> k"
proof (induction n arbitrary: k rule: nat_text.induct)
  case (1 n)
  show ?case
  proof (cases "n < 10")
    case True
    with 1 show ?thesis by (subst nat_text.simps) simp
  next
    case False
    with 1 obtain j where j: "k = Suc j" "0 < j" by (cases k; cases "k - 1") auto
    with 1 False have "length (nat_text (n div 10)) \<le> j" by (intro 1(1)) auto
    with False j show ?thesis by (subst nat_text.simps) simp
  qed
qed

text \<open>A digest has 64 hexadecimal digits; with them and an empty preview the envelope fits.\<close>

lemma envelope_fits:
  assumes "length (json_string (sha256_hex P payload)) \<le> 66" and "length payload < 10 ^ 49"
  shows "length (truncated_text P payload 0) \<le> 256"
proof -
  have n: "length (int_text (int (length payload))) \<le> 49"
    using nat_text_length [OF assms(2)] by (simp add: int_text_def)
  have names: "length (json_string ''truncated'') = 11" "length (json_string ''reason'') = 8"
    "length (json_string ''original_characters'') = 21" "length (json_string ''sha256'') = 8"
    "length (json_string ''preview'') = 9" "length (json_string []) = 2"
    "length (json_string ''Tool output exceeded the configured agent-context limit.'') = 58"
    by code_simp+
  show ?thesis using n assms(1) by (simp add: truncated_text_def names)
qed

text \<open>
  C38: Serializing a tool result always gives a text within the limit, the whole payload when
  it fits, else the envelope with the longest preview that fits: the binary search is exact.
\<close>

theorem tool_output_bounded:
  assumes "payload = json_dumps P '', '' '': '' (strict_tool_json_value result)" and "256 \<le> limit"
    and "length (json_string (sha256_hex P payload)) \<le> 66" and "length payload < 10 ^ 49"
  shows "\<exists>content. serialize_tool_output P result (PInt limit) = Inr content \<and> int (length content) \<le> limit
    \<and> (content = payload \<or> limit < int (length payload) \<and> (\<exists>k. content = truncated_text P payload k
          \<and> (\<forall>j. k < j \<and> j \<le> length payload \<longrightarrow> limit < int (length (truncated_text P payload j)))))"
proof (cases "length payload \<le> nat limit")
  case True
  with assms(1,2) show ?thesis by (simp add: serialize_tool_output_def Let_def)
next
  case False
  let ?best = "preview_search P payload (nat limit) 0 (int (length payload)) (truncated_text P payload 0)"
  have "\<exists>k \<le> length payload. ?best = truncated_text P payload k
    \<and> (k = 0 \<or> length (truncated_text P payload k) \<le> nat limit)
    \<and> (\<forall>j. k < j \<and> j \<le> length payload \<longrightarrow> nat limit < length (truncated_text P payload j))"
    by (rule preview_search_longest) auto
  then obtain k where k: "?best = truncated_text P payload k" "k = 0 \<or> length ?best \<le> nat limit"
    "\<And>j. k < j \<Longrightarrow> j \<le> length payload \<Longrightarrow> nat limit < length (truncated_text P payload j)" by auto
  have fits: "length ?best \<le> nat limit"
    using k(1,2) envelope_fits [OF assms(3,4)] assms(2) by auto
  have "limit < int (length (truncated_text P payload j))" if "k < j" "j \<le> length payload" for j
    using k(3) [OF that] assms(2) by linarith
  moreover have "serialize_tool_output P result (PInt limit) = Inr ?best"
    using False fits assms(1,2) by (simp add: serialize_tool_output_def Let_def)
  ultimately show ?thesis using k(1) fits False assms(2) by auto
qed

end
