(* ===== verification/ToolArguments.thy ===== *)
theory ToolArguments
  imports AgentTools
begin

text \<open>
  \<open>validate_tool_arguments\<close> of \<open>agent_policy.py\<close>: the subset of JSON Schema the tools use. The
  schemas are constants of the registry, so a specification is a record of the entries the code
  reads; an entry the schema lacks is \<open>None\<close>. The main fact: without errors the arguments
  are those the schema describes.
\<close>

section \<open>Schemas\<close>

record argument_spec =
  sp_type :: "string option"
  sp_min_length :: "int option"
  sp_max_length :: "int option"
  sp_minimum :: "rat option"
  sp_maximum :: "rat option"
  sp_item_type :: "string option"
  sp_min_items :: "int option"
  sp_max_items :: "int option"
  sp_enum :: "pyval list option"

record tool_schema =
  ts_properties :: "(string \<times> argument_spec) list"
  ts_required :: "string list"

datatype argument_error =
    Not_a_json_object
  | Missing_arguments "string list"
  | Unexpected_arguments "string list"
  | Wrong_type string string
  | Blank_string string
  | Exceeds_max_length string int
  | Below_minimum string
  | Above_maximum string
  | Wrong_item_type string string
  | Too_few_items string int
  | Exceeds_max_items string int
  | Blank_item string
  | Not_in_enum string

section \<open>Types\<close>

fun is_number :: "pyval \<Rightarrow> bool" where
  "is_number (PInt _) = True"
| "is_number (PFloat _) = True"
| "is_number _ = False"

fun finite_value :: "pyval \<Rightarrow> bool" where
  "finite_value (PFloat (Finite _)) = True"
| "finite_value (PFloat _) = False"
| "finite_value _ = True"

text \<open>\<open>math.isfinite(float(value))\<close> of a number; an integer too large for a float raises.\<close>

definition is_finite :: "pyval \<Rightarrow> bool exc" where
  "is_finite v = (if float_overflow v then Inl overflow_error else Inr (finite_value v))"

definition is_plain_integer :: "pyval \<Rightarrow> bool" where
  "is_plain_integer v \<longleftrightarrow> is_int v \<and> \<not> is_bool v"

text \<open>\<open>type_checks.get(t)\<close>\<close>

definition type_check :: "string option \<Rightarrow> (pyval \<Rightarrow> bool exc) option" where
  "type_check t =
     (if t = Some ''string'' then Some (\<lambda>v. Inr (is_str v))
      else if t = Some ''integer'' then Some (\<lambda>v. Inr (is_plain_integer v))
      else if t = Some ''number'' then Some (\<lambda>v. if is_number v then is_finite v else Inr False)
      else if t = Some ''array'' then Some (\<lambda>v. Inr (is_list v))
      else if t = Some ''object'' then Some (\<lambda>v. Inr (is_dict v))
      else if t = Some ''boolean'' then Some (\<lambda>v. Inr (is_bool v))
      else None)"

definition passes :: "string option \<Rightarrow> pyval \<Rightarrow> bool exc" where
  "passes t v = (case type_check t of None \<Rightarrow> Inr True | Some check \<Rightarrow> check v)"

text \<open>\<open>all(p(x) for x in xs)\<close>, where a test may raise.\<close>

fun all_exc :: "('a \<Rightarrow> bool exc) \<Rightarrow> 'a list \<Rightarrow> bool exc" where
  "all_exc p [] = Inr True"
| "all_exc p (x # xs) = ebind (p x) (\<lambda>b. if b then all_exc p xs else Inr False)"

section \<open>Validation\<close>

definition or_default :: "'a option \<Rightarrow> 'a \<Rightarrow> 'a" where
  "or_default v d = (case v of None \<Rightarrow> d | Some x \<Rightarrow> x)"

definition string_errors :: "bool \<Rightarrow> string \<Rightarrow> argument_spec \<Rightarrow> pyval \<Rightarrow> argument_error list" where
  "string_errors required name spec v =
     (if sp_type spec = Some ''string'' \<and> is_str v
      then errors_of
        [(int (length (strip (str_of v))) < or_default (sp_min_length spec) (if required then 1 else 0),
            Blank_string name),
         (sp_max_length spec \<noteq> None \<and> the (sp_max_length spec) < int (length (str_of v)),
            Exceeds_max_length name (the (sp_max_length spec)))]
      else [])"

definition number_errors :: "string \<Rightarrow> argument_spec \<Rightarrow> pyval \<Rightarrow> argument_error list exc" where
  "number_errors name spec v =
     (if (sp_type spec = Some ''integer'' \<or> sp_type spec = Some ''number'') \<and> is_number v
      then ebind (is_finite v) (\<lambda>finite. Inr
        (if finite then errors_of
          [(sp_minimum spec \<noteq> None \<and> the (num_val v) < the (sp_minimum spec), Below_minimum name),
           (sp_maximum spec \<noteq> None \<and> the (sp_maximum spec) < the (num_val v), Above_maximum name)]
         else []))
      else Inr [])"

definition array_errors :: "bool \<Rightarrow> string \<Rightarrow> argument_spec \<Rightarrow> pyval \<Rightarrow> argument_error list exc" where
  "array_errors required name spec v =
     (if sp_type spec = Some ''array'' \<and> is_list v
      then ebind (all_exc (passes (sp_item_type spec)) (py_items v)) (\<lambda>typed. Inr (errors_of
        [(\<not> typed, Wrong_item_type name (or_default (sp_item_type spec) [])),
         (int (length (py_items v)) < or_default (sp_min_items spec) (if required then 1 else 0),
            Too_few_items name (or_default (sp_min_items spec) (if required then 1 else 0))),
         (sp_max_items spec \<noteq> None \<and> the (sp_max_items spec) < int (length (py_items v)),
            Exceeds_max_items name (the (sp_max_items spec))),
         (sp_item_type spec = Some ''string''
            \<and> list_ex (\<lambda>x. is_str x \<and> strip (str_of x) = []) (py_items v), Blank_item name)]))
      else Inr [])"

definition enum_errors :: "string \<Rightarrow> argument_spec \<Rightarrow> pyval \<Rightarrow> argument_error list" where
  "enum_errors name spec v = (case sp_enum spec of None \<Rightarrow> []
     | Some values \<Rightarrow> if list_ex (py_eq v) values then [] else [Not_in_enum name])"

definition argument_errors :: "bool \<Rightarrow> string \<Rightarrow> argument_spec \<Rightarrow> pyval \<Rightarrow> argument_error list exc" where
  "argument_errors required name spec v =
     ebind (passes (sp_type spec) v) (\<lambda>typed.
       if \<not> typed then Inr [Wrong_type name (or_default (sp_type spec) [])]
       else
        ebind (number_errors name spec v) (\<lambda>numeric.
        ebind (array_errors required name spec v) (\<lambda>items.
          Inr (string_errors required name spec v @ numeric @ items @ enum_errors name spec v))))"

fun each_argument :: "tool_schema \<Rightarrow> (string \<times> pyval) list \<Rightarrow> argument_error list exc" where
  "each_argument S [] = Inr []"
| "each_argument S ((name, v) # rest) =
     ebind (case map_of (ts_properties S) name of None \<Rightarrow> Inr []
            | Some spec \<Rightarrow> argument_errors (List.member (ts_required S) name) name spec v) (\<lambda>es.
     ebind (each_argument S rest) (\<lambda>more. Inr (es @ more)))"

text \<open>\<open>sorted(xs - ys)\<close>\<close>

definition without :: "string list \<Rightarrow> string list \<Rightarrow> string list" where
  "without xs ys = sort (remdups (filter (\<lambda>x. \<not> List.member ys x) xs))"

definition validate_tool_arguments :: "tool_schema \<Rightarrow> pyval \<Rightarrow> argument_error list exc" where
  "validate_tool_arguments S v = (case v of
     PDict args \<Rightarrow>
      (let missing = without (ts_required S) (map fst args);
           unexpected = without (map fst args) (map fst (ts_properties S)) in
       ebind (each_argument S args) (\<lambda>es. Inr (errors_of
         [(missing \<noteq> [], Missing_arguments missing), (unexpected \<noteq> [], Unexpected_arguments unexpected)] @ es)))
   | _ \<Rightarrow> Inr [Not_a_json_object])"

section \<open>What a schema describes\<close>

fun of_type :: "string option \<Rightarrow> pyval \<Rightarrow> bool" where
  "of_type t v \<longleftrightarrow>
     (t = Some ''string'' \<longrightarrow> is_str v) \<and> (t = Some ''integer'' \<longrightarrow> is_plain_integer v)
   \<and> (t = Some ''number'' \<longrightarrow> is_number v \<and> finite_value v) \<and> (t = Some ''array'' \<longrightarrow> is_list v)
   \<and> (t = Some ''object'' \<longrightarrow> is_dict v) \<and> (t = Some ''boolean'' \<longrightarrow> is_bool v)"

definition size_within :: "int \<Rightarrow> int option \<Rightarrow> int \<Rightarrow> bool" where
  "size_within least most n \<longleftrightarrow> least \<le> n \<and> (case most of None \<Rightarrow> True | Some m \<Rightarrow> n \<le> m)"

definition in_range :: "rat option \<Rightarrow> rat option \<Rightarrow> rat \<Rightarrow> bool" where
  "in_range least most x \<longleftrightarrow> (case least of None \<Rightarrow> True | Some a \<Rightarrow> a \<le> x)
     \<and> (case most of None \<Rightarrow> True | Some b \<Rightarrow> x \<le> b)"

definition described :: "bool \<Rightarrow> argument_spec \<Rightarrow> pyval \<Rightarrow> bool" where
  "described required spec v \<longleftrightarrow> of_type (sp_type spec) v
   \<and> (sp_type spec = Some ''string'' \<longrightarrow>
        or_default (sp_min_length spec) (if required then 1 else 0) \<le> int (length (strip (str_of v)))
      \<and> (case sp_max_length spec of None \<Rightarrow> True | Some m \<Rightarrow> int (length (str_of v)) \<le> m))
   \<and> (sp_type spec = Some ''integer'' \<or> sp_type spec = Some ''number'' \<longrightarrow>
        in_range (sp_minimum spec) (sp_maximum spec) (the (num_val v)))
   \<and> (sp_type spec = Some ''array'' \<longrightarrow>
        size_within (or_default (sp_min_items spec) (if required then 1 else 0)) (sp_max_items spec)
          (int (length (py_items v)))
      \<and> list_all (of_type (sp_item_type spec)) (py_items v)
      \<and> (sp_item_type spec = Some ''string'' \<longrightarrow> list_all nonblank (py_items v)))
   \<and> (case sp_enum spec of None \<Rightarrow> True | Some values \<Rightarrow> list_ex (py_eq v) values)"

definition schema_describes :: "tool_schema \<Rightarrow> pyval \<Rightarrow> bool" where
  "schema_describes S v \<longleftrightarrow> (\<exists>args. v = PDict args
     \<and> set (ts_required S) \<subseteq> set (map fst args) \<and> set (map fst args) \<subseteq> set (map fst (ts_properties S))
     \<and> list_all (\<lambda>(name, x). case map_of (ts_properties S) name of None \<Rightarrow> True
          | Some spec \<Rightarrow> described (List.member (ts_required S) name) spec x) args)"

section \<open>Correctness\<close>

lemma passes_type: "passes t v = Inr b \<Longrightarrow> b \<longleftrightarrow> of_type t v"
  by (auto simp: passes_def type_check_def is_finite_def split: if_splits option.splits)

lemma all_exc_iff:
  assumes "\<And>x b. p x = Inr b \<Longrightarrow> b \<longleftrightarrow> q x"
  shows "all_exc p xs = Inr b \<Longrightarrow> b \<longleftrightarrow> list_all q xs"
proof (induction xs arbitrary: b)
  case (Cons x xs)
  then obtain c where "p x = Inr c" "(if c then all_exc p xs else Inr False) = Inr b" by (auto simp: ebind_Inr_iff)
  with assms [of x c] Cons.IH show ?case by (auto split: if_splits)
qed simp

lemma without_Nil: "without xs ys = [] \<longleftrightarrow> set xs \<subseteq> set ys"
proof -
  have "without xs ys = [] \<longleftrightarrow> set (without xs ys) = {}" by simp
  then show ?thesis unfolding without_def set_sort set_remdups set_filter by auto
qed

lemma number_of_type:
  "of_type t v \<Longrightarrow> t = Some ''integer'' \<or> t = Some ''number'' \<Longrightarrow> is_number v \<and> finite_value v"
  by (cases v) (auto simp: is_plain_integer_def)

lemma number_errors_Nil:
  assumes "number_errors name spec v = Inr es" and "of_type (sp_type spec) v"
  shows "es = [] \<longleftrightarrow> (sp_type spec = Some ''integer'' \<or> sp_type spec = Some ''number'' \<longrightarrow>
        in_range (sp_minimum spec) (sp_maximum spec) (the (num_val v)))"
  using assms(1) number_of_type [OF assms(2)]
  by (auto simp: number_errors_def is_finite_def in_range_def ebind_Inr_iff split: if_splits option.splits)

lemma string_errors_Nil:
  assumes "of_type (sp_type spec) v"
  shows "string_errors required name spec v = [] \<longleftrightarrow> (sp_type spec = Some ''string'' \<longrightarrow>
        or_default (sp_min_length spec) (if required then 1 else 0) \<le> int (length (strip (str_of v)))
      \<and> (case sp_max_length spec of None \<Rightarrow> True | Some m \<Rightarrow> int (length (str_of v)) \<le> m))"
  using assms by (auto simp: string_errors_def split: option.splits)

lemma array_errors_Nil:
  assumes "array_errors required name spec v = Inr es" and "of_type (sp_type spec) v"
  shows "es = [] \<longleftrightarrow> (sp_type spec = Some ''array'' \<longrightarrow>
        size_within (or_default (sp_min_items spec) (if required then 1 else 0)) (sp_max_items spec)
          (int (length (py_items v)))
      \<and> list_all (of_type (sp_item_type spec)) (py_items v)
      \<and> (sp_item_type spec = Some ''string'' \<longrightarrow> list_all nonblank (py_items v)))"
proof (cases "sp_type spec = Some ''array''")
  case True
  with assms(2) have "is_list v" by simp
  with assms(1) True obtain typed where typed: "all_exc (passes (sp_item_type spec)) (py_items v) = Inr typed"
    and es: "es = errors_of
        [(\<not> typed, Wrong_item_type name (or_default (sp_item_type spec) [])),
         (int (length (py_items v)) < or_default (sp_min_items spec) (if required then 1 else 0),
            Too_few_items name (or_default (sp_min_items spec) (if required then 1 else 0))),
         (sp_max_items spec \<noteq> None \<and> the (sp_max_items spec) < int (length (py_items v)),
            Exceeds_max_items name (the (sp_max_items spec))),
         (sp_item_type spec = Some ''string''
            \<and> list_ex (\<lambda>x. is_str x \<and> strip (str_of x) = []) (py_items v), Blank_item name)]"
    by (auto simp: array_errors_def ebind_Inr_iff)
  have "typed \<longleftrightarrow> list_all (of_type (sp_item_type spec)) (py_items v)"
    using typed by (rule all_exc_iff [rotated]) (rule passes_type)
  moreover have "is_str x \<Longrightarrow> nonblank x \<longleftrightarrow> strip (str_of x) \<noteq> []" for x by (cases x) (simp_all add: nonblank_def)
  ultimately show ?thesis
    using True unfolding es errors_of_Nil size_within_def
    by (auto simp: list_ex_iff list_all_iff split: option.splits)
next
  case False
  with assms(1) show ?thesis by (auto simp: array_errors_def)
qed

lemma argument_errors_Nil:
  assumes "argument_errors required name spec v = Inr es"
  shows "es = [] \<longleftrightarrow> described required spec v"
proof -
  from assms obtain typed where typed: "passes (sp_type spec) v = Inr typed"
    and rest: "(if \<not> typed then Inr [Wrong_type name (or_default (sp_type spec) [])]
       else ebind (number_errors name spec v) (\<lambda>numeric.
        ebind (array_errors required name spec v) (\<lambda>items.
          Inr (string_errors required name spec v @ numeric @ items @ enum_errors name spec v)))) = Inr es"
    by (auto simp: argument_errors_def ebind_Inr_iff)
  note t = passes_type [OF typed]
  show ?thesis
  proof (cases typed)
    case False
    with rest t show ?thesis by (auto simp: described_def)
  next
    case True
    with t have ty: "of_type (sp_type spec) v" by simp
    from rest True obtain numeric items where n: "number_errors name spec v = Inr numeric"
      and i: "array_errors required name spec v = Inr items"
      and es: "es = string_errors required name spec v @ numeric @ items @ enum_errors name spec v"
      by (auto simp: ebind_Inr_iff)
    have "enum_errors name spec v = [] \<longleftrightarrow>
        (case sp_enum spec of None \<Rightarrow> True | Some values \<Rightarrow> list_ex (py_eq v) values)"
      by (simp add: enum_errors_def split: option.split)
    with es number_errors_Nil [OF n ty] array_errors_Nil [OF i ty] string_errors_Nil [OF ty] ty
    show ?thesis unfolding described_def by (simp del: of_type.simps)
  qed
qed

lemma each_argument_Nil:
  "each_argument S args = Inr es \<Longrightarrow> es = [] \<longleftrightarrow> list_all (\<lambda>(name, x). case map_of (ts_properties S) name of
     None \<Rightarrow> True | Some spec \<Rightarrow> described (List.member (ts_required S) name) spec x) args"
proof (induction args arbitrary: es)
  case (Cons arg args)
  obtain name v where arg: "arg = (name, v)" by (cases arg)
  from Cons.prems obtain es1 es2 where
    1: "(case map_of (ts_properties S) name of None \<Rightarrow> Inr []
         | Some spec \<Rightarrow> argument_errors (List.member (ts_required S) name) name spec v) = Inr es1"
    and 2: "each_argument S args = Inr es2" "es = es1 @ es2"
    by (auto simp: arg ebind_Inr_iff)
  have "es1 = [] \<longleftrightarrow> (case map_of (ts_properties S) name of None \<Rightarrow> True
      | Some spec \<Rightarrow> described (List.member (ts_required S) name) spec v)"
    using 1 argument_errors_Nil by (auto split: option.splits)
  with Cons.IH [OF 2(1)] 2(2) show ?case by (simp add: arg)
qed simp

text \<open>
  C39: When the validation of tool arguments returns, it reports no error exactly for the
  arguments that the schema describes: required and known names, types, lengths, ranges, item
  types and enumerations.
\<close>

theorem arguments_described:
  assumes "validate_tool_arguments S v = Inr errors"
  shows "errors = [] \<longleftrightarrow> schema_describes S v"
proof (cases v)
  case (PDict args)
  with assms obtain es where es: "each_argument S args = Inr es"
    and errors: "errors = errors_of
      [(without (ts_required S) (map fst args) \<noteq> [], Missing_arguments (without (ts_required S) (map fst args))),
       (without (map fst args) (map fst (ts_properties S)) \<noteq> [],
        Unexpected_arguments (without (map fst args) (map fst (ts_properties S))))] @ es"
    by (auto simp: validate_tool_arguments_def Let_def ebind_Inr_iff)
  show ?thesis
    using each_argument_Nil [OF es]
    by (simp add: errors PDict schema_describes_def without_Nil)
qed (use assms in \<open>auto simp: validate_tool_arguments_def schema_describes_def\<close>)

text \<open>An integer too large for a float is neither accepted nor refused: the validation raises.\<close>

lemma large_integer_escapes:
  assumes "FLOAT_LIMIT \<le> i" and "sp_type spec = Some ''integer''"
  shows "validate_tool_arguments \<lparr>ts_properties = [(name, spec)], ts_required = required\<rparr> (PDict [(name, PInt i)])
    = Inl overflow_error"
proof -
  have "float_overflow (PInt i)" using assms(1) by (simp add: float_overflow_def)
  then have "argument_errors r name spec (PInt i) = Inl overflow_error" for r
    using assms(2) by (simp add: argument_errors_def passes_def type_check_def is_plain_integer_def
      number_errors_def is_finite_def)
  then show ?thesis by (simp add: validate_tool_arguments_def Let_def)
qed

end
