(* ===== verification/Evidence.thy ===== *)
theory Evidence
  imports ToolArguments IncidentData "HOL-Library.Log_Nat"
begin

text \<open>
  The evidence ledger of \<open>agent_policy.py\<close>: the records of one agent run, the citations an
  answer must carry, and the authorization of a proposal by records that were there before the
  turn began. Times are readings of the monotonic clock; the difference of two is exact here.
\<close>

section \<open>The ledger\<close>

record evidence_record =
  ev_ref :: string
  ev_tool :: string
  ev_arguments :: arguments
  ev_result :: pyval
  ev_status :: string
  ev_recorded_at :: string
  ev_monotonic :: rat
  ev_duration :: rat

record ledger =
  lg_records :: "evidence_record list"
  lg_attempted :: "string list"
  lg_next :: nat

definition empty_ledger :: ledger where
  "empty_ledger = \<lparr>lg_records = [], lg_attempted = [], lg_next = 1\<rparr>"

definition evidence_ref :: "nat \<Rightarrow> string" where
  "evidence_ref n = ''ev-'' @ replicate (4 - length (nat_text n)) CHR ''0'' @ nat_text n"

definition is_volatile :: "string \<Rightarrow> bool" where
  "is_volatile tool = List.member VOLATILE_OBSERVATION_TOOLS tool"

definition is_duplicate :: "platform \<Rightarrow> ledger \<Rightarrow> string \<Rightarrow> arguments \<Rightarrow> bool" where
  "is_duplicate P L tool args =
     (\<not> is_volatile tool \<and> List.member (lg_attempted L) (canonical_call_key P tool args))"

definition mark_attempted :: "platform \<Rightarrow> ledger \<Rightarrow> string \<Rightarrow> arguments \<Rightarrow> ledger" where
  "mark_attempted P L tool args =
     (if is_volatile tool then L
      else L\<lparr>lg_attempted := List.insert (canonical_call_key P tool args) (lg_attempted L)\<rparr>)"

text \<open>\<open>stamp\<close> and \<open>now\<close> are the readings of the two clocks; the new record is the last one.\<close>

definition ledger_add ::
  "ledger \<Rightarrow> string \<Rightarrow> arguments \<Rightarrow> pyval \<Rightarrow> string \<Rightarrow> rat \<Rightarrow> string \<Rightarrow> rat \<Rightarrow> evidence_record \<times> ledger" where
  "ledger_add L tool args result status duration stamp now =
     (let r = \<lparr>ev_ref = evidence_ref (lg_next L), ev_tool = tool, ev_arguments = args, ev_result = result,
               ev_status = status, ev_recorded_at = stamp, ev_monotonic = now, ev_duration = duration\<rparr>
      in (r, L\<lparr>lg_next := lg_next L + 1, lg_records := lg_records L @ [r]\<rparr>))"

definition up_to :: "nat option \<Rightarrow> 'a list \<Rightarrow> 'a list" where
  "up_to cutoff rs = (case cutoff of None \<Rightarrow> rs | Some n \<Rightarrow> take n rs)"

definition successful :: "ledger \<Rightarrow> string \<Rightarrow> nat option \<Rightarrow> evidence_record list" where
  "successful L tool cutoff =
     filter (\<lambda>r. ev_tool r = tool \<and> ev_status r = ''success'') (up_to cutoff (lg_records L))"

definition argument :: "evidence_record \<Rightarrow> string \<Rightarrow> pyval" where
  "argument r name = dget (PDict (ev_arguments r)) name"

section \<open>Citations\<close>

definition bracketed_ref :: "string \<Rightarrow> string option" where
  "bracketed_ref s =
     (case lit ''[ev-'' s of None \<Rightarrow> None
      | Some t \<Rightarrow> let ds = takeWhile is_digit t in
          if 4 \<le> length ds \<and> take 1 (drop (length ds) t) = '']'' then Some (''ev-'' @ ds) else None)"

text \<open>
  \<open>re.findall\<close>, in lower case. A match holds one opening bracket, at its start, so no other
  match begins inside it.
\<close>

fun cited_refs :: "string \<Rightarrow> string list" where
  "cited_refs [] = []"
| "cited_refs (c # s) = (case bracketed_ref (c # s) of None \<Rightarrow> cited_refs s | Some r \<Rightarrow> r # cited_refs s)"

datatype citation_error =
    Uncited
  | Invalid_refs "string list"
  | Missing_refs "string list"

definition successful_refs :: "evidence_record list \<Rightarrow> string list" where
  "successful_refs rs = map ev_ref (filter (\<lambda>r. ev_status r = ''success'') rs)"

definition validate_answer_evidence ::
  "string \<Rightarrow> evidence_record list \<Rightarrow> string list option \<Rightarrow> string list \<Rightarrow> citation_error list" where
  "validate_answer_evidence answer records known required =
     (let ok = (case known of None \<Rightarrow> successful_refs records | Some refs \<Rightarrow> refs);
          cited = cited_refs answer
      in errors_of
        [(ok \<noteq> [] \<and> cited = [], Uncited),
         (without cited ok \<noteq> [], Invalid_refs (without cited ok)),
         (without required cited \<noteq> [], Missing_refs (without required cited))])"

section \<open>Evidence for an index\<close>

definition bare_identifier :: "string \<Rightarrow> bool" where
  "bare_identifier s = (case s of [] \<Rightarrow> False | c # t \<Rightarrow> tag_start c \<and> list_all name_char t)"

definition predicate_has_column :: "pyval \<Rightarrow> pyval \<Rightarrow> bool" where
  "predicate_has_column scan column =
     (case column of
        PStr s \<Rightarrow>
          (let t = strip s; target = (if bare_identifier t then lower t else t);
               cs = dget scan ''predicate_columns''
           in is_dict scan \<and> t \<noteq> [] \<and> is_list cs \<and> list_ex (\<lambda>c. c = PStr target) (py_items cs))
      | _ \<Rightarrow> False)"

text \<open>\<open>x in {a, b}\<close> for texts \<open>a\<close> and \<open>b\<close>: a list or an object has no hash.\<close>

definition in_texts :: "pyval \<Rightarrow> string list \<Rightarrow> bool exc" where
  "in_texts v ts = (if is_list v \<or> is_dict v then Inl (TypeError ''unhashable type'')
                    else Inr (list_ex (\<lambda>t. v = PStr t) ts))"

fun any_exc :: "('a \<Rightarrow> bool exc) \<Rightarrow> 'a list \<Rightarrow> bool exc" where
  "any_exc p [] = Inr False"
| "any_exc p (x # xs) = ebind (p x) (\<lambda>b. if b then Inr True else any_exc p xs)"

fun filter_exc :: "('a \<Rightarrow> bool exc) \<Rightarrow> 'a list \<Rightarrow> 'a list exc" where
  "filter_exc p [] = Inr []"
| "filter_exc p (x # xs) =
     ebind (p x) (\<lambda>b. ebind (filter_exc p xs) (\<lambda>ys. Inr (if b then x # ys else ys)))"

text \<open>\<open>a <= v\<close> and \<open>v <= b\<close> for a number \<open>v\<close> and finite bounds.\<close>

fun at_least :: "rat \<Rightarrow> pyval \<Rightarrow> bool" where
  "at_least a (PFloat PosInf) = True"
| "at_least a v = (case num_val v of Some x \<Rightarrow> a \<le> x | None \<Rightarrow> False)"

fun at_most :: "rat \<Rightarrow> pyval \<Rightarrow> bool" where
  "at_most b (PFloat NegInf) = True"
| "at_most b v = (case num_val v of Some x \<Rightarrow> x \<le> b | None \<Rightarrow> False)"

definition is_above_zero :: "pyval \<Rightarrow> bool" where
  "is_above_zero v = (at_least 0 v \<and> \<not> py_eq v (PInt 0))"

text \<open>The double nearest to one tenth.\<close>

definition TENTH :: rat where
  "TENTH = 3602879701896397 / 36028797018963968"

definition selective_scan :: "pyval \<Rightarrow> pyval \<Rightarrow> pyval \<Rightarrow> bool exc" where
  "selective_scan table column scan =
     (if \<not> is_dict scan \<or> \<not> py_eq (dget scan ''table'') table then Inr False
      else ebind (in_texts (dget scan ''scan_type'') [''Sequential Scan'', ''Parallel Sequential Scan'']) (\<lambda>b.
        let rows = dget scan ''rows_examined''; sel = dget scan ''selectivity'' in
        Inr (b \<and> predicate_has_column scan column \<and> is_number rows \<and> is_above_zero rows
             \<and> is_number sel \<and> at_least 0 sel \<and> at_most TENTH sel)))"

text \<open>\<open>record.result.get(key, [])\<close> of a record whose result may be no object.\<close>

definition result_items :: "evidence_record \<Rightarrow> string \<Rightarrow> pyval list exc" where
  "result_items r key =
     (if is_dict (ev_result r) then py_iter (dget_default (ev_result r) key (PList [])) else Inr [])"

text \<open>\<open>(?:"column"|column)(?:\s|,|\))\<close> at the head of the leading expression.\<close>

definition name_then_end :: "string \<Rightarrow> string \<Rightarrow> bool" where
  "name_then_end name s \<longleftrightarrow> map lower_char (take (length name) s) = map lower_char name
     \<and> starts_with_char (\<lambda>c. is_space c \<or> c = CHR '','' \<or> c = CHR '')'') (drop (length name) s)"

fun double_quotes :: "string \<Rightarrow> string" where
  "double_quotes [] = []"
| "double_quotes (c # s) = (if c = DQUOTE then [DQUOTE, DQUOTE] else [c]) @ double_quotes s"

definition index_has_leading_column :: "pyval \<Rightarrow> pyval \<Rightarrow> bool" where
  "index_has_leading_column index column =
     (case (dget index ''index_definition'', column) of
        (PStr definition, PStr name) \<Rightarrow>
          (case split_at_char CHR ''('' definition of None \<Rightarrow> False
           | Some (_, t) \<Rightarrow> is_dict index \<and> name \<noteq> []
               \<and> (name_then_end (DQUOTE # double_quotes name @ [DQUOTE]) (lstrip t)
                  \<or> name_then_end name (lstrip t)))
      | _ \<Rightarrow> False)"

section \<open>Evidence for a rewrite\<close>

text \<open>
  \<open>DATE ( column ) = DATE 'yyyy-mm-dd'\<close> at a position: the column as it is written there, the
  date, and the text after the match. The column is a literal that may begin with white space,
  so every split of the spaces before it is tried, the longest first.
\<close>

fun space_splits :: "string \<Rightarrow> string list" where
  "space_splits [] = [[]]"
| "space_splits (c # s) = (if is_space c then space_splits s @ [c # s] else [c # s])"

definition literal_any_case :: "string \<Rightarrow> string \<Rightarrow> (string \<times> string) option" where
  "literal_any_case p s = (if map lower_char (take (length p) s) = map lower_char p
     then Some (take (length p) s, drop (length p) s) else None)"

definition date_literal :: "string \<Rightarrow> (string \<times> string) option" where
  "date_literal s =
     (let d = take 10 s; digit_at = (\<lambda>i. is_digit (d ! i)) in
      if length d = 10 \<and> list_all digit_at [0, 1, 2, 3, 5, 6, 8, 9]
         \<and> d ! 4 = CHR ''-'' \<and> d ! 7 = CHR ''-'' \<and> take 1 (drop 10 s) = [QUOTE]
      then Some (d, drop 11 s) else None)"

definition after_column :: "string \<Rightarrow> (string \<times> string) option" where
  "after_column s =
     Option.bind (lit '')'' (spaces s)) (\<lambda>s1.
     Option.bind (lit ''='' (spaces s1)) (\<lambda>s2.
     Option.bind (lit ''date'' (spaces s2)) (\<lambda>s3.
     Option.bind (lit [QUOTE] (spaces s3)) date_literal)))"

fun first_split :: "string \<Rightarrow> string list \<Rightarrow> (string \<times> string \<times> string) option" where
  "first_split column [] = None"
| "first_split column (s # ss) =
     (case literal_any_case column s of None \<Rightarrow> first_split column ss
      | Some (name, r) \<Rightarrow>
          (case after_column r of None \<Rightarrow> first_split column ss
           | Some (date, rest) \<Rightarrow> Some (name, date, rest)))"

definition date_call :: "string \<Rightarrow> char option \<Rightarrow> string \<Rightarrow> (string \<times> string \<times> string) option" where
  "date_call column prev s =
     (if not_after is_word prev
      then Option.bind (lit ''date'' s) (\<lambda>s1.
           Option.bind (lit ''('' (spaces s1)) (\<lambda>s2. first_split column (space_splits s2)))
      else None)"

text \<open>\<open>finditer\<close>: each match with the position of its start.\<close>

function date_calls ::
  "string \<Rightarrow> char option \<Rightarrow> nat \<Rightarrow> string \<Rightarrow> (nat \<times> string \<times> string \<times> string) list" where
  "date_calls column prev i s =
     (case s of [] \<Rightarrow> []
      | c # t \<Rightarrow>
        (case date_call column prev s of
           None \<Rightarrow> date_calls column (Some c) (i + 1) t
         | Some (name, date, rest) \<Rightarrow>
            (if length rest < length s
             then (i, name, date, rest) # date_calls column (Some QUOTE) (i + (length s - length rest)) rest
             else date_calls column (Some c) (i + 1) t)))"
  by pat_completeness auto
termination
  by (relation "measure (\<lambda>(column, prev, i, s). length s)") auto

declare date_calls.simps [simp del]

definition half_open_range :: "string \<Rightarrow> string \<Rightarrow> string" where
  "half_open_range name date =
     (let d = QUOTE # date @ [QUOTE]
      in name @ '' >= DATE '' @ d @ '' AND '' @ name @ '' < DATE '' @ d
         @ '' + INTERVAL '' @ [QUOTE] @ ''1 day'' @ [QUOTE])"

definition supported_date_rewrite :: "pyval \<Rightarrow> pyval \<Rightarrow> pyval \<Rightarrow> pyval \<Rightarrow> bool" where
  "supported_date_rewrite original rewritten finding info =
     (if \<not> is_str original \<or> \<not> is_str rewritten \<or> dget finding ''function'' \<noteq> PStr ''DATE''
         \<or> dget info ''data_type'' \<noteq> PStr ''timestamp without time zone''
         \<or> \<not> is_str (dget finding ''column'')
      then False
      else (case date_calls (str_of (dget finding ''column'')) None 0 (str_of original) of
              [(i, name, date, rest)] \<Rightarrow>
                canonical_text (str_of rewritten)
                  = canonical_text (take i (str_of original) @ half_open_range name date @ rest)
            | _ \<Rightarrow> False))"

section \<open>Evidence for a refresh of statistics\<close>

text \<open>
  The double nearest to a number of at least one: the last of its 53 bits has the value
  \<open>unit\<close>, and a tie goes to the even neighbour.
\<close>

definition double_of :: "rat \<Rightarrow> rat" where
  "double_of x =
     (let b = floorlog 2 (nat (floor x)); unit = (if 53 \<le> b then 2 ^ (b - 53) else 1 / 2 ^ (53 - b))
      in of_int (round_half_even (x / unit)) * unit)"

text \<open>
  \<open>max(1_000, max(live_rows, 1) * 0.1)\<close>. A product below a thousand does not count, so the
  rounding is only applied above it.
\<close>

definition one_tenth :: "rat \<Rightarrow> rat" where
  "one_tenth x = (if double_of x * TENTH < 1000 then 1000 else double_of (double_of x * TENTH))"

fun refresh_threshold :: "pyval \<Rightarrow> pyfloat exc" where
  "refresh_threshold (PInt n) =
     (if FLOAT_LIMIT \<le> n then Inl overflow_error else Inr (Finite (one_tenth (of_int (max n 1)))))"
| "refresh_threshold (PFloat (Finite r)) = Inr (Finite (one_tenth (max r 1)))"
| "refresh_threshold (PFloat PosInf) = Inr PosInf"
| "refresh_threshold _ = Inr (Finite 1000)"

definition stats_support_refresh :: "pyval \<Rightarrow> bool exc" where
  "stats_support_refresh result =
     (let modified = dget result ''n_mod_since_analyze''; live = dget result ''n_live_tup'' in
      if \<not> is_dict result \<or> \<not> is_number modified \<or> \<not> is_number live then Inr False
      else ebind (refresh_threshold live) (\<lambda>t. Inr (case t of
             Finite r \<Rightarrow> at_least r modified | _ \<Rightarrow> modified = PFloat PosInf)))"

section \<open>Authorization\<close>

datatype authorization_error =
    Arguments_not_an_object
  | Argument_blank string
  | Confidence_unusable
  | Proposal_columns_invalid
  | Pids_not_positive
  | Pids_not_distinct
  | Unknown_proposal_tool string
  | Diagnosis_only
  | Action_type_not_allowed string
  | Index_needs_plan
  | Index_needs_selective_scan
  | Index_needs_indexes
  | Index_absence_unproven
  | Rewrite_needs_plan
  | Rewrite_unsupported
  | Analyze_needs_columns
  | Analyze_needs_anomaly
  | Analyze_needs_statistics "string list"
  | Refreshed_in_same_turn
  | Terminate_needs_snapshot
  | Newest_snapshot_failed
  | Snapshot_stale
  | Terminate_needs_identity
  | Pair_not_in_snapshot

definition required_strings :: "string \<Rightarrow> string list" where
  "required_strings tool =
     (if tool = ''propose_create_index'' then [''query'', ''table'', ''column'', ''reason'']
      else if tool = ''propose_query_rewrite'' then [''original_query'', ''rewritten_query'', ''reason'']
      else if tool = ''propose_analyze_table'' then [''query'', ''table'', ''reason'']
      else if tool = ''propose_terminate_backend''
        then [''blocker_backend_start'', ''blocker_xact_start'', ''reason'']
      else [])"

definition confidence_ok :: "pyval \<Rightarrow> bool" where
  "confidence_ok v = (is_number v \<and> finite_value v \<and> at_least 0 v \<and> at_most 1 v)"

definition proposal_argument_sanity_errors :: "string \<Rightarrow> pyval \<Rightarrow> authorization_error list exc" where
  "proposal_argument_sanity_errors tool args =
     (if \<not> is_dict args then Inr [Arguments_not_an_object]
      else if float_overflow (dget args ''confidence'') then Inl overflow_error
      else
       (let columns = dget args ''columns'';
            blocked = dget args ''blocked_pid''; blocker = dget args ''blocker_pid'';
            pids_ok = is_positive_int blocked \<and> is_positive_int blocker in
        Inr (errors_of (map (\<lambda>name. (\<not> nonblank (dget args name), Argument_blank name)) (required_strings tool)
          @ [(\<not> confidence_ok (dget args ''confidence''), Confidence_unusable),
             (tool = ''propose_analyze_table''
                \<and> (\<not> is_list columns \<or> py_items columns = [] \<or> list_ex (\<lambda>c. \<not> nonblank c) (py_items columns)),
              Proposal_columns_invalid),
             (tool = ''propose_terminate_backend'' \<and> \<not> pids_ok, Pids_not_positive),
             (tool = ''propose_terminate_backend'' \<and> pids_ok \<and> py_eq blocked blocker, Pids_not_distinct)]))))"

text \<open>The plans of a query: the successful \<open>analyze_query\<close> records with the same canonical text.\<close>

definition plans_of :: "ledger \<Rightarrow> nat option \<Rightarrow> pyval \<Rightarrow> evidence_record list" where
  "plans_of L cutoff query =
     filter (\<lambda>r. canonical_query (argument r ''query'') = canonical_query query)
       (successful L ''analyze_query'' cutoff)"

definition last_record :: "evidence_record list \<Rightarrow> evidence_record list" where
  "last_record rs = (if rs = [] then [] else [last rs])"

type_synonym authorization = "authorization_error list \<times> evidence_record list"

definition authorize_index :: "ledger \<Rightarrow> nat option \<Rightarrow> pyval \<Rightarrow> authorization exc" where
  "authorize_index L cutoff args =
     (let table = dget args ''table''; column = dget args ''column'';
          plans = plans_of L cutoff (dget args ''query'');
          indexes = filter (\<lambda>r. py_eq (argument r ''table_name'') table) (successful L ''get_indexes'' cutoff);
          latest = last_record indexes;
          absent = indexes \<noteq> [] \<and> is_list (ev_result (last indexes))
            \<and> \<not> list_ex (\<lambda>i. index_has_leading_column i column) (py_items (ev_result (last indexes))) in
      ebind (filter_exc (\<lambda>r. ebind (result_items r ''scan_nodes'') (any_exc (selective_scan table column))) plans)
        (\<lambda>qualifying. Inr
          (errors_of
            [(plans = [], Index_needs_plan), (plans \<noteq> [] \<and> qualifying = [], Index_needs_selective_scan),
             (indexes = [], Index_needs_indexes), (indexes \<noteq> [] \<and> \<not> absent, Index_absence_unproven)],
           last_record qualifying @ latest)))"

definition columns_of_finding :: "ledger \<Rightarrow> nat option \<Rightarrow> pyval \<Rightarrow> evidence_record list" where
  "columns_of_finding L cutoff finding =
     filter (\<lambda>r. py_eq (argument r ''table_name'') (dget finding ''table'')
               \<and> py_eq (argument r ''column_name'') (dget finding ''column''))
       (successful L ''get_column_info'' cutoff)"

text \<open>The first finding of a plan that the newest record of its column supports.\<close>

fun supported_finding ::
  "ledger \<Rightarrow> nat option \<Rightarrow> pyval \<Rightarrow> pyval list \<Rightarrow> evidence_record option" where
  "supported_finding L cutoff args [] = None"
| "supported_finding L cutoff args (finding # rest) =
     (let infos = columns_of_finding L cutoff finding in
      if is_dict finding \<and> infos \<noteq> [] \<and> is_dict (ev_result (last infos))
         \<and> supported_date_rewrite (dget args ''original_query'') (dget args ''rewritten_query'')
             finding (ev_result (last infos))
      then Some (last infos) else supported_finding L cutoff args rest)"

fun supported_pair ::
  "ledger \<Rightarrow> nat option \<Rightarrow> pyval \<Rightarrow> evidence_record list \<Rightarrow> evidence_record list exc" where
  "supported_pair L cutoff args [] = Inr []"
| "supported_pair L cutoff args (plan # rest) =
     ebind (result_items plan ''non_sargable_findings'') (\<lambda>findings.
       case supported_finding L cutoff args findings of
         Some info \<Rightarrow> Inr [plan, info]
       | None \<Rightarrow> supported_pair L cutoff args rest)"

definition authorize_rewrite :: "ledger \<Rightarrow> nat option \<Rightarrow> pyval \<Rightarrow> authorization exc" where
  "authorize_rewrite L cutoff args =
     (let plans = plans_of L cutoff (dget args ''original_query'') in
      ebind (supported_pair L cutoff args (rev plans)) (\<lambda>pair. Inr
        (errors_of [(plans = [], Rewrite_needs_plan), (plans \<noteq> [] \<and> pair = [], Rewrite_unsupported)], pair)))"

definition anomaly_plan :: "pyval \<Rightarrow> pyval list \<Rightarrow> evidence_record \<Rightarrow> bool exc" where
  "anomaly_plan table columns r =
     (if \<not> is_dict (ev_result r) \<or> \<not> truthy (dget (ev_result r) ''cardinality_findings'') then Inr False
      else ebind (result_items r ''scan_nodes'') (\<lambda>scans. Inr (list_ex
        (\<lambda>scan. is_dict scan \<and> py_eq (dget scan ''table'') table
              \<and> list_all (predicate_has_column scan) columns) scans)))"

text \<open>The newest statistics of a column of the table.\<close>

definition stats_of :: "ledger \<Rightarrow> nat option \<Rightarrow> pyval \<Rightarrow> pyval \<Rightarrow> evidence_record list" where
  "stats_of L cutoff table column = last_record
     (filter (\<lambda>r. py_eq (argument r ''table_name'') table \<and> argument r ''column_name'' = column)
       (successful L ''get_column_stats'' cutoff))"

definition lacks_statistics :: "ledger \<Rightarrow> nat option \<Rightarrow> pyval \<Rightarrow> pyval \<Rightarrow> bool exc" where
  "lacks_statistics L cutoff table column = (case stats_of L cutoff table column of
     [] \<Rightarrow> Inr True
   | r # _ \<Rightarrow> ebind (stats_support_refresh (ev_result r)) (\<lambda>b. Inr (\<not> b)))"

definition authorize_analyze :: "ledger \<Rightarrow> nat option \<Rightarrow> pyval \<Rightarrow> authorization exc" where
  "authorize_analyze L cutoff args =
     (let table = dget args ''table''; cs = dget args ''columns'';
          columns = (if is_list cs \<and> list_all (\<lambda>c. is_str c \<and> c \<noteq> PStr []) (py_items cs)
                     then py_items cs else []) in
      ebind (filter_exc (anomaly_plan table columns) (plans_of L cutoff (dget args ''query''))) (\<lambda>plans.
      ebind (filter_exc (lacks_statistics L cutoff table) columns) (\<lambda>unsupported. Inr
        (errors_of
          [(columns = [], Analyze_needs_columns), (columns \<noteq> [] \<and> plans = [], Analyze_needs_anomaly),
           (unsupported \<noteq> [], Analyze_needs_statistics (without (map str_of unsupported) []))],
         last_record plans @ concat (map (stats_of L cutoff table) columns)))))"

definition lock_reads :: "evidence_record list \<Rightarrow> evidence_record list" where
  "lock_reads rs = filter (\<lambda>r. ev_tool r = ''get_lock_waits'') rs"

definition identity_bound :: "pyval \<Rightarrow> bool" where
  "identity_bound args = list_all (\<lambda>f. is_str (dget args f) \<and> dget args f \<noteq> PStr [])
     [''blocker_backend_start'', ''blocker_xact_start'']"

definition same_blocker :: "pyval \<Rightarrow> pyval \<Rightarrow> bool exc" where
  "same_blocker args relationship =
     (if \<not> is_dict relationship
         \<or> \<not> list_all (\<lambda>f. py_eq (dget relationship f) (dget args f))
             [''blocked_pid'', ''blocker_pid'', ''blocker_backend_start'', ''blocker_xact_start'']
         \<or> dget relationship ''blocked_wait_event_type'' \<noteq> PStr ''Lock''
      then Inr False
      else in_texts (dget relationship ''blocker_state'')
             [''idle in transaction'', ''idle in transaction (aborted)''])"

definition authorize_terminate ::
  "ledger \<Rightarrow> nat option \<Rightarrow> rat \<Rightarrow> rat \<Rightarrow> pyval \<Rightarrow> authorization exc" where
  "authorize_terminate L cutoff ttl now args =
     (let reads = lock_reads (up_to cutoff (lg_records L));
          later = (case cutoff of None \<Rightarrow> [] | Some n \<Rightarrow> lock_reads (drop n (lg_records L)));
          latest = last reads;
          succeeded = reads \<noteq> [] \<and> ev_status latest = ''success'';
          fresh = succeeded \<and> now - ev_monotonic latest \<le> ttl;
          relationships = (if succeeded then py_items (ev_result latest) else []);
          bound = identity_bound args in
      ebind (if bound then any_exc (same_blocker args) relationships else Inr False) (\<lambda>matching. Inr
        (case first_error
            [(later \<noteq> [], Refreshed_in_same_turn), (reads = [], Terminate_needs_snapshot),
             (\<not> succeeded, Newest_snapshot_failed), (\<not> fresh, Snapshot_stale),
             (\<not> bound, Terminate_needs_identity), (\<not> matching, Pair_not_in_snapshot)] of
           Some e \<Rightarrow> ([e], [])
         | None \<Rightarrow> ([], [latest]))))"

fun from_keys :: "string list \<Rightarrow> string list" where
  "from_keys [] = []"
| "from_keys (x # xs) = x # filter (\<lambda>y. y \<noteq> x) (from_keys xs)"

definition authorize_evidence ::
  "ledger \<Rightarrow> string \<Rightarrow> pyval \<Rightarrow> nat option \<Rightarrow> rat \<Rightarrow> rat \<Rightarrow> authorization exc" where
  "authorize_evidence L tool args cutoff ttl now =
     (if tool = ''propose_create_index'' then authorize_index L cutoff args
      else if tool = ''propose_query_rewrite'' then authorize_rewrite L cutoff args
      else if tool = ''propose_analyze_table'' then authorize_analyze L cutoff args
      else authorize_terminate L cutoff ttl now args)"

definition proposal_authorization ::
  "ledger \<Rightarrow> string \<Rightarrow> pyval \<Rightarrow> bool \<Rightarrow> string list \<Rightarrow> nat option \<Rightarrow> rat \<Rightarrow> rat
    \<Rightarrow> (authorization_error list \<times> string list) exc" where
  "proposal_authorization L tool args proposals_allowed allowed cutoff ttl now =
     (case map_of PROPOSAL_TOOL_TO_ACTION tool of
        None \<Rightarrow> Inr ([Unknown_proposal_tool tool], [])
      | Some action_type \<Rightarrow>
          ebind (proposal_argument_sanity_errors tool args) (\<lambda>sanity.
          let errors = errors_of [(\<not> proposals_allowed, Diagnosis_only),
                (\<not> List.member allowed action_type, Action_type_not_allowed action_type)] @ sanity in
          if errors \<noteq> [] then Inr (errors, [])
          else ebind (authorize_evidence L tool args cutoff ttl now) (\<lambda>(es, rs). Inr (es, from_keys (map ev_ref rs)))))"

section \<open>What an authorization rests on\<close>

definition backed :: "ledger \<Rightarrow> nat option \<Rightarrow> evidence_record list \<Rightarrow> bool" where
  "backed L cutoff rs \<longleftrightarrow> set rs \<subseteq> {r \<in> set (up_to cutoff (lg_records L)). ev_status r = ''success''}"

lemma backed_simps [simp]:
  "backed L cutoff []" "backed L cutoff (xs @ ys) \<longleftrightarrow> backed L cutoff xs \<and> backed L cutoff ys"
  by (auto simp: backed_def)

lemma backed_successful: "set rs \<subseteq> set (successful L tool cutoff) \<Longrightarrow> backed L cutoff rs"
  by (auto simp: backed_def successful_def)

lemma set_last_record: "set (last_record rs) \<subseteq> set rs"
  by (simp add: last_record_def)

lemma last_record_Nil [simp]: "last_record rs = [] \<longleftrightarrow> rs = []"
  by (simp add: last_record_def)

lemma set_filter_exc: "filter_exc p xs = Inr ys \<Longrightarrow> set ys \<subseteq> set xs"
proof (induction xs arbitrary: ys)
  case (Cons x xs)
  then obtain b zs where "filter_exc p xs = Inr zs" "ys = (if b then x # zs else zs)" by (auto simp: ebind_Inr_iff)
  with Cons.IH [of zs] show ?case by (auto split: if_splits)
qed simp

lemma set_from_keys [simp]: "set (from_keys xs) = set xs"
  by (induction xs) auto

lemma distinct_from_keys [simp]: "distinct (from_keys xs)"
  by (induction xs) auto

lemma any_excD: "any_exc p xs = Inr True \<Longrightarrow> \<exists>x \<in> set xs. p x = Inr True"
  by (induction xs) (auto simp: ebind_Inr_iff split: if_splits)

lemma set_plans: "set (plans_of L cutoff q) \<subseteq> set (successful L ''analyze_query'' cutoff)"
  by (auto simp: plans_of_def)

lemma index_backed:
  assumes "authorize_index L cutoff args = Inr (es, rs)"
  shows "backed L cutoff rs" and "es = [] \<Longrightarrow> rs \<noteq> []"
proof -
  let ?indexes = "filter (\<lambda>r. py_eq (argument r ''table_name'') (dget args ''table'')) (successful L ''get_indexes'' cutoff)"
  from assms obtain qs where q: "filter_exc (\<lambda>r. ebind (result_items r ''scan_nodes'')
        (any_exc (selective_scan (dget args ''table'') (dget args ''column'')))) (plans_of L cutoff (dget args ''query'')) = Inr qs"
    and rs: "rs = last_record qs @ last_record ?indexes" and es: "es = [] \<Longrightarrow> ?indexes \<noteq> []"
    by (auto simp: authorize_index_def Let_def ebind_Inr_iff errors_of_Nil simp del: errors_of_simps)
  have "set (last_record qs) \<subseteq> set (successful L ''analyze_query'' cutoff)"
    using set_last_record [of qs] set_filter_exc [OF q] set_plans by blast
  moreover have "set (last_record ?indexes) \<subseteq> set (successful L ''get_indexes'' cutoff)"
    using set_last_record [of ?indexes] by auto
  ultimately show "backed L cutoff rs" unfolding rs by (simp add: backed_successful)
  show "es = [] \<Longrightarrow> rs \<noteq> []" unfolding rs using es by auto
qed

lemma supported_finding_info:
  "supported_finding L cutoff args fs = Some r \<Longrightarrow> r \<in> set (successful L ''get_column_info'' cutoff)"
proof (induction fs)
  case (Cons f fs)
  have "infos \<noteq> [] \<Longrightarrow> infos = columns_of_finding L cutoff f \<Longrightarrow> last infos \<in> set (successful L ''get_column_info'' cutoff)" for infos
    using last_in_set [of infos] by (simp add: columns_of_finding_def)
  with Cons show ?case by (auto simp: Let_def split: if_splits)
qed simp

lemma supported_pair_backed:
  "supported_pair L cutoff args plans = Inr pair \<Longrightarrow> set plans \<subseteq> set (successful L ''analyze_query'' cutoff)
    \<Longrightarrow> backed L cutoff pair"
proof (induction plans)
  case (Cons plan plans)
  then obtain fs where fs: "result_items plan ''non_sargable_findings'' = Inr fs" by (auto simp: ebind_Inr_iff)
  show ?case
  proof (cases "supported_finding L cutoff args fs")
    case None
    with Cons fs show ?thesis by simp
  next
    case (Some info)
    with Cons.prems fs have "pair = [plan] @ [info]" by simp
    moreover have "backed L cutoff [plan]" "backed L cutoff [info]"
      using Cons.prems(2) supported_finding_info [OF Some]
      by (auto intro: backed_successful [of _ L "''analyze_query''"] backed_successful [of _ L "''get_column_info''"])
    ultimately show ?thesis by (simp only: backed_simps)
  qed
qed simp

lemma rewrite_backed:
  assumes "authorize_rewrite L cutoff args = Inr (es, rs)"
  shows "backed L cutoff rs" and "es = [] \<Longrightarrow> rs \<noteq> []"
proof -
  from assms have p: "supported_pair L cutoff args (rev (plans_of L cutoff (dget args ''original_query''))) = Inr rs"
    and es: "es = errors_of [(plans_of L cutoff (dget args ''original_query'') = [], Rewrite_needs_plan),
        (plans_of L cutoff (dget args ''original_query'') \<noteq> [] \<and> rs = [], Rewrite_unsupported)]"
    by (auto simp: authorize_rewrite_def Let_def ebind_Inr_iff errors_of_Nil simp del: errors_of_simps)
  show "backed L cutoff rs" by (rule supported_pair_backed [OF p]) (use set_plans in auto)
  show "es = [] \<Longrightarrow> rs \<noteq> []" unfolding es errors_of_Nil by auto
qed

lemma stats_backed: "backed L cutoff (stats_of L cutoff table column)"
  using set_last_record
  by (intro backed_successful [of _ L "''get_column_stats''"]) (force simp: stats_of_def)

lemma analyze_backed:
  assumes "authorize_analyze L cutoff args = Inr (es, rs)"
  shows "backed L cutoff rs" and "es = [] \<Longrightarrow> rs \<noteq> []"
proof -
  let ?cs = "dget args ''columns''"
  let ?columns = "if is_list ?cs \<and> list_all (\<lambda>c. is_str c \<and> c \<noteq> PStr []) (py_items ?cs) then py_items ?cs else []"
  from assms obtain plans un where
    p: "filter_exc (anomaly_plan (dget args ''table'') ?columns) (plans_of L cutoff (dget args ''query'')) = Inr plans"
    and rs: "rs = last_record plans @ concat (map (stats_of L cutoff (dget args ''table'')) ?columns)"
    and es: "es = errors_of [(?columns = [], Analyze_needs_columns), (?columns \<noteq> [] \<and> plans = [], Analyze_needs_anomaly),
        (un \<noteq> [], Analyze_needs_statistics (without (map str_of un) []))]"
    by (auto simp: authorize_analyze_def Let_def ebind_Inr_iff errors_of_Nil simp del: errors_of_simps)
  have "backed L cutoff (last_record plans)"
    using set_last_record [of plans] set_filter_exc [OF p] set_plans
    by (intro backed_successful [of _ L "''analyze_query''"]) blast
  moreover have "backed L cutoff (concat (map (stats_of L cutoff t) cs))" for t cs
    by (induction cs) (simp_all add: stats_backed)
  ultimately show "backed L cutoff rs" unfolding rs by (simp only: backed_simps)
  show "es = [] \<Longrightarrow> rs \<noteq> []" unfolding rs es errors_of_Nil by auto
qed

text \<open>
  A termination rests on the newest read of the lock graph: it was there before the turn, no
  read followed, it succeeded and is fresh, and it shows the pair with the blocker idle in a
  transaction.
\<close>

definition shows_pair :: "pyval \<Rightarrow> pyval \<Rightarrow> bool" where
  "shows_pair result args \<longleftrightarrow> (\<exists>rel \<in> set (py_items result). same_blocker args rel = Inr True)"

definition newest_lock_read :: "ledger \<Rightarrow> nat option \<Rightarrow> evidence_record \<Rightarrow> bool" where
  "newest_lock_read L cutoff r \<longleftrightarrow> r \<in> set (up_to cutoff (lg_records L))
     \<and> lock_reads (lg_records L) \<noteq> [] \<and> last (lock_reads (lg_records L)) = r"

lemma terminate_latest:
  assumes "authorize_terminate L cutoff ttl now args = Inr ([], rs)"
  obtains r where "rs = [r]" "newest_lock_read L cutoff r" "ev_status r = ''success''"
    "now - ev_monotonic r \<le> ttl" "shows_pair (ev_result r) args" "identity_bound args"
proof -
  let ?reads = "lock_reads (up_to cutoff (lg_records L))"
  let ?later = "case cutoff of None \<Rightarrow> [] | Some n \<Rightarrow> lock_reads (drop n (lg_records L))"
  from assms have later: "?later = []" and reads: "?reads \<noteq> []" and ok: "ev_status (last ?reads) = ''success''"
    and fresh: "now - ev_monotonic (last ?reads) \<le> ttl" and bound: "identity_bound args"
    and match: "any_exc (same_blocker args) (py_items (ev_result (last ?reads))) = Inr True"
    and rs: "rs = [last ?reads]"
    by (auto simp: authorize_terminate_def Let_def ebind_Inr_iff split: if_splits option.splits)
  have "lock_reads (lg_records L) = ?reads"
  proof (cases cutoff)
    case (Some n)
    have "lock_reads (lg_records L) = lock_reads (take n (lg_records L)) @ lock_reads (drop n (lg_records L))"
      by (simp add: lock_reads_def flip: filter_append)
    with later Some show ?thesis by (simp add: up_to_def)
  qed (simp add: up_to_def)
  moreover have "last ?reads \<in> set (up_to cutoff (lg_records L))"
    using last_in_set [OF reads] by (simp add: lock_reads_def)
  ultimately have "newest_lock_read L cutoff (last ?reads)" using reads by (simp add: newest_lock_read_def)
  moreover have "shows_pair (ev_result (last ?reads)) args" using any_excD [OF match] by (simp add: shows_pair_def)
  ultimately show thesis using that [OF rs] ok fresh bound by simp
qed

lemma terminate_backed:
  assumes "authorize_terminate L cutoff ttl now args = Inr ([], rs)"
  shows "backed L cutoff rs" and "rs \<noteq> []"
proof -
  from assms obtain r where r: "rs = [r]" "newest_lock_read L cutoff r" "ev_status r = ''success''"
    by (rule terminate_latest)
  then show "backed L cutoff rs" "rs \<noteq> []" by (simp_all add: backed_def newest_lock_read_def)
qed

lemma authorizationE:
  assumes "proposal_authorization L tool args allowed types cutoff ttl now = Inr ([], refs)"
  obtains action rs where "map_of PROPOSAL_TOOL_TO_ACTION tool = Some action" "allowed" "action \<in> set types"
    "refs = from_keys (map ev_ref rs)" "authorize_evidence L tool args cutoff ttl now = Inr ([], rs)"
proof -
  from assms obtain action where a: "map_of PROPOSAL_TOOL_TO_ACTION tool = Some action"
    by (auto simp: proposal_authorization_def split: option.splits)
  from assms a obtain sanity where "(let errors = errors_of [(\<not> allowed, Diagnosis_only),
        (\<not> List.member types action, Action_type_not_allowed action)] @ sanity in
      if errors \<noteq> [] then Inr (errors, [])
      else ebind (authorize_evidence L tool args cutoff ttl now)
        (\<lambda>(es, rs). Inr (es, from_keys (map ev_ref rs)))) = Inr ([], refs)"
    unfolding proposal_authorization_def by (auto simp: ebind_Inr_iff)
  then have e: "errors_of [(\<not> allowed, Diagnosis_only), (\<not> List.member types action, Action_type_not_allowed action)] = []"
    and r: "ebind (authorize_evidence L tool args cutoff ttl now)
        (\<lambda>(es, rs). Inr (es, from_keys (map ev_ref rs))) = Inr ([], refs)"
    by (auto simp: Let_def simp del: errors_of_simps split: if_splits)
  from e have "allowed" "action \<in> set types" by (simp_all split: if_splits)
  moreover from r obtain rs where "authorize_evidence L tool args cutoff ttl now = Inr ([], rs)"
    "refs = from_keys (map ev_ref rs)" by (auto simp: ebind_Inr_iff)
  ultimately show thesis using that [OF a] by blast
qed

lemma evidence_backed:
  assumes "authorize_evidence L tool args cutoff ttl now = Inr ([], rs)"
  shows "backed L cutoff rs" and "rs \<noteq> []"
  using assms index_backed rewrite_backed analyze_backed terminate_backed
  by (auto simp: authorize_evidence_def split: if_splits)

lemma authorization_backed:
  assumes "proposal_authorization L tool args allowed types cutoff ttl now = Inr ([], refs)"
  shows "refs \<noteq> []" and "distinct refs"
    and "ref \<in> set refs \<Longrightarrow> \<exists>r \<in> set (up_to cutoff (lg_records L)). ev_ref r = ref \<and> ev_status r = ''success''"
proof -
  from assms obtain action rs where refs: "refs = from_keys (map ev_ref rs)"
    and a: "authorize_evidence L tool args cutoff ttl now = Inr ([], rs)"
    by (rule authorizationE)
  note b = evidence_backed [OF a]
  from b(2) obtain r rs' where "rs = r # rs'" by (cases rs) auto
  then show "refs \<noteq> []" by (simp add: refs)
  show "distinct refs" by (simp add: refs)
  show "ref \<in> set refs \<Longrightarrow> \<exists>r \<in> set (up_to cutoff (lg_records L)). ev_ref r = ref \<and> ev_status r = ''success''"
    using b(1) by (auto simp: refs backed_def)
qed

text \<open>
  C13: An authorized termination proposal rests on the newest read of the lock graph in the
  whole ledger: it was recorded before the turn, succeeded, is not older than the evidence
  lifetime, and shows the same waiting pair with the blocker idle in a transaction; proposals
  and this action type are allowed for the run.
\<close>

theorem termination_authorized:
  assumes "proposal_authorization L ''propose_terminate_backend'' args allowed types cutoff ttl now = Inr ([], refs)"
  shows "allowed \<and> ''TERMINATE_BACKEND'' \<in> set types \<and>
    (\<exists>r. refs = [ev_ref r] \<and> newest_lock_read L cutoff r \<and> ev_status r = ''success''
       \<and> now - ev_monotonic r \<le> ttl \<and> shows_pair (ev_result r) args)"
proof -
  from assms obtain action rs where 1: "map_of PROPOSAL_TOOL_TO_ACTION ''propose_terminate_backend'' = Some action"
    "allowed" "action \<in> set types" "refs = from_keys (map ev_ref rs)"
    and "authorize_evidence L ''propose_terminate_backend'' args cutoff ttl now = Inr ([], rs)"
    by (rule authorizationE)
  then have "authorize_terminate L cutoff ttl now args = Inr ([], rs)" by (simp add: authorize_evidence_def)
  then obtain r where "rs = [r]" "newest_lock_read L cutoff r" "ev_status r = ''success''"
    "now - ev_monotonic r \<le> ttl" "shows_pair (ev_result r) args" by (rule terminate_latest)
  with 1 show ?thesis by (auto simp: PROPOSAL_TOOL_TO_ACTION_def)
qed

end
