(* ===== verification/AgentTurn.thy ===== *)
theory AgentTurn
  imports Evidence Actions Diagnostics
begin

text \<open>
  \<open>agent_context.py\<close> and \<open>agent_tool_execution.py\<close>: the state of one diagnostic run and the serial
  execution of the tool calls of one model turn. What the run calls is a field of the
  environment: the tools behind the registry, the clock, the run memory, the knowledge session
  and the texts of errors; each may answer differently at every reading of the clock, and may
  raise. Telemetry only observes and is left out.
\<close>

section \<open>State\<close>

record knowledge =
  kb_initial :: "string option"
  kb_reply :: "nat \<Rightarrow> pyval \<Rightarrow> (pyval \<times> string) exc"
  kb_required :: "string list"
  kb_successes :: "nat \<Rightarrow> nat"
  kb_errors :: "nat \<Rightarrow> string \<Rightarrow> string list \<Rightarrow> string list exc"

record agent_env =
  ae_platform :: platform
  ae_run_id :: string
  ae_started :: rat
  ae_now :: "nat \<Rightarrow> rat"
  ae_stamp :: "nat \<Rightarrow> string"
  ae_deadline :: rat
  ae_ttl :: rat
  ae_max_iterations :: nat
  ae_max_total :: nat
  ae_max_per_turn :: nat
  ae_max_output :: pyval
  ae_proposals_allowed :: bool
  ae_allowed :: "string list"
  ae_schemas :: "(string \<times> tool_schema) list"
  ae_capability :: "string \<Rightarrow> pyval option"
  ae_loads :: "string option \<Rightarrow> string + pyval"
  ae_invoke :: "nat \<Rightarrow> string \<Rightarrow> arguments \<Rightarrow> pyval exc"
  ae_checkpoint :: "nat \<Rightarrow> int exc"
  ae_persist :: "nat \<Rightarrow> exn option"
  ae_knowledge :: "knowledge option"
  ae_value_error :: "string \<Rightarrow> bool"
  ae_exn_text :: "exn \<Rightarrow> string"
  ae_argument_text :: "argument_error \<Rightarrow> string"
  ae_authorization_text :: "authorization_error \<Rightarrow> string"
  ae_shape_text :: "proposal_error \<Rightarrow> string"

record agent_context =
  ac_ledger :: ledger
  ac_messages :: "pyval list"
  ac_proposals :: "pyval list"
  ac_trace :: "pyval list"
  ac_errors :: "pyval list"
  ac_attempted :: nat
  ac_llm_turns :: nat
  ac_clock :: nat
  ac_memory :: bool

record run_result =
  rr_status :: string
  rr_stop_reason :: string
  rr_answer :: string
  rr_proposals :: "pyval list"
  rr_trace :: "pyval list"
  rr_errors :: "pyval list"
  rr_attempted :: nat
  rr_succeeded :: nat
  rr_llm_turns :: nat
  rr_elapsed :: pyval
  rr_persisted :: bool

record tool_call =
  tc_id :: "string option"
  tc_name :: "string option"
  tc_arguments :: "string option"

definition KNOWLEDGE_TOOL :: string where
  "KNOWLEDGE_TOOL = ''search_knowledge''"

section \<open>Clock, trace and messages\<close>

definition read_clock :: "agent_env \<Rightarrow> agent_context \<Rightarrow> rat \<times> agent_context" where
  "read_clock E c = (ae_now E (ac_clock c), c\<lparr>ac_clock := Suc (ac_clock c)\<rparr>)"

text \<open>\<open>round(x, 3)\<close>, as an exact decimal.\<close>

definition round3 :: "rat \<Rightarrow> pyval" where
  "round3 x = PFloat (Finite (of_int (round_half_even (x * 1000)) / 1000))"

definition add_message :: "pyval \<Rightarrow> agent_context \<Rightarrow> agent_context" where
  "add_message m c = c\<lparr>ac_messages := ac_messages c @ [m]\<rparr>"

definition add_trace :: "(string \<times> pyval) list \<Rightarrow> agent_context \<Rightarrow> agent_context" where
  "add_trace kvs c = c\<lparr>ac_trace := ac_trace c @ [PDict kvs]\<rparr>"

definition add_error :: "(string \<times> pyval) list \<Rightarrow> agent_context \<Rightarrow> agent_context" where
  "add_error kvs c = c\<lparr>ac_errors := ac_errors c @ [PDict kvs]\<rparr>"

definition tool_message :: "string \<Rightarrow> string \<Rightarrow> pyval" where
  "tool_message call_id content =
     PDict [(''role'', PStr ''tool''), (''tool_call_id'', PStr call_id), (''content'', PStr content)]"

definition typed_error :: "string \<Rightarrow> string \<Rightarrow> (string \<times> pyval) list" where
  "typed_error name message_text = [(''type'', PStr name), (''message'', PStr message_text)]"

section \<open>Memory and the terminal result\<close>

definition checkpoint_memory_run :: "agent_env \<Rightarrow> agent_context \<Rightarrow> agent_context" where
  "checkpoint_memory_run E c =
     (if \<not> ac_memory c then c
      else case ae_checkpoint E (ac_clock c) of
        Inr version \<Rightarrow> c
      | Inl e \<Rightarrow> add_error (typed_error ''MemoryCheckpointError'' (take 500 (ae_exn_text E e)))
                  (c\<lparr>ac_memory := False\<rparr>))"

definition with_capability :: "agent_env \<Rightarrow> pyval \<Rightarrow> pyval" where
  "with_capability E entry =
     (case (dget entry ''tool'', entry) of
        (PStr tool, PDict kvs) \<Rightarrow>
          (case ae_capability E tool of
             Some spec \<Rightarrow> if map_of kvs ''capability'' = None then dset entry ''capability'' spec else entry
           | None \<Rightarrow> entry)
      | _ \<Rightarrow> entry)"

definition persist_memory :: "agent_env \<Rightarrow> agent_context \<Rightarrow> bool \<times> agent_context" where
  "persist_memory E c =
     (if \<not> ac_memory c then (False, c)
      else case ae_persist E (ac_clock c) of
        None \<Rightarrow> (True, c)
      | Some e \<Rightarrow> (False, add_error (typed_error ''MemoryPersistenceError'' (take 500 (ae_exn_text E e))) c))"

definition finish :: "agent_env \<Rightarrow> string \<Rightarrow> string \<Rightarrow> string \<Rightarrow> agent_context \<Rightarrow> agent_context \<times> run_result" where
  "finish E status stop_reason answer c =
     (let (now, c1) = read_clock E c;
          c2 = c1\<lparr>ac_trace := map (with_capability E) (ac_trace c1)\<rparr>;
          (persisted, c3) = persist_memory E c2
      in (c3,
        \<lparr>rr_status = status, rr_stop_reason = stop_reason,
         rr_answer = (if answer = []
           then ''SafeDBA stopped before producing a complete diagnosis ('' @ stop_reason @ '').'' else answer),
         rr_proposals = ac_proposals c3, rr_trace = ac_trace c3, rr_errors = ac_errors c3,
         rr_attempted = ac_attempted c3,
         rr_succeeded = length (filter (\<lambda>r. ev_status r = ''success'') (lg_records (ac_ledger c3)))
           + (case ae_knowledge E of None \<Rightarrow> 0 | Some k \<Rightarrow> kb_successes k (ac_clock c3)),
         rr_llm_turns = ac_llm_turns c3, rr_elapsed = round3 ((now - ae_started E) * 1000),
         rr_persisted = persisted\<rparr>))"

text \<open>The result of a step: the state, and an exception, nothing, or the end of the run.\<close>

type_synonym step_result = "agent_context \<times> run_result option exc"

definition stop :: "agent_env \<Rightarrow> string \<Rightarrow> string \<Rightarrow> agent_context \<Rightarrow> step_result" where
  "stop E status stop_reason c = (let (c', r) = finish E status stop_reason [] c in (c', Inr (Some r)))"

definition past_deadline :: "agent_env \<Rightarrow> rat \<Rightarrow> bool" where
  "past_deadline E now \<longleftrightarrow> ae_deadline E \<le> now - ae_started E"

section \<open>Replies to a call\<close>

text \<open>The reply ends a call: the text may not fit, which raises.\<close>

definition reply :: "agent_env \<Rightarrow> string \<Rightarrow> pyval \<Rightarrow> agent_context \<Rightarrow> step_result" where
  "reply E call_id result c =
     (case serialize_tool_output (ae_platform E) result (ae_max_output E) of
        Inl e \<Rightarrow> (c, Inl e)
      | Inr content \<Rightarrow> (add_message (tool_message call_id content) c, Inr None))"

definition trace_entry ::
  "agent_env \<Rightarrow> string \<Rightarrow> string \<Rightarrow> arguments \<Rightarrow> string \<Rightarrow> pyval \<Rightarrow> (string \<times> pyval) list \<Rightarrow> (string \<times> pyval) list" where
  "trace_entry E call_id tool args status duration extra =
     [(''tool_call_id'', PStr call_id), (''tool'', PStr tool),
      (''arguments'', summarize_arguments (ae_platform E) args), (''status'', PStr status),
      (''duration_ms'', duration)] @ extra"

definition record_evidence ::
  "agent_env \<Rightarrow> string \<Rightarrow> arguments \<Rightarrow> pyval \<Rightarrow> string \<Rightarrow> rat \<Rightarrow> agent_context \<Rightarrow> evidence_record \<times> agent_context" where
  "record_evidence E tool args result status duration c =
     (let stamp = ae_stamp E (ac_clock c); (now, c1) = read_clock E c;
          (r, L) = ledger_add (ac_ledger c1) tool args result status duration stamp now
      in (r, c1\<lparr>ac_ledger := L\<rparr>))"

definition invalid_arguments ::
  "agent_env \<Rightarrow> string \<Rightarrow> string \<Rightarrow> pyval option \<Rightarrow> (string \<times> pyval) list \<Rightarrow> agent_context \<Rightarrow> step_result" where
  "invalid_arguments E call_id tool args detail c =
     (case serialize_tool_output (ae_platform E)
             (PDict [(''error'', PDict ((''type'', PStr ''InvalidToolArguments'') # detail))]) (ae_max_output E) of
        Inl e \<Rightarrow> (c, Inl e)
      | Inr content \<Rightarrow>
          (add_message (tool_message call_id content)
            (add_trace [(''tool_call_id'', PStr call_id), (''tool'', PStr tool),
               (''arguments'', case args of Some (PDict kvs) \<Rightarrow> summarize_arguments (ae_platform E) kvs | _ \<Rightarrow> PNone),
               (''status'', PStr ''invalid_arguments''), (''duration_ms'', PFloat (Finite 0))] c), Inr None))"

definition record_rejection ::
  "agent_env \<Rightarrow> string \<Rightarrow> string \<Rightarrow> arguments \<Rightarrow> pyval \<Rightarrow> string \<Rightarrow> agent_context \<Rightarrow> step_result" where
  "record_rejection E call_id tool args result status c =
     (let (r, c1) = record_evidence E tool args result status 0 c in
      reply E call_id result
        (add_trace ((''evidence_ref'', PStr (ev_ref r))
           # trace_entry E call_id tool args status (PFloat (Finite 0))
               [(''result'', summarize_result (ae_platform E) result)]) c1))"

section \<open>One call\<close>

text \<open>The knowledge tool never writes to the ledger, whatever it returns.\<close>

definition knowledge_refs :: "pyval \<Rightarrow> pyval list exc" where
  "knowledge_refs result =
     ebind (read_item result ''matches'') (\<lambda>v. ebind (py_iter v) (map_exc (\<lambda>hit. read_item hit ''ref'')))"

definition invoke_knowledge ::
  "agent_env \<Rightarrow> knowledge \<Rightarrow> string \<Rightarrow> arguments \<Rightarrow> agent_context \<Rightarrow> step_result" where
  "invoke_knowledge E k call_id args c =
     (let (started, c1) = read_clock E c;
          raw = ae_invoke E (ac_clock c1) KNOWLEDGE_TOOL args;
          (status, result, c2) = (case raw of
              Inr v \<Rightarrow> (''success'', v, c1)
            | Inl e \<Rightarrow> (''error'', PDict [(''kind'', PStr ''reference_knowledge''),
                (''status'', PStr ''unavailable''), (''matches'', PList [])],
                add_error ((''tool'', PStr KNOWLEDGE_TOOL) # typed_error ''KnowledgeRetrievalError''
                  ''Reference knowledge is unavailable; no database authority was granted.'') c1)) in
      case kb_reply k (ac_clock c2) result of
        Inl e \<Rightarrow> (c2, Inl e)
      | Inr (delivered, output) \<Rightarrow>
          (let (now, c3) = read_clock E c2 in
           case knowledge_refs delivered of
             Inl e \<Rightarrow> (c3, Inl e)
           | Inr refs \<Rightarrow>
               (add_message (tool_message call_id output)
                 (add_trace (trace_entry E call_id KNOWLEDGE_TOOL args status (round3 ((now - started) * 1000))
                    [(''knowledge_refs'', PList refs), (''result'', summarize_result (ae_platform E) delivered)]) c3),
                Inr None)))"

text \<open>What the proposal tools return must be an object and pass the shape check with its references.\<close>

definition bind_evidence :: "agent_env \<Rightarrow> string \<Rightarrow> string list \<Rightarrow> pyval \<Rightarrow> pyval exc" where
  "bind_evidence E tool refs result =
     (if \<not> is_proposal_tool tool then Inr result
      else if \<not> is_dict result then Inl (TypeError ''Proposal tool returned a non-object.'')
      else
       (let bound = dset result ''evidence_refs'' (PList (map PStr refs)) in
        ebind (validate_proposal_shape (ae_platform E) bound) (\<lambda>check.
          if shape_valid check then Inr bound
          else Inl (ValueError (''Built proposal failed deterministic shape validation: ''
                 @ join ''; '' (map (ae_shape_text E) (shape_errors check)))))))"

text \<open>
  \<open>isinstance(exc, (ValueError, KeyError, TypeError))\<close>; whether the class of another exception is
  derived from one of these is a field of the environment.
\<close>

definition safe_message :: "agent_env \<Rightarrow> exn \<Rightarrow> string" where
  "safe_message E e = (case e of
       ValueError _ \<Rightarrow> take 1000 (ae_exn_text E e) | QuerySafetyError _ \<Rightarrow> take 1000 (ae_exn_text E e)
     | KeyError _ \<Rightarrow> take 1000 (ae_exn_text E e) | TypeError _ \<Rightarrow> take 1000 (ae_exn_text E e)
     | OtherException n \<Rightarrow> (if ae_value_error E n then take 1000 (ae_exn_text E e)
         else ''Tool execution failed with '' @ n @ ''.'')
     | _ \<Rightarrow> ''Tool execution failed with '' @ exn_name e @ ''.'')"

text \<open>
  The body of the \<open>try\<close>: the state it reached, and its exception or the text of the reply. A
  text that does not fit raises after the record was added, and the call gets a second one.
\<close>

definition call_tool ::
  "agent_env \<Rightarrow> string \<Rightarrow> string \<Rightarrow> arguments \<Rightarrow> string list \<Rightarrow> rat \<Rightarrow> agent_context \<Rightarrow> agent_context \<times> string exc" where
  "call_tool E call_id tool args refs started c =
     (case ae_invoke E (ac_clock c) tool args of
        Inl e \<Rightarrow> (c, Inl e)
      | Inr raw \<Rightarrow>
         (let (now, c1) = read_clock E c; duration = (now - started) * 1000 in
          case bind_evidence E tool refs raw of
            Inl e \<Rightarrow> (c1, Inl e)
          | Inr result \<Rightarrow>
             (let (r, c2) = record_evidence E tool args result ''success'' duration c1 in
              case serialize_tool_output (ae_platform E)
                     (PDict [(''evidence_ref'', PStr (ev_ref r)), (''data'', result)]) (ae_max_output E) of
                Inl e \<Rightarrow> (c2, Inl e)
              | Inr output \<Rightarrow>
                  (add_trace ((''evidence_ref'', PStr (ev_ref r))
                     # trace_entry E call_id tool args ''success'' (round3 duration)
                         [(''result'', summarize_result (ae_platform E) result)])
                    (if is_proposal_tool tool then c2\<lparr>ac_proposals := ac_proposals c2 @ [result]\<rparr> else c2),
                   Inr output))))"

definition failed_call ::
  "agent_env \<Rightarrow> string \<Rightarrow> string \<Rightarrow> arguments \<Rightarrow> rat \<Rightarrow> exn \<Rightarrow> agent_context \<Rightarrow> step_result" where
  "failed_call E call_id tool args started e c =
     (let (now, c1) = read_clock E c; duration = (now - started) * 1000;
          error = typed_error (exn_name e) (safe_message E e); result = PDict [(''error'', PDict error)];
          (r, c2) = record_evidence E tool args result ''error'' duration c1;
          c3 = add_error ([(''evidence_ref'', PStr (ev_ref r)), (''tool'', PStr tool)] @ error) c2 in
      reply E call_id result
        (add_trace ((''evidence_ref'', PStr (ev_ref r))
           # trace_entry E call_id tool args ''error'' (round3 duration)
               [(''result'', summarize_result (ae_platform E) result)]) c3))"

definition run_tool ::
  "agent_env \<Rightarrow> string \<Rightarrow> string \<Rightarrow> arguments \<Rightarrow> string list \<Rightarrow> agent_context \<Rightarrow> step_result" where
  "run_tool E call_id tool args refs c =
     (let c1 = c\<lparr>ac_ledger := mark_attempted (ae_platform E) (ac_ledger c) tool args\<rparr>;
          (started, c2) = read_clock E c1;
          (c3, outcome) = call_tool E call_id tool args refs started c2 in
      case outcome of
        Inr output \<Rightarrow> (add_message (tool_message call_id output) c3, Inr None)
      | Inl e \<Rightarrow> failed_call E call_id tool args started e c3)"

definition authorize :: "agent_env \<Rightarrow> string \<Rightarrow> arguments \<Rightarrow> nat \<Rightarrow> agent_context
    \<Rightarrow> agent_context \<times> (authorization_error list \<times> string list) exc" where
  "authorize E tool args cutoff c =
     (if is_proposal_tool tool
      then (let (now, c1) = read_clock E c in
        (c1, proposal_authorization (ac_ledger c1) tool (PDict args) (ae_proposals_allowed E) (ae_allowed E)
               (Some cutoff) (ae_ttl E) now))
      else (c, Inr ([], [])))"

definition run_call ::
  "agent_env \<Rightarrow> nat \<Rightarrow> string \<Rightarrow> string \<Rightarrow> arguments \<Rightarrow> agent_context \<Rightarrow> step_result" where
  "run_call E cutoff call_id tool args c =
     (if is_duplicate (ae_platform E) (ac_ledger c) tool args
      then record_rejection E call_id tool args (PDict [(''error'', PDict (typed_error ''DuplicateToolCall''
             ''An identical tool call already ran in this diagnostic turn.''))]) ''blocked_duplicate'' c
      else case authorize E tool args cutoff c of
        (c1, Inl e) \<Rightarrow> (c1, Inl e)
      | (c1, Inr (errors, refs)) \<Rightarrow>
          if errors \<noteq> []
          then record_rejection E call_id tool args (PDict [(''error'', PDict
                 [(''type'', PStr ''ProposalPolicyRejected''),
                  (''messages'', PList (map (\<lambda>e. PStr (ae_authorization_text E e)) errors))])]) ''policy_rejected'' c1
          else run_tool E call_id tool args refs c1)"

definition argument_messages :: "agent_env \<Rightarrow> string \<Rightarrow> pyval \<Rightarrow> string list exc" where
  "argument_messages E tool args =
     (case map_of (ae_schemas E) tool of
        None \<Rightarrow> Inr [''Unknown tool: '' @ tool]
      | Some S \<Rightarrow> ebind (validate_tool_arguments S args) (\<lambda>es. Inr (map (ae_argument_text E) es)))"

definition checked_call ::
  "agent_env \<Rightarrow> nat \<Rightarrow> string \<Rightarrow> string \<Rightarrow> string option \<Rightarrow> agent_context \<Rightarrow> step_result" where
  "checked_call E cutoff call_id tool raw c =
     (case ae_loads E raw of
        Inl m \<Rightarrow> invalid_arguments E call_id tool None [(''message'', PStr (take 500 m))] c
      | Inr v \<Rightarrow>
         (case argument_messages E tool v of
            Inl e \<Rightarrow> (c, Inl e)
          | Inr messages \<Rightarrow>
              if messages \<noteq> []
              then invalid_arguments E call_id tool (Some v) [(''messages'', PList (map PStr messages))] c
              else (case (v, ae_knowledge E) of
                  (PDict args, Some k) \<Rightarrow>
                    if tool = KNOWLEDGE_TOOL then invoke_knowledge E k call_id args c
                    else run_call E cutoff call_id tool args c
                | (PDict args, None) \<Rightarrow> run_call E cutoff call_id tool args c
                | _ \<Rightarrow> (c, Inl (TypeError ''arguments'')))))"

definition invoke_one :: "agent_env \<Rightarrow> nat \<Rightarrow> tool_call \<Rightarrow> agent_context \<Rightarrow> step_result" where
  "invoke_one E cutoff call c =
     (let (now, c1) = read_clock E c in
      if past_deadline E now then stop E ''stopped'' ''deadline_exceeded'' c1
      else case (tc_id call, tc_name call) of
        (Some (x # call_id), Some (y # tool)) \<Rightarrow>
          checked_call E cutoff (x # call_id) (y # tool) (tc_arguments call) c1
      | _ \<Rightarrow> stop E ''failed'' ''malformed_tool_call''
               (add_error (typed_error ''MalformedToolCall'' ''Tool call lacked an ID or function name.'') c1))"

section \<open>One turn\<close>

fun invoke_all :: "agent_env \<Rightarrow> nat \<Rightarrow> tool_call list \<Rightarrow> agent_context \<Rightarrow> step_result" where
  "invoke_all E cutoff [] c = (c, Inr None)"
| "invoke_all E cutoff (call # calls) c =
     (case invoke_one E cutoff call c of
        (c1, Inr None) \<Rightarrow> invoke_all E cutoff calls c1
      | stopped \<Rightarrow> stopped)"

definition budget_exceeded :: "agent_env \<Rightarrow> string \<Rightarrow> string \<Rightarrow> agent_context \<Rightarrow> step_result" where
  "budget_exceeded E message_text reason c =
     stop E ''stopped'' reason (add_error (typed_error ''ToolBudgetExceeded'' message_text) c)"

definition run_turn :: "agent_env \<Rightarrow> tool_call list \<Rightarrow> agent_context \<Rightarrow> step_result" where
  "run_turn E calls c =
     (if ae_max_per_turn E < length calls
      then budget_exceeded E ''Model requested too many tool calls in one turn.'' ''per_turn_tool_budget_exceeded'' c
      else if ae_max_total E < ac_attempted c + length calls
      then budget_exceeded E ''Model requested more tool calls than the run budget allows.'' ''total_tool_budget_exceeded'' c
      else
       (let c1 = c\<lparr>ac_attempted := ac_attempted c + length calls\<rparr> in
        case invoke_all E (length (lg_records (ac_ledger c1))) calls c1 of
          (c2, Inr None) \<Rightarrow> (checkpoint_memory_run E c2, Inr None)
        | stopped \<Rightarrow> stopped))"

section \<open>The initial lookup\<close>

text \<open>
  One read of the knowledge tool before the first model turn, through the normal channel; its
  last trace entry says that the run chose it.
\<close>

definition lookup_text :: "string list \<Rightarrow> string" where
  "lookup_text needed =
     ''The runtime selected an initial read-only knowledge lookup for this request.''
     @ (if needed = [] then [] else
          '' This does not complete the current-database part: continue with the requested observations using ''
          @ join '', '' (sort needed) @ '', subject to runtime policy, before answering.'')"

definition mark_origin :: "agent_context \<Rightarrow> agent_context" where
  "mark_origin c = c\<lparr>ac_trace := (if ac_trace c = [] then [] else
     butlast (ac_trace c) @ [dset (last (ac_trace c)) ''origin'' (PStr ''runtime_knowledge_prefetch'')])\<rparr>"

definition prefetch_call :: "agent_env \<Rightarrow> string \<Rightarrow> tool_call" where
  "prefetch_call E query = \<lparr>tc_id = Some (''runtime-knowledge-'' @ ae_run_id E), tc_name = Some KNOWLEDGE_TOOL,
     tc_arguments = Some (json_dumps (ae_platform E) '', '' '': '' (PDict [(''query'', PStr query)]))\<rparr>"

definition prefetch_message :: "agent_env \<Rightarrow> knowledge \<Rightarrow> string \<Rightarrow> pyval" where
  "prefetch_message E k query =
     (let call = prefetch_call E query in PDict
       [(''role'', PStr ''assistant''), (''content'', PStr (lookup_text (kb_required k))),
        (''tool_calls'', PList [PDict [(''id'', PStr (the (tc_id call))), (''type'', PStr ''function''),
           (''function'', PDict [(''name'', PStr KNOWLEDGE_TOOL), (''arguments'', PStr (the (tc_arguments call)))])]])])"

definition prefetch_knowledge :: "agent_env \<Rightarrow> agent_context \<Rightarrow> step_result" where
  "prefetch_knowledge E c = (case ae_knowledge E of None \<Rightarrow> (c, Inr None)
     | Some k \<Rightarrow> (case kb_initial k of None \<Rightarrow> (c, Inr None)
        | Some query \<Rightarrow>
            if ae_max_total E \<le> ac_attempted c then stop E ''stopped'' ''total_tool_budget_exceeded'' c
            else
             (let c1 = (add_message (prefetch_message E k query) c)\<lparr>ac_attempted := ac_attempted c + 1\<rparr> in
              case invoke_one E (length (lg_records (ac_ledger c1))) (prefetch_call E query) c1 of
                (c2, Inr None) \<Rightarrow> (checkpoint_memory_run E (mark_origin c2), Inr None)
              | stopped \<Rightarrow> stopped)))"

end
