(* ===== verification/AgentRun.thy ===== *)
theory AgentRun
  imports AgentTurn
begin

text \<open>
  \<open>agent_graph.py\<close> and the nodes of \<open>agent_runtime.py\<close>: the policy of a run, the model step, the
  answer step, and the graph that schedules them. The model behind the provider is a field of
  the nodes; it may answer anything or raise. The graph is stepped at most the number of times
  that its \<open>recursion_limit\<close> allows. Token counts, the trace of the model calls and telemetry are
  left out.
\<close>

section \<open>Policy of a run\<close>

definition ALL_ACTION_TYPES :: "string list" where
  "ALL_ACTION_TYPES = map snd PROPOSAL_TOOL_TO_ACTION"

definition resolve_proposals_allowed :: "string \<Rightarrow> string \<Rightarrow> bool" where
  "resolve_proposals_allowed mode user_message =
     (mode = ''propose'' \<or> (mode = ''auto'' \<and> is_explicit_proposal_request user_message
        \<and> \<not> is_diagnosis_only_request user_message))"

text \<open>\<open>str.upper\<close> of the characters of an action type.\<close>

definition normalize_action :: "string \<Rightarrow> string" where
  "normalize_action s = map upper_char (strip s)"

definition resolve_allowed_actions :: "string list option \<Rightarrow> string list exc" where
  "resolve_allowed_actions requested =
     (let allowed = (case requested of None \<Rightarrow> ALL_ACTION_TYPES | Some names \<Rightarrow> map normalize_action names);
          unknown = without allowed ALL_ACTION_TYPES in
      if unknown \<noteq> [] then Inl (ValueError (''Unknown allowed action types: '' @ join '', '' unknown))
      else Inr allowed)"

definition budgets_error :: "pyval \<Rightarrow> pyval \<Rightarrow> pyval \<Rightarrow> pyval \<Rightarrow> pyval \<Rightarrow> exn option" where
  "budgets_error iterations in_all per_turn output deadline = first_error
     [(\<not> is_positive_int iterations, ValueError ''max_iterations must be positive.''),
      (32 < int_of iterations, ValueError ''max_iterations exceeds the safety bound of 32.''),
      (\<not> list_all is_positive_int [in_all, per_turn, output],
         ValueError ''Agent tool budgets must be positive integers.''),
      (int_of in_all < int_of per_turn, ValueError ''Per-turn tool budget cannot exceed the total budget.''),
      (100 < int_of in_all \<or> 20 < int_of per_turn \<or> 1000000 < int_of output,
         ValueError ''Agent tool budgets exceed their safety bounds.''),
      (int_of output < 256, ValueError ''max_tool_output_chars must be at least 256.''),
      (float_overflow deadline, overflow_error),
      (\<not> is_number deadline \<or> \<not> finite_value deadline \<or> \<not> is_above_zero deadline \<or> \<not> at_most 900 deadline,
         ValueError ''deadline_seconds must be finite and between 0 and 900.'')]"

text \<open>The proposal tools the model sees are those of the allowed action types.\<close>

definition available_tools :: "bool \<Rightarrow> string list \<Rightarrow> string list \<Rightarrow> string list" where
  "available_tools proposals allowed tools = filter (\<lambda>tool.
     case map_of PROPOSAL_TOOL_TO_ACTION tool of None \<Rightarrow> True
     | Some action \<Rightarrow> proposals \<and> List.member allowed action) tools"

record run_policy =
  rp_proposals_allowed :: bool
  rp_mode :: string
  rp_allowed :: "string list"
  rp_tools :: "string list"

definition configure_policy ::
  "string \<Rightarrow> string \<Rightarrow> pyval \<times> pyval \<times> pyval \<times> pyval \<times> pyval \<Rightarrow> string list option \<Rightarrow> string list \<Rightarrow> run_policy exc" where
  "configure_policy user_message mode budgets requested tools =
     (if \<not> List.member [''auto'', ''diagnose'', ''propose''] mode
      then Inl (ValueError ''Agent mode must be auto, diagnose, or propose.'')
      else case budgets of (iterations, in_all, per_turn, output_chars, deadline) \<Rightarrow>
       (case budgets_error iterations in_all per_turn output_chars deadline of
          Some e \<Rightarrow> Inl e
        | None \<Rightarrow> ebind (resolve_allowed_actions requested) (\<lambda>allowed.
            let proposals = resolve_proposals_allowed mode user_message in
            Inr \<lparr>rp_proposals_allowed = proposals,
                 rp_mode = (if proposals then ''propose'' else ''diagnose''), rp_allowed = allowed,
                 rp_tools = available_tools proposals allowed tools\<rparr>)))"

section \<open>The model step\<close>

record model_message =
  mm_history :: pyval
  mm_tool_calls :: "tool_call list"
  mm_content :: "string option"

record model_choice =
  mc_message :: "model_message option"
  mc_finish_reason :: "string option"

record nodes =
  nd_policy_text :: string
  nd_verify :: "exn option"
  nd_exn_text :: "exn \<Rightarrow> string"
  nd_citation_text :: "citation_error \<Rightarrow> string"
  nd_policy_blocked :: "nat \<Rightarrow> string option"
  nd_complete :: "nat \<Rightarrow> pyval list \<Rightarrow> model_choice list exc"

text \<open>What the model step leaves for the next node: the message, its calls and the finish reason.\<close>

record turn =
  tn_calls :: "tool_call list"
  tn_content :: "string option"
  tn_finish_reason :: "string option"

definition accept_message ::
  "agent_env \<Rightarrow> model_message \<Rightarrow> string option \<Rightarrow> agent_context \<Rightarrow> agent_context \<times> turn \<times> run_result option" where
  "accept_message E m reason c =
     (let c1 = add_message (mm_history m) c;
          t = \<lparr>tn_calls = mm_tool_calls m, tn_content = mm_content m, tn_finish_reason = reason\<rparr> in
      if mm_tool_calls m \<noteq> [] \<and> (reason = Some ''length'' \<or> reason = Some ''content_filter'')
      then (let (c2, r) = finish E ''stopped'' (''model_'' @ the reason) []
              (add_error (typed_error ''TruncatedToolCallResponse''
                ''Provider returned tool calls from a truncated or filtered response; no tools were executed.'') c1)
            in (c2, t, Some r))
      else if mm_tool_calls m \<noteq> [] \<and> reason \<noteq> Some ''tool_calls'' \<and> reason \<noteq> Some ''function_call''
      then (let (c2, r) = finish E ''failed'' ''malformed_provider_response'' []
              (add_error (typed_error ''MalformedProviderResponse''
                ''Provider returned tool calls with an inconsistent finish reason.'') c1)
            in (c2, t, Some r))
      else (c1, t, None))"

definition end_turn ::
  "agent_env \<Rightarrow> turn \<Rightarrow> string \<Rightarrow> string \<Rightarrow> (string \<times> pyval) list \<Rightarrow> agent_context
     \<Rightarrow> agent_context \<times> turn \<times> run_result option" where
  "end_turn E t status reason error c =
     (let (c1, r) = finish E status reason [] (add_error error c) in (c1, t, Some r))"

definition model_step ::
  "agent_env \<Rightarrow> nodes \<Rightarrow> turn \<Rightarrow> agent_context \<Rightarrow> agent_context \<times> turn \<times> run_result option" where
  "model_step E N t c =
     (case nd_policy_blocked N (ac_clock c) of
        Some m \<Rightarrow> end_turn E t ''stopped'' ''runtime_policy_blocked'' (typed_error ''RuntimePolicyError'' m) c
      | None \<Rightarrow>
         (let (now, c1) = read_clock E c in
          if past_deadline E now
          then (let (c2, r) = finish E ''stopped'' ''deadline_exceeded'' [] c1 in (c2, t, Some r))
          else
           (let (started, c2) = read_clock E c1 in
            case nd_complete N (ac_clock c2) (ac_messages c2) of
              Inl e \<Rightarrow>
                end_turn E t ''failed'' ''provider_error''
                  (typed_error (exn_name e) ''LLM provider request failed.'') (snd (read_clock E c2))
            | Inr choices \<Rightarrow>
               (let c3 = snd (read_clock E (c2\<lparr>ac_llm_turns := Suc (ac_llm_turns c2)\<rparr>)) in
                case choices of
                  [] \<Rightarrow> end_turn E t ''failed'' ''malformed_provider_response''
                     (typed_error ''MalformedProviderResponse'' ''Provider response contained no choices.'') c3
                | choice # _ \<Rightarrow>
                   (case mc_message choice of
                      None \<Rightarrow> end_turn E t ''failed'' ''malformed_provider_response''
                        (typed_error ''MalformedProviderResponse'' ''Provider choice contained no message.'') c3
                    | Some m \<Rightarrow> accept_message E m (mc_finish_reason choice) c3)))))"

section \<open>The answer step\<close>

text \<open>
  \<open>[kb-...]\<close> and \<open>[ev-...]\<close> lose their brackets. The ellipsis the code writes, which is no
  character below 256, is written as three dots.
\<close>

definition placeholder :: "string \<Rightarrow> (string \<times> string) option" where
  "placeholder s =
     (case lit ''[kb-...]'' s of Some r \<Rightarrow> Some (take 2 (drop 1 s), r)
      | None \<Rightarrow> (case lit ''[ev-...]'' s of Some r \<Rightarrow> Some (take 2 (drop 1 s), r) | None \<Rightarrow> None))"

function normalize_citation_placeholders :: "string \<Rightarrow> string" where
  "normalize_citation_placeholders s =
     (case s of [] \<Rightarrow> []
      | c # t \<Rightarrow> (case placeholder s of
           Some (kind, r) \<Rightarrow> (if length r < length s then kind @ ''-...'' @ normalize_citation_placeholders r else s)
         | None \<Rightarrow> c # normalize_citation_placeholders t))"
  by pat_completeness auto

termination by (relation "measure length") auto

declare normalize_citation_placeholders.simps [simp del]

definition evidence_refs_of :: "pyval \<Rightarrow> string list exc" where
  "evidence_refs_of proposal =
     ebind (py_iter (dget_default proposal ''evidence_refs'' (PList [])))
       (\<lambda>vs. Inr (map str_of (filter is_str vs)))"

definition required_refs :: "pyval list \<Rightarrow> string list exc" where
  "required_refs proposals = ebind (map_exc evidence_refs_of proposals) (\<lambda>rss. Inr (concat rss))"

text \<open>The observations a mixed request still lacks.\<close>

definition attempted_tools :: "agent_context \<Rightarrow> string list" where
  "attempted_tools c = map (\<lambda>entry. str_of (dget entry ''tool''))
     (filter (\<lambda>entry. dget entry ''status'' = PStr ''success'' \<or> dget entry ''status'' = PStr ''error'') (ac_trace c))"

definition missing_observations :: "agent_env \<Rightarrow> agent_context \<Rightarrow> string list" where
  "missing_observations E c = (case ae_knowledge E of None \<Rightarrow> []
     | Some k \<Rightarrow> without (kb_required k) (attempted_tools c))"

definition user_message :: "string \<Rightarrow> pyval" where
  "user_message s = PDict [(''role'', PStr ''user''), (''content'', PStr s)]"

text \<open>A draft that may not end the run: another iteration, or the end without completion.\<close>

definition reject_draft ::
  "agent_env \<Rightarrow> nat \<Rightarrow> string \<Rightarrow> string \<Rightarrow> (string \<times> pyval) list \<Rightarrow> string \<Rightarrow> agent_context \<Rightarrow> step_result" where
  "reject_draft E iteration content reason error repair c =
     (if ae_max_iterations E \<le> iteration + 1
      then (let (c1, r) = finish E ''stopped'' reason content (add_error error c) in (c1, Inr (Some r)))
      else (add_message (user_message repair) c, Inr None))"

definition knowledge_errors :: "agent_env \<Rightarrow> string \<Rightarrow> agent_context \<Rightarrow> string list exc" where
  "knowledge_errors E content c = (case ae_knowledge E of None \<Rightarrow> Inr []
     | Some k \<Rightarrow> kb_errors k (ac_clock c) content (successful_refs (lg_records (ac_ledger c))))"

definition citation_errors :: "agent_env \<Rightarrow> nodes \<Rightarrow> string \<Rightarrow> agent_context \<Rightarrow> string list exc" where
  "citation_errors E N content c =
     ebind (required_refs (ac_proposals c)) (\<lambda>required.
     ebind (knowledge_errors E content c) (\<lambda>more_errors.
       Inr (map (nd_citation_text N) (validate_answer_evidence content (lg_records (ac_ledger c)) None required)
            @ more_errors)))"

definition MIXED_REQUEST :: string where
  "MIXED_REQUEST = ''The mixed request is incomplete: reference knowledge does not satisfy the requested current database observations. Use these read-only tools before answering: ''"

definition RESPECT_POLICY :: string where
  "RESPECT_POLICY = ''. Respect runtime policy. No additional user approval is needed for observations already permitted by that policy. If an observation fails, disclose the failure rather than invent a result. Do not execute mutations.''"

definition REVISE_DRAFT :: string where
  "REVISE_DRAFT = ''Deterministic evidence policy rejected the draft answer. Revise it without calling more tools and cite the required successful evidence references exactly. ''"

definition judge_answer :: "agent_env \<Rightarrow> nodes \<Rightarrow> nat \<Rightarrow> string \<Rightarrow> agent_context \<Rightarrow> step_result" where
  "judge_answer E N iteration content c =
     (let missing = missing_observations E c in
      if missing \<noteq> []
      then reject_draft E iteration content ''required_observation_missing''
        [(''type'', PStr ''RequiredObservationMissing''), (''tools'', PList (map PStr missing))]
        (MIXED_REQUEST @ join '', '' missing @ RESPECT_POLICY) c
      else case citation_errors E N content c of
        Inl e \<Rightarrow> (c, Inl e)
      | Inr errors \<Rightarrow>
          if errors \<noteq> []
          then reject_draft E iteration content ''evidence_citation_missing''
            [(''type'', PStr ''EvidenceCitationRequired''), (''messages'', PList (map PStr errors))]
            (REVISE_DRAFT @ join '' '' errors) c
          else (let (c1, r) = finish E ''completed'' ''final_answer'' content c in (c1, Inr (Some r))))"

definition answer_step :: "agent_env \<Rightarrow> nodes \<Rightarrow> nat \<Rightarrow> turn \<Rightarrow> agent_context \<Rightarrow> step_result" where
  "answer_step E N iteration t c =
     (let content = (case tn_content t of None \<Rightarrow> [] | Some s \<Rightarrow> s); reason = tn_finish_reason t in
      if strip content = []
      then stop E ''failed'' ''empty_model_response''
        (add_error (typed_error ''EmptyAgentAnswer'' ''Model returned neither tools nor an answer.'') c)
      else if reason = Some ''length'' \<or> reason = Some ''content_filter''
      then (let (c1, r) = finish E ''stopped'' (''model_'' @ the reason) content c in (c1, Inr (Some r)))
      else judge_answer E N iteration (normalize_citation_placeholders content) c)"

section \<open>The graph\<close>

datatype node = Model | Tools | Answer | End

record graph =
  gs_node :: node
  gs_iteration :: nat
  gs_turn :: turn
  gs_context :: agent_context
  gs_result :: "run_result option"

definition model_node :: "agent_env \<Rightarrow> nodes \<Rightarrow> graph \<Rightarrow> graph exc" where
  "model_node E N g =
     (if ae_max_iterations E \<le> gs_iteration g
      then (let (c, r) = finish E ''stopped'' ''max_iterations_exceeded'' [] (gs_context g)
            in Inr (g\<lparr>gs_node := End, gs_context := c, gs_result := Some r\<rparr>))
      else (let (c, t, result) = model_step E N (gs_turn g) (gs_context g) in
        Inr (g\<lparr>gs_node := (if result \<noteq> None then End else if tn_calls t \<noteq> [] then Tools else Answer),
               gs_turn := t, gs_context := c, gs_result := result\<rparr>)))"

text \<open>The tools and the answer node: the next iteration begins, unless the step ended the run.\<close>

definition next_iteration :: "graph \<Rightarrow> step_result \<Rightarrow> graph exc" where
  "next_iteration g s =
     ebind (snd s) (\<lambda>result. Inr (g\<lparr>gs_node := (if result \<noteq> None then End else Model),
       gs_iteration := gs_iteration g + 1, gs_context := fst s, gs_result := result\<rparr>))"

definition graph_step :: "agent_env \<Rightarrow> nodes \<Rightarrow> graph \<Rightarrow> graph exc" where
  "graph_step E N g = (case gs_node g of
       Model \<Rightarrow> model_node E N g
     | Tools \<Rightarrow> next_iteration g (run_turn E (tn_calls (gs_turn g)) (gs_context g))
     | Answer \<Rightarrow> next_iteration g (answer_step E N (gs_iteration g) (gs_turn g) (gs_context g))
     | End \<Rightarrow> Inr g)"

text \<open>\<open>None\<close>: the recursion limit is reached before the graph ends.\<close>

fun graph_loop :: "agent_env \<Rightarrow> nodes \<Rightarrow> nat \<Rightarrow> graph \<Rightarrow> graph exc option" where
  "graph_loop E N n g = (if gs_node g = End then Some (Inr g) else case n of
       0 \<Rightarrow> None
     | Suc m \<Rightarrow> (case graph_step E N g of Inl e \<Rightarrow> Some (Inl e) | Inr g' \<Rightarrow> graph_loop E N m g'))"

declare graph_loop.simps [simp del]

definition recursion_limit :: "agent_env \<Rightarrow> nat" where
  "recursion_limit E = 2 * ae_max_iterations E + 3"

definition start_graph :: "agent_context \<Rightarrow> graph" where
  "start_graph c = \<lparr>gs_node = Model, gs_iteration = 0,
     gs_turn = \<lparr>tn_calls = [], tn_content = None, tn_finish_reason = None\<rparr>, gs_context = c, gs_result = None\<rparr>"

definition run_diagnostic_graph ::
  "agent_env \<Rightarrow> nodes \<Rightarrow> agent_context \<Rightarrow> (agent_context \<times> run_result) exc" where
  "run_diagnostic_graph E N c =
     (case graph_loop E N (recursion_limit E) (start_graph c) of
        None \<Rightarrow> Inl (OtherException ''GraphRecursionError'')
      | Some (Inl e) \<Rightarrow> Inl e
      | Some (Inr g) \<Rightarrow> (case gs_result g of
            None \<Rightarrow> Inl (OtherException ''RuntimeError'') | Some r \<Rightarrow> Inr (gs_context g, r)))"

section \<open>The run\<close>

definition system_message :: "string \<Rightarrow> pyval" where
  "system_message s = PDict [(''role'', PStr ''system''), (''content'', PStr s)]"

definition start_run :: "bool \<Rightarrow> pyval list \<Rightarrow> pyval list \<Rightarrow> agent_context" where
  "start_run memory messages errors =
     \<lparr>ac_ledger = empty_ledger, ac_messages = messages, ac_proposals = [], ac_trace = [], ac_errors = errors,
      ac_attempted = 0, ac_llm_turns = 0, ac_clock = 0, ac_memory = memory\<rparr>"

text \<open>The final context is the run's own; its caller sees the result.\<close>

definition run_agent :: "agent_env \<Rightarrow> nodes \<Rightarrow> agent_context \<Rightarrow> (agent_context \<times> run_result) exc" where
  "run_agent E N c =
     (case nd_policy_blocked N (ac_clock c) of
        Some m \<Rightarrow> Inr (finish E ''stopped'' ''runtime_policy_blocked'' []
                     (add_error (typed_error ''RuntimePolicyError'' m) c))
      | None \<Rightarrow>
         (let c1 = add_message (system_message (nd_policy_text N)) c in
          case nd_verify N of
            Some e \<Rightarrow> Inr (finish E ''failed'' ''runtime_security_check_failed'' []
               (add_error (typed_error (exn_name e) (take 2000 (nd_exn_text N e))) c1))
          | None \<Rightarrow>
             (case prefetch_knowledge E c1 of
                (c2, Inl e) \<Rightarrow> Inl e
              | (c2, Inr (Some r)) \<Rightarrow> Inr (c2, r)
              | (c2, Inr None) \<Rightarrow> run_diagnostic_graph E N c2)))"

end
