(* ===== verification/AgentSafety.thy ===== *)
theory AgentSafety
  imports AgentRun "HOL-Library.Sublist"
begin

text \<open>
  What a run of the agent guarantees, whatever the model, the tools and the clock answer: every
  proposal it returns was authorized by evidence that was in the ledger before its turn, a
  completed answer cites that evidence, every call is answered, the budgets hold, and the graph
  ends within its recursion limit.
\<close>

section \<open>The ledger of a run\<close>

abbreviation records_of :: "agent_context \<Rightarrow> evidence_record list" where
  "records_of c \<equiv> lg_records (ac_ledger c)"

definition refs_to :: "nat \<Rightarrow> string list" where
  "refs_to n = map evidence_ref [1..<Suc n]"

definition ledger_ok :: "ledger \<Rightarrow> bool" where
  "ledger_ok L \<longleftrightarrow> lg_next L = Suc (length (lg_records L))
     \<and> map ev_ref (lg_records L) = refs_to (length (lg_records L))"

lemma refs_to_simps [simp]: "refs_to 0 = []" "refs_to (Suc n) = refs_to n @ [evidence_ref (Suc n)]"
  by (simp_all add: refs_to_def)

lemma ledger_ok_empty: "ledger_ok empty_ledger"
  by (simp add: ledger_ok_def empty_ledger_def)

lemma ledger_ok_add:
  "ledger_add L tool args result status duration stamp now = (r, L') \<Longrightarrow> ledger_ok L \<Longrightarrow>
     ledger_ok L' \<and> lg_records L' = lg_records L @ [r]"
  by (auto simp: ledger_ok_def ledger_add_def Let_def)

lemma mark_attempted_same [simp]:
  "lg_records (mark_attempted P L tool args) = lg_records L" "lg_next (mark_attempted P L tool args) = lg_next L"
  by (simp_all add: mark_attempted_def)

section \<open>Authorized proposals\<close>

definition authorized :: "agent_env \<Rightarrow> evidence_record list \<Rightarrow> string list \<Rightarrow> bool" where
  "authorized E rs refs \<longleftrightarrow> (\<exists>L tool args n now. prefix (lg_records L) rs \<and> n \<le> length (lg_records L)
     \<and> proposal_authorization L tool (PDict args) (ae_proposals_allowed E) (ae_allowed E) (Some n) (ae_ttl E) now
         = Inr ([], refs))"

definition justified :: "agent_env \<Rightarrow> evidence_record list \<Rightarrow> pyval \<Rightarrow> bool" where
  "justified E rs p \<longleftrightarrow> (\<exists>refs. authorized E rs refs \<and> dget p ''evidence_refs'' = PList (map PStr refs)
     \<and> (\<exists>check. validate_proposal_shape (ae_platform E) p = Inr check \<and> shape_valid check))"

definition sound :: "agent_env \<Rightarrow> agent_context \<Rightarrow> bool" where
  "sound E c \<longleftrightarrow> ledger_ok (ac_ledger c) \<and> (\<forall>p \<in> set (ac_proposals c). justified E (records_of c) p)"

lemma authorized_mono: "authorized E rs refs \<Longrightarrow> prefix rs rs' \<Longrightarrow> authorized E rs' refs"
  unfolding authorized_def using prefix_order.order_trans by blast

lemma justified_mono: "justified E rs p \<Longrightarrow> prefix rs rs' \<Longrightarrow> justified E rs' p"
  unfolding justified_def using authorized_mono by blast

lemma authorized_refs:
  assumes "authorized E rs refs"
  shows "refs \<noteq> []" and "ref \<in> set refs \<Longrightarrow> \<exists>r \<in> set rs. ev_ref r = ref \<and> ev_status r = ''success''"
proof -
  from assms obtain L tool args n now where p: "prefix (lg_records L) rs"
    and a: "proposal_authorization L tool (PDict args) (ae_proposals_allowed E) (ae_allowed E) (Some n) (ae_ttl E) now
         = Inr ([], refs)" by (auto simp: authorized_def)
  show "refs \<noteq> []" by (rule authorization_backed [OF a])
  assume "ref \<in> set refs"
  from authorization_backed(3) [OF a this]
  show "\<exists>r \<in> set rs. ev_ref r = ref \<and> ev_status r = ''success''"
    using set_mono_prefix [OF p] by (auto simp: up_to_def dest: in_set_takeD)
qed

section \<open>How a step changes the run\<close>

definition grows :: "agent_env \<Rightarrow> agent_context \<Rightarrow> agent_context \<Rightarrow> bool" where
  "grows E c c' \<longleftrightarrow> prefix (records_of c) (records_of c') \<and> (sound E c \<longrightarrow> sound E c')
     \<and> ac_attempted c' = ac_attempted c \<and> ac_llm_turns c' = ac_llm_turns c"

definition quiet :: "agent_context \<Rightarrow> agent_context \<Rightarrow> bool" where
  "quiet c c' \<longleftrightarrow> records_of c' = records_of c \<and> lg_next (ac_ledger c') = lg_next (ac_ledger c)
     \<and> ac_proposals c' = ac_proposals c \<and> ac_attempted c' = ac_attempted c \<and> ac_llm_turns c' = ac_llm_turns c"

named_theorems context_simps \<open>what the parts of a step change\<close>

lemmas [context_simps] = add_message_def add_trace_def add_error_def read_clock_def

lemma quiet_grows: "quiet c c' \<Longrightarrow> grows E c c'"
  by (simp add: quiet_def grows_def sound_def ledger_ok_def)

lemma grows_refl [simp]: "grows E c c"
  by (simp add: grows_def)

lemma grows_trans: "grows E c c1 \<Longrightarrow> grows E c1 c2 \<Longrightarrow> grows E c c2"
  unfolding grows_def using prefix_order.order_trans by (metis (no_types, lifting))

lemma grows_quiet: "grows E c c1 \<Longrightarrow> quiet c1 c2 \<Longrightarrow> grows E c c2"
  using grows_trans quiet_grows by blast

lemma quiet_checkpoint: "quiet c (checkpoint_memory_run E c)"
  by (simp add: quiet_def checkpoint_memory_run_def context_simps split: sum.split)

lemma quiet_finish:
  assumes "finish E status reason answer c = (c', r)"
  shows "quiet c c'" and "rr_proposals r = ac_proposals c'" and "rr_status r = status"
    and "answer \<noteq> [] \<Longrightarrow> rr_answer r = answer"
  using assms by (auto simp: finish_def persist_memory_def quiet_def context_simps Let_def
      split: prod.splits if_splits option.splits)

lemma quiet_stop: "stop E status reason c = (c', s) \<Longrightarrow> quiet c c' \<and> s \<noteq> Inr None"
  using quiet_finish(1) by (auto simp: stop_def split: prod.splits)

lemma quiet_reply: "reply E call_id result c = (c', s) \<Longrightarrow> quiet c c'"
  by (auto simp: reply_def quiet_def context_simps split: sum.splits)

lemma record_grows:
  assumes "record_evidence E tool args result status duration c = (r, c')"
  shows "grows E c c'"
proof -
  obtain L where L: "ledger_add (ac_ledger c) tool args result status duration (ae_stamp E (ac_clock c))
      (ae_now E (ac_clock c)) = (r, L)" and c': "c' = (snd (read_clock E c))\<lparr>ac_ledger := L\<rparr>"
    using assms by (auto simp: record_evidence_def context_simps split: prod.splits)
  have rs: "lg_records L = records_of c @ [r]" using L by (auto simp: ledger_add_def Let_def)
  have "sound E c'" if "sound E c"
    using that ledger_ok_add [OF L] justified_mono [of E "records_of c" _ "lg_records L"]
    by (auto simp: sound_def c' rs context_simps)
  with rs show ?thesis by (simp add: grows_def c' context_simps)
qed

lemma quiet_trans: "quiet c c1 \<Longrightarrow> quiet c1 c2 \<Longrightarrow> quiet c c2"
  by (simp add: quiet_def)

lemma quiet_parts [simp, intro]:
  "quiet c (add_trace kvs c)" "quiet c (add_error kvs c)" "quiet c (add_message m c)" "quiet c (snd (read_clock E c))"
  by (simp_all add: quiet_def context_simps)

lemma rejection_grows:
  assumes "record_rejection E call_id tool args result status c = (c', s)"
  shows "grows E c c'"
proof -
  obtain r c1 where r: "record_evidence E tool args result status 0 c = (r, c1)" by fastforce
  with assms obtain kvs where "reply E call_id result (add_trace kvs c1) = (c', s)"
    by (auto simp: record_rejection_def)
  then have "quiet c1 c'" using quiet_trans [OF quiet_parts(1)] quiet_reply by blast
  with record_grows [OF r] show ?thesis by (rule grows_quiet)
qed

lemma invalid_quiet: "invalid_arguments E call_id tool args detail c = (c', s) \<Longrightarrow> quiet c c'"
  by (auto simp: invalid_arguments_def quiet_def context_simps split: sum.splits)

section \<open>One call\<close>

lemma knowledge_quiet: "invoke_knowledge E k call_id args c = (c', s) \<Longrightarrow> quiet c c'"
  by (auto simp: invoke_knowledge_def quiet_def context_simps Let_def split: sum.splits prod.splits)

lemma bind_evidence_proposal:
  assumes "bind_evidence E tool refs raw = Inr result" and "is_proposal_tool tool"
  shows "dget result ''evidence_refs'' = PList (map PStr refs)
    \<and> (\<exists>check. validate_proposal_shape (ae_platform E) result = Inr check \<and> shape_valid check)"
  using assms by (auto simp: bind_evidence_def Let_def ebind_Inr_iff split: if_splits)

definition collect :: "string \<Rightarrow> pyval \<Rightarrow> agent_context \<Rightarrow> agent_context" where
  "collect tool result c = (if is_proposal_tool tool then c\<lparr>ac_proposals := ac_proposals c @ [result]\<rparr> else c)"

lemma collect_grows:
  assumes "is_proposal_tool tool \<Longrightarrow> justified E (records_of c) result"
  shows "grows E c (collect tool result c)"
  using assms by (auto simp: collect_def grows_def sound_def)

lemma call_tool_grows:
  assumes "call_tool E call_id tool args refs started c = (c', out)"
    and "is_proposal_tool tool \<Longrightarrow> authorized E (records_of c) refs"
  shows "grows E c c'"
proof (cases "ae_invoke E (ac_clock c) tool args")
  case (Inl e)
  with assms(1) show ?thesis by (simp add: call_tool_def)
next
  case (Inr raw)
  obtain now c1 where c1: "read_clock E c = (now, c1)" by fastforce
  have q: "grows E c c1" using quiet_grows [OF quiet_parts(4) [of c E]] c1 by simp
  show ?thesis
  proof (cases "bind_evidence E tool refs raw")
    case (Inl e)
    with assms(1) Inr c1 q show ?thesis by (simp add: call_tool_def)
  next
    case b: (Inr result)
    obtain r c2 where r: "record_evidence E tool args result ''success'' ((now - started) * 1000) c1 = (r, c2)" by fastforce
    have g: "grows E c c2" using grows_trans [OF q record_grows [OF r]] .
    have "justified E (records_of c2) result" if "is_proposal_tool tool"
    proof -
      have "authorized E (records_of c2) refs"
        using assms(2) [OF that] g authorized_mono by (auto simp: grows_def)
      with bind_evidence_proposal [OF b that] show ?thesis unfolding justified_def by blast
    qed
    then have "grows E c (collect tool result c2)" using grows_trans [OF g collect_grows] by blast
    moreover have "c' = c2 \<or> (\<exists>kvs. c' = add_trace kvs (collect tool result c2))"
      using assms(1) Inr c1 b r by (auto simp: call_tool_def collect_def Let_def split: sum.splits)
    ultimately show ?thesis using g grows_quiet [OF _ quiet_parts(1)] by blast
  qed
qed

lemma failed_call_grows:
  assumes "failed_call E call_id tool args started e c = (c', s)"
  shows "grows E c c'"
proof -
  obtain now c1 where c1: "read_clock E c = (now, c1)" by fastforce
  have q: "grows E c c1" using quiet_grows [OF quiet_parts(4) [of c E]] c1 by simp
  obtain r c2 where r: "record_evidence E tool args (PDict [(''error'', PDict (typed_error (exn_name e) (safe_message E e)))])
      ''error'' ((now - started) * 1000) c1 = (r, c2)" by fastforce
  with assms c1 obtain result kvs kvs' where "reply E call_id result (add_trace kvs (add_error kvs' c2)) = (c', s)"
    by (auto simp: failed_call_def Let_def)
  then have "quiet c2 c'"
    using quiet_trans [OF quiet_trans [OF quiet_parts(2) quiet_parts(1)]] quiet_reply by blast
  with grows_trans [OF q record_grows [OF r]] show ?thesis by (rule grows_quiet)
qed

lemma run_tool_grows:
  assumes "run_tool E call_id tool args refs c = (c', s)"
    and "is_proposal_tool tool \<Longrightarrow> authorized E (records_of c) refs"
  shows "grows E c c'"
proof -
  let ?c1 = "c\<lparr>ac_ledger := mark_attempted (ae_platform E) (ac_ledger c) tool args\<rparr>"
  obtain started c2 where c2: "read_clock E ?c1 = (started, c2)" by fastforce
  have q1: "quiet c ?c1" by (simp add: quiet_def)
  have "quiet ?c1 c2" using quiet_parts(4) [of ?c1 E] c2 by simp
  with q1 have q: "quiet c c2" by (rule quiet_trans)
  obtain c3 out where c3: "call_tool E call_id tool args refs started c2 = (c3, out)" by fastforce
  have g: "grows E c c3"
    using grows_trans [OF quiet_grows [OF q] call_tool_grows [OF c3]] assms(2) q by (simp add: quiet_def)
  show ?thesis
  proof (cases out)
    case (Inl e)
    with assms(1) c2 c3 have "failed_call E call_id tool args started e c3 = (c', s)" by (simp add: run_tool_def)
    from grows_trans [OF g failed_call_grows [OF this]] show ?thesis .
  next
    case (Inr answer)
    with assms(1) c2 c3 have "c' = add_message (tool_message call_id answer) c3" by (simp add: run_tool_def)
    with grows_quiet [OF g quiet_parts(3)] show ?thesis by simp
  qed
qed

lemma authorize_authorized:
  assumes "authorize E tool args cutoff c = (c1, Inr ([], refs))" and "cutoff \<le> length (records_of c)"
  shows "is_proposal_tool tool \<Longrightarrow> authorized E (records_of c1) refs"
proof -
  assume "is_proposal_tool tool"
  with assms(1) obtain now where r: "read_clock E c = (now, c1)"
    and a: "proposal_authorization (ac_ledger c1) tool (PDict args) (ae_proposals_allowed E) (ae_allowed E)
      (Some cutoff) (ae_ttl E) now = Inr ([], refs)" by (auto simp: authorize_def split: prod.splits)
  have "cutoff \<le> length (records_of c1)" using r assms(2) by (auto simp: context_simps)
  with a show ?thesis unfolding authorized_def by blast
qed

lemma authorize_quiet: "authorize E tool args cutoff c = (c1, x) \<Longrightarrow> quiet c c1"
  by (auto simp: authorize_def quiet_def context_simps split: if_splits)

lemma run_call_grows:
  assumes "run_call E cutoff call_id tool args c = (c', s)" and "cutoff \<le> length (records_of c)"
  shows "grows E c c'"
proof (cases "is_duplicate (ae_platform E) (ac_ledger c) tool args")
  case True
  with assms(1) rejection_grows show ?thesis by (auto simp: run_call_def)
next
  case False
  obtain c1 x where x: "authorize E tool args cutoff c = (c1, x)" by fastforce
  have q: "grows E c c1" by (rule quiet_grows [OF authorize_quiet [OF x]])
  show ?thesis
  proof (cases x)
    case (Inl e)
    with assms(1) False x q show ?thesis by (simp add: run_call_def)
  next
    case (Inr p)
    obtain errors refs where p: "p = (errors, refs)" by fastforce
    show ?thesis
    proof (cases "errors = []")
      case True
      with assms(1) False x Inr p have "run_tool E call_id tool args refs c1 = (c', s)" by (simp add: run_call_def)
      then have "grows E c1 c'"
        by (rule run_tool_grows) (rule authorize_authorized [OF x [unfolded Inr p True] assms(2)])
      with q show ?thesis by (rule grows_trans)
    next
      case e: False
      with assms(1) False x Inr p have "\<exists>result. record_rejection E call_id tool args result ''policy_rejected'' c1 = (c', s)"
        by (auto simp: run_call_def)
      with q rejection_grows grows_trans show ?thesis by blast
    qed
  qed
qed

lemma checked_call_grows:
  assumes "checked_call E cutoff call_id tool raw c = (c', s)" and "cutoff \<le> length (records_of c)"
  shows "grows E c c'"
proof -
  have "(\<exists>t a d. invalid_arguments E call_id t a d c = (c', s)) \<or> c' = c
      \<or> (\<exists>k a. invoke_knowledge E k call_id a c = (c', s)) \<or> (\<exists>a. run_call E cutoff call_id tool a c = (c', s))"
    using assms(1) unfolding checked_call_def by (fastforce split: sum.splits if_splits pyval.splits option.splits)
  then show ?thesis
    by (elim disjE exE) (auto intro: quiet_grows invalid_quiet knowledge_quiet run_call_grows [OF _ assms(2)])
qed

lemma invoke_one_grows:
  assumes "invoke_one E cutoff call c = (c', s)" and "cutoff \<le> length (records_of c)"
  shows "grows E c c'"
proof -
  obtain now c1 where c1: "read_clock E c = (now, c1)" by fastforce
  have q: "quiet c c1" using quiet_parts(4) [of c E] c1 by simp
  have "(\<exists>st reason c2. quiet c1 c2 \<and> stop E st reason c2 = (c', s))
      \<or> (\<exists>i t r. checked_call E cutoff i t r c1 = (c', s))"
    using assms(1) c1 unfolding invoke_one_def
    by (auto split: if_splits option.splits list.splits intro: quiet_parts) (auto simp: quiet_def)
  then show ?thesis
  proof (elim disjE exE conjE)
    fix st reason c2 assume "quiet c1 c2" "stop E st reason c2 = (c', s)"
    then have "quiet c c'" using q quiet_stop quiet_trans by blast
    then show ?thesis by (rule quiet_grows)
  next
    fix i t r assume "checked_call E cutoff i t r c1 = (c', s)"
    then have "grows E c1 c'" by (rule checked_call_grows) (use q assms(2) in \<open>simp add: quiet_def\<close>)
    with quiet_grows [OF q] show ?thesis by (rule grows_trans)
  qed
qed

lemma invoke_all_grows:
  "invoke_all E cutoff calls c = (c', s) \<Longrightarrow> cutoff \<le> length (records_of c) \<Longrightarrow> grows E c c'"
proof (induction calls arbitrary: c)
  case (Cons call calls)
  obtain c1 s1 where 1: "invoke_one E cutoff call c = (c1, s1)" by fastforce
  note g = invoke_one_grows [OF 1 Cons.prems(2)]
  have "cutoff \<le> length (records_of c1)" using g Cons.prems(2) prefix_length_le by (fastforce simp: grows_def)
  with Cons 1 g show ?case using grows_trans by (auto split: sum.splits option.splits)
qed simp

section \<open>Results\<close>

definition cites :: "agent_context \<Rightarrow> string \<Rightarrow> bool" where
  "cites c answer \<longleftrightarrow> set (cited_refs answer) \<subseteq> set (successful_refs (records_of c))
     \<and> (successful_refs (records_of c) \<noteq> [] \<longrightarrow> cited_refs answer \<noteq> [])
     \<and> (\<forall>p \<in> set (ac_proposals c). \<exists>refs. evidence_refs_of p = Inr refs \<and> set refs \<subseteq> set (cited_refs answer))"

definition result_ok :: "agent_context \<Rightarrow> run_result \<Rightarrow> bool" where
  "result_ok c r \<longleftrightarrow> rr_proposals r = ac_proposals c \<and> rr_attempted r = ac_attempted c
     \<and> rr_llm_turns r = ac_llm_turns c \<and> (rr_status r = ''completed'' \<longrightarrow> cites c (rr_answer r))"

definition outcome_ok :: "step_result \<Rightarrow> bool" where
  "outcome_ok s \<longleftrightarrow> (case s of (c, Inr (Some r)) \<Rightarrow> result_ok c r | _ \<Rightarrow> True)"

lemma finish_counts:
  "finish E status reason answer c = (c', r) \<Longrightarrow>
     rr_attempted r = ac_attempted c' \<and> rr_llm_turns r = ac_llm_turns c'"
  by (auto simp: finish_def Let_def split: prod.splits)

lemma finish_ok: "finish E status reason answer c = (c', r) \<Longrightarrow> status \<noteq> ''completed'' \<Longrightarrow> result_ok c' r"
  using quiet_finish(2,3) finish_counts by (fastforce simp: result_ok_def)

lemma stop_ok: "status \<noteq> ''completed'' \<Longrightarrow> outcome_ok (stop E status reason c)"
  using finish_ok by (fastforce simp: stop_def outcome_ok_def split: prod.splits)

lemma no_result:
  "outcome_ok (reply E call_id result c)" "outcome_ok (invalid_arguments E call_id tool a detail c)"
  "outcome_ok (invoke_knowledge E k call_id args c)"
  by (auto simp: outcome_ok_def reply_def invalid_arguments_def invoke_knowledge_def Let_def
      split: sum.splits prod.splits)

lemma rejection_no_result: "outcome_ok (record_rejection E call_id tool args result status c)"
  using no_result(1) by (simp add: record_rejection_def split: prod.split)

lemma run_tool_no_result: "outcome_ok (run_tool E call_id tool args refs c)"
proof -
  have "outcome_ok (failed_call E call_id tool args started e c1)" for started e c1
    using no_result(1) by (simp add: failed_call_def Let_def split: prod.split)
  moreover have "outcome_ok (x, Inr None)" for x by (simp add: outcome_ok_def)
  ultimately show ?thesis by (simp add: run_tool_def Let_def split: prod.split sum.split)
qed

lemma run_call_no_result: "outcome_ok (run_call E cutoff call_id tool args c)"
proof -
  have "outcome_ok (x, Inl e)" for x e by (simp add: outcome_ok_def)
  then show ?thesis using rejection_no_result run_tool_no_result
    by (simp add: run_call_def split: prod.split sum.split)
qed

lemma invoke_one_ok: "outcome_ok (invoke_one E cutoff call c)"
proof -
  have "outcome_ok (checked_call E cutoff i t raw c1)" for i t raw c1
    using no_result(2,3) run_call_no_result
    by (auto simp: checked_call_def outcome_ok_def split: sum.split pyval.split option.split)
  then show ?thesis using stop_ok
    by (auto simp: invoke_one_def split: prod.split option.split list.split)
qed

lemma invoke_all_ok: "outcome_ok (invoke_all E cutoff calls c)"
proof (induction calls arbitrary: c)
  case (Cons call calls)
  with invoke_one_ok [of E cutoff call c] show ?case
    by (auto split: prod.split sum.split option.split)
qed (simp add: outcome_ok_def)

lemma run_turn_ok: "outcome_ok (run_turn E calls c)"
proof -
  have b: "outcome_ok (budget_exceeded E m reason c)" for m reason
    by (simp add: budget_exceeded_def stop_ok)
  let ?c1 = "c\<lparr>ac_attempted := ac_attempted c + length calls\<rparr>"
  obtain c2 s where s: "invoke_all E (length (records_of ?c1)) calls ?c1 = (c2, s)" by fastforce
  have "outcome_ok (c2, s)" using invoke_all_ok [of E "length (records_of ?c1)" calls ?c1] s by simp
  with b s show ?thesis
    by (auto simp: run_turn_def Let_def outcome_ok_def split: sum.split option.split)
qed

lemma map_exc_each: "map_exc f xs = Inr ys \<Longrightarrow> x \<in> set xs \<Longrightarrow> \<exists>y \<in> set ys. f x = Inr y"
  by (induction xs arbitrary: ys) (auto simp: ebind_Inr_iff)

lemma no_citation_errors:
  assumes "citation_errors E N content c = Inr []"
  shows "cites c content"
proof -
  from assms obtain required where r: "required_refs (ac_proposals c) = Inr required"
    and v: "validate_answer_evidence content (records_of c) None required = []"
    by (auto simp: citation_errors_def ebind_Inr_iff)
  from r obtain rss where m: "map_exc evidence_refs_of (ac_proposals c) = Inr rss" and req: "required = concat rss"
    by (auto simp: required_refs_def ebind_Inr_iff)
  have "set required \<subseteq> set (cited_refs content)" "set (cited_refs content) \<subseteq> set (successful_refs (records_of c))"
    "successful_refs (records_of c) \<noteq> [] \<longrightarrow> cited_refs content \<noteq> []"
    using v by (auto simp: validate_answer_evidence_def Let_def errors_of_Nil without_Nil simp del: errors_of_simps)
  moreover have "\<exists>refs. evidence_refs_of p = Inr refs \<and> set refs \<subseteq> set required" if "p \<in> set (ac_proposals c)" for p
    using map_exc_each [OF m that] by (auto simp: req)
  ultimately show ?thesis unfolding cites_def by (metis (no_types, lifting) subset_trans)
qed

lemma cites_quiet: "quiet c c' \<Longrightarrow> cites c' answer = cites c answer"
  by (simp add: quiet_def cites_def)

lemma judge_ok:
  assumes "content \<noteq> []"
  shows "outcome_ok (judge_answer E N iteration content c)"
proof -
  have r: "outcome_ok (reject_draft E iteration content reason error repair c)" for reason error repair
    using finish_ok by (fastforce simp: reject_draft_def outcome_ok_def split: prod.splits)
  have f: "outcome_ok (let (c1, r) = finish E ''completed'' ''final_answer'' content c in (c1, Inr (Some r)))"
    if "citation_errors E N content c = Inr []"
  proof -
    obtain c1 r where fin: "finish E ''completed'' ''final_answer'' content c = (c1, r)" by fastforce
    have "cites c1 content" using cites_quiet [OF quiet_finish(1) [OF fin]] no_citation_errors [OF that] by simp
    with quiet_finish(2-4) [OF fin] finish_counts [OF fin] assms show ?thesis
      by (simp add: fin outcome_ok_def result_ok_def)
  qed
  show ?thesis
  proof (cases "citation_errors E N content c")
    case (Inl e)
    then show ?thesis using r by (simp add: judge_answer_def outcome_ok_def Let_def)
  next
    case (Inr errors)
    then show ?thesis using r f by (cases "errors = []") (simp_all add: judge_answer_def Let_def)
  qed
qed

lemma normalize_nonempty: "s \<noteq> [] \<Longrightarrow> normalize_citation_placeholders s \<noteq> []"
  by (subst normalize_citation_placeholders.simps) (auto split: list.split option.split)

lemma answer_step_ok: "outcome_ok (answer_step E N iteration t c)"
proof -
  let ?content = "case tn_content t of None \<Rightarrow> [] | Some s \<Rightarrow> s"
  have f: "outcome_ok (let (c1, r) = finish E ''stopped'' reason ?content c in (c1, Inr (Some r)))" for reason
    using finish_ok by (fastforce simp: outcome_ok_def split: prod.splits)
  have "?content \<noteq> []" if "strip ?content \<noteq> []" using that strip_Nil_iff by fastforce
  then show ?thesis
    using stop_ok f judge_ok [OF normalize_nonempty]
    by (simp add: answer_step_def Let_def)
qed

lemma reject_quiet: "reject_draft E iteration content reason error repair c = (c', s) \<Longrightarrow> quiet c c'"
  using quiet_finish(1) quiet_trans [OF quiet_parts(2)]
  by (auto simp: reject_draft_def split: if_splits prod.splits) blast

lemma judge_quiet:
  assumes "judge_answer E N iteration content c = (c', s)"
  shows "quiet c c'"
proof -
  have r: "quiet c c" by (simp add: quiet_def)
  have "(\<exists>reason error repair. reject_draft E iteration content reason error repair c = (c', s)) \<or> c' = c
      \<or> (\<exists>r. finish E ''completed'' ''final_answer'' content c = (c', r))"
    using assms unfolding judge_answer_def Let_def by (fastforce split: if_splits sum.splits prod.splits)
  then show ?thesis using reject_quiet quiet_finish(1) r by (elim disjE exE) blast+
qed

lemma answer_step_quiet:
  assumes "answer_step E N iteration t c = (c', s)"
  shows "quiet c c'"
proof -
  have "(\<exists>st reason error. stop E st reason (add_error error c) = (c', s))
      \<or> (\<exists>st reason content r. finish E st reason content c = (c', r))
      \<or> (\<exists>content. judge_answer E N iteration content c = (c', s))"
    using assms unfolding answer_step_def Let_def by (fastforce split: if_splits prod.splits)
  then show ?thesis
  proof (elim disjE exE)
    fix st reason error assume "stop E st reason (add_error error c) = (c', s)"
    then show ?thesis using quiet_stop quiet_trans [OF quiet_parts(2)] by blast
  qed (use quiet_finish(1) judge_quiet in blast)+
qed

lemma run_turn_grows:
  assumes "run_turn E calls c = (c', s)"
  shows "prefix (records_of c) (records_of c') \<and> (sound E c \<longrightarrow> sound E c') \<and> ac_llm_turns c' = ac_llm_turns c
    \<and> (ac_attempted c \<le> ae_max_total E \<longrightarrow> ac_attempted c' \<le> ae_max_total E)"
proof -
  let ?c1 = "c\<lparr>ac_attempted := ac_attempted c + length calls\<rparr>"
  consider (over) m reason where "budget_exceeded E m reason c = (c', s)"
    | (within_budget) c2 where "\<exists>s2. invoke_all E (length (records_of ?c1)) calls ?c1 = (c2, s2)"
        "quiet c2 c'" "ac_attempted c + length calls \<le> ae_max_total E"
  proof -
    obtain c2 s2 where 2: "invoke_all E (length (records_of ?c1)) calls ?c1 = (c2, s2)" by fastforce
    have "quiet c2 c2" by (simp add: quiet_def)
    with 2 assms quiet_checkpoint [of c2 E] show thesis
      using that unfolding run_turn_def Let_def by (fastforce split: if_splits sum.splits option.splits)
  qed
  then show ?thesis
  proof cases
    case over
    then have "quiet c c'" unfolding budget_exceeded_def using quiet_stop quiet_trans [OF quiet_parts(2)] by blast
    then show ?thesis using quiet_grows [of c c' E] by (simp add: grows_def quiet_def)
  next
    case within_budget
    then obtain s2 where "invoke_all E (length (records_of ?c1)) calls ?c1 = (c2, s2)" by blast
    then have "grows E ?c1 c2" by (rule invoke_all_grows) simp
    then have "grows E ?c1 c'" using within_budget(2) by (rule grows_quiet)
    moreover have "sound E ?c1 = sound E c" by (simp add: sound_def)
    ultimately show ?thesis using within_budget(3) by (simp add: grows_def)
  qed
qed

section \<open>The graph\<close>

text \<open>Without a result the model step leaves the run as it is, but for at most one model turn.\<close>

definition model_quiet :: "agent_context \<Rightarrow> agent_context \<Rightarrow> bool" where
  "model_quiet c c' \<longleftrightarrow> records_of c' = records_of c \<and> lg_next (ac_ledger c') = lg_next (ac_ledger c)
     \<and> ac_proposals c' = ac_proposals c \<and> ac_attempted c' = ac_attempted c \<and> ac_llm_turns c' \<le> Suc (ac_llm_turns c)"

lemma model_quiet_trans: "model_quiet c c1 \<Longrightarrow> quiet c1 c2 \<Longrightarrow> model_quiet c c2"
  by (simp add: quiet_def model_quiet_def)

lemma end_turn_ok:
  assumes "end_turn E t status reason error c = (c', t', res)" and "status \<noteq> ''completed''"
  shows "quiet c c'" and "\<exists>r. res = Some r \<and> result_ok c' r"
proof -
  obtain r where f: "finish E status reason [] (add_error error c) = (c', r)" "res = Some r"
    using assms(1) by (auto simp: end_turn_def split: prod.splits)
  show "quiet c c'" using quiet_trans [OF quiet_parts(2) quiet_finish(1) [OF f(1)]] .
  show "\<exists>r. res = Some r \<and> result_ok c' r" using f finish_ok [OF f(1) assms(2)] by simp
qed

lemma accept_message_ok:
  assumes "accept_message E m reason c = (c', t, res)"
  shows "quiet c c'" and "case res of None \<Rightarrow> True | Some r \<Rightarrow> result_ok c' r"
proof -
  consider (stop) st rs error r where "finish E st rs [] (add_error error (add_message (mm_history m) c)) = (c', r)"
      "res = Some r" "st \<noteq> ''completed''"
    | (go) "c' = add_message (mm_history m) c" "res = None"
    using assms unfolding accept_message_def Let_def by (fastforce split: if_splits prod.splits)
  then have "quiet c c' \<and> (case res of None \<Rightarrow> True | Some r \<Rightarrow> result_ok c' r)"
  proof cases
    case stop
    then show ?thesis
      using quiet_trans [OF quiet_trans [OF quiet_parts(3) quiet_parts(2)] quiet_finish(1) [OF stop(1)]]
        finish_ok [OF stop(1,3)] by simp
  qed simp
  then show "quiet c c'" and "case res of None \<Rightarrow> True | Some r \<Rightarrow> result_ok c' r" by simp_all
qed

lemma model_step_ok:
  assumes "model_step E N t c = (c', t', res)"
  shows "model_quiet c c'" and "case res of None \<Rightarrow> True | Some r \<Rightarrow> result_ok c' r"
proof -
  obtain now c1 where c1: "read_clock E c = (now, c1)" by fastforce
  obtain started c2 where c2: "read_clock E c1 = (started, c2)" by fastforce
  let ?c3 = "snd (read_clock E (c2\<lparr>ac_llm_turns := Suc (ac_llm_turns c2)\<rparr>))"
  have q: "model_quiet c c" "model_quiet c c1" "model_quiet c (snd (read_clock E c2))" "model_quiet c ?c3"
    using c1 c2 by (auto simp: model_quiet_def context_simps)
  consider (ended) x st reason error where "model_quiet c x" "end_turn E t st reason error x = (c', t', res)"
      "st \<noteq> ''completed''"
    | (late) r where "finish E ''stopped'' ''deadline_exceeded'' [] c1 = (c', r)" "res = Some r"
    | (accepted) m reason where "accept_message E m reason ?c3 = (c', t', res)"
    using assms c1 c2 q unfolding model_step_def Let_def
    by (auto split: option.splits if_splits sum.splits list.splits prod.splits)
  then have "model_quiet c c' \<and> (case res of None \<Rightarrow> True | Some r \<Rightarrow> result_ok c' r)"
  proof cases
    case ended
    with end_turn_ok [OF ended(2,3)] model_quiet_trans show ?thesis by fastforce
  next
    case late
    with quiet_finish(1) [OF late(1)] finish_ok [OF late(1)] q(2) model_quiet_trans show ?thesis by fastforce
  next
    case accepted
    with accept_message_ok [OF accepted] q(4) model_quiet_trans show ?thesis by blast
  qed
  then show "model_quiet c c'" and "case res of None \<Rightarrow> True | Some r \<Rightarrow> result_ok c' r" by simp_all
qed

definition turns_left :: "agent_env \<Rightarrow> graph \<Rightarrow> nat" where
  "turns_left E g = (case gs_node g of
       Model \<Rightarrow> 2 * (ae_max_iterations E - gs_iteration g) + 1
     | End \<Rightarrow> 0
     | _ \<Rightarrow> 2 * (ae_max_iterations E - gs_iteration g))"

definition well_formed :: "agent_env \<Rightarrow> graph \<Rightarrow> bool" where
  "well_formed E g \<longleftrightarrow> (gs_node g = End \<longleftrightarrow> gs_result g \<noteq> None)
     \<and> (gs_node g = Tools \<or> gs_node g = Answer \<longrightarrow> gs_iteration g < ae_max_iterations E)"

lemma well_formed_start: "well_formed E (start_graph c)"
  by (simp add: well_formed_def start_graph_def)

lemma next_iteration_progress:
  assumes "next_iteration g s = Inr g'" and "well_formed E g" and "gs_node g = Tools \<or> gs_node g = Answer"
  shows "well_formed E g' \<and> turns_left E g' < turns_left E g"
proof -
  from assms(1) obtain res where "g' = g\<lparr>gs_node := (if res \<noteq> None then End else Model),
       gs_iteration := gs_iteration g + 1, gs_context := fst s, gs_result := res\<rparr>"
    by (auto simp: next_iteration_def ebind_Inr_iff)
  then show ?thesis using assms(2,3) by (auto simp: well_formed_def turns_left_def)
qed

lemma graph_step_progress:
  assumes "graph_step E N g = Inr g'" and "well_formed E g" and "gs_node g \<noteq> End"
  shows "well_formed E g' \<and> turns_left E g' < turns_left E g"
proof (cases "gs_node g")
  case Model
  then show ?thesis
    using assms(1,2)
    by (auto simp: graph_step_def model_node_def well_formed_def turns_left_def Let_def
        split: if_splits prod.splits)
qed (use assms next_iteration_progress in \<open>auto simp: graph_step_def\<close>)

lemma graph_loop_ends:
  "well_formed E g \<Longrightarrow> turns_left E g \<le> n \<Longrightarrow>
     \<exists>out. graph_loop E N n g = Some out
       \<and> (case out of Inl e \<Rightarrow> True | Inr g' \<Rightarrow> gs_node g' = End \<and> well_formed E g')"
proof (induction n arbitrary: g)
  case 0
  then have "gs_node g = End" by (auto simp: turns_left_def well_formed_def split: node.splits)
  with 0 show ?case by (simp add: graph_loop.simps)
next
  case (Suc n)
  show ?case
  proof (cases "gs_node g = End")
    case True
    with Suc show ?thesis by (simp add: graph_loop.simps)
  next
    case False
    show ?thesis
    proof (cases "graph_step E N g")
      case (Inl e)
      with False show ?thesis by (simp add: graph_loop.simps)
    next
      case (Inr g')
      with graph_step_progress [OF Inr Suc.prems(1) False] Suc.prems(2) Suc.IH [of g'] False
      show ?thesis by (simp add: graph_loop.simps)
    qed
  qed
qed

definition run_inv :: "agent_env \<Rightarrow> graph \<Rightarrow> bool" where
  "run_inv E g \<longleftrightarrow> sound E (gs_context g) \<and> ac_attempted (gs_context g) \<le> ae_max_total E
     \<and> gs_iteration g \<le> ae_max_iterations E
     \<and> ac_llm_turns (gs_context g) \<le> (case gs_node g of
          Model \<Rightarrow> gs_iteration g | End \<Rightarrow> ae_max_iterations E | _ \<Rightarrow> Suc (gs_iteration g))
     \<and> (case gs_result g of None \<Rightarrow> True | Some r \<Rightarrow> result_ok (gs_context g) r)"

lemma quiet_sound: "quiet c c' \<Longrightarrow> sound E c' = sound E c"
  by (simp add: quiet_def sound_def ledger_ok_def)

lemma model_quiet_sound: "model_quiet c c' \<Longrightarrow> sound E c' = sound E c"
  by (simp add: model_quiet_def sound_def ledger_ok_def)

lemma model_node_inv:
  assumes "model_node E N g = Inr g'" and "run_inv E g" and "gs_node g = Model"
  shows "run_inv E g'"
proof (cases "ae_max_iterations E \<le> gs_iteration g")
  case True
  obtain c r where f: "finish E ''stopped'' ''max_iterations_exceeded'' [] (gs_context g) = (c, r)" by fastforce
  with assms True have g': "g' = g\<lparr>gs_node := End, gs_context := c, gs_result := Some r\<rparr>" by (auto simp: model_node_def)
  have q: "quiet (gs_context g) c" by (rule quiet_finish [OF f])
  have "result_ok c r" by (rule finish_ok [OF f]) simp
  with assms(2,3) True q quiet_sound [OF q, of E] show ?thesis by (simp add: run_inv_def g' quiet_def)
next
  case False
  obtain c t res where m: "model_step E N (gs_turn g) (gs_context g) = (c, t, res)" by (metis prod_cases3)
  with assms False have g': "g' = g\<lparr>gs_node := (if res \<noteq> None then End else if tn_calls t \<noteq> [] then Tools else Answer),
     gs_turn := t, gs_context := c, gs_result := res\<rparr>" by (auto simp: model_node_def)
  note q = model_step_ok(1) [OF m]
  from q have "ac_llm_turns c \<le> Suc (ac_llm_turns (gs_context g))" "ac_attempted c = ac_attempted (gs_context g)"
    by (simp_all add: model_quiet_def)
  with assms(2,3) False model_quiet_sound [OF q, of E] model_step_ok(2) [OF m] show ?thesis
    by (auto simp: run_inv_def g')
qed

lemma next_iteration_inv:
  assumes "next_iteration g (c, s) = Inr g'" and "run_inv E g" and "well_formed E g"
    and "gs_node g = Tools \<or> gs_node g = Answer" and "outcome_ok (c, s)"
    and "sound E c" and "ac_attempted c \<le> ae_max_total E" and "ac_llm_turns c = ac_llm_turns (gs_context g)"
  shows "run_inv E g'"
proof -
  from assms(1) obtain res where res: "s = Inr res" and g': "g' = g\<lparr>gs_node := (if res \<noteq> None then End else Model),
       gs_iteration := gs_iteration g + 1, gs_context := c, gs_result := res\<rparr>"
    by (auto simp: next_iteration_def ebind_Inr_iff)
  have "gs_iteration g < ae_max_iterations E" using assms(3,4) by (simp add: well_formed_def)
  moreover have "ac_llm_turns c \<le> Suc (gs_iteration g)" using assms(2,4,8) by (auto simp: run_inv_def)
  ultimately show ?thesis using assms(5-7) res by (auto simp: run_inv_def g' outcome_ok_def)
qed

lemma graph_step_inv:
  assumes "graph_step E N g = Inr g'" and "run_inv E g" and "well_formed E g"
  shows "run_inv E g'"
proof (cases "gs_node g")
  case Model
  with assms model_node_inv show ?thesis by (simp add: graph_step_def)
next
  case Tools
  obtain c s where s: "run_turn E (tn_calls (gs_turn g)) (gs_context g) = (c, s)" by fastforce
  have n: "next_iteration g (c, s) = Inr g'" using assms(1) Tools s by (simp add: graph_step_def)
  have "sound E (gs_context g)" "ac_attempted (gs_context g) \<le> ae_max_total E"
    using assms(2) by (simp_all add: run_inv_def)
  with run_turn_grows [OF s] have "sound E c" "ac_attempted c \<le> ae_max_total E"
    "ac_llm_turns c = ac_llm_turns (gs_context g)" by simp_all
  moreover have "outcome_ok (c, s)" using run_turn_ok [of E "tn_calls (gs_turn g)" "gs_context g"] s by simp
  ultimately show ?thesis using next_iteration_inv [OF n assms(2,3)] Tools by simp
next
  case Answer
  obtain c s where s: "answer_step E N (gs_iteration g) (gs_turn g) (gs_context g) = (c, s)" by fastforce
  have n: "next_iteration g (c, s) = Inr g'" using assms(1) Answer s by (simp add: graph_step_def)
  note q = answer_step_quiet [OF s]
  have "sound E c" "ac_attempted c \<le> ae_max_total E" "ac_llm_turns c = ac_llm_turns (gs_context g)"
    using assms(2) q quiet_sound [OF q, of E] by (simp_all add: run_inv_def quiet_def)
  moreover have "outcome_ok (c, s)"
    using answer_step_ok [of E N "gs_iteration g" "gs_turn g" "gs_context g"] s by simp
  ultimately show ?thesis using next_iteration_inv [OF n assms(2,3)] Answer by simp
qed (use assms in \<open>simp add: graph_step_def\<close>)

lemma graph_loop_inv:
  "graph_loop E N n g = Some (Inr g') \<Longrightarrow> run_inv E g \<Longrightarrow> well_formed E g \<Longrightarrow> run_inv E g'"
proof (induction n arbitrary: g)
  case 0
  then show ?case by (auto simp: graph_loop.simps [of E N 0] split: if_splits)
next
  case (Suc n)
  show ?case
  proof (cases "gs_node g = End")
    case True
    with Suc.prems show ?thesis by (simp add: graph_loop.simps)
  next
    case False
    with Suc.prems(1) obtain g1 where g1: "graph_step E N g = Inr g1" and l: "graph_loop E N n g1 = Some (Inr g')"
      by (subst (asm) graph_loop.simps) (auto split: sum.splits)
    have "run_inv E g1" by (rule graph_step_inv [OF g1 Suc.prems(2,3)])
    moreover have "well_formed E g1" using graph_step_progress [OF g1 Suc.prems(3) False] by blast
    ultimately show ?thesis by (rule Suc.IH [OF l])
  qed
qed

section \<open>Distinct references\<close>

lemma digits_value_zeros: "digits_value (replicate k CHR ''0'' @ s) = digits_value s"
  by (induction k) (simp_all add: digits_value_def digit_value_def)

lemma evidence_ref_inj: "evidence_ref m = evidence_ref n \<Longrightarrow> m = n"
proof -
  assume "evidence_ref m = evidence_ref n"
  then have "digits_value (drop 3 (evidence_ref m)) = digits_value (drop 3 (evidence_ref n))" by simp
  then show ?thesis by (simp add: evidence_ref_def digits_value_zeros digits_value_nat_text)
qed

lemma ledger_distinct: "ledger_ok L \<Longrightarrow> distinct (map ev_ref (lg_records L))"
proof -
  assume "ledger_ok L"
  moreover have "distinct (refs_to n)" for n
    unfolding refs_to_def distinct_map by (simp add: inj_on_def evidence_ref_inj del: upt_Suc)
  ultimately show ?thesis by (simp add: ledger_ok_def)
qed

section \<open>The run\<close>

lemma prefetch_inv:
  assumes "prefetch_knowledge E c = (c', s)"
  shows "(sound E c \<longrightarrow> sound E c') \<and> ac_llm_turns c' = ac_llm_turns c
    \<and> (ac_attempted c \<le> ae_max_total E \<longrightarrow> ac_attempted c' \<le> ae_max_total E)"
    and "case s of Inr (Some r) \<Rightarrow> result_ok c' r | _ \<Rightarrow> True"
proof -
  have r: "quiet x x" "quiet x (checkpoint_memory_run E (mark_origin x))" for x
    using quiet_trans [OF _ quiet_checkpoint, of x "mark_origin x"] by (simp_all add: quiet_def mark_origin_def)
  consider (none) "c' = c" "s = Inr None"
    | (budget) "stop E ''stopped'' ''total_tool_budget_exceeded'' c = (c', s)"
    | (call) m n call c2 s2 where "ac_attempted c < ae_max_total E" "n = length (records_of c)"
        "invoke_one E n call ((add_message m c)\<lparr>ac_attempted := ac_attempted c + 1\<rparr>) = (c2, s2)"
        "quiet c2 c'" "s = Inr None \<or> s = s2 \<and> c' = c2"
  proof -
    note p = assms [unfolded prefetch_knowledge_def]
    show thesis
    proof (cases "Option.bind (ae_knowledge E) kb_initial")
      case None
      with p that(1) show ?thesis by (cases "ae_knowledge E") simp_all
    next
      case (Some query)
      then obtain k where k: "ae_knowledge E = Some k" "kb_initial k = Some query" by (auto simp: bind_eq_Some_conv)
      show ?thesis
      proof (cases "ae_max_total E \<le> ac_attempted c")
        case True
        with p k that(2) show ?thesis by simp
      next
        case False
        let ?c1 = "(add_message (prefetch_message E k query) c)\<lparr>ac_attempted := ac_attempted c + 1\<rparr>"
        obtain c2 s2 where i: "invoke_one E (length (records_of ?c1)) (prefetch_call E query) ?c1 = (c2, s2)" by fastforce
        have "length (records_of ?c1) = length (records_of c)" by (simp add: context_simps)
        moreover have "quiet c2 c' \<and> (s = Inr None \<or> s = s2 \<and> c' = c2)"
          using p k False i r by (auto simp: Let_def split: sum.splits option.splits)
        ultimately show ?thesis using that(3) [OF _ _ i] False i by simp
      qed
    qed
  qed
  note cs = this
  show "(sound E c \<longrightarrow> sound E c') \<and> ac_llm_turns c' = ac_llm_turns c
    \<and> (ac_attempted c \<le> ae_max_total E \<longrightarrow> ac_attempted c' \<le> ae_max_total E)"
    using cs
  proof cases
    case budget
    then have "quiet c c'" using quiet_stop by blast
    then show ?thesis using quiet_sound [of c c' E] by (simp add: quiet_def)
  next
    case call
    let ?c1 = "(add_message m c)\<lparr>ac_attempted := ac_attempted c + 1\<rparr>"
    have "grows E ?c1 c2" by (rule invoke_one_grows [OF call(3)]) (simp add: call(2) context_simps)
    then have "grows E ?c1 c'" using call(4) by (rule grows_quiet)
    moreover have "sound E ?c1 = sound E c" by (simp add: sound_def context_simps)
    ultimately show ?thesis using call(1) by (simp add: grows_def context_simps)
  qed simp
  show "case s of Inr (Some r) \<Rightarrow> result_ok c' r | _ \<Rightarrow> True"
    using cs
  proof cases
    case budget
    with stop_ok [of "''stopped''" E "''total_tool_budget_exceeded''" c] show ?thesis by (simp add: outcome_ok_def)
  next
    case call
    with invoke_one_ok [of E n call "(add_message m c)\<lparr>ac_attempted := ac_attempted c + 1\<rparr>"]
    show ?thesis by (auto simp: outcome_ok_def)
  qed simp
qed

lemma run_agent_inv:
  assumes "run_agent E N (start_run memory messages errors) = Inr (c, r)"
  shows "sound E c \<and> ac_attempted c \<le> ae_max_total E \<and> ac_llm_turns c \<le> ae_max_iterations E \<and> result_ok c r"
proof -
  let ?c = "start_run memory messages errors"
  define c1 where "c1 = add_message (system_message (nd_policy_text N)) ?c"
  have s: "sound E ?c" "sound E c1" by (simp_all add: c1_def sound_def start_run_def ledger_ok_empty context_simps)
  have z: "ac_attempted ?c = 0" "ac_llm_turns ?c = 0" "ac_attempted c1 = 0" "ac_llm_turns c1 = 0"
    by (simp_all add: c1_def start_run_def context_simps)
  have early: ?thesis if "finish E st reason [] (add_error error x) = (c, r)" "x = ?c \<or> x = c1" "st \<noteq> ''completed''"
    for st reason error x
  proof -
    have q: "quiet x c" using quiet_trans [OF quiet_parts(2) quiet_finish(1) [OF that(1)]] .
    with quiet_sound [OF q, of E] finish_ok [OF that(1,3)] that(2) s z show ?thesis by (auto simp: quiet_def)
  qed
  show ?thesis
  proof (cases "nd_policy_blocked N (ac_clock ?c)")
    case (Some m)
    with assms early show ?thesis by (simp add: run_agent_def)
  next
    case None
    show ?thesis
    proof (cases "nd_verify N")
      case (Some e)
      with assms None early show ?thesis by (simp add: run_agent_def Let_def c1_def)
    next
      case v: None
      obtain c2 s2 where p: "prefetch_knowledge E c1 = (c2, s2)" by fastforce
      note i = prefetch_inv [OF p]
      have c2: "sound E c2" "ac_attempted c2 \<le> ae_max_total E" "ac_llm_turns c2 = 0" using i(1) s z by simp_all
      from assms None v p have out: "(case s2 of Inl e \<Rightarrow> Inl e | Inr (Some r') \<Rightarrow> Inr (c2, r')
          | Inr None \<Rightarrow> run_diagnostic_graph E N c2) = Inr (c, r)"
        by (simp add: run_agent_def Let_def c1_def split: sum.splits option.splits)
      show ?thesis
      proof (cases "s2 = Inr None")
        case True
        with out obtain g where g: "graph_loop E N (recursion_limit E) (start_graph c2) = Some (Inr g)"
          and "gs_result g = Some r" "c = gs_context g"
          by (auto simp: run_diagnostic_graph_def split: option.splits sum.splits)
        moreover have "run_inv E (start_graph c2)" using c2 by (simp add: run_inv_def start_graph_def)
        note graph_loop_inv [OF g this well_formed_start]
        moreover have "turns_left E (start_graph c2) \<le> recursion_limit E"
          by (simp add: turns_left_def start_graph_def recursion_limit_def)
        from graph_loop_ends [OF well_formed_start this, of N] g have "gs_node g = End" by auto
        ultimately show ?thesis by (simp add: run_inv_def)
      next
        case False
        with out i(2) c2 show ?thesis by (auto split: sum.splits option.splits)
      qed
    qed
  qed
qed

section \<open>Properties\<close>

text \<open>
  C12: Every proposal in the result of an agent run, whatever the model, the tools and the
  clock answered, passed the shape check and carries non-empty evidence references, each the
  reference of exactly one successful record of the run, which proposal_authorization granted
  from the ledger as it was at some turn of the run.
\<close>

theorem proposals_evidenced:
  assumes "run_agent E N (start_run memory messages errors) = Inr (c, r)" and "p \<in> set (rr_proposals r)"
  shows "distinct (map ev_ref (records_of c)) \<and> (\<exists>refs. dget p ''evidence_refs'' = PList (map PStr refs)
    \<and> refs \<noteq> [] \<and> set refs \<subseteq> set (successful_refs (records_of c)) \<and> authorized E (records_of c) refs
    \<and> (\<exists>check. validate_proposal_shape (ae_platform E) p = Inr check \<and> shape_valid check))"
proof -
  have i: "sound E c" "result_ok c r" using run_agent_inv [OF assms(1)] by simp_all
  then have d: "distinct (map ev_ref (records_of c))" and "justified E (records_of c) p"
    using assms(2) ledger_distinct by (auto simp: sound_def result_ok_def)
  then obtain refs where refs: "authorized E (records_of c) refs" "dget p ''evidence_refs'' = PList (map PStr refs)"
    and check: "\<exists>check. validate_proposal_shape (ae_platform E) p = Inr check \<and> shape_valid check"
    by (auto simp: justified_def)
  have "set refs \<subseteq> set (successful_refs (records_of c))"
    using authorized_refs(2) [OF refs(1)] by (fastforce simp: successful_refs_def)
  with d refs check authorized_refs(1) [OF refs(1)] show ?thesis by blast
qed

text \<open>
  C14: A run that completes has an answer that cites only successful evidence of the run, at
  least one reference when there is any, and every reference that a proposal of the result
  rests on.
\<close>

theorem answers_cite_evidence:
  assumes "run_agent E N (start_run memory messages errors) = Inr (c, r)" and "rr_status r = ''completed''"
  shows "set (cited_refs (rr_answer r)) \<subseteq> set (successful_refs (records_of c))
    \<and> (successful_refs (records_of c) = [] \<or> cited_refs (rr_answer r) \<noteq> [])
    \<and> (\<forall>p \<in> set (rr_proposals r). \<exists>refs. dget p ''evidence_refs'' = PList (map PStr refs)
         \<and> set refs \<subseteq> set (cited_refs (rr_answer r)))"
proof -
  have i: "sound E c" "result_ok c r" using run_agent_inv [OF assms(1)] by simp_all
  then have c: "cites c (rr_answer r)" and p: "rr_proposals r = ac_proposals c"
    using assms(2) by (simp_all add: result_ok_def)
  have "\<exists>refs. dget p ''evidence_refs'' = PList (map PStr refs) \<and> set refs \<subseteq> set (cited_refs (rr_answer r))"
    if "p \<in> set (ac_proposals c)" for p
  proof -
    from i(1) that obtain refs where d: "dget p ''evidence_refs'' = PList (map PStr refs)"
      by (auto simp: sound_def justified_def)
    from c that obtain refs' where e: "evidence_refs_of p = Inr refs'" "set refs' \<subseteq> set (cited_refs (rr_answer r))"
      by (auto simp: cites_def)
    have "evidence_refs_of p = Inr refs"
    proof -
      have "dget_default p ''evidence_refs'' (PList []) = PList (map PStr refs)"
        using d by (cases p) (auto simp: dget_def dget_default_def split: option.splits)
      moreover have "map str_of (filter is_str (map PStr refs)) = refs" by (induction refs) simp_all
      ultimately show ?thesis by (simp add: evidence_refs_of_def py_iter_def)
    qed
    with d e show ?thesis by auto
  qed
  with c p show ?thesis by (auto simp: cites_def)
qed

text \<open>
  C37: Every result of a run reports no more tool calls and no more model turns than the
  budgets of the run.
\<close>

theorem run_within_budgets:
  assumes "run_agent E N (start_run memory messages errors) = Inr (c, r)"
  shows "rr_attempted r \<le> ae_max_total E \<and> rr_llm_turns r \<le> ae_max_iterations E"
  using run_agent_inv [OF assms] by (simp add: result_ok_def)

text \<open>
  C35: From any context the diagnostic graph reaches its end, with a result, or an exception,
  within twice the iterations plus one node executions, two less than the recursion limit the
  code passes, for every model.
\<close>

theorem graph_within_recursion_limit:
  "\<exists>outcome. graph_loop E N (2 * ae_max_iterations E + 1 + spare) (start_graph c) = Some outcome
     \<and> (case outcome of Inl e \<Rightarrow> True | Inr g \<Rightarrow> gs_node g = End \<and> gs_result g \<noteq> None)"
proof -
  have "turns_left E (start_graph c) \<le> 2 * ae_max_iterations E + 1 + spare"
    by (simp add: turns_left_def start_graph_def)
  from graph_loop_ends [OF well_formed_start this, of N] show ?thesis
    by (auto simp: well_formed_def split: sum.splits)
qed

end
