(* ===== verification/AgentReplies.thy ===== *)
theory AgentReplies
  imports AgentRun
begin

text \<open>
  Every tool call of a turn that goes on gets exactly one reply, in the order of the calls: what
  the provider requires of a conversation that holds tool calls.
\<close>

definition answers :: "agent_context \<Rightarrow> string \<Rightarrow> agent_context \<Rightarrow> bool" where
  "answers c call_id c' \<longleftrightarrow> (\<exists>content. ac_messages c' = ac_messages c @ [tool_message call_id content])"

named_theorems message_simps \<open>the messages a part of a call leaves alone\<close>

lemma context_messages [message_simps]:
  "ac_messages (add_trace kvs c) = ac_messages c" "ac_messages (add_error kvs c) = ac_messages c"
  "ac_messages (snd (read_clock E c)) = ac_messages c"
  "ac_messages (add_message m c) = ac_messages c @ [m]"
  by (simp_all add: add_trace_def add_error_def read_clock_def add_message_def)

lemma read_clock_messages: "read_clock E c = (now, c') \<Longrightarrow> ac_messages c' = ac_messages c"
  by (auto simp: read_clock_def)

lemma record_messages: "record_evidence E tool args result status duration c = (r, c') \<Longrightarrow> ac_messages c' = ac_messages c"
  by (auto simp: record_evidence_def read_clock_def split: prod.splits)

lemma answers_from: "answers c1 call_id c' \<Longrightarrow> ac_messages c1 = ac_messages c \<Longrightarrow> answers c call_id c'"
  by (simp add: answers_def)

lemma reply_answers: "reply E call_id result c = (c', Inr None) \<Longrightarrow> answers c call_id c'"
  by (auto simp: reply_def answers_def message_simps split: sum.splits)

lemma invalid_answers: "invalid_arguments E call_id tool a detail c = (c', Inr None) \<Longrightarrow> answers c call_id c'"
  by (auto simp: invalid_arguments_def answers_def message_simps split: sum.splits)

lemma rejection_answers:
  assumes "record_rejection E call_id tool args result status c = (c', Inr None)"
  shows "answers c call_id c'"
proof -
  obtain r c1 where r: "record_evidence E tool args result status 0 c = (r, c1)" by fastforce
  with assms obtain kvs where "reply E call_id result (add_trace kvs c1) = (c', Inr None)"
    by (auto simp: record_rejection_def)
  then show ?thesis by (rule reply_answers [THEN answers_from]) (simp add: message_simps record_messages [OF r])
qed

lemma knowledge_answers:
  "invoke_knowledge E k call_id args c = (c', Inr None) \<Longrightarrow> answers c call_id c'"
  by (auto simp: invoke_knowledge_def answers_def message_simps read_clock_messages Let_def
      split: sum.splits prod.splits dest!: read_clock_messages)

lemma call_tool_messages:
  "call_tool E call_id tool args refs started c = (c', x) \<Longrightarrow> ac_messages c' = ac_messages c"
  by (auto simp: call_tool_def message_simps Let_def dest!: read_clock_messages record_messages
      split: sum.splits prod.splits if_splits)

lemma failed_answers:
  assumes "failed_call E call_id tool args started e c = (c', Inr None)"
  shows "answers c call_id c'"
proof -
  obtain now c1 where c1: "read_clock E c = (now, c1)" by fastforce
  obtain r c2 where r: "record_evidence E tool args (PDict [(''error'', PDict (typed_error (exn_name e) (safe_message E e)))])
      ''error'' ((now - started) * 1000) c1 = (r, c2)" by fastforce
  with assms c1 obtain result kvs kvs' where "reply E call_id result (add_trace kvs (add_error kvs' c2)) = (c', Inr None)"
    by (auto simp: failed_call_def Let_def)
  then show ?thesis
    by (rule reply_answers [THEN answers_from])
       (simp add: message_simps record_messages [OF r] read_clock_messages [OF c1])
qed

lemma run_tool_answers:
  assumes "run_tool E call_id tool args refs c = (c', Inr None)"
  shows "answers c call_id c'"
proof -
  let ?c1 = "c\<lparr>ac_ledger := mark_attempted (ae_platform E) (ac_ledger c) tool args\<rparr>"
  obtain started c2 where c2: "read_clock E ?c1 = (started, c2)" by fastforce
  obtain c3 x where c3: "call_tool E call_id tool args refs started c2 = (c3, x)" by fastforce
  have m: "ac_messages c3 = ac_messages c" using call_tool_messages [OF c3] read_clock_messages [OF c2] by simp
  show ?thesis
  proof (cases x)
    case (Inl e)
    with assms c2 c3 have "failed_call E call_id tool args started e c3 = (c', Inr None)" by (simp add: run_tool_def)
    from failed_answers [OF this] m show ?thesis by (rule answers_from)
  next
    case (Inr answer)
    with assms c2 c3 m show ?thesis by (auto simp: run_tool_def answers_def message_simps)
  qed
qed

lemma run_call_answers:
  assumes "run_call E cutoff call_id tool args c = (c', Inr None)"
  shows "answers c call_id c'"
proof -
  obtain c1 x where a: "authorize E tool args cutoff c = (c1, x)" by fastforce
  have m: "ac_messages c1 = ac_messages c"
    using a by (auto simp: authorize_def split: if_splits prod.splits dest: read_clock_messages)
  have "(\<exists>result status. record_rejection E call_id tool args result status c = (c', Inr None))
      \<or> (\<exists>result status. record_rejection E call_id tool args result status c1 = (c', Inr None))
      \<or> (\<exists>refs. run_tool E call_id tool args refs c1 = (c', Inr None))"
    using assms a unfolding run_call_def by (fastforce split: if_splits sum.splits prod.splits)
  then show ?thesis using rejection_answers run_tool_answers answers_from [OF _ m] by blast
qed

lemma checked_call_answers:
  assumes "checked_call E cutoff call_id tool raw c = (c', Inr None)"
  shows "answers c call_id c'"
proof -
  have "(\<exists>t a d. invalid_arguments E call_id t a d c = (c', Inr None))
      \<or> (\<exists>k a. invoke_knowledge E k call_id a c = (c', Inr None))
      \<or> (\<exists>a. run_call E cutoff call_id tool a c = (c', Inr None))"
    using assms unfolding checked_call_def by (fastforce split: sum.splits if_splits pyval.splits option.splits)
  then show ?thesis by (elim disjE exE) (rule invalid_answers knowledge_answers run_call_answers, assumption)+
qed

lemma stop_not_None: "stop E status reason c \<noteq> (c', Inr None)"
  by (simp add: stop_def split: prod.split)

lemma invoke_one_answers:
  assumes "invoke_one E cutoff call c = (c', Inr None)"
  shows "answers c (the (tc_id call)) c'"
proof -
  obtain now c1 where c1: "read_clock E c = (now, c1)" by fastforce
  with assms obtain call_id tool raw where "tc_id call = Some call_id"
    and "checked_call E cutoff call_id tool raw c1 = (c', Inr None)"
    unfolding invoke_one_def by (auto simp: stop_not_None split: if_splits option.splits list.splits)
  with checked_call_answers read_clock_messages [OF c1] show ?thesis by (fastforce intro: answers_from)
qed

lemma invoke_all_answers:
  "invoke_all E cutoff calls c = (c', Inr None) \<Longrightarrow> \<exists>contents. length contents = length calls
     \<and> ac_messages c' = ac_messages c @ map2 tool_message (map (\<lambda>call. the (tc_id call)) calls) contents"
proof (induction calls arbitrary: c)
  case (Cons call calls)
  then obtain c1 where 1: "invoke_one E cutoff call c = (c1, Inr None)"
    and 2: "invoke_all E cutoff calls c1 = (c', Inr None)"
    by (auto split: prod.splits sum.splits option.splits)
  from invoke_one_answers [OF 1] obtain content where
    "ac_messages c1 = ac_messages c @ [tool_message (the (tc_id call)) content]" by (auto simp: answers_def)
  moreover from Cons.IH [OF 2] obtain contents where "length contents = length calls"
    "ac_messages c' = ac_messages c1 @ map2 tool_message (map (\<lambda>call. the (tc_id call)) calls) contents" by blast
  ultimately show ?case by (intro exI [of _ "content # contents"]) simp
qed simp

text \<open>
  C36: A tool turn that goes on has answered every tool call of the model with exactly one tool
  message, in the order and with the id of the calls.
\<close>

theorem calls_answered:
  assumes "run_turn E calls c = (c', Inr None)"
  shows "\<exists>contents. length contents = length calls
     \<and> ac_messages c' = ac_messages c @ map2 tool_message (map (\<lambda>call. the (tc_id call)) calls) contents"
proof -
  let ?c1 = "c\<lparr>ac_attempted := ac_attempted c + length calls\<rparr>"
  obtain c2 s where i: "invoke_all E (length (lg_records (ac_ledger ?c1))) calls ?c1 = (c2, s)" by fastforce
  with assms have "s = Inr None" "c' = checkpoint_memory_run E c2"
    by (auto simp: run_turn_def budget_exceeded_def stop_not_None Let_def split: if_splits sum.splits option.splits)
  moreover have "ac_messages (checkpoint_memory_run E c2) = ac_messages c2"
    by (simp add: checkpoint_memory_run_def message_simps split: sum.split)
  ultimately show ?thesis using invoke_all_answers [of E _ calls ?c1 c2] i by simp
qed

end
