(* ===== verification/AgentRehearsal.thy ===== *)
theory AgentRehearsal
  imports AgentSafety AgentReplies Scenario
begin

text \<open>
  The properties of the agent at concrete runs: one model that reads the locks, proposes the
  termination of the blocker and cites the reading in its answer.
\<close>

definition demo_pair :: pyval where
  "demo_pair = PDict [(''blocked_pid'', PInt 5), (''blocker_pid'', PInt 7),
     (''blocker_backend_start'', PStr ''b''), (''blocker_xact_start'', PStr ''x''),
     (''blocked_wait_event_type'', PStr ''Lock''), (''blocker_state'', PStr ''idle in transaction'')]"

definition demo_request :: arguments where
  "demo_request = [(''blocked_pid'', PInt 5), (''blocker_pid'', PInt 7), (''blocker_backend_start'', PStr ''b''),
     (''blocker_xact_start'', PStr ''x''), (''reason'', PStr ''r''), (''confidence'', PInt 1)]"

definition demo_built :: pyval where
  "demo_built = build_terminate_backend_proposal 5 7 ''b'' ''x'' ''r'' (PInt 1)"

definition plain_spec :: "string \<Rightarrow> argument_spec" where
  "plain_spec t = \<lparr>sp_type = Some t, sp_min_length = None, sp_max_length = None, sp_minimum = None, sp_maximum = None,
     sp_item_type = None, sp_min_items = None, sp_max_items = None, sp_enum = None\<rparr>"

definition demo_schema :: tool_schema where
  "demo_schema = \<lparr>ts_properties = [(''blocked_pid'', (plain_spec ''integer'')\<lparr>sp_minimum := Some 1\<rparr>),
       (''blocker_pid'', (plain_spec ''integer'')\<lparr>sp_minimum := Some 1\<rparr>),
       (''blocker_backend_start'', plain_spec ''string''), (''blocker_xact_start'', plain_spec ''string''),
       (''reason'', (plain_spec ''string'')\<lparr>sp_max_length := Some 2000\<rparr>),
       (''confidence'', (plain_spec ''number'')\<lparr>sp_minimum := Some 0, sp_maximum := Some 1\<rparr>)],
     ts_required = map fst demo_request\<rparr>"

definition demo_schemas :: "(string \<times> tool_schema) list" where
  "demo_schemas = [(''get_lock_waits'', \<lparr>ts_properties = [], ts_required = []\<rparr>),
     (''propose_terminate_backend'', demo_schema)]"

definition demo_agent :: agent_env where
  "demo_agent = \<lparr>ae_platform = demo_P, ae_run_id = ''r'', ae_started = 0, ae_now = (\<lambda>n. 0), ae_stamp = (\<lambda>n. ''t''),
     ae_deadline = 60, ae_ttl = 15, ae_max_iterations = 3, ae_max_total = 4, ae_max_per_turn = 2,
     ae_max_output = PInt 1000, ae_proposals_allowed = True, ae_allowed = [''TERMINATE_BACKEND''],
     ae_schemas = demo_schemas, ae_capability = (\<lambda>_. None),
     ae_loads = (\<lambda>raw. Inr (PDict (if raw = Some ''{}'' then [] else demo_request))),
     ae_invoke = (\<lambda>n tool args. Inr (if tool = ''get_lock_waits'' then PList [demo_pair] else demo_built)),
     ae_checkpoint = (\<lambda>n. Inr 1), ae_persist = (\<lambda>n. None), ae_knowledge = None, ae_value_error = (\<lambda>_. False),
     ae_exn_text = exn_name, ae_argument_text = (\<lambda>_. ''a''), ae_authorization_text = (\<lambda>_. ''z''),
     ae_shape_text = (\<lambda>_. ''s'')\<rparr>"

definition demo_reply :: "pyval list \<Rightarrow> model_choice list" where
  "demo_reply messages =
     (let say = (\<lambda>calls content reason. [\<lparr>mc_message = Some \<lparr>mm_history = PNone, mm_tool_calls = calls, mm_content = content\<rparr>,
          mc_finish_reason = Some reason\<rparr>]);
          call = (\<lambda>name text_of. \<lparr>tc_id = Some ''c'', tc_name = Some name, tc_arguments = Some text_of\<rparr>) in
      if length messages < 2 then say [call ''get_lock_waits'' ''{}''] None ''tool_calls''
      else if length messages < 4 then say [call ''propose_terminate_backend'' ''p''] None ''tool_calls''
      else say [] (Some ''[ev-0001]'') ''stop'')"

definition demo_nodes :: nodes where
  "demo_nodes = \<lparr>nd_policy_text = ''p'', nd_verify = None, nd_exn_text = exn_name, nd_citation_text = (\<lambda>_. ''e''),
     nd_policy_blocked = (\<lambda>n. None), nd_complete = (\<lambda>n messages. Inr (demo_reply messages))\<rparr>"

definition demo_run :: "(agent_context \<times> run_result) exc" where
  "demo_run = run_agent demo_agent demo_nodes (start_run False [] [])"

lemma demo_run_completes:
  "case demo_run of Inr (c, r) \<Rightarrow> rr_status r = ''completed'' \<and> length (rr_proposals r) = 1 | Inl e \<Rightarrow> False"
  by code_simp

lemma demo_run_result: "\<exists>c r p. demo_run = Inr (c, r) \<and> rr_status r = ''completed'' \<and> p \<in> set (rr_proposals r)"
proof -
  obtain c r where "demo_run = Inr (c, r)" "rr_status r = ''completed''" "length (rr_proposals r) = 1"
    using demo_run_completes by (auto split: sum.splits prod.splits)
  moreover from this(3) obtain p where "p \<in> set (rr_proposals r)" by (cases "rr_proposals r") auto
  ultimately show ?thesis by blast
qed

theorem proposals_evidenced_witness:
  "\<exists>c r p refs. demo_run = Inr (c, r) \<and> p \<in> set (rr_proposals r) \<and> dget p ''evidence_refs'' = PList (map PStr refs)
     \<and> refs \<noteq> [] \<and> authorized demo_agent (records_of c) refs"
proof -
  obtain c r p where r: "demo_run = Inr (c, r)" "p \<in> set (rr_proposals r)" using demo_run_result by blast
  from proposals_evidenced [OF r(1) [unfolded demo_run_def] r(2)] r show ?thesis by blast
qed

theorem answers_cite_evidence_witness:
  "\<exists>c r p refs. demo_run = Inr (c, r) \<and> p \<in> set (rr_proposals r) \<and> dget p ''evidence_refs'' = PList (map PStr refs)
     \<and> set refs \<subseteq> set (cited_refs (rr_answer r))"
proof -
  obtain c r p where r: "demo_run = Inr (c, r)" "rr_status r = ''completed''" "p \<in> set (rr_proposals r)"
    using demo_run_result by blast
  from answers_cite_evidence [OF r(1) [unfolded demo_run_def] r(2)] r show ?thesis by blast
qed

theorem run_within_budgets_witness:
  "\<exists>c r. demo_run = Inr (c, r) \<and> rr_attempted r \<le> 4 \<and> rr_llm_turns r \<le> 3"
proof -
  obtain c r where r: "demo_run = Inr (c, r)" using demo_run_result by blast
  from run_within_budgets [OF r [unfolded demo_run_def]] r show ?thesis by (auto simp: demo_agent_def)
qed

definition demo_calls :: "tool_call list" where
  "demo_calls = [\<lparr>tc_id = Some ''c1'', tc_name = Some ''get_lock_waits'', tc_arguments = Some ''{}''\<rparr>,
     \<lparr>tc_id = Some ''c2'', tc_name = Some ''drop_table'', tc_arguments = Some ''{}''\<rparr>]"

lemma demo_turn: "case run_turn demo_agent demo_calls (start_run False [] []) of (c, Inr None) \<Rightarrow> True | _ \<Rightarrow> False"
  by code_simp

theorem calls_answered_witness:
  "\<exists>c contents. run_turn demo_agent demo_calls (start_run False [] []) = (c, Inr None) \<and> length contents = 2
     \<and> ac_messages c = map2 tool_message [''c1'', ''c2''] contents"
proof -
  obtain c s where r: "run_turn demo_agent demo_calls (start_run False [] []) = (c, s)" by fastforce
  with demo_turn have "s = Inr None" by (auto split: sum.splits option.splits)
  with r have r: "run_turn demo_agent demo_calls (start_run False [] []) = (c, Inr None)" by simp
  from calls_answered [OF r] obtain contents where "length contents = length demo_calls"
    "ac_messages c = [] @ map2 tool_message (map (\<lambda>call. the (tc_id call)) demo_calls) contents"
    by (auto simp: start_run_def)
  with r show ?thesis by (intro exI [of _ c] exI [of _ contents]) (simp add: demo_calls_def)
qed

definition demo_ledger :: ledger where
  "demo_ledger = snd (ledger_add empty_ledger ''get_lock_waits'' [] (PList [demo_pair]) ''success'' 0 ''t'' 0)"

theorem termination_authorized_witness:
  "\<exists>r. [''ev-0001''] = [ev_ref r] \<and> newest_lock_read demo_ledger (Some 1) r \<and> shows_pair (ev_result r) (PDict demo_request)"
proof -
  have "proposal_authorization demo_ledger ''propose_terminate_backend'' (PDict demo_request) True
      [''TERMINATE_BACKEND''] (Some 1) 15 10 = Inr ([], [''ev-0001''])" by code_simp
  from termination_authorized [OF this] show ?thesis by blast
qed

theorem arguments_described_witness: "schema_describes demo_schema (PDict demo_request)"
proof -
  have "validate_tool_arguments demo_schema (PDict demo_request) = Inr []" by code_simp
  from arguments_described [OF this] show ?thesis by simp
qed

definition demo_output :: pyval where
  "demo_output = PStr (replicate 300 CHR ''x'')"

theorem tool_output_bounded_witness:
  "\<exists>content. serialize_tool_output demo_P demo_output (PInt 256) = Inr content \<and> int (length content) \<le> 256"
proof -
  have "length (json_string (sha256_hex demo_P (json_dumps demo_P '', '' '': '' (strict_tool_json_value demo_output)))) \<le> 66"
    "length (json_dumps demo_P '', '' '': '' (strict_tool_json_value demo_output)) < 10 ^ 49"
    by code_simp+
  from tool_output_bounded [OF refl _ this, of 256] show ?thesis by auto
qed

end
