(* ===== verification/GuardLimits.thy ===== *)
theory GuardLimits
  imports QueryGuard
begin

text \<open>
  Two queries the guard accepts although PostgreSQL reads a call of a blocked function in them:
  where the lexer of \<open>query_guard.py\<close> and that of PostgreSQL part. An identifier may hold dollar
  signs, and a line comment ends at a carriage return too.
\<close>

definition dollar_identifier_query :: string where
  "dollar_identifier_query = ''SELECT 1 AS a$$, pg_sleep(10) AS b$$''"

lemma dollar_identifier_accepted:
  "ensure_read_only_query (PStr dollar_identifier_query) DEFAULT_MAX_LENGTH = Inr dollar_identifier_query"
  by code_simp

definition return_comment_query :: string where
  "return_comment_query = ''SELECT 1 --'' @ [RETURN] @ '', pg_sleep(10)''"

lemma return_comment_accepted:
  "ensure_read_only_query (PStr return_comment_query) DEFAULT_MAX_LENGTH = Inr return_comment_query"
  by code_simp

end
