(* ===== verification/Provider.thy ===== *)
theory Provider
  imports PyValue
begin

text \<open>
  The failover of \<open>llm_provider.py\<close>: the circuit of one route and the provider that falls back from
  a primary to a second route. What a route answers is a parameter of each call. Every operation
  of a circuit has its own reading of the clock; its lock makes it one step.
\<close>

section \<open>Errors\<close>

datatype provider_error =
    Connection_error string
  | Status_error string "int option"
  | Other_error string

fun error_name :: "provider_error \<Rightarrow> string" where
  "error_name (Connection_error n) = n"
| "error_name (Status_error n _) = n"
| "error_name (Other_error n) = n"

text \<open>
  \<open>Connection_error\<close> stands for the classes of the first test: time-outs, connection errors, rate
  limits and internal server errors.
\<close>

fun is_transient_provider_error :: "provider_error \<Rightarrow> bool" where
  "is_transient_provider_error (Connection_error _) = True"
| "is_transient_provider_error (Status_error _ None) = False"
| "is_transient_provider_error (Status_error _ (Some code)) = (code = 408 \<or> code = 429 \<or> 500 \<le> code)"
| "is_transient_provider_error (Other_error _) = False"

section \<open>The circuit of a route\<close>

record circuit_config =
  cc_threshold :: nat
  cc_cooldown :: rat

record circuit =
  cb_failures :: nat
  cb_opened :: "rat option"
  cb_in_flight :: bool

definition new_circuit :: circuit where
  "new_circuit = \<lparr>cb_failures = 0, cb_opened = None, cb_in_flight = False\<rparr>"

definition try_acquire :: "circuit_config \<Rightarrow> rat \<Rightarrow> circuit \<Rightarrow> bool \<times> circuit" where
  "try_acquire K now c = (case cb_opened c of
       None \<Rightarrow> (True, c)
     | Some t \<Rightarrow>
         if now - t < cc_cooldown K then (False, c)
         else if cb_in_flight c then (False, c)
         else (True, c\<lparr>cb_in_flight := True\<rparr>))"

definition record_success :: "circuit \<Rightarrow> circuit" where
  "record_success c = c\<lparr>cb_failures := 0, cb_opened := None, cb_in_flight := False\<rparr>"

definition record_non_transient_response :: "circuit \<Rightarrow> circuit" where
  "record_non_transient_response c = record_success c"

definition record_transient_failure :: "circuit_config \<Rightarrow> rat \<Rightarrow> circuit \<Rightarrow> circuit" where
  "record_transient_failure K now c =
     (let c1 = c\<lparr>cb_failures := cb_failures c + 1\<rparr>;
          c2 = (if cb_in_flight c1 \<or> cc_threshold K \<le> cb_failures c1 then c1\<lparr>cb_opened := Some now\<rparr> else c1)
      in c2\<lparr>cb_in_flight := False\<rparr>)"

definition circuit_state :: "circuit_config \<Rightarrow> rat \<Rightarrow> circuit \<Rightarrow> string" where
  "circuit_state K now c = (case cb_opened c of
       None \<Rightarrow> ''closed'' | Some t \<Rightarrow> if cc_cooldown K \<le> now - t then ''half_open'' else ''open'')"

section \<open>The provider\<close>

record route =
  rt_provider :: pyval
  rt_model :: pyval

record resilient =
  rs_config :: circuit_config
  rs_primary :: route
  rs_fallback :: "route option"
  rs_circuit :: circuit
  rs_fallback_circuit :: circuit
  rs_clock :: nat
  rs_metadata :: pyval

definition resilient_provider :: "route \<Rightarrow> route option \<Rightarrow> int \<Rightarrow> rat \<Rightarrow> resilient exc" where
  "resilient_provider primary fallback threshold cooldown =
     (if threshold \<le> 0 then Inl (ValueError ''failure_threshold must be positive.'')
      else if cooldown \<le> 0 then Inl (ValueError ''cooldown_seconds must be positive.'')
      else Inr \<lparr>rs_config = \<lparr>cc_threshold = nat threshold, cc_cooldown = cooldown\<rparr>, rs_primary = primary,
        rs_fallback = fallback, rs_circuit = new_circuit, rs_fallback_circuit = new_circuit, rs_clock = 0,
        rs_metadata = PDict []\<rparr>)"

datatype call_error = Circuit_open | Fallback_failed | Primary_error provider_error

record route_outcomes =
  ro_primary :: "provider_error + pyval"
  ro_fallback :: "provider_error + pyval"

text \<open>The provider after one more reading of the clock, and the reading.\<close>

definition reading :: "(nat \<Rightarrow> rat) \<Rightarrow> resilient \<Rightarrow> rat" where
  "reading clock s = clock (rs_clock s)"

definition tick :: "resilient \<Rightarrow> resilient" where
  "tick s = s\<lparr>rs_clock := Suc (rs_clock s)\<rparr>"

definition save_metadata :: "(nat \<Rightarrow> rat) \<Rightarrow> (string \<times> pyval) list \<Rightarrow> resilient \<Rightarrow> resilient" where
  "save_metadata clock kvs s =
     (let primary = circuit_state (rs_config s) (reading clock s) (rs_circuit s); s1 = tick s;
          second = (if rs_fallback s1 = None then ''not_configured''
                    else circuit_state (rs_config s1) (reading clock s1) (rs_fallback_circuit s1))
      in (tick s1)\<lparr>rs_metadata := PDict (kvs
            @ [(''primary_circuit_state'', PStr primary), (''fallback_circuit_state'', PStr second)])\<rparr>)"

definition route_identity :: "route \<Rightarrow> (string \<times> pyval) list" where
  "route_identity r = [(''selected_provider'', rt_provider r), (''selected_model'', rt_model r)]"

text \<open>\<open>metadata[k] = v\<close>\<close>

definition put :: "string \<Rightarrow> string \<Rightarrow> (string \<times> pyval) list \<Rightarrow> (string \<times> pyval) list" where
  "put k v kvs = items_set k (PStr v) kvs"

definition call_fallback ::
  "(nat \<Rightarrow> rat) \<Rightarrow> route_outcomes \<Rightarrow> (string \<times> pyval) list \<Rightarrow> resilient \<Rightarrow> resilient \<times> (call_error + pyval)" where
  "call_fallback clock out md s = (case rs_fallback s of
       None \<Rightarrow> (save_metadata clock md s, Inl Circuit_open)
     | Some route \<Rightarrow>
        (let md1 = items_set ''fallback_used'' (PBool True) md;
             (granted, c) = try_acquire (rs_config s) (reading clock s) (rs_fallback_circuit s);
             s1 = (tick s)\<lparr>rs_fallback_circuit := c\<rparr> in
         if \<not> granted
         then (save_metadata clock (put ''fallback_error_type'' ''ProviderCircuitOpenError'' md1) s1, Inl Fallback_failed)
         else (case ro_fallback out of
             Inl e \<Rightarrow>
               (let c2 = (if is_transient_provider_error e
                          then record_transient_failure (rs_config s1) (reading clock s1) c
                          else record_non_transient_response c)
                in (save_metadata clock (put ''fallback_error_type'' (error_name e) md1)
                      ((tick s1)\<lparr>rs_fallback_circuit := c2\<rparr>), Inl Fallback_failed))
           | Inr response \<Rightarrow>
               (save_metadata clock (md1 @ route_identity route)
                  (s1\<lparr>rs_fallback_circuit := record_success c\<rparr>), Inr response))))"

definition call_metadata :: "resilient \<Rightarrow> (string \<times> pyval) list" where
  "call_metadata s = [(''fallback_configured'', PBool (rs_fallback s \<noteq> None)), (''fallback_used'', PBool False)]"

definition primary_failed ::
  "(nat \<Rightarrow> rat) \<Rightarrow> route_outcomes \<Rightarrow> (string \<times> pyval) list \<Rightarrow> provider_error \<Rightarrow> resilient
     \<Rightarrow> resilient \<times> (call_error + pyval)" where
  "primary_failed clock out md e s =
     (let md1 = put ''primary_error_type'' (error_name e) md in
      if \<not> is_transient_provider_error e
      then (save_metadata clock md1 (s\<lparr>rs_circuit := record_non_transient_response (rs_circuit s)\<rparr>), Inl (Primary_error e))
      else
       (let s1 = (tick s)\<lparr>rs_circuit := record_transient_failure (rs_config s) (reading clock s) (rs_circuit s)\<rparr>;
            md2 = put ''failover_reason'' ''primary_transient_error'' md1 in
        if rs_fallback s1 = None then (save_metadata clock md2 s1, Inl (Primary_error e))
        else call_fallback clock out md2 s1))"

definition provider_complete :: "(nat \<Rightarrow> rat) \<Rightarrow> route_outcomes \<Rightarrow> resilient \<Rightarrow> resilient \<times> (call_error + pyval)" where
  "provider_complete clock out s =
     (let md = call_metadata s;
          (granted, c) = try_acquire (rs_config s) (reading clock s) (rs_circuit s);
          s1 = (tick s)\<lparr>rs_circuit := c\<rparr> in
      if \<not> granted
      then call_fallback clock out (put ''primary_error_type'' ''ProviderCircuitOpenError''
             (put ''failover_reason'' ''primary_circuit_open'' md)) s1
      else (case ro_primary out of
          Inl e \<Rightarrow> primary_failed clock out md e s1
        | Inr response \<Rightarrow>
            (save_metadata clock (md @ route_identity (rs_primary s1))
               (s1\<lparr>rs_circuit := record_success (rs_circuit s1)\<rparr>), Inr response)))"

section \<open>An outage\<close>

text \<open>The primary route is called when its circuit grants the call.\<close>

definition calls_primary :: "(nat \<Rightarrow> rat) \<Rightarrow> resilient \<Rightarrow> bool" where
  "calls_primary clock s = fst (try_acquire (rs_config s) (reading clock s) (rs_circuit s))"

fun primary_calls :: "(nat \<Rightarrow> rat) \<Rightarrow> route_outcomes list \<Rightarrow> resilient \<Rightarrow> nat" where
  "primary_calls clock [] s = 0"
| "primary_calls clock (out # outs) s =
     (if calls_primary clock s then 1 else 0) + primary_calls clock outs (fst (provider_complete clock out s))"

definition primary_down :: "route_outcomes list \<Rightarrow> bool" where
  "primary_down outs \<longleftrightarrow> list_all (\<lambda>out. \<exists>e. ro_primary out = Inl e \<and> is_transient_provider_error e) outs"

definition in_window :: "(nat \<Rightarrow> rat) \<Rightarrow> rat \<Rightarrow> rat \<Rightarrow> bool" where
  "in_window clock start width \<longleftrightarrow> (\<forall>n. start \<le> clock n \<and> clock n < start + width)"

lemma save_metadata_same [simp]:
  "rs_circuit (save_metadata clock md s) = rs_circuit s" "rs_config (save_metadata clock md s) = rs_config s"
  by (simp_all add: save_metadata_def tick_def Let_def)

lemma tick_same [simp]:
  "rs_circuit (tick s) = rs_circuit s" "rs_config (tick s) = rs_config s" "rs_fallback (tick s) = rs_fallback s"
  by (simp_all add: tick_def)

lemma call_fallback_same [simp]:
  "rs_circuit (fst (call_fallback clock out md s)) = rs_circuit s"
  "rs_config (fst (call_fallback clock out md s)) = rs_config s"
  by (simp_all add: call_fallback_def Let_def split: option.split prod.split sum.split)

lemma complete_config [simp]: "rs_config (fst (provider_complete clock out s)) = rs_config s"
  by (simp add: provider_complete_def primary_failed_def Let_def split: prod.split sum.split)

lemma complete_failed:
  assumes "ro_primary out = Inl e" and "is_transient_provider_error e"
  shows "\<exists>n. rs_circuit (fst (provider_complete clock out s)) =
    (let (granted, c) = try_acquire (rs_config s) (reading clock s) (rs_circuit s)
     in if granted then record_transient_failure (rs_config s) (clock n) c else c)"
  using assms
  by (auto simp: provider_complete_def primary_failed_def reading_def Let_def split: prod.split)

text \<open>The state of an outage: still counting, or opened within the window.\<close>

definition outage :: "circuit_config \<Rightarrow> rat \<Rightarrow> circuit \<Rightarrow> bool" where
  "outage K start c \<longleftrightarrow> \<not> cb_in_flight c
     \<and> (case cb_opened c of None \<Rightarrow> cb_failures c < cc_threshold K | Some t \<Rightarrow> start \<le> t)"

definition calls_left :: "circuit_config \<Rightarrow> circuit \<Rightarrow> nat" where
  "calls_left K c = (if cb_opened c = None then cc_threshold K - cb_failures c else 0)"

lemma outage_step:
  assumes "outage K start c" and "start \<le> now" "now < start + cc_cooldown K" and "start \<le> later"
  shows "let (granted, c1) = try_acquire K now c; c2 = (if granted then record_transient_failure K later c1 else c1)
    in outage K start c2 \<and> (if granted then 1 else 0) + calls_left K c2 \<le> calls_left K c"
  using assms
  by (auto simp: outage_def calls_left_def try_acquire_def record_transient_failure_def Let_def split: option.splits)

lemma outage_calls:
  "primary_down outs \<Longrightarrow> in_window clock start (cc_cooldown (rs_config s)) \<Longrightarrow> outage (rs_config s) start (rs_circuit s) \<Longrightarrow>
     primary_calls clock outs s \<le> calls_left (rs_config s) (rs_circuit s)"
proof (induction outs arbitrary: s)
  case (Cons out outs)
  let ?K = "rs_config s" and ?s' = "fst (provider_complete clock out s)"
  from Cons.prems(1) obtain e where e: "ro_primary out = Inl e" "is_transient_provider_error e"
    and outs: "primary_down outs" by (auto simp: primary_down_def)
  obtain granted c1 where g: "try_acquire ?K (reading clock s) (rs_circuit s) = (granted, c1)" by fastforce
  from complete_failed [OF e, of clock s] g obtain n where
    c2: "rs_circuit ?s' = (if granted then record_transient_failure ?K (clock n) c1 else c1)" by auto
  have w: "start \<le> reading clock s" "reading clock s < start + cc_cooldown ?K" "start \<le> clock n"
    using Cons.prems(2) by (simp_all add: in_window_def reading_def)
  from outage_step [OF Cons.prems(3) w] g c2 have "outage ?K start (rs_circuit ?s')"
    "(if granted then 1 else 0) + calls_left ?K (rs_circuit ?s') \<le> calls_left ?K (rs_circuit s)"
    by (simp_all add: Let_def)
  with Cons.IH [OF outs, of ?s'] Cons.prems(2) g show ?case by (simp add: calls_primary_def)
qed simp


definition demo_down :: route_outcomes where
  "demo_down = \<lparr>ro_primary = Inl (Status_error ''InternalServerError'' (Some 503)), ro_fallback = Inr (PStr ''r'')\<rparr>"

definition demo_route :: route where
  "demo_route = \<lparr>rt_provider = PStr ''p'', rt_model = PStr ''m''\<rparr>"


section \<open>An abandoned probe\<close>

text \<open>
  A probe that ends in no recorded outcome, as when an interrupt passes the \<open>except Exception\<close>,
  leaves its mark: however late, no call is granted again.
\<close>

lemma abandoned_probe:
  assumes "cb_opened c = Some t" and "cc_cooldown K \<le> now - t" and "\<not> cb_in_flight c"
  shows "\<exists>c1. try_acquire K now c = (True, c1) \<and> try_acquire K later c1 = (False, c1)"
  using assms by (simp add: try_acquire_def)

end
