(* ===== verification/Spec2Isabelle.thy ===== *)
theory Spec2Isabelle
  imports AuditRehearsal IsolationRehearsal AgentRehearsal GuardLimits Provider
begin

text \<open>
  SafeDBA: the deterministic core of a database assistant that may terminate PostgreSQL backends.

  A language model proposes; deterministic code decides. The theories model the code that
  decides and acts, from the text of a proposal to the statement sent to PostgreSQL. All files
  are under \<open>src/src/\<close>.

  Values and texts. \<open>PyValue\<close> has the values of Python the program handles (\<open>pyval\<close>, with \<open>==\<close>,
  \<open>bool()\<close>, ordering and dictionaries) and its exceptions (\<open>exn\<close>). \<open>Timestamps\<close> is the calendar of
  \<open>iso_utc\<close> and \<open>parse_utc_timestamp\<close>; \<open>Serialization\<close> is \<open>serialization.py\<close> and \<open>identifiers.py\<close>;
  \<open>Redaction\<close> is \<open>sanitize_audit_value\<close> of \<open>audit.py\<close>; \<open>QueryGuard\<close> is \<open>query_guard.py\<close>, and
  \<open>GuardLimits\<close> has two queries on which its lexer and that of PostgreSQL part. \<open>Json\<close> is
  \<open>json.loads\<close> with the strict hooks of \<open>audit.py\<close> and \<open>execution_protocol.py\<close>, and the round trip
  with \<open>json.dumps\<close>; \<open>AuditLog\<close> is the hash-chained log of \<open>audit.py\<close>: an append keeps it valid, and
  two valid logs with the same last hash and count hold the same entries or a collision.

  The agent. \<open>AgentTools\<close>, \<open>ToolArguments\<close> and \<open>Evidence\<close> are \<open>agent_policy.py\<close>: the text a tool
  returns, the arguments it takes, the ledger of evidence and what authorizes a proposal.
  \<open>AgentTurn\<close> is \<open>agent_tool_execution.py\<close> with the context of \<open>agent_context.py\<close>, \<open>AgentRun\<close> the
  nodes of \<open>agent_runtime.py\<close> and the graph of \<open>agent_graph.py\<close>. The model, the tools, the clock, the
  run memory and the knowledge session are fields of an environment that may answer anything.
  \<open>AgentReplies\<close> shows that a turn answers every call; \<open>AgentSafety\<close> that what a run returns is
  backed by evidence of the run, that its answer cites it, that the budgets hold and that the
  graph ends; \<open>AgentRehearsal\<close> evaluates one run from the lock reading to the cited answer.
  \<open>Provider\<close> is the failover of \<open>llm_provider.py\<close>: the circuit breakers bound the calls of a route
  that is down.

  Proposals and policy. \<open>Safety\<close> is \<open>safety.py\<close>, \<open>Actions\<close> and \<open>ActionEvidence\<close> are \<open>actions.py\<close>,
  \<open>RuntimePolicy\<close> is \<open>runtime_policy.py\<close>: the controls can only deny.

  The incident store. \<open>IncidentData\<close> has the rows of \<open>workflow_store.py\<close>, \<open>IncidentStore\<close> its creation,
  checkpoint and lease operations, \<open>ActionClaim\<close> the claim of one action, each as a function of
  the tables and the clock. \<open>StoreSafety\<close> and \<open>StoreInvariant\<close> show what one operation preserves;
  \<open>StoreTheorems\<close> has the step relation \<open>store_step\<close>, in which any process performs any operation,
  and what holds of every reachable store: one claim per action, exclusive leases, final terminal
  states, immutable approvals, versions that identify a row. \<open>Grants\<close> is \<open>execution_grants.py\<close>.

  Planning and approval. \<open>LockPlan\<close> is the planning half of \<open>incident_workflow.py\<close>, \<open>Approval\<close> is
  \<open>incident_approval.py\<close>, \<open>ExecutionProtocol\<close> the request validation of \<open>execution_protocol.py\<close>.

  Acting. \<open>Host\<close> is the world a run changes (store, audit log, statements sent, effects so far) and
  the host it asks: the clock, identifiers, the operator, the answers of PostgreSQL, the audit
  sink, the runtime policy of the moment, and what other processes commit to the store before
  each of our transactions. \<open>DbTools\<close> is \<open>db_tools.py\<close>, \<open>db_catalog.py\<close> and the lock graph of
  \<open>db_sessions.py\<close>; \<open>Diagnostics\<close> is \<open>diagnostics.py\<close>; \<open>Executor\<close> is \<open>executor.py\<close>;
  \<open>IncidentWorkflow\<close> is the running half of \<open>incident_workflow.py\<close>.

  What is shown of runs. The locale \<open>world_relation\<close> of \<open>Host\<close> has one rule per constructor of
  programs for any reflexive and transitive relation between the worlds before and after; it is
  interpreted by the growth of time, by programs that only look, by the statements a program
  may send, by lawful changes of the store, and by claims that cover the terminations sent
  (\<open>ExecutorSafety\<close>). The locale \<open>workflow_runner\<close> of \<open>WorkflowSafety\<close> states what the workflow needs
  of its executor and is interpreted by the executor of the program. So the properties of the
  store, proved for arbitrary interleavings, carry over to a run among other processes.
  \<open>Scenario\<close> and \<open>Rehearsal\<close> evaluate one incident from its plan to the terminated backend.

  The isolated worker. \<open>Isolation\<close> is \<open>executor_worker.py\<close> and \<open>execution_client.py\<close>: the client
  that asks, the worker that rebinds every field of the request to the store and consumes a grant
  of the operator before it acts. \<open>Wire\<close> is the message between them; \<open>IsolationSafety\<close> shows that
  each termination is preceded by its grant; the rehearsal is \<open>IsolationRehearsal\<close>. The database
  roles of the processes are the rows \<open>verify_runtime_security\<close> inspects.

  Bounds. Loops are structural or decrease the text left, but for two. The reader of JSON has
  fuel for the nesting of its calls, twice the length of the text and one, which suffices for
  every text \<open>json.dumps\<close> writes. The graph of the agent is stepped as often as its recursion
  limit allows, and \<open>graph_within_recursion_limit\<close> shows that this is enough. A timestamp is an
  integer number of microseconds within the range of \<open>datetime\<close>. Floats are exact rationals with
  infinities and NaN, with overflow at \<open>FLOAT_LIMIT\<close>; rounding is modelled only where a threshold
  of \<open>Evidence\<close> depends on it. Characters are the code points below 256. The limits of CPython
  on the digits of an integer and on recursion are left out.

  Not modelled. SHA-256, the text of a float and its reading, PostgreSQL, SQLite and the HTTP
  connection are parameters; a store transaction is atomic, and fails only before it commits.
  Messages of errors are constructors, rendered by a parameter where the code joins them; printing
  and telemetry are left out. The prompts and clients of the language model, the catalogue of its
  tools, its run memory, the knowledge base, the evaluation scripts and the entry points are not
  part of the deciding core; where the agent calls them they are fields of its environment.
\<close>

end
